(* ===== verification/JS_Number.thy ===== *)
theory JS_Number
  imports Complex_Main
begin

text \<open>
  The numbers of the program. Every value the indicator and forecast code of
  \<^verbatim>\<open>technical-indicators.ts\<close> and \<^verbatim>\<open>prediction.ts\<close> computes is a JavaScript
  \<^verbatim>\<open>number\<close>: an IEEE double, with the three special values \<^verbatim>\<open>NaN\<close>,
  \<^verbatim>\<open>Infinity\<close> and \<^verbatim>\<open>-Infinity\<close>. The code uses \<^verbatim>\<open>NaN\<close> as its warm-up
  sentinel, tests it with \<^verbatim>\<open>isNaN\<close>, and divides by values that may be zero, so
  the special values are part of its behaviour and are modelled here.

  \<^item> \<open>jsnum\<close> has a constructor \<open>Fin r\<close> for a finite number and one for each
    special value. A finite number is an exact real: rounding, overflow of a
    finite result to an infinity and the sign of zero are not modelled.
    Division of a non-zero number by zero therefore gives the infinity with the
    sign of the numerator.
  \<^item> \<open>+\<close>, \<open>-\<close>, \<open>*\<close>, \<open>/\<close>, \<open>\<bar>_\<bar>\<close>, \<open><\<close> and \<open>\<le>\<close> on \<open>jsnum\<close> follow IEEE 754 on
    the special values (\<open>NaN\<close> is contagious and compares false with everything,
    \<open>Infinity - Infinity\<close>, \<open>0 * Infinity\<close>, \<open>0 / 0\<close> and \<open>Infinity / Infinity\<close>
    are \<open>NaN\<close>). They are instances of the syntactic type classes, so a
    definition reads like the line of code it models. \<open>jsnum\<close> is a commutative
    monoid under \<open>+\<close>, which makes numerals and \<open>sum_list\<close> available; it is not
    a ring (\<open>x - x\<close> is not always \<open>0\<close>) and \<open><\<close> is not an order.
  \<^item> \<open>Math_min\<close>, \<open>Math_max\<close>, \<open>Math_sqrt\<close>, \<open>Math_pow\<close>, \<open>Math_floor\<close>, \<open>isNaN\<close>,
    \<open>truthy\<close> and \<open>js_or\<close> (the operator \<^verbatim>\<open>||\<close> on numbers) model the library
    calls of the source.
  \<^item> \<open>toFixed2\<close> is \<^verbatim>\<open>x.toFixed(2)\<close> read as a number, as in
    \<^verbatim>\<open>parseFloat(x.toFixed(2))\<close> of the mock data and in the prices the
    components print; it is monotone and keeps the multiples of a hundredth.

  The lemmas are the evaluation rules on constructors (all \<open>[simp]\<close>, so that
  \<open>simp\<close> computes with concrete numbers), the absorption rules of \<open>NaN\<close> for
  arbitrary operands, and the facts about finite operands the component
  theories share.
\<close>

section \<open>The type of numbers\<close>

datatype jsnum = is_Fin: Fin (the_fin: real) | PInf | NInf | NaN

text \<open>The infinity with the sign of a real, and \<open>NaN\<close> for zero: the result of
  dividing \<open>a\<close> by zero and of multiplying an infinity by \<open>a\<close>.\<close>

definition signed_inf :: "real \<Rightarrow> jsnum" where
  "signed_inf a = (if 0 < a then PInf else if a < 0 then NInf else NaN)"

instantiation jsnum :: "{zero, one, plus, minus, uminus, times, divide, abs, ord}"
begin

definition zero_jsnum :: jsnum where "zero_jsnum = Fin 0"

definition one_jsnum :: jsnum where "one_jsnum = Fin 1"

fun plus_jsnum :: "jsnum \<Rightarrow> jsnum \<Rightarrow> jsnum" where
  "plus_jsnum (Fin a) (Fin b) = Fin (a + b)"
| "plus_jsnum NaN _ = NaN"
| "plus_jsnum _ NaN = NaN"
| "plus_jsnum PInf NInf = NaN"
| "plus_jsnum NInf PInf = NaN"
| "plus_jsnum PInf _ = PInf"
| "plus_jsnum _ PInf = PInf"
| "plus_jsnum NInf _ = NInf"
| "plus_jsnum _ NInf = NInf"

fun uminus_jsnum :: "jsnum \<Rightarrow> jsnum" where
  "uminus_jsnum (Fin a) = Fin (- a)"
| "uminus_jsnum PInf = NInf"
| "uminus_jsnum NInf = PInf"
| "uminus_jsnum NaN = NaN"

definition minus_jsnum :: "jsnum \<Rightarrow> jsnum \<Rightarrow> jsnum" where
  "a - b = a + (- b :: jsnum)"

fun times_jsnum :: "jsnum \<Rightarrow> jsnum \<Rightarrow> jsnum" where
  "times_jsnum (Fin a) (Fin b) = Fin (a * b)"
| "times_jsnum NaN _ = NaN"
| "times_jsnum _ NaN = NaN"
| "times_jsnum PInf (Fin b) = signed_inf b"
| "times_jsnum (Fin a) PInf = signed_inf a"
| "times_jsnum NInf (Fin b) = signed_inf (- b)"
| "times_jsnum (Fin a) NInf = signed_inf (- a)"
| "times_jsnum PInf PInf = PInf"
| "times_jsnum NInf NInf = PInf"
| "times_jsnum PInf NInf = NInf"
| "times_jsnum NInf PInf = NInf"

fun divide_jsnum :: "jsnum \<Rightarrow> jsnum \<Rightarrow> jsnum" where
  "divide_jsnum (Fin a) (Fin b) = (if b = 0 then signed_inf a else Fin (a / b))"
| "divide_jsnum NaN _ = NaN"
| "divide_jsnum _ NaN = NaN"
| "divide_jsnum (Fin a) PInf = Fin 0"
| "divide_jsnum (Fin a) NInf = Fin 0"
| "divide_jsnum PInf (Fin b) = (if 0 \<le> b then PInf else NInf)"
| "divide_jsnum NInf (Fin b) = (if 0 \<le> b then NInf else PInf)"
| "divide_jsnum PInf PInf = NaN"
| "divide_jsnum PInf NInf = NaN"
| "divide_jsnum NInf PInf = NaN"
| "divide_jsnum NInf NInf = NaN"

fun abs_jsnum :: "jsnum \<Rightarrow> jsnum" where
  "abs_jsnum (Fin a) = Fin \<bar>a\<bar>"
| "abs_jsnum PInf = PInf"
| "abs_jsnum NInf = PInf"
| "abs_jsnum NaN = NaN"

fun less_jsnum :: "jsnum \<Rightarrow> jsnum \<Rightarrow> bool" where
  "less_jsnum (Fin a) (Fin b) \<longleftrightarrow> a < b"
| "less_jsnum NaN _ \<longleftrightarrow> False"
| "less_jsnum _ NaN \<longleftrightarrow> False"
| "less_jsnum _ NInf \<longleftrightarrow> False"
| "less_jsnum PInf _ \<longleftrightarrow> False"
| "less_jsnum NInf _ \<longleftrightarrow> True"
| "less_jsnum _ PInf \<longleftrightarrow> True"

fun less_eq_jsnum :: "jsnum \<Rightarrow> jsnum \<Rightarrow> bool" where
  "less_eq_jsnum (Fin a) (Fin b) \<longleftrightarrow> a \<le> b"
| "less_eq_jsnum NaN _ \<longleftrightarrow> False"
| "less_eq_jsnum _ NaN \<longleftrightarrow> False"
| "less_eq_jsnum NInf _ \<longleftrightarrow> True"
| "less_eq_jsnum _ PInf \<longleftrightarrow> True"
| "less_eq_jsnum _ NInf \<longleftrightarrow> False"
| "less_eq_jsnum PInf _ \<longleftrightarrow> False"

instance ..

end

text \<open>The notation \<open>a / b\<close> belongs to the class \<open>inverse\<close>; \<open>inverse\<close> itself is
  \<open>1 / a\<close>.\<close>

instantiation jsnum :: inverse
begin

definition inverse_jsnum :: "jsnum \<Rightarrow> jsnum" where
  "inverse_jsnum a = divide (Fin 1) a"

instance ..

end

text \<open>A natural number (a length, a period, an index) as a number.\<close>

definition jsn :: "nat \<Rightarrow> jsnum" where
  "jsn n = Fin (real n)"

section \<open>Library calls and operators of the source\<close>

fun isNaN :: "jsnum \<Rightarrow> bool" where
  "isNaN NaN = True"
| "isNaN _ = False"

text \<open>\<^verbatim>\<open>Math.min\<close> and \<^verbatim>\<open>Math.max\<close> return \<open>NaN\<close> when an argument is \<open>NaN\<close>.\<close>

definition Math_min :: "jsnum \<Rightarrow> jsnum \<Rightarrow> jsnum" where
  "Math_min a b = (if isNaN a \<or> isNaN b then NaN else if a \<le> b then a else b)"

definition Math_max :: "jsnum \<Rightarrow> jsnum \<Rightarrow> jsnum" where
  "Math_max a b = (if isNaN a \<or> isNaN b then NaN else if a \<le> b then b else a)"

definition Math_abs :: "jsnum \<Rightarrow> jsnum" where
  "Math_abs a = \<bar>a\<bar>"

fun Math_sqrt :: "jsnum \<Rightarrow> jsnum" where
  "Math_sqrt (Fin a) = (if a < 0 then NaN else Fin (sqrt a))"
| "Math_sqrt PInf = PInf"
| "Math_sqrt NInf = NaN"
| "Math_sqrt NaN = NaN"

fun Math_floor :: "jsnum \<Rightarrow> jsnum" where
  "Math_floor (Fin a) = Fin (of_int \<lfloor>a\<rfloor>)"
| "Math_floor x = x"

text \<open>\<^verbatim>\<open>Math.pow(x, n)\<close> for a natural exponent, by repeated multiplication.\<close>

primrec Math_pow :: "jsnum \<Rightarrow> nat \<Rightarrow> jsnum" where
  "Math_pow x 0 = Fin 1"
| "Math_pow x (Suc n) = x * Math_pow x n"

text \<open>A number in a condition: \<open>0\<close> and \<open>NaN\<close> are false. \<open>js_or a b\<close> is \<^verbatim>\<open>a || b\<close>.\<close>

fun truthy :: "jsnum \<Rightarrow> bool" where
  "truthy (Fin a) = (a \<noteq> 0)"
| "truthy NaN = False"
| "truthy _ = True"

definition js_or :: "jsnum \<Rightarrow> jsnum \<Rightarrow> jsnum" where
  "js_or a b = (if truthy a then a else b)"

text \<open>\<^verbatim>\<open>x.toFixed(2)\<close> read as a number: \<open>x\<close> rounded to two decimals, halves
  away from zero; the infinities and \<open>NaN\<close> are printed as they are.\<close>

definition toFixed2 :: "jsnum \<Rightarrow> jsnum" where
  "toFixed2 x =
     (case x of
        Fin r \<Rightarrow> Fin (if r < 0 then - (of_int \<lfloor>- r * 100 + 1 / 2\<rfloor> / 100)
                     else of_int \<lfloor>r * 100 + 1 / 2\<rfloor> / 100)
      | _ \<Rightarrow> x)"

text \<open>Two predicates the proofs use as invariants: a number is finite and not
  negative, or finite and between two bounds.\<close>

fun fin_nonneg :: "jsnum \<Rightarrow> bool" where
  "fin_nonneg (Fin r) \<longleftrightarrow> 0 \<le> r"
| "fin_nonneg _ \<longleftrightarrow> False"

fun fin_between :: "real \<Rightarrow> real \<Rightarrow> jsnum \<Rightarrow> bool" where
  "fin_between lo hi (Fin r) \<longleftrightarrow> lo \<le> r \<and> r \<le> hi"
| "fin_between lo hi _ \<longleftrightarrow> False"

text \<open>The same with \<open>NaN\<close> allowed: the value of an indicator that is either
  undefined or in its range.\<close>

fun nan_or_between :: "real \<Rightarrow> real \<Rightarrow> jsnum \<Rightarrow> bool" where
  "nan_or_between lo hi (Fin r) \<longleftrightarrow> lo \<le> r \<and> r \<le> hi"
| "nan_or_between lo hi NaN \<longleftrightarrow> True"
| "nan_or_between lo hi _ \<longleftrightarrow> False"

section \<open>Evaluation rules\<close>

named_theorems js_defs "definitions of the modelled operations, unfolded by the proofs"

lemmas jsnum_consts [simp] = zero_jsnum_def one_jsnum_def

lemma minus_jsnum_simps [simp]:
  "Fin a - Fin b = Fin (a - b)"
  "NaN - x = NaN"
  "x - NaN = NaN"
  "PInf - Fin b = PInf"
  "NInf - Fin b = NInf"
  "Fin a - PInf = NInf"
  "Fin a - NInf = PInf"
  "PInf - PInf = NaN"
  "NInf - NInf = NaN"
  "PInf - NInf = PInf"
  "NInf - PInf = NInf"
  by (cases x; simp add: minus_jsnum_def)+

lemma NaN_absorb [simp]:
  "NaN + x = NaN" "x + NaN = NaN" "NaN * x = NaN" "x * NaN = NaN"
  "NaN / x = NaN" "x / NaN = NaN"
  by (cases x; simp)+

lemma add_zero_jsnum [simp]: "x + Fin 0 = x" "Fin 0 + x = x"
  by (cases x; simp)+

lemma NaN_compare [simp]:
  "\<not> NaN < x" "\<not> x < NaN" "\<not> NaN \<le> x" "\<not> x \<le> NaN"
  by (cases x; simp)+

lemma signed_inf_simps [simp]:
  "signed_inf 0 = NaN"
  "0 < a \<Longrightarrow> signed_inf a = PInf"
  "a < 0 \<Longrightarrow> signed_inf a = NInf"
  by (simp_all add: signed_inf_def)

lemma signed_inf_not_Fin [simp]: "signed_inf a \<noteq> Fin b"
  by (simp add: signed_inf_def)

lemma jsn_simps [simp]:
  "jsn 0 = Fin 0" "jsn (Suc n) = Fin (real n + 1)" "jsn (numeral k) = Fin (numeral k)"
  by (simp_all add: jsn_def)

lemma isNaN_iff [simp]: "isNaN x \<longleftrightarrow> x = NaN"
  by (cases x) simp_all

lemma Math_min_Fin [simp]: "Math_min (Fin a) (Fin b) = Fin (min a b)"
  by (simp add: Math_min_def min_def)

lemma Math_max_Fin [simp]: "Math_max (Fin a) (Fin b) = Fin (max a b)"
  by (simp add: Math_max_def max_def)

lemma Math_minmax_NaN [simp]:
  "Math_min NaN x = NaN" "Math_min x NaN = NaN" "Math_max NaN x = NaN" "Math_max x NaN = NaN"
  by (simp_all add: Math_min_def Math_max_def)

lemma Math_abs_simps [simp]:
  "Math_abs (Fin a) = Fin \<bar>a\<bar>" "Math_abs NaN = NaN" "Math_abs PInf = PInf" "Math_abs NInf = PInf"
  by (simp_all add: Math_abs_def)

lemma Math_pow_Fin [simp]: "Math_pow (Fin a) n = Fin (a ^ n)"
  by (induction n) simp_all

lemma Math_pow_2 [simp]: "Math_pow x 2 = x * x"
  by (cases x) (simp_all add: numeral_2_eq_2)

lemma js_or_simps [simp]:
  "js_or (Fin a) b = (if a = 0 then b else Fin a)"
  "js_or NaN b = b" "js_or PInf b = PInf" "js_or NInf b = NInf"
  by (simp_all add: js_or_def)

section \<open>The additive monoid, numerals and powers\<close>

text \<open>Addition is associative and commutative on all of \<open>jsnum\<close>, the special
  values included: a sum is \<open>NaN\<close> when a summand is, or when both infinities
  occur in it.\<close>

lemma jsnum_add_assoc: "(x + y) + z = x + (y + z)" for x y z :: jsnum
  by (cases x; cases y; cases z) simp_all

lemma jsnum_add_commute: "x + y = y + x" for x y :: jsnum
  by (cases x; cases y) simp_all

instance jsnum :: comm_monoid_add
  by standard (simp_all add: jsnum_add_assoc, rule jsnum_add_commute)

instance jsnum :: numeral ..

instance jsnum :: power ..

lemma numeral_jsnum [simp]: "(numeral k :: jsnum) = Fin (numeral k)"
proof (induction k)
  case One
  show ?case by simp
next
  case (Bit0 k)
  have "(numeral (num.Bit0 k) :: jsnum) = Fin (numeral k + numeral k)"
    by (simp only: numeral_Bit0 Bit0.IH plus_jsnum.simps)
  then show ?case by (simp only: numeral_Bit0)
next
  case (Bit1 k)
  have "(numeral (num.Bit1 k) :: jsnum) = Fin (numeral k + numeral k + 1)"
    by (simp only: numeral_Bit1 Bit1.IH plus_jsnum.simps one_jsnum_def)
  then show ?case by (simp only: numeral_Bit1)
qed

lemma power_jsnum [simp]: "(Fin a) ^ n = Fin (a ^ n)"
  by (induction n) simp_all

lemma mult_comm_jsnum: "(a :: jsnum) * b = b * a"
  by (cases a; cases b) simp_all

lemma mult_one_jsnum [simp]: "x * Fin 1 = x" "Fin 1 * x = x"
  by (cases x; simp)+

lemma Math_pow_eq_power: "Math_pow x n = x ^ n"
  by (induction n) simp_all

lemma sum_list_Fin [simp]: "sum_list (map Fin rs) = Fin (sum_list rs)"
  by (induction rs) simp_all

section \<open>Finite numbers\<close>

text \<open>Arithmetic on finite numbers stays finite unless it divides by zero.\<close>

lemma is_Fin_arith [simp]:
  "is_Fin a \<Longrightarrow> is_Fin b \<Longrightarrow> is_Fin (a + b)"
  "is_Fin a \<Longrightarrow> is_Fin b \<Longrightarrow> is_Fin (a - b)"
  "is_Fin a \<Longrightarrow> is_Fin b \<Longrightarrow> is_Fin (a * b)"
  "is_Fin a \<Longrightarrow> is_Fin \<bar>a\<bar>"
  by (cases a; cases b; simp)+

lemma is_Fin_divide [simp]: "is_Fin a \<Longrightarrow> is_Fin b \<Longrightarrow> b \<noteq> Fin 0 \<Longrightarrow> is_Fin (a / b)"
  by (cases a; cases b) simp_all

lemma is_Fin_consts [simp]: "is_Fin 0" "is_Fin 1" "is_Fin (numeral k)" "is_Fin (jsn n)"
  by (simp_all add: jsn_def)

lemma is_Fin_not_NaN: "is_Fin x \<Longrightarrow> x \<noteq> NaN"
  by (cases x) simp_all

lemma list_all_is_Fin_map [simp]: "list_all is_Fin (map Fin rs)"
  by (induction rs) simp_all

lemma list_all_is_Fin_ex: "list_all is_Fin xs \<Longrightarrow> \<exists>rs. xs = map Fin rs"
proof (induction xs)
  case Nil
  then show ?case by simp
next
  case (Cons x xs)
  then obtain r rs where "x = Fin r" "xs = map Fin rs"
    by (cases x) auto
  then have "x # xs = map Fin (r # rs)" by simp
  then show ?case by (rule exI)
qed

text \<open>The division of the source that is guarded by \<^verbatim>\<open>||\<close>: the divisor
  \<open>js_or d e\<close> with a finite non-zero \<open>e\<close> is never zero and never \<open>NaN\<close>.\<close>

lemma js_or_guard: "e \<noteq> 0 \<Longrightarrow> is_Fin d \<Longrightarrow> \<exists>r. js_or d (Fin e) = Fin r \<and> r \<noteq> 0"
  by (cases d) simp_all

section \<open>Finite numbers in a range\<close>

lemma fin_nonneg_arith:
  "fin_nonneg x \<Longrightarrow> fin_nonneg y \<Longrightarrow> fin_nonneg (x + y)"
  "fin_nonneg x \<Longrightarrow> fin_nonneg y \<Longrightarrow> fin_nonneg (x * y)"
  "fin_nonneg x \<Longrightarrow> 0 < p \<Longrightarrow> fin_nonneg (x / Fin p)"
  by (cases x; cases y; simp)+

lemma fin_nonneg_or: "fin_nonneg x \<Longrightarrow> 0 < e \<Longrightarrow> \<exists>r. js_or x (Fin e) = Fin r \<and> 0 < r"
  by (cases x) auto

section \<open>Minimum and maximum\<close>

lemma is_Fin_minmax [simp]:
  "is_Fin x \<Longrightarrow> is_Fin y \<Longrightarrow> is_Fin (Math_min x y)"
  "is_Fin x \<Longrightarrow> is_Fin y \<Longrightarrow> is_Fin (Math_max x y)"
  by (cases x; cases y; simp)+

lemma Math_min_below:
  "a \<le> b \<Longrightarrow> \<not> Fin b < Math_min x (Fin a)"
  "a \<le> b \<Longrightarrow> \<not> Fin b < Math_min (Math_min x (Fin a)) y"
  by (cases x; cases y; simp add: Math_min_def)+

lemma Math_min_le_Fin:
  "is_Fin x \<Longrightarrow> Math_min x (Fin a) \<le> Fin a"
  "is_Fin x \<Longrightarrow> is_Fin y \<Longrightarrow> Math_min (Math_min x (Fin a)) y \<le> Fin a"
  by (cases x; cases y; simp)+

section \<open>Rounding to two decimals\<close>

lemma is_Fin_toFixed2 [simp]: "is_Fin x \<Longrightarrow> is_Fin (toFixed2 x)"
  by (cases x) (simp_all add: toFixed2_def)

lemma toFixed2_mono: "0 \<le> x \<Longrightarrow> x \<le> y \<Longrightarrow> toFixed2 (Fin x) \<le> toFixed2 (Fin y)"
  by (simp add: toFixed2_def divide_le_cancel floor_mono)

lemma toFixed2_special [simp]:
  "toFixed2 NaN = NaN" "toFixed2 PInf = PInf" "toFixed2 NInf = NInf"
  by (simp_all add: toFixed2_def)

lemma toFixed2_zero [simp]: "toFixed2 (Fin 0) = Fin 0"
  by (simp add: toFixed2_def)

lemma toFixed2_monotone: "x \<le> y \<Longrightarrow> toFixed2 (Fin x) \<le> toFixed2 (Fin y)"
proof -
  assume le: "x \<le> y"
  consider "0 \<le> x" | "x < 0" "y < 0" | "x < 0" "0 \<le> y" by linarith
  then show ?thesis
  proof cases
    case 1
    then show ?thesis using le by (rule toFixed2_mono)
  next
    case 2
    with le have "\<lfloor>- y * 100 + 1 / 2\<rfloor> \<le> \<lfloor>- x * 100 + 1 / 2\<rfloor>" by (intro floor_mono) simp
    with 2 show ?thesis by (simp add: toFixed2_def divide_le_cancel)
  next
    case 3
    define A B where "A = \<lfloor>- x * 100 + 1 / 2\<rfloor>" and "B = \<lfloor>y * 100 + 1 / 2\<rfloor>"
    with 3 have "0 \<le> A" "0 \<le> B" by simp_all
    then have "- (real_of_int A / 100) \<le> real_of_int B / 100"
      by (meson divide_nonneg_pos neg_le_0_iff_le of_int_0_le_iff order_trans zero_less_numeral)
    moreover from 3 have "toFixed2 (Fin x) = Fin (- (real_of_int A / 100))"
      "toFixed2 (Fin y) = Fin (real_of_int B / 100)"
      by (simp_all add: toFixed2_def A_def B_def)
    ultimately show ?thesis by simp
  qed
qed

lemma toFixed2_int [simp]: "toFixed2 (Fin (of_int k / 100)) = Fin (of_int k / 100)"
proof -
  have "\<lfloor>real_of_int k + 1 / 2\<rfloor> = k" "\<lfloor>real_of_int (- k) + 1 / 2\<rfloor> = - k" by linarith+
  then show ?thesis by (simp add: toFixed2_def)
qed

lemma toFixed2_between:
  assumes "of_int a / 100 \<le> x" "x \<le> of_int b / 100"
  shows "fin_between (of_int a / 100) (of_int b / 100) (toFixed2 (Fin x))"
proof -
  obtain r where r: "toFixed2 (Fin x) = Fin r" by (simp add: toFixed2_def)
  from assms have "toFixed2 (Fin (of_int a / 100)) \<le> toFixed2 (Fin x)"
    "toFixed2 (Fin x) \<le> toFixed2 (Fin (of_int b / 100))"
    by (simp_all only: toFixed2_monotone)
  then show ?thesis by (simp add: r)
qed

end
