(* ===== verification/JS_Array.thy ===== *)
theory JS_Array
  imports JS_Number
begin

text \<open>
  The arrays of the program and the loops that fill them. A \<^verbatim>\<open>number[]\<close> is a
  \<open>jsnum list\<close>; the array methods the source calls are modelled with the
  behaviour ECMAScript gives them on every argument:

  \<^item> \<open>js_nth xs i\<close> is the read \<^verbatim>\<open>xs[i]\<close> of a number: out of range it is
    \<^verbatim>\<open>undefined\<close>, which every arithmetic use turns into \<open>NaN\<close>;
  \<^item> \<open>js_at\<close> is the same read at an integer index, \<open>js_index\<close> at an index that is
    a number, and \<open>js_set xs k v\<close> the write
    \<^verbatim>\<open>xs[k] = v\<close>;
  \<^item> \<open>js_slice xs start stop\<close> is \<^verbatim>\<open>xs.slice(start, stop)\<close> with integer
    arguments, negative ones counting from the end and both clamped to the
    array; \<open>js_slice_from\<close> is the call with one argument;
  \<^item> \<open>js_sum\<close> is \<^verbatim>\<open>reduce((sum, v) => sum + v, 0)\<close>;
  \<^item> \<open>js_findIndex\<close> is \<^verbatim>\<open>findIndex\<close> (\<open>-1\<close> when no element satisfies the test);
  \<^item> \<open>js_sort_by\<close> is \<^verbatim>\<open>sort(cmp)\<close> for a comparator into numbers, as a stable
    insertion sort: an element moves right past the elements it compares
    greater than. For a comparator that is not a consistent order (it returns
    \<open>NaN\<close> on some pair) ECMAScript leaves the order to the implementation; the
    model fixes one.

  A loop \<^verbatim>\<open>for (i of is) { ...; result.push(x) }\<close> that pushes one value per
  iteration and carries variables from one iteration to the next is
  \<open>for_push body s is\<close>: \<open>body\<close> maps the carried state and the index to the
  pushed value and the next state. \<open>for_state\<close> is the state the loop ends in.
  A loop that carries nothing is a \<open>map\<close> over its indices.

  The lemmas give the length and the elements of what a loop pushes, relate
  \<open>js_slice\<close> to \<open>take\<close> and \<open>drop\<close>, \<open>js_sum\<close> to \<open>sum_list\<close> and \<open>js_sort_by\<close> on
  finite numbers to \<open>sort\<close>.
\<close>

section \<open>Reading and slicing\<close>

definition js_nth :: "jsnum list \<Rightarrow> nat \<Rightarrow> jsnum" where
  "js_nth xs i = (if i < length xs then xs ! i else NaN)"

text \<open>The same read with an index the source computes by subtraction, which may
  be negative: \<^verbatim>\<open>xs[-1]\<close> is \<^verbatim>\<open>undefined\<close> too.\<close>

definition js_at :: "jsnum list \<Rightarrow> int \<Rightarrow> jsnum" where
  "js_at xs k = (if 0 \<le> k \<and> nat k < length xs then xs ! nat k else NaN)"

text \<open>The write \<^verbatim>\<open>xs[k] = v\<close>: in range it replaces an element; past the end the
  array grows, the elements between being holes (read as \<^verbatim>\<open>undefined\<close>); at a
  negative index the array is unchanged.\<close>

definition js_set :: "jsnum list \<Rightarrow> int \<Rightarrow> jsnum \<Rightarrow> jsnum list" where
  "js_set xs k v =
     (if k < 0 then xs
      else if nat k < length xs then xs[nat k := v]
      else xs @ replicate (nat k - length xs) NaN @ [v])"

text \<open>The read \<^verbatim>\<open>xs[k]\<close> at an index that is itself a number (the result of
  \<^verbatim>\<open>Math.floor\<close>): an element only when \<open>k\<close> is an integer in range.\<close>

definition js_index :: "jsnum list \<Rightarrow> jsnum \<Rightarrow> jsnum" where
  "js_index xs k =
     (case k of Fin r \<Rightarrow> if r = of_int \<lfloor>r\<rfloor> then js_at xs \<lfloor>r\<rfloor> else NaN | _ \<Rightarrow> NaN)"

text \<open>The index an argument of \<^verbatim>\<open>slice\<close> stands for in an array of length \<open>len\<close>.\<close>

definition rel_index :: "int \<Rightarrow> nat \<Rightarrow> nat" where
  "rel_index k len = (if k < 0 then nat (max (int len + k) 0) else min (nat k) len)"

definition js_slice :: "'a list \<Rightarrow> int \<Rightarrow> int \<Rightarrow> 'a list" where
  "js_slice xs start stop =
     (let k = rel_index start (length xs); e = rel_index stop (length xs)
      in take (e - k) (drop k xs))"

definition js_slice_from :: "'a list \<Rightarrow> int \<Rightarrow> 'a list" where
  "js_slice_from xs start = js_slice xs start (int (length xs))"

definition js_sum :: "jsnum list \<Rightarrow> jsnum" where
  "js_sum xs = foldl (+) 0 xs"

fun js_findIndex :: "('a \<Rightarrow> bool) \<Rightarrow> 'a list \<Rightarrow> int" where
  "js_findIndex p [] = - 1"
| "js_findIndex p (x # xs) =
     (if p x then 0 else let k = js_findIndex p xs in if k < 0 then - 1 else k + 1)"

section \<open>Sorting with a comparator\<close>

fun insert_by :: "('a \<Rightarrow> 'a \<Rightarrow> jsnum) \<Rightarrow> 'a \<Rightarrow> 'a list \<Rightarrow> 'a list" where
  "insert_by cmp x [] = [x]"
| "insert_by cmp x (y # ys) =
     (if 0 < cmp x y then y # insert_by cmp x ys else x # y # ys)"

definition js_sort_by :: "('a \<Rightarrow> 'a \<Rightarrow> jsnum) \<Rightarrow> 'a list \<Rightarrow> 'a list" where
  "js_sort_by cmp xs = foldr (insert_by cmp) xs []"

section \<open>Loops that push\<close>

primrec for_push :: "('s \<Rightarrow> nat \<Rightarrow> 'a \<times> 's) \<Rightarrow> 's \<Rightarrow> nat list \<Rightarrow> 'a list" where
  "for_push body s [] = []"
| "for_push body s (i # is) = fst (body s i) # for_push body (snd (body s i)) is"

primrec for_state :: "('s \<Rightarrow> nat \<Rightarrow> 'a \<times> 's) \<Rightarrow> 's \<Rightarrow> nat list \<Rightarrow> 's" where
  "for_state body s [] = s"
| "for_state body s (i # is) = for_state body (snd (body s i)) is"

section \<open>Lemmas on reading and slicing\<close>

lemma js_nth_in [simp]: "i < length xs \<Longrightarrow> js_nth xs i = xs ! i"
  by (simp add: js_nth_def)

lemma js_nth_out [simp]: "length xs \<le> i \<Longrightarrow> js_nth xs i = NaN"
  by (simp add: js_nth_def)

lemma js_nth_Cons [simp]:
  "js_nth (x # xs) 0 = x" "js_nth (x # xs) (Suc i) = js_nth xs i" "js_nth [] i = NaN"
  by (simp_all add: js_nth_def)

lemma js_nth_map_Fin: "js_nth (map Fin rs) i = (if i < length rs then Fin (rs ! i) else NaN)"
  by (simp add: js_nth_def)

lemma map_js_nth_upt [simp]: "map (js_nth xs) [0..<length xs] = xs"
  by (rule nth_equalityI) simp_all

lemma map_js_nth_times:
  "length ys = length xs \<Longrightarrow>
     map (\<lambda>i. js_nth xs i * js_nth ys i) [0..<length xs] = map2 (*) xs ys"
  by (rule nth_equalityI) simp_all

lemma map2_self [simp]: "map2 f xs xs = map (\<lambda>x. f x x) xs"
  by (induction xs) simp_all

lemma map2_times_Fin: "map2 (*) (map Fin xs) (map Fin ys) = map Fin (map2 (*) xs ys)"
  by (induction xs ys rule: list_induct2') simp_all

lemma js_nth_append:
  "js_nth (xs @ ys) i = (if i < length xs then xs ! i else js_nth ys (i - length xs))"
  by (auto simp: js_nth_def nth_append)

lemma js_at_nat [simp]: "js_at xs (int i) = js_nth xs i"
  by (simp add: js_at_def js_nth_def)

lemma js_at_out [simp]: "k < 0 \<Longrightarrow> js_at xs k = NaN" "int (length xs) \<le> k \<Longrightarrow> js_at xs k = NaN"
  by (auto simp: js_at_def)

text \<open>\<^verbatim>\<open>xs[xs.length - 1]\<close> is the last element of an array that has one.\<close>

lemma js_at_last: "xs \<noteq> [] \<Longrightarrow> js_at xs (int (length xs) - 1) = last xs"
  by (cases xs rule: rev_cases) (simp_all add: js_at_def nth_append)

lemma js_at_last_empty [simp]: "js_at [] k = NaN"
  by (simp add: js_at_def)

lemma js_index_nat [simp]: "js_index xs (Fin (real i)) = js_nth xs i"
  by (simp add: js_index_def)

lemma js_set_in [simp]: "i < length xs \<Longrightarrow> js_set xs (int i) v = xs[i := v]"
  by (simp add: js_set_def)

lemma rel_index_nat [simp]: "rel_index (int k) len = min k len"
  by (simp add: rel_index_def)

lemma rel_index_le [simp]: "rel_index k len \<le> len"
  by (auto simp: rel_index_def)

text \<open>With natural arguments \<^verbatim>\<open>slice\<close> is \<open>take\<close> after \<open>drop\<close>.\<close>

lemma js_slice_nat: "js_slice xs (int a) (int b) = take (b - a) (drop a xs)"
proof (cases "a \<le> length xs")
  case True
  then show ?thesis
    by (cases "b \<le> length xs") (simp_all add: js_slice_def min_def)
next
  case False
  then show ?thesis by (simp add: js_slice_def)
qed

lemma js_slice_nonneg:
  "0 \<le> a \<Longrightarrow> 0 \<le> b \<Longrightarrow> js_slice xs a b = take (nat b - nat a) (drop (nat a) xs)"
  using js_slice_nat [of xs "nat a" "nat b"] by simp

lemma js_slice_0 [simp]: "js_slice xs 0 (int b) = take b xs"
  using js_slice_nat [of xs 0 b] by simp

lemma js_slice_from_eq: "js_slice_from xs k = drop (rel_index k (length xs)) xs"
  by (simp add: js_slice_from_def js_slice_def)

lemma js_slice_from_nat [simp]: "js_slice_from xs (int a) = drop a xs"
  by (simp add: js_slice_from_def js_slice_nat)

text \<open>A negative start counts from the end: \<^verbatim>\<open>xs.slice(-k)\<close> is the last \<open>k\<close>
  elements, and the whole array when it has fewer.\<close>

lemma js_slice_from_neg: "0 < k \<Longrightarrow> js_slice_from xs (- int k) = drop (length xs - k) xs"
  by (simp add: js_slice_from_def js_slice_def rel_index_def nat_diff_distrib' max_def)

lemma length_js_slice_nat [simp]:
  "length (js_slice xs (int a) (int b)) = min (b - a) (length xs - a)"
  by (simp add: js_slice_nat)

lemma js_slice_map: "js_slice (map f xs) a b = map f (js_slice xs a b)"
  by (simp add: js_slice_def Let_def take_map drop_map)

section \<open>Lemmas on sums\<close>

lemma foldl_plus_jsnum: "foldl (+) (a :: jsnum) xs = a + sum_list xs"
  by (induction xs arbitrary: a) (simp_all add: add.assoc)

lemma js_sum_sum_list: "js_sum xs = sum_list xs"
  by (simp add: js_sum_def foldl_plus_jsnum del: jsnum_consts)

lemma js_sum_Fin [simp]: "js_sum (map Fin rs) = Fin (sum_list rs)"
  by (simp add: js_sum_sum_list)

lemma js_sum_simps [simp]: "js_sum [] = Fin 0" "js_sum (x # xs) = x + js_sum xs"
  by (simp_all add: js_sum_sum_list)

lemma js_sum_append: "js_sum (xs @ ys) = js_sum xs + js_sum ys"
  by (simp add: js_sum_sum_list)

lemma js_sum_replicate_Fin [simp]: "js_sum (replicate n (Fin a)) = Fin (real n * a)"
  by (induction n) (simp_all add: algebra_simps)

text \<open>A sum with a \<open>NaN\<close> summand is \<open>NaN\<close>.\<close>

lemma js_sum_NaN: "NaN \<in> set xs \<Longrightarrow> js_sum xs = NaN"
  by (induction xs) auto

section \<open>Lemmas on the index search\<close>

lemma js_findIndex_ge: "- 1 \<le> js_findIndex p xs"
  by (induction xs) (simp_all add: Let_def)

lemma js_findIndex_none: "js_findIndex p xs = - 1 \<longleftrightarrow> \<not> list_ex p xs"
proof (induction xs)
  case Nil
  show ?case by simp
next
  case (Cons x xs)
  with js_findIndex_ge [of p xs] show ?case
    by (auto simp: Let_def)
qed

lemma js_findIndex_nonneg: "list_ex p xs \<Longrightarrow> 0 \<le> js_findIndex p xs"
  using js_findIndex_ge [of p xs] js_findIndex_none [of p xs] by simp

lemma js_findIndex_replicate:
  "\<not> p a \<Longrightarrow> js_findIndex p (replicate n a @ xs) =
     (if list_ex p xs then int n + js_findIndex p xs else - 1)"
proof (induction n)
  case 0
  then show ?case by (simp add: js_findIndex_none)
next
  case (Suc n)
  with js_findIndex_nonneg [of p xs] show ?case
    by (auto simp: Let_def js_findIndex_none)
qed

section \<open>Lemmas on sorting\<close>

lemma insert_by_minus_Fin:
  "insert_by (\<lambda>a b. a - b) (Fin x) (map Fin ys) = map Fin (insort x ys)"
  by (induction ys) auto

text \<open>On finite numbers the comparator \<^verbatim>\<open>(a, b) => a - b\<close> sorts ascending.\<close>

lemma js_sort_by_minus_Fin: "js_sort_by (\<lambda>a b. a - b) (map Fin rs) = map Fin (sort rs)"
  by (induction rs) (simp_all add: js_sort_by_def insert_by_minus_Fin sort_key_def)

lemma length_insert_by [simp]: "length (insert_by cmp x ys) = Suc (length ys)"
  by (induction ys) simp_all

lemma length_js_sort_by [simp]: "length (js_sort_by cmp xs) = length xs"
  by (induction xs) (simp_all add: js_sort_by_def)

section \<open>Lemmas on loops\<close>

lemma length_for_push [simp]: "length (for_push body s is) = length is"
  by (induction "is" arbitrary: s) simp_all

lemma for_push_append:
  "for_push body s (is @ js) = for_push body s is @ for_push body (for_state body s is) js"
  by (induction "is" arbitrary: s) simp_all

lemma for_state_append:
  "for_state body s (is @ js) = for_state body (for_state body s is) js"
  by (induction "is" arbitrary: s) simp_all

text \<open>The value pushed in an iteration is computed from the state the
  iterations before it leave.\<close>

lemma nth_for_push:
  "k < length is \<Longrightarrow>
     for_push body s is ! k = fst (body (for_state body s (take k is)) (is ! k))"
proof (induction "is" arbitrary: s k)
  case Nil
  then show ?case by simp
next
  case (Cons i "is")
  then show ?case by (cases k) simp_all
qed

lemma for_push_stateless:
  "(\<And>s i. snd (body s i) = s) \<Longrightarrow> for_push body s is = map (\<lambda>i. fst (body s i)) is"
  by (induction "is") simp_all

lemma for_state_snoc [simp]:
  "for_state body s (is @ [i]) = snd (body (for_state body s is) i)"
  by (simp add: for_state_append)

lemma for_push_snoc [simp]:
  "for_push body s (is @ [i]) = for_push body s is @ [fst (body (for_state body s is) i)]"
  by (simp add: for_push_append)

text \<open>An invariant of the carried state holds after any number of iterations,
  and what it implies of a pushed value holds of every element pushed.\<close>

lemma for_state_invariant:
  assumes "P s" and "\<And>t i. P t \<Longrightarrow> i \<in> set is \<Longrightarrow> P (snd (body t i))"
  shows "P (for_state body s is)"
  using assms
proof (induction "is" arbitrary: s)
  case Nil
  then show ?case by simp
next
  case (Cons i "is")
  from Cons.prems have "P (snd (body s i))" by simp
  with Cons.prems(2) show ?case by (simp add: Cons.IH)
qed

lemma for_push_invariant:
  assumes "P s" and "\<And>t i. P t \<Longrightarrow> i \<in> set is \<Longrightarrow> P (snd (body t i))"
    and "\<And>t i. P t \<Longrightarrow> i \<in> set is \<Longrightarrow> Q (fst (body t i))"
  shows "list_all Q (for_push body s is)"
  using assms
proof (induction "is" arbitrary: s)
  case Nil
  then show ?case by simp
next
  case (Cons i "is")
  from Cons.prems have "P (snd (body s i))" "Q (fst (body s i))" by simp_all
  with Cons.prems(2,3) show ?case by (simp add: Cons.IH)
qed

section \<open>Lemmas on writes and on padded arrays\<close>

text \<open>A run of writes at consecutive indices inside an array replaces that
  part of the array.\<close>

lemma length_js_blit:
  "0 \<le> s \<Longrightarrow> nat s + m \<le> length xs \<Longrightarrow>
     length (foldl (\<lambda>arr i. js_set arr (s + int i) (f i)) xs [0..<m]) = length xs"
  by (induction m) (simp_all add: js_set_def)

lemma js_blit:
  "0 \<le> s \<Longrightarrow> nat s + m \<le> length xs \<Longrightarrow>
     foldl (\<lambda>arr i. js_set arr (s + int i) (f i)) xs [0..<m] =
       take (nat s) xs @ map f [0..<m] @ drop (nat s + m) xs"
proof (induction m)
  case 0
  then show ?case by simp
next
  case (Suc m)
  then have "nat (s + int m) = nat s + m" by simp
  with Suc show ?case
    by (simp add: js_set_def list_update_append upd_conv_take_nth_drop Cons_nth_drop_Suc nat_add_distrib)
qed

text \<open>The elements that satisfy a predicate all lie at or after the first that
  does.\<close>

lemma js_findIndex_filter:
  "0 \<le> js_findIndex p xs \<Longrightarrow> nat (js_findIndex p xs) + length (filter p xs) \<le> length xs"
proof (induction xs)
  case Nil
  then show ?case by simp
next
  case (Cons x xs)
  then show ?case
    using js_findIndex_ge [of p xs] by (auto simp: Let_def split: if_splits)
qed

text \<open>Arrays whose first \<open>k\<close> elements are \<open>NaN\<close> and whose other elements are
  finite: the shape of an indicator after its warm-up.\<close>

lemma map_upt_padded:
  "map (\<lambda>i. if i < k then a else h i) [0..<n] = replicate (min k n) a @ map h [k..<n]"
proof (induction n)
  case 0
  then show ?case by simp
next
  case (Suc n)
  show ?case
  proof (cases "n < k")
    case True
    then have "min k (Suc n) = Suc n" "min k n = n" "[k..<Suc n] = []" by simp_all
    with Suc True show ?thesis by (simp add: replicate_append_same)
  next
    case False
    with Suc show ?thesis by (simp add: min_def)
  qed
qed

lemma filter_padded [simp]:
  "filter (\<lambda>v. \<not> isNaN v) (replicate k NaN @ map Fin vs) = map Fin vs"
  by (induction k) (simp_all add: filter_map o_def)

lemma js_findIndex_padded [simp]:
  "vs \<noteq> [] \<Longrightarrow> js_findIndex (\<lambda>v. \<not> isNaN v) (replicate k NaN @ map Fin vs) = int k"
  by (cases vs) (simp_all add: js_findIndex_replicate)

lemma fin_nonneg_sum: "list_all fin_nonneg xs \<Longrightarrow> fin_nonneg (js_sum xs)"
  by (induction xs) (simp_all add: fin_nonneg_arith)

lemma nan_or_between_nth:
  "list_all (nan_or_between lo hi) xs \<Longrightarrow> nan_or_between lo hi (js_nth xs i)"
  by (simp add: js_nth_def list_all_length)

lemma nan_or_between_sum:
  "list_all (nan_or_between 0 b) xs \<Longrightarrow> 0 \<le> b \<Longrightarrow>
     nan_or_between 0 (real (length xs) * b) (js_sum xs)"
proof (induction xs)
  case Nil
  then show ?case by simp
next
  case (Cons x xs)
  then have "nan_or_between 0 (real (length xs) * b) (js_sum xs)" "nan_or_between 0 b x"
    by simp_all
  then show ?case
    by (cases x; cases "js_sum xs") (simp_all add: algebra_simps)
qed

text \<open>A list whose elements all equal one value is a replication of it.\<close>

lemma all_eq_replicate: "list_all (\<lambda>x. x = a) xs \<Longrightarrow> xs = replicate (length xs) a"
  by (induction xs) simp_all

section \<open>Integer ranges\<close>

text \<open>A loop over the integers from \<open>a\<close> to \<open>b - 1\<close> visits the indices \<open>[a..<b]\<close>.\<close>

lemma upto_int_nat: "[int a..int b - 1] = map int [a..<b]"
proof (induction b)
  case 0
  show ?case by simp
next
  case (Suc b)
  show ?case
  proof (cases "a \<le> b")
    case True
    then have "[int a..int (Suc b) - 1] = [int a..int b - 1] @ [int b]"
      using upto_rec2 [of "int a" "int b"] by simp
    with Suc True show ?thesis by simp
  next
    case False
    then show ?thesis by simp
  qed
qed

end
