(* ===== verification/Moving_Averages.thy ===== *)
theory Moving_Averages
  imports JS_Array
begin

text \<open>
  The moving averages of \<^verbatim>\<open>technical-indicators.ts\<close>: \<^verbatim>\<open>calculateSMA\<close>,
  \<^verbatim>\<open>calculateEMA\<close> and \<^verbatim>\<open>calculateMACD\<close>. Each returns an array aligned with its
  input, with \<open>NaN\<close> at the indices of its warm-up.

  A period is a natural number. The source compares an index with
  \<^verbatim>\<open>period - 1\<close>, which is \<open>-1\<close> for the period \<open>0\<close>; the model writes
  \<open>i + 1 < period\<close> and \<open>i + 1 = period\<close> for \<^verbatim>\<open>i < period - 1\<close> and
  \<^verbatim>\<open>i === period - 1\<close>, which agree with the source for every period.

  \<^item> \<open>calculateSMA\<close>: one iteration per index, nothing carried; the inner loop
    over \<open>j\<close> is the fold \<open>window_sum\<close>.
  \<^item> \<open>calculateEMA\<close>: the loop carries the variable \<^verbatim>\<open>ema\<close>; \<open>ema_body\<close> is one
    iteration (the pushed value and the next \<^verbatim>\<open>ema\<close>).
  \<^item> \<open>calculateMACD\<close>: the two averages, the line, the compacted line, its
    average and the writes that put it back at its place, the histogram.

  The lemmas: the lengths; the warm-up; \<open>calculateSMA\<close> at an index past the
  warm-up is the mean of the trailing window (on finite input, the refinement
  of the specification \<open>sma_spec\<close> on reals); \<open>calculateEMA\<close> starts with the mean
  of the first \<open>period\<close> values and then follows its recurrence, for every input,
  and is finite past the warm-up on finite input; the MACD line is defined
  from the slow period on and the signal is the average of the defined part of
  the line, put back behind the warm-up of the line.
\<close>

section \<open>Simple moving average\<close>

definition window_sum :: "jsnum list \<Rightarrow> nat \<Rightarrow> nat \<Rightarrow> jsnum" where
  "window_sum data i period = foldl (\<lambda>sum j. sum + js_nth data (i - j)) 0 [0..<period]"

definition calculateSMA :: "jsnum list \<Rightarrow> nat \<Rightarrow> jsnum list" where
  "calculateSMA data period =
     map (\<lambda>i. if i + 1 < period then NaN else window_sum data i period / jsn period)
       [0..<length data]"

text \<open>The specification on reals: the mean of the \<open>period\<close> values that end at \<open>i\<close>.\<close>

definition sma_spec :: "real list \<Rightarrow> nat \<Rightarrow> nat \<Rightarrow> real" where
  "sma_spec rs period i = sum_list (take period (drop (i + 1 - period) rs)) / real period"

section \<open>Exponential moving average\<close>

definition ema_body :: "jsnum list \<Rightarrow> nat \<Rightarrow> jsnum \<Rightarrow> jsnum \<Rightarrow> nat \<Rightarrow> jsnum \<times> jsnum" where
  "ema_body data period multiplier ema i =
     (if i + 1 < period then (NaN, ema)
      else if i + 1 = period then (ema, ema)
      else (let ema' = js_nth data i * multiplier + ema * (1 - multiplier) in (ema', ema')))"

definition calculateEMA :: "jsnum list \<Rightarrow> nat \<Rightarrow> jsnum list" where
  "calculateEMA data period =
     (let multiplier = 2 / (jsn period + 1);
          ema = js_sum (js_slice data 0 (int period)) / jsn period
      in for_push (ema_body data period multiplier) ema [0..<length data])"

text \<open>The specification on reals: the mean of the first \<open>period\<close> values up to
  the index \<open>period - 1\<close>, the recurrence after it.\<close>

primrec ema_spec :: "real list \<Rightarrow> nat \<Rightarrow> nat \<Rightarrow> real" where
  "ema_spec rs period 0 = sum_list (take period rs) / real period"
| "ema_spec rs period (Suc i) =
     (if Suc i < period then ema_spec rs period i
      else rs ! Suc i * (2 / (real period + 1))
           + ema_spec rs period i * (1 - 2 / (real period + 1)))"

section \<open>Moving average convergence and divergence\<close>

record macd_result =
  line :: "jsnum list"
  signal :: "jsnum list"
  histogram :: "jsnum list"

text \<open>The two loops of \<^verbatim>\<open>calculateMACD\<close> that subtract one array from another
  have the same body: \<open>NaN\<close> where either operand is, the difference elsewhere.\<close>

definition guarded_diff :: "jsnum list \<Rightarrow> jsnum list \<Rightarrow> nat \<Rightarrow> jsnum" where
  "guarded_diff xs ys i =
     (if isNaN (js_nth xs i) \<or> isNaN (js_nth ys i) then NaN else js_nth xs i - js_nth ys i)"

text \<open>\<open>paddedSignalLine'\<close> is the array \<^verbatim>\<open>paddedSignalLine\<close> after the loop of
  writes; \<open>histogram'\<close> is the local array \<^verbatim>\<open>histogram\<close>.\<close>

definition calculateMACD :: "jsnum list \<Rightarrow> nat \<Rightarrow> nat \<Rightarrow> nat \<Rightarrow> macd_result" where
  "calculateMACD data fastPeriod slowPeriod signalPeriod =
     (let fastEMA = calculateEMA data fastPeriod;
          slowEMA = calculateEMA data slowPeriod;
          macdLine = map (guarded_diff fastEMA slowEMA) [0..<length data];
          validMacdLine = filter (\<lambda>v. \<not> isNaN v) macdLine;
          signalLine = calculateEMA validMacdLine signalPeriod;
          paddedSignalLine = replicate (length data) NaN;
          startIndex = js_findIndex (\<lambda>v. \<not> isNaN v) macdLine;
          signalStartIndex = startIndex + int (length validMacdLine) - int (length signalLine);
          paddedSignalLine' =
            foldl (\<lambda>arr i. js_set arr (signalStartIndex + int i) (js_nth signalLine i))
              paddedSignalLine [0..<length signalLine];
          histogram' = map (guarded_diff macdLine paddedSignalLine') [0..<length data]
      in \<lparr>line = macdLine, signal = paddedSignalLine', histogram = histogram'\<rparr>)"

lemmas [js_defs] = window_sum_def calculateSMA_def ema_body_def calculateEMA_def
  guarded_diff_def calculateMACD_def

section \<open>Properties of the simple moving average\<close>

lemma length_calculateSMA [simp]: "length (calculateSMA data period) = length data"
  by (simp add: calculateSMA_def)

lemma calculateSMA_nth:
  "i < length data \<Longrightarrow>
     calculateSMA data period ! i =
       (if i + 1 < period then NaN else window_sum data i period / jsn period)"
  by (simp add: calculateSMA_def)

text \<open>The inner loop adds the window from its last element down; the sum is
  that of the window.\<close>

lemma foldl_window_map:
  "i < length data \<Longrightarrow> period \<le> i + 1 \<Longrightarrow>
     foldl (\<lambda>sum j. sum + h (js_nth data (i - j))) a [0..<period] =
       a + js_sum (map h (take period (drop (i + 1 - period) data)))"
proof (induction period)
  case 0
  then show ?case by simp
next
  case (Suc p)
  then have d: "drop (i - p) data = data ! (i - p) # drop (i + 1 - p) data"
    by (simp add: Cons_nth_drop_Suc Suc_diff_le)
  from Suc show ?case
    by (simp add: d add.assoc add.left_commute add.commute)
qed

lemma foldl_window:
  "i < length data \<Longrightarrow> period \<le> i + 1 \<Longrightarrow>
     foldl (\<lambda>sum j. sum + js_nth data (i - j)) a [0..<period] =
       a + js_sum (take period (drop (i + 1 - period) data))"
  using foldl_window_map [of i data period "\<lambda>x. x" a] by simp

lemma window_sum_eq:
  "i < length data \<Longrightarrow> period \<le> i + 1 \<Longrightarrow>
     window_sum data i period = js_sum (take period (drop (i + 1 - period) data))"
  using foldl_window [of i data period 0] by (simp add: window_sum_def)

lemma window_sum_Fin:
  "i < length rs \<Longrightarrow> period \<le> i + 1 \<Longrightarrow>
     window_sum (map Fin rs) i period = Fin (sum_list (take period (drop (i + 1 - period) rs)))"
  by (simp add: window_sum_eq take_map drop_map)

lemma calculateSMA_Fin_nth:
  "i < length rs \<Longrightarrow> 0 < period \<Longrightarrow>
     calculateSMA (map Fin rs) period ! i =
       (if i + 1 < period then NaN else Fin (sma_spec rs period i))"
  by (simp add: calculateSMA_nth window_sum_Fin sma_spec_def jsn_def)

section \<open>Properties of the exponential moving average\<close>

lemma length_calculateEMA [simp]: "length (calculateEMA data period) = length data"
  by (simp add: calculateEMA_def Let_def)

text \<open>During the warm-up the carried \<^verbatim>\<open>ema\<close> keeps its first value; after it the
  carried value is the value pushed last.\<close>

lemma ema_state_warmup:
  "n \<le> period \<Longrightarrow> for_state (ema_body data period k) e [0..<n] = e"
  by (induction n) (simp_all add: ema_body_def)

lemma ema_state_emitted:
  "i < n \<Longrightarrow> period \<le> i + 1 \<Longrightarrow>
     for_state (ema_body data period k) e [0..<Suc i] =
       for_push (ema_body data period k) e [0..<n] ! i"
  by (simp add: nth_for_push ema_body_def Let_def)

lemma calculateEMA_nth:
  "i < length data \<Longrightarrow>
     calculateEMA data period ! i =
       fst (ema_body data period (2 / (jsn period + 1))
         (for_state (ema_body data period (2 / (jsn period + 1)))
            (js_sum (js_slice data 0 (int period)) / jsn period) [0..<i]) i)"
  by (simp add: calculateEMA_def Let_def nth_for_push)

lemma calculateEMA_warmup:
  "i < length data \<Longrightarrow> i + 1 < period \<Longrightarrow> calculateEMA data period ! i = NaN"
  by (simp add: calculateEMA_nth ema_body_def)

lemma calculateEMA_seed:
  "i < length data \<Longrightarrow> i + 1 = period \<Longrightarrow>
     calculateEMA data period ! i = js_sum (take period data) / jsn period"
  by (simp add: calculateEMA_nth ema_body_def ema_state_warmup)

lemma calculateEMA_step:
  assumes "i < length data" "period \<le> i" "0 < period"
  shows "calculateEMA data period ! i =
     data ! i * (2 / (jsn period + 1)) +
       calculateEMA data period ! (i - 1) * (1 - 2 / (jsn period + 1))"
proof -
  from assms obtain j where j: "i = Suc j" "j < length data" "period \<le> j + 1"
    by (cases i) auto
  let ?k = "2 / (jsn period + 1)"
  let ?e = "js_sum (js_slice data 0 (int period)) / jsn period"
  have "for_state (ema_body data period ?k) ?e [0..<i] = calculateEMA data period ! j"
    using j ema_state_emitted [of j "length data" period data ?k ?e]
    by (simp add: calculateEMA_def Let_def)
  with assms j show ?thesis
    by (simp add: calculateEMA_nth ema_body_def Let_def)
qed

text \<open>On finite input the average is finite from the index \<open>period - 1\<close> on,
  and is the value of the specification.\<close>

lemma ema_spec_warmup:
  "i < period \<Longrightarrow> ema_spec rs period i = sum_list (take period rs) / real period"
  by (induction i) simp_all

lemma calculateEMA_Fin_nth:
  assumes "0 < period"
  shows "period \<le> i + 1 \<Longrightarrow> i < length rs \<Longrightarrow>
     calculateEMA (map Fin rs) period ! i = Fin (ema_spec rs period i)"
proof (induction i)
  case 0
  with assms show ?case by (simp add: calculateEMA_seed take_map jsn_def)
next
  case (Suc i)
  show ?case
  proof (cases "Suc i + 1 = period")
    case True
    with Suc.prems show ?thesis
      by (simp add: calculateEMA_seed take_map ema_spec_warmup jsn_def)
  next
    case False
    with Suc assms show ?thesis
      by (simp add: calculateEMA_step jsn_def)
  qed
qed

lemma calculateEMA_short:
  "length data < period \<Longrightarrow> calculateEMA data period = replicate (length data) NaN"
  by (intro nth_equalityI) (simp_all add: calculateEMA_warmup)

section \<open>Properties of the MACD\<close>

lemma macd_fields:
  "line (calculateMACD data f s g) =
     map (guarded_diff (calculateEMA data f) (calculateEMA data s)) [0..<length data]"
  "histogram (calculateMACD data f s g) =
     map (guarded_diff (line (calculateMACD data f s g)) (signal (calculateMACD data f s g)))
       [0..<length data]"
  by (simp_all add: calculateMACD_def Let_def)

lemma length_macd_line [simp]: "length (line (calculateMACD data f s g)) = length data"
  by (simp add: macd_fields)

text \<open>The loop of writes puts the average of the compacted line back into an
  array of \<open>NaN\<close>, from the index of the first defined value of the line on. The
  writes stay inside the array, whatever the data.\<close>

lemma macd_signal_writes:
  "signal (calculateMACD data f s g) =
     foldl (\<lambda>arr i. js_set arr
         (js_findIndex (\<lambda>v. \<not> isNaN v) (line (calculateMACD data f s g)) + int i)
         (js_nth (calculateEMA (filter (\<lambda>v. \<not> isNaN v) (line (calculateMACD data f s g))) g) i))
       (replicate (length data) NaN)
       [0..<length (filter (\<lambda>v. \<not> isNaN v) (line (calculateMACD data f s g)))]"
  by (simp add: calculateMACD_def Let_def)

lemma macd_signal:
  "signal (calculateMACD data f s g) =
     (let ln = line (calculateMACD data f s g);
          valid = filter (\<lambda>v. \<not> isNaN v) ln;
          k = nat (js_findIndex (\<lambda>v. \<not> isNaN v) ln)
      in if valid = [] then replicate (length data) NaN
         else replicate k NaN @ calculateEMA valid g
                @ replicate (length data - (k + length valid)) NaN)"
proof -
  let ?ln = "line (calculateMACD data f s g)"
  let ?p = "\<lambda>v. \<not> isNaN v"
  show ?thesis
  proof (cases "filter ?p ?ln = []")
    case True
    then show ?thesis by (simp add: macd_signal_writes)
  next
    case False
    then have "list_ex ?p ?ln" by (simp add: list_ex_iff filter_empty_conv)
    then have k: "0 \<le> js_findIndex ?p ?ln" by (rule js_findIndex_nonneg)
    with js_findIndex_filter [of ?p ?ln]
    have "nat (js_findIndex ?p ?ln) + length (filter ?p ?ln) \<le> length data"
      by simp
    moreover have "map (js_nth (calculateEMA (filter ?p ?ln) g)) [0..<length (filter ?p ?ln)]
        = calculateEMA (filter ?p ?ln) g"
      using map_js_nth_upt [of "calculateEMA (filter ?p ?ln) g"] by simp
    ultimately show ?thesis
      using k False js_blit [of "js_findIndex ?p ?ln" "length (filter ?p ?ln)" "replicate (length data) NaN"
          "js_nth (calculateEMA (filter ?p ?ln) g)"]
      by (simp add: macd_signal_writes Let_def)
  qed
qed

lemma length_macd [simp]:
  "length (signal (calculateMACD data f s g)) = length data"
  "length (histogram (calculateMACD data f s g)) = length data"
proof -
  let ?ln = "line (calculateMACD data f s g)"
  let ?p = "\<lambda>v. \<not> isNaN v"
  have "filter ?p ?ln \<noteq> [] \<Longrightarrow>
      nat (js_findIndex ?p ?ln) + length (filter ?p ?ln) \<le> length data"
    using js_findIndex_filter [of ?p ?ln] js_findIndex_nonneg [of ?p ?ln]
    by (simp add: list_ex_iff filter_empty_conv)
  then show "length (signal (calculateMACD data f s g)) = length data"
    by (cases "filter ?p ?ln = []") (simp_all add: macd_signal Let_def)
  show "length (histogram (calculateMACD data f s g)) = length data"
    by (simp add: macd_fields)
qed

text \<open>On finite input the line is defined from the longer of the two periods
  on, so its defined part is its tail.\<close>

lemma macd_line_Fin_nth:
  assumes "0 < f" "0 < s" "i < length rs"
  shows "line (calculateMACD (map Fin rs) f s g) ! i =
     (if i + 1 < max f s then NaN else Fin (ema_spec rs f i - ema_spec rs s i))"
proof (cases "i + 1 < max f s")
  case True
  then have "i + 1 < f \<or> i + 1 < s" by auto
  with assms True show ?thesis
    by (auto simp: macd_fields guarded_diff_def calculateEMA_warmup)
next
  case False
  with assms show ?thesis
    by (simp add: macd_fields guarded_diff_def calculateEMA_Fin_nth)
qed

lemma macd_line_Fin:
  assumes "0 < f" "0 < s"
  shows "line (calculateMACD (map Fin rs) f s g) =
     replicate (min (max f s - 1) (length rs)) NaN
       @ map (\<lambda>i. Fin (ema_spec rs f i - ema_spec rs s i)) [max f s - 1..<length rs]"
proof -
  have "line (calculateMACD (map Fin rs) f s g) =
      map (\<lambda>i. if i < max f s - 1 then NaN else Fin (ema_spec rs f i - ema_spec rs s i))
        [0..<length rs]"
    using assms by (intro nth_equalityI) (simp_all add: macd_line_Fin_nth less_diff_conv)
  then show ?thesis by (simp only: map_upt_padded)
qed

lemma macd_signal_Fin:
  assumes "0 < f" "0 < s"
  shows "signal (calculateMACD (map Fin rs) f s g) =
     replicate (min (max f s - 1) (length rs)) NaN
       @ calculateEMA (drop (max f s - 1) (line (calculateMACD (map Fin rs) f s g))) g"
proof -
  let ?vs = "map (\<lambda>i. ema_spec rs f i - ema_spec rs s i) [max f s - 1..<length rs]"
  let ?k = "min (max f s - 1) (length rs)"
  have ln: "line (calculateMACD (map Fin rs) f s g) = replicate ?k NaN @ map Fin ?vs"
    using assms by (simp add: macd_line_Fin o_def)
  have d: "drop (max f s - 1) (replicate ?k NaN @ map Fin ?vs) = map Fin ?vs"
    by (cases "max f s - 1 \<le> length rs") (simp_all add: min_def)
  show ?thesis
  proof (cases "?vs = []")
    case True
    then show ?thesis
      unfolding macd_signal ln d by (auto simp: Let_def calculateEMA_def min_def)
  next
    case False
    then have k: "?k + length ?vs = length rs" by simp
    have "filter (\<lambda>v. \<not> isNaN v) (replicate ?k NaN @ map Fin ?vs) = map Fin ?vs"
      by (rule filter_padded)
    moreover from False
    have "js_findIndex (\<lambda>v. \<not> isNaN v) (replicate ?k NaN @ map Fin ?vs) = int ?k"
      by (rule js_findIndex_padded)
    ultimately show ?thesis
      unfolding macd_signal ln d Let_def using False k by simp
  qed
qed

section \<open>Claims\<close>

text \<open>C3: past the warm-up, the simple moving average of a finite series at
  index \<open>i\<close> is the arithmetic mean of the \<open>period\<close> values that end at \<open>i\<close>.\<close>

theorem calculateSMA_mean:
  "0 < period \<Longrightarrow> period \<le> i + 1 \<Longrightarrow> i < length rs \<Longrightarrow>
     calculateSMA (map Fin rs) period ! i = Fin (sma_spec rs period i)"
  by (simp add: calculateSMA_Fin_nth)

theorem calculateSMA_mean_witness:
  "calculateSMA (map Fin [1, 2, 3, 4, 5]) 3 ! 3 = Fin 3"
  using calculateSMA_mean [of 3 3 "[1, 2, 3, 4, 5]"] by (simp add: sma_spec_def)

text \<open>A simple or exponential moving average of a series shorter than its
  period has the length of the series and is \<open>NaN\<close> everywhere.\<close>

lemma moving_average_short:
  assumes "length data < period"
  shows "calculateSMA data period = replicate (length data) NaN
       \<and> calculateEMA data period = replicate (length data) NaN"
  using assms by (simp add: calculateEMA_short) (intro nth_equalityI, simp_all add: calculateSMA_nth)

text \<open>C8: on a finite series the exponential moving average is defined from
  the index \<open>period - 1\<close> on: there it is the mean of the first \<open>period\<close> values,
  and after it the value \<open>x\<^sub>i k + e\<^sub>i\<^sub>-\<^sub>1 (1 - k)\<close> with \<open>k = 2 / (period + 1)\<close>.\<close>

theorem calculateEMA_refines:
  assumes "0 < period" "period \<le> i + 1" "i < length rs"
  shows "calculateEMA (map Fin rs) period ! i = Fin (ema_spec rs period i)"
  using assms by (rule calculateEMA_Fin_nth)

theorem calculateEMA_refines_witness:
  "calculateEMA (map Fin [2, 4, 6, 8]) 2 ! 3 = Fin 7"
  using calculateEMA_refines [of 2 3 "[2, 4, 6, 8]"] by (simp add: numeral_3_eq_3 numeral_2_eq_2)

text \<open>The three arrays of a MACD have the length of the data, whatever the
  data and the periods: the writes of the signal never extend the array.\<close>

lemma calculateMACD_lengths:
  "length (line (calculateMACD data f s g)) = length data \<and>
   length (signal (calculateMACD data f s g)) = length data \<and>
   length (histogram (calculateMACD data f s g)) = length data"
  by simp

text \<open>On a finite series the line of a MACD is \<open>NaN\<close> before the index
  \<open>max f s - 1\<close> and the difference of the two averages from it on.\<close>

lemma calculateMACD_line:
  assumes "0 < f" "0 < s" "i < length rs"
  shows "line (calculateMACD (map Fin rs) f s g) ! i =
     (if i + 1 < max f s then NaN else Fin (ema_spec rs f i - ema_spec rs s i))"
  using assms by (rule macd_line_Fin_nth)

text \<open>C28: on a finite series the signal of a MACD is the exponential moving
  average of the defined part of the line, put back behind the warm-up of the
  line.\<close>

theorem calculateMACD_signal:
  assumes "0 < f" "0 < s"
  shows "signal (calculateMACD (map Fin rs) f s g) =
     replicate (min (max f s - 1) (length rs)) NaN
       @ calculateEMA (drop (max f s - 1) (line (calculateMACD (map Fin rs) f s g))) g"
  using assms by (rule macd_signal_Fin)

theorem calculateMACD_signal_witness:
  "signal (calculateMACD (map Fin [1, 2, 3, 4, 5]) 2 3 2) =
     [NaN, NaN] @ calculateEMA (drop 2 (line (calculateMACD (map Fin [1, 2, 3, 4, 5]) 2 3 2))) 2"
  using calculateMACD_signal [of 2 3 "[1, 2, 3, 4, 5]" 2]
  by (simp add: numeral_2_eq_2)

end
