(* ===== verification/Oscillators.thy ===== *)
theory Oscillators
  imports Moving_Averages
begin

text \<open>
  The relative strength index and the Bollinger bands of
  \<^verbatim>\<open>technical-indicators.ts\<close>.

  \<^item> \<open>calculateRSI\<close>: the first loop fills \<^verbatim>\<open>gains\<close> and \<^verbatim>\<open>losses\<close> (\<open>gains_of\<close>,
    \<open>losses_of\<close>, from the day-over-day \<open>price_changes\<close>); the result is
    \<open>period\<close> times \<open>NaN\<close>, the first value, and one value for each iteration
    of the last loop, whose body \<open>rsi_body\<close> carries \<^verbatim>\<open>avgGain\<close> and \<^verbatim>\<open>avgLoss\<close>.
    \<open>rsi_value\<close> is the expression \<^verbatim>\<open>100 - 100 / (1 + avgGain / (avgLoss || 0.001))\<close>
    that the source writes twice.
  \<^item> \<open>calculateBollingerBands\<close>: \<open>bollinger_body\<close> is one iteration of the loop
    (the values pushed onto \<^verbatim>\<open>upper\<close> and \<^verbatim>\<open>lower\<close>); \<open>squared_deviations\<close> is the
    inner loop, whose \<^verbatim>\<open>break\<close> at \<^verbatim>\<open>i - j < 0\<close> bounds it by \<open>min period (i + 1)\<close>.

  The specifications on reals are \<open>wilder_avg\<close> and \<open>rsi_spec\<close> (the seed mean
  and the recurrence \<open>avg' = (avg (period - 1) + x) / period\<close>), and \<open>sd_spec\<close>
  (the population standard deviation of a window around its mean).

  The lemmas: the length of the index, which is \<open>period + 1\<close> and not the
  length of the data when the data are shorter; on finite data the index is
  the value of \<open>rsi_spec\<close> and lies between 0 and 100, and is 0 on a series
  that does not move; on finite data the bands are the mean plus and minus
  the multiple of \<open>sd_spec\<close>, so the lower band is at most the middle and the
  middle at most the upper; for all data the bands are \<open>NaN\<close> where the middle
  is.
\<close>

section \<open>Relative strength index\<close>

definition price_changes :: "jsnum list \<Rightarrow> jsnum list" where
  "price_changes data = map (\<lambda>i. js_nth data i - js_nth data (i - 1)) [1..<length data]"

definition gains_of :: "jsnum list \<Rightarrow> jsnum list" where
  "gains_of data = map (\<lambda>change. if 0 < change then change else 0) (price_changes data)"

definition losses_of :: "jsnum list \<Rightarrow> jsnum list" where
  "losses_of data = map (\<lambda>change. if change < 0 then Math_abs change else 0) (price_changes data)"

definition rsi_value :: "jsnum \<Rightarrow> jsnum \<Rightarrow> jsnum" where
  "rsi_value avgGain avgLoss = 100 - 100 / (1 + avgGain / js_or avgLoss 0.001)"

definition rsi_body ::
  "jsnum list \<Rightarrow> jsnum list \<Rightarrow> nat \<Rightarrow> jsnum \<times> jsnum \<Rightarrow> nat \<Rightarrow> jsnum \<times> jsnum \<times> jsnum" where
  "rsi_body gains losses period st i =
     (let avgGain = (fst st * (jsn period - 1) + js_nth gains (i - 1)) / jsn period;
          avgLoss = (snd st * (jsn period - 1) + js_nth losses (i - 1)) / jsn period
      in (rsi_value avgGain avgLoss, avgGain, avgLoss))"

definition calculateRSI :: "jsnum list \<Rightarrow> nat \<Rightarrow> jsnum list" where
  "calculateRSI data period =
     (let gains = gains_of data;
          losses = losses_of data;
          result = replicate period NaN;
          avgGain = js_sum (js_slice gains 0 (int period)) / jsn period;
          avgLoss = js_sum (js_slice losses 0 (int period)) / jsn period;
          result' = result @ [rsi_value avgGain avgLoss]
      in result' @ for_push (rsi_body gains losses period) (avgGain, avgLoss)
                     [period + 1..<length data])"

text \<open>The specification: the average after \<open>k\<close> steps of the recurrence, and the
  index computed from the averages of the gains and of the losses.\<close>

primrec wilder_avg :: "real list \<Rightarrow> nat \<Rightarrow> nat \<Rightarrow> real" where
  "wilder_avg xs period 0 = sum_list (take period xs) / real period"
| "wilder_avg xs period (Suc k) =
     (wilder_avg xs period k * (real period - 1) + xs ! (period + k)) / real period"

definition rsi_spec :: "real list \<Rightarrow> nat \<Rightarrow> nat \<Rightarrow> real" where
  "rsi_spec rs period i =
     (let g = wilder_avg (map (\<lambda>i. max (rs ! i - rs ! (i - 1)) 0) [1..<length rs]) period (i - period);
          l = wilder_avg (map (\<lambda>i. max (rs ! (i - 1) - rs ! i) 0) [1..<length rs]) period (i - period)
      in 100 - 100 / (1 + g / (if l = 0 then 1 / 1000 else l)))"

section \<open>Bollinger bands\<close>

record bollinger_bands =
  upper :: "jsnum list"
  middle :: "jsnum list"
  lower :: "jsnum list"

definition squared_deviations :: "jsnum list \<Rightarrow> jsnum \<Rightarrow> nat \<Rightarrow> nat \<Rightarrow> jsnum" where
  "squared_deviations data m i period =
     foldl (\<lambda>sum j. sum + Math_pow (js_nth data (i - j) - m) 2) 0 [0..<min period (i + 1)]"

definition bollinger_body ::
  "jsnum list \<Rightarrow> jsnum list \<Rightarrow> nat \<Rightarrow> jsnum \<Rightarrow> nat \<Rightarrow> jsnum \<times> jsnum" where
  "bollinger_body data mid period stdDev i =
     (if isNaN (js_nth mid i) then (NaN, NaN)
      else let sum = squared_deviations data (js_nth mid i) i period;
               sd = Math_sqrt (sum / jsn period)
           in (js_nth mid i + stdDev * sd, js_nth mid i - stdDev * sd))"

definition calculateBollingerBands :: "jsnum list \<Rightarrow> nat \<Rightarrow> jsnum \<Rightarrow> bollinger_bands" where
  "calculateBollingerBands data period stdDev =
     (let mid = calculateSMA data period;
          bands = map (bollinger_body data mid period stdDev) [0..<length data]
      in \<lparr>upper = map fst bands, middle = mid, lower = map snd bands\<rparr>)"

text \<open>The specification: the population standard deviation of the window that
  ends at \<open>i\<close>, around the mean of that window.\<close>

definition sd_spec :: "real list \<Rightarrow> nat \<Rightarrow> nat \<Rightarrow> real" where
  "sd_spec rs period i =
     sqrt (sum_list (map (\<lambda>x. (x - sma_spec rs period i)\<^sup>2) (take period (drop (i + 1 - period) rs)))
           / real period)"

lemmas [js_defs] = price_changes_def gains_of_def losses_of_def rsi_value_def rsi_body_def
  calculateRSI_def squared_deviations_def bollinger_body_def calculateBollingerBands_def

section \<open>Properties of the relative strength index\<close>

lemma length_calculateRSI:
  "length (calculateRSI data period) = max (length data) (period + 1)"
  by (simp add: calculateRSI_def Let_def)

lemma calculateRSI_warmup: "i < period \<Longrightarrow> calculateRSI data period ! i = NaN"
  by (simp add: calculateRSI_def Let_def nth_append)

lemma length_gains_losses [simp]:
  "length (gains_of data) = length data - 1" "length (losses_of data) = length data - 1"
  by (simp_all add: gains_of_def losses_of_def price_changes_def)

lemma price_changes_Fin:
  "price_changes (map Fin rs) = map Fin (map (\<lambda>i. rs ! i - rs ! (i - 1)) [1..<length rs])"
  by (intro nth_equalityI) (simp_all add: price_changes_def)

lemma gains_losses_Fin:
  "gains_of (map Fin rs) = map Fin (map (\<lambda>i. max (rs ! i - rs ! (i - 1)) 0) [1..<length rs])"
  "losses_of (map Fin rs) = map Fin (map (\<lambda>i. max (rs ! (i - 1) - rs ! i) 0) [1..<length rs])"
  by (simp_all add: gains_of_def losses_of_def price_changes_Fin max_def)

lemma gains_losses_nonneg:
  "list_all fin_nonneg (gains_of (map Fin rs))" "list_all fin_nonneg (losses_of (map Fin rs))"
  by (simp_all add: gains_losses_Fin list_all_iff)

text \<open>The index is between 0 and 100 when the two averages are finite and not
  negative, and the recurrence keeps them so.\<close>

lemma rsi_value_range:
  assumes "fin_nonneg g" "fin_nonneg l"
  shows "fin_between 0 100 (rsi_value g l)"
proof -
  from assms obtain a where a: "g = Fin a" "0 \<le> a" by (cases g) auto
  from assms obtain b where b: "js_or l 0.001 = Fin b" "0 < b"
    using fin_nonneg_or [of l "1 / 1000"] by auto
  from a b have "0 \<le> a / b" by simp
  then have "100 / (1 + a / b) \<le> 100" "0 \<le> 100 / (1 + a / b)" "1 + a / b \<noteq> 0"
    by (simp_all add: divide_le_eq)
  with a b show ?thesis by (simp add: rsi_value_def)
qed

lemma wilder_nonneg:
  assumes "fin_nonneg a" "fin_nonneg x" "0 < period"
  shows "fin_nonneg ((a * (jsn period - Fin 1) + x) / jsn period)"
proof -
  from assms have "fin_nonneg (jsn period - Fin 1)" by (simp add: jsn_def)
  with assms show ?thesis by (simp add: fin_nonneg_arith jsn_def)
qed

lemma rsi_seed_nonneg:
  assumes "list_all fin_nonneg xs" "0 < period"
  shows "fin_nonneg (js_sum (take period xs) / jsn period)"
proof -
  from assms(1) have "list_all fin_nonneg (take period xs)"
    by (auto simp: list_all_iff dest: in_set_takeD)
  then have "fin_nonneg (js_sum (take period xs))" by (rule fin_nonneg_sum)
  with assms(2) show ?thesis by (simp add: fin_nonneg_arith jsn_def)
qed

lemma rsi_value_Fin:
  "0 \<le> g \<Longrightarrow> 0 \<le> l \<Longrightarrow>
     rsi_value (Fin g) (Fin l) = Fin (100 - 100 / (1 + g / (if l = 0 then 1 / 1000 else l)))"
  by (simp add: rsi_value_def add_nonneg_eq_0_iff)

lemma wilder_avg_nonneg:
  "0 < period \<Longrightarrow> period + k \<le> length xs \<Longrightarrow> list_all (\<lambda>x. 0 \<le> x) xs \<Longrightarrow>
     0 \<le> wilder_avg xs period k"
proof (induction k)
  case 0
  then show ?case
    by (auto simp: list_all_iff intro!: sum_list_nonneg divide_nonneg_nonneg dest: in_set_takeD)
next
  case (Suc k)
  then have "0 \<le> xs ! (period + k)" by (simp add: list_all_length)
  with Suc show ?case by simp
qed

text \<open>The averages the loop carries after \<open>k\<close> iterations are those of the
  specification.\<close>

lemma rsi_state:
  assumes "0 < period" "period + k < length gs + 1" "length ls = length gs"
  shows "for_state (rsi_body (map Fin gs) (map Fin ls) period)
           (Fin (wilder_avg gs period 0), Fin (wilder_avg ls period 0)) [period + 1..<period + 1 + k]
         = (Fin (wilder_avg gs period k), Fin (wilder_avg ls period k))"
  using assms(2)
proof (induction k)
  case 0
  show ?case by simp
next
  case (Suc k)
  then have "[period + 1..<period + 1 + Suc k] = [period + 1..<period + 1 + k] @ [period + 1 + k]"
    by simp
  with Suc assms(1,3) show ?case
    by (simp add: rsi_body_def Let_def jsn_def del: upt_Suc)
qed

lemma rsi_body_value:
  "fst (rsi_body g l p st i) = rsi_value (fst (snd (rsi_body g l p st i))) (snd (snd (rsi_body g l p st i)))"
  by (simp add: rsi_body_def Let_def)

lemma calculateRSI_nth:
  assumes "period \<le> i" "i < length data"
  shows "calculateRSI data period ! i =
     (let st = for_state (rsi_body (gains_of data) (losses_of data) period)
                 (js_sum (js_slice (gains_of data) 0 (int period)) / jsn period,
                  js_sum (js_slice (losses_of data) 0 (int period)) / jsn period)
                 [period + 1..<i + 1]
      in rsi_value (fst st) (snd st))"
proof (cases "i = period")
  case True
  then show ?thesis by (simp add: calculateRSI_def Let_def nth_append)
next
  case False
  with assms have i: "i - Suc period < length data - Suc period"
    "[Suc period..<Suc i] = [Suc period..<i] @ [i]" "Suc (period + (i - Suc period)) = i"
    by auto
  with assms False show ?thesis
    by (simp add: calculateRSI_def Let_def nth_append nth_for_push take_upt rsi_body_value
        del: upt_Suc)
qed

lemma rsi_fold_Fin:
  assumes "0 < period" "period + k < length gs + 1" "length ls = length gs"
    and "list_all (\<lambda>x. 0 \<le> x) gs" "list_all (\<lambda>x. 0 \<le> x) ls"
  shows "(let st = for_state (rsi_body (map Fin gs) (map Fin ls) period)
                 (js_sum (js_slice (map Fin gs) 0 (int period)) / jsn period,
                  js_sum (js_slice (map Fin ls) 0 (int period)) / jsn period)
                 [period + 1..<period + 1 + k]
          in rsi_value (fst st) (snd st))
       = Fin (100 - 100 / (1 + wilder_avg gs period k /
                (if wilder_avg ls period k = 0 then 1 / 1000 else wilder_avg ls period k)))"
proof -
  from assms have "0 \<le> wilder_avg gs period k" "0 \<le> wilder_avg ls period k"
    by (simp_all add: wilder_avg_nonneg)
  moreover from assms(1)
  have "js_sum (js_slice (map Fin gs) 0 (int period)) / jsn period = Fin (wilder_avg gs period 0)"
    "js_sum (js_slice (map Fin ls) 0 (int period)) / jsn period = Fin (wilder_avg ls period 0)"
    by (simp_all add: take_map jsn_def)
  ultimately show ?thesis
    using rsi_state [OF assms(1-3)] by (simp only: Let_def fst_conv snd_conv rsi_value_Fin)
qed

lemma calculateRSI_Fin_nth:
  assumes "0 < period" "period \<le> i" "i < length rs"
  shows "calculateRSI (map Fin rs) period ! i = Fin (rsi_spec rs period i)"
proof -
  let ?gs = "map (\<lambda>i. max (rs ! i - rs ! (i - 1)) 0) [1..<length rs]"
  let ?ls = "map (\<lambda>i. max (rs ! (i - 1) - rs ! i) 0) [1..<length rs]"
  from assms have k: "period + (i - period) < length ?gs + 1" "length ?ls = length ?gs"
    "[period + 1..<i + 1] = [period + 1..<period + 1 + (i - period)]"
    by simp_all
  have nn: "list_all (\<lambda>x. 0 \<le> x) ?gs" "list_all (\<lambda>x. 0 \<le> x) ?ls"
    by (simp_all add: list_all_iff)
  from assms have i: "i < length (map Fin rs)" by simp
  note calculateRSI_nth [OF assms(2) i, unfolded gains_losses_Fin k(3)]
  also note rsi_fold_Fin [OF assms(1) k(1,2) nn]
  finally show ?thesis unfolding rsi_spec_def Let_def .
qed

lemma wilder_avg_zero:
  "0 < period \<Longrightarrow> period + k \<le> m \<Longrightarrow> wilder_avg (replicate m 0) period k = 0"
  by (induction k) (simp_all add: sum_list_replicate)

lemma rsi_spec_flat:
  assumes "0 < period" "period \<le> i" "i < n"
  shows "rsi_spec (replicate n c) period i = 0"
proof -
  have "map (\<lambda>i. max (replicate n c ! i - replicate n c ! (i - 1)) 0) [1..<n] = replicate (n - 1) 0"
    "map (\<lambda>i. max (replicate n c ! (i - 1) - replicate n c ! i) 0) [1..<n] = replicate (n - 1) 0"
    by (intro nth_equalityI; simp)+
  with assms show ?thesis
    by (simp add: rsi_spec_def wilder_avg_zero)
qed

section \<open>Properties of the Bollinger bands\<close>

lemma bollinger_fields:
  "middle (calculateBollingerBands data period k) = calculateSMA data period"
  "length (upper (calculateBollingerBands data period k)) = length data"
  "length (lower (calculateBollingerBands data period k)) = length data"
  "i < length data \<Longrightarrow> upper (calculateBollingerBands data period k) ! i =
     fst (bollinger_body data (calculateSMA data period) period k i)"
  "i < length data \<Longrightarrow> lower (calculateBollingerBands data period k) ! i =
     snd (bollinger_body data (calculateSMA data period) period k i)"
  by (simp_all add: calculateBollingerBands_def Let_def)

lemma squared_deviations_Fin:
  assumes "i < length rs" "period \<le> i + 1"
  shows "squared_deviations (map Fin rs) (Fin m) i period =
     Fin (sum_list (map (\<lambda>x. (x - m)\<^sup>2) (take period (drop (i + 1 - period) rs))))"
proof -
  from assms have "squared_deviations (map Fin rs) (Fin m) i period =
      js_sum (map (\<lambda>x. (x - Fin m) * (x - Fin m)) (take period (drop (i + 1 - period) (map Fin rs))))"
    using foldl_window_map [of i "map Fin rs" period "\<lambda>x. (x - Fin m) * (x - Fin m)" 0]
    by (simp add: squared_deviations_def min_def)
  moreover have "map (\<lambda>x. (x - Fin m) * (x - Fin m)) (take period (drop (i + 1 - period) (map Fin rs)))
      = map Fin (map (\<lambda>x. (x - m)\<^sup>2) (take period (drop (i + 1 - period) rs)))"
    by (simp add: take_map drop_map power2_eq_square)
  ultimately show ?thesis by (simp only: js_sum_Fin)
qed

lemma bollinger_body_Fin:
  assumes "0 < period" "period \<le> i + 1" "i < length rs"
  shows "bollinger_body (map Fin rs) (calculateSMA (map Fin rs) period) period (Fin k) i =
     (Fin (sma_spec rs period i + k * sd_spec rs period i),
      Fin (sma_spec rs period i - k * sd_spec rs period i))"
proof -
  have "0 \<le> sum_list (map (\<lambda>x. (x - sma_spec rs period i)\<^sup>2) (take period (drop (i + 1 - period) rs)))"
    by (intro sum_list_nonneg) auto
  with assms show ?thesis
    by (simp add: bollinger_body_def calculateSMA_Fin_nth squared_deviations_Fin Let_def
        sd_spec_def jsn_def not_less)
qed

lemma bollinger_warmup:
  "i < length data \<Longrightarrow> i + 1 < period \<Longrightarrow>
     bollinger_body data (calculateSMA data period) period k i = (NaN, NaN)"
  by (simp add: bollinger_body_def calculateSMA_nth)

section \<open>Claims\<close>

text \<open>C4: on a finite series the relative strength index at an index from
  \<open>period\<close> on is the value of the specification: the index of the averages of
  the gains and of the losses, seeded with the mean of the first \<open>period\<close>
  changes and smoothed by \<open>avg' = (avg (period - 1) + x) / period\<close>.\<close>

theorem calculateRSI_refines:
  assumes "0 < period" "period \<le> i" "i < length rs"
  shows "calculateRSI (map Fin rs) period ! i = Fin (rsi_spec rs period i)"
  using assms by (rule calculateRSI_Fin_nth)

theorem calculateRSI_refines_witness:
  "calculateRSI (map Fin [1, 2, 4]) 1 ! 1 = Fin (100000 / 1001)"
  using calculateRSI_refines [of 1 1 "[1, 2, 4]"]
  by (simp add: rsi_spec_def upt_rec)

text \<open>The values of the index after the warm-up, on a finite series.\<close>

lemma rsi_range:
  assumes "0 < period"
  shows "list_all (fin_between 0 100) (drop period (calculateRSI (map Fin rs) period))"
proof -
  let ?g = "gains_of (map Fin rs)" and ?l = "losses_of (map Fin rs)"
  let ?P = "\<lambda>st. fin_nonneg (fst st) \<and> fin_nonneg (snd st)"
  let ?s = "(js_sum (js_slice ?g 0 (int period)) / jsn period,
             js_sum (js_slice ?l 0 (int period)) / jsn period)"
  have s: "?P ?s"
    using assms by (simp add: rsi_seed_nonneg gains_losses_nonneg)
  have step: "?P (snd (rsi_body ?g ?l period t i))"
    "fin_between 0 100 (fst (rsi_body ?g ?l period t i))"
    if "?P t" "i \<in> set [period + 1..<length rs]" for t i
  proof -
    from that(2) have "i - 1 < length ?g" "i - 1 < length ?l" by auto
    then have "fin_nonneg (js_nth ?g (i - 1))" "fin_nonneg (js_nth ?l (i - 1))"
      using gains_losses_nonneg [of rs] by (simp_all add: list_all_length)
    with that(1) assms show "?P (snd (rsi_body ?g ?l period t i))"
      "fin_between 0 100 (fst (rsi_body ?g ?l period t i))"
      by (simp_all add: rsi_body_def Let_def wilder_nonneg rsi_value_range)
  qed
  from s have "list_all (fin_between 0 100)
      (for_push (rsi_body ?g ?l period) ?s [period + 1..<length rs])"
    by (rule for_push_invariant) (simp_all add: step)
  with s show ?thesis
    by (simp add: calculateRSI_def Let_def rsi_value_range)
qed

text \<open>On a series that does not move the relative strength index is 0 from
  the index \<open>period\<close> on: the average loss 0 is replaced by 0.001 and nothing
  is divided by zero.\<close>

text \<open>With the warm-up: every value is \<open>NaN\<close> or between 0 and 100.\<close>

lemma rsi_nan_or_between:
  assumes "0 < period"
  shows "list_all (nan_or_between 0 100) (calculateRSI (map Fin rs) period)"
proof -
  let ?xs = "calculateRSI (map Fin rs) period"
  have "nan_or_between 0 100 (?xs ! i)" if "i < length ?xs" for i
  proof (cases "i < period")
    case True
    then show ?thesis by (simp add: calculateRSI_warmup)
  next
    case False
    with that rsi_range [OF assms, of rs] have "fin_between 0 100 (?xs ! i)"
      by (auto simp: list_all_length dest!: spec [of _ "i - period"])
    then show ?thesis by (cases "?xs ! i") simp_all
  qed
  then show ?thesis by (simp add: list_all_length)
qed

lemma calculateRSI_flat:
  assumes "0 < period" "period \<le> i" "i < n"
  shows "calculateRSI (replicate n (Fin c)) period ! i = Fin 0"
  using assms calculateRSI_Fin_nth [of period i "replicate n c"]
  by (simp add: rsi_spec_flat)

text \<open>C9: on a finite series, past the warm-up, the bands are the mean of the
  window plus and minus \<open>k\<close> times its population standard deviation.\<close>

theorem calculateBollingerBands_refines:
  assumes "0 < period" "period \<le> i + 1" "i < length rs"
  shows "upper (calculateBollingerBands (map Fin rs) period (Fin k)) ! i
           = Fin (sma_spec rs period i + k * sd_spec rs period i)
       \<and> middle (calculateBollingerBands (map Fin rs) period (Fin k)) ! i
           = Fin (sma_spec rs period i)
       \<and> lower (calculateBollingerBands (map Fin rs) period (Fin k)) ! i
           = Fin (sma_spec rs period i - k * sd_spec rs period i)"
  using assms by (simp add: bollinger_fields bollinger_body_Fin calculateSMA_Fin_nth)

theorem calculateBollingerBands_refines_witness:
  "upper (calculateBollingerBands (map Fin [1, 5, 1, 5]) 2 (Fin 2)) ! 1 = Fin 7
     \<and> middle (calculateBollingerBands (map Fin [1, 5, 1, 5]) 2 (Fin 2)) ! 1 = Fin 3
     \<and> lower (calculateBollingerBands (map Fin [1, 5, 1, 5]) 2 (Fin 2)) ! 1 = Fin (- 1)"
  using calculateBollingerBands_refines [of 2 1 "[1, 5, 1, 5]" 2]
  by (simp add: sma_spec_def sd_spec_def real_sqrt_eq_iff [of 4 "2\<^sup>2", simplified])

text \<open>C27: on a finite series with a multiplier that is not negative, past the
  warm-up, the lower band is at most the middle and the middle at most the
  upper.\<close>

theorem bollinger_order:
  assumes "0 < period" "period \<le> i + 1" "i < length rs" "0 \<le> k"
  shows "lower (calculateBollingerBands (map Fin rs) period (Fin k)) ! i
           \<le> middle (calculateBollingerBands (map Fin rs) period (Fin k)) ! i
       \<and> middle (calculateBollingerBands (map Fin rs) period (Fin k)) ! i
           \<le> upper (calculateBollingerBands (map Fin rs) period (Fin k)) ! i"
proof -
  have "0 \<le> sd_spec rs period i"
    unfolding sd_spec_def by (intro real_sqrt_ge_zero divide_nonneg_nonneg sum_list_nonneg) auto
  with assms show ?thesis
    by (simp add: bollinger_fields bollinger_body_Fin calculateSMA_Fin_nth)
qed

theorem bollinger_order_witness:
  "lower (calculateBollingerBands (map Fin [1, 3, 1, 3]) 2 (Fin 2)) ! 1
     \<le> middle (calculateBollingerBands (map Fin [1, 3, 1, 3]) 2 (Fin 2)) ! 1
   \<and> middle (calculateBollingerBands (map Fin [1, 3, 1, 3]) 2 (Fin 2)) ! 1
     \<le> upper (calculateBollingerBands (map Fin [1, 3, 1, 3]) 2 (Fin 2)) ! 1"
  using bollinger_order [of 2 1 "[1, 3, 1, 3]" 2] by simp

text \<open>For all data the upper and the lower band are \<open>NaN\<close> wherever the
  middle band is.\<close>

lemma bollinger_undefined:
  assumes "i < length data" "middle (calculateBollingerBands data period k) ! i = NaN"
  shows "upper (calculateBollingerBands data period k) ! i = NaN
       \<and> lower (calculateBollingerBands data period k) ! i = NaN"
  using assms by (simp add: bollinger_fields bollinger_body_def)

end
