(* ===== verification/Directional.thy ===== *)
theory Directional
  imports Oscillators
begin

text \<open>
  The average directional index of \<^verbatim>\<open>technical-indicators.ts\<close>:
  \<^verbatim>\<open>calculateADX\<close> and its helper \<^verbatim>\<open>calculateSmoothedAverage\<close>.

  \<^item> \<open>true_range\<close>, \<open>plus_dm\<close> and \<open>minus_dm\<close> are the three values the first loop
    pushes for the bar \<open>i\<close>; \<open>directional_index\<close> and \<open>dx_value\<close> are the bodies
    of the second and the third loop.
  \<^item> \<open>adx_dx\<close> is the first part of \<^verbatim>\<open>calculateADX\<close>, up to the array \<^verbatim>\<open>dx\<close>;
    \<open>calculateADX\<close> pads, seeds and smooths it.
  \<^item> \<open>smoothed_body\<close> is one step of the smoothing
    \<^verbatim>\<open>(prev * (period - 1) + data[i]) / period\<close>, the body of the loop of
    \<^verbatim>\<open>calculateSmoothedAverage\<close> and of the last loop of \<^verbatim>\<open>calculateADX\<close>.

  The lemmas: the length of the result, which is that of the data when there
  are at least \<open>2 period\<close> bars and \<open>2 period\<close> otherwise; on finite bars
  every value is \<open>NaN\<close> or a number between 0 and 100; on bars that do not
  move every value is \<open>NaN\<close>, because the smoothed true range is 0 and the
  directional indices are \<open>0 / 0\<close>: the source has no guard there.
\<close>

section \<open>Definitions\<close>

definition true_range :: "jsnum list \<Rightarrow> jsnum list \<Rightarrow> jsnum list \<Rightarrow> nat \<Rightarrow> jsnum" where
  "true_range highs lows closes i =
     (let tr1 = js_nth highs i - js_nth lows i;
          tr2 = Math_abs (js_nth highs i - js_nth closes (i - 1));
          tr3 = Math_abs (js_nth lows i - js_nth closes (i - 1))
      in Math_max tr1 (Math_max tr2 tr3))"

definition plus_dm :: "jsnum list \<Rightarrow> jsnum list \<Rightarrow> nat \<Rightarrow> jsnum" where
  "plus_dm highs lows i =
     (let upMove = js_nth highs i - js_nth highs (i - 1);
          downMove = js_nth lows (i - 1) - js_nth lows i
      in if downMove < upMove \<and> 0 < upMove then upMove else 0)"

definition minus_dm :: "jsnum list \<Rightarrow> jsnum list \<Rightarrow> nat \<Rightarrow> jsnum" where
  "minus_dm highs lows i =
     (let upMove = js_nth highs i - js_nth highs (i - 1);
          downMove = js_nth lows (i - 1) - js_nth lows i
      in if upMove < downMove \<and> 0 < downMove then downMove else 0)"

definition smoothed_body :: "jsnum list \<Rightarrow> nat \<Rightarrow> jsnum \<Rightarrow> nat \<Rightarrow> jsnum \<times> jsnum" where
  "smoothed_body data period prev i =
     (let v = (prev * (jsn period - 1) + js_nth data i) / jsn period in (v, v))"

definition calculateSmoothedAverage :: "jsnum list \<Rightarrow> nat \<Rightarrow> jsnum list" where
  "calculateSmoothedAverage data period =
     (let firstValue = js_sum (js_slice data 0 (int period)) / jsn period
      in firstValue # for_push (smoothed_body data period) firstValue [period..<length data])"

definition directional_index :: "jsnum list \<Rightarrow> jsnum list \<Rightarrow> nat \<Rightarrow> jsnum" where
  "directional_index smoothedDM smoothedTR i = js_nth smoothedDM i / js_nth smoothedTR i * 100"

definition dx_value :: "jsnum list \<Rightarrow> jsnum list \<Rightarrow> nat \<Rightarrow> jsnum" where
  "dx_value plusDI minusDI i =
     Math_abs (js_nth plusDI i - js_nth minusDI i) / (js_nth plusDI i + js_nth minusDI i) * 100"

definition adx_dx :: "jsnum list \<Rightarrow> jsnum list \<Rightarrow> jsnum list \<Rightarrow> nat \<Rightarrow> jsnum list" where
  "adx_dx highs lows closes period =
     (let tr = map (true_range highs lows closes) [1..<length closes];
          plusDM = map (plus_dm highs lows) [1..<length closes];
          minusDM = map (minus_dm highs lows) [1..<length closes];
          smoothedTR = calculateSmoothedAverage tr period;
          smoothedPlusDM = calculateSmoothedAverage plusDM period;
          smoothedMinusDM = calculateSmoothedAverage minusDM period;
          plusDI = map (directional_index smoothedPlusDM smoothedTR) [0..<length smoothedTR];
          minusDI = map (directional_index smoothedMinusDM smoothedTR) [0..<length smoothedTR]
      in map (dx_value plusDI minusDI) [0..<length plusDI])"

definition calculateADX :: "jsnum list \<Rightarrow> jsnum list \<Rightarrow> jsnum list \<Rightarrow> nat \<Rightarrow> jsnum list" where
  "calculateADX highs lows closes period =
     (let dx = adx_dx highs lows closes period;
          result = replicate (period * 2 - 1) NaN;
          adx = js_sum (js_slice dx 0 (int period)) / jsn period
      in result @ [adx] @ for_push (smoothed_body dx period) adx [period..<length dx])"

lemmas [js_defs] = true_range_def plus_dm_def minus_dm_def smoothed_body_def
  calculateSmoothedAverage_def directional_index_def dx_value_def adx_dx_def calculateADX_def

text \<open>What a directional index can be on finite bars: a number that is not
  negative, \<open>+\<infinity>\<close> (a movement over a true range of 0) or \<open>NaN\<close>.\<close>

fun di_ok :: "jsnum \<Rightarrow> bool" where
  "di_ok (Fin r) \<longleftrightarrow> 0 \<le> r"
| "di_ok NInf \<longleftrightarrow> False"
| "di_ok _ \<longleftrightarrow> True"

section \<open>Lengths\<close>

lemma length_calculateSmoothedAverage [simp]:
  "length (calculateSmoothedAverage data period) = Suc (length data - period)"
  by (simp add: calculateSmoothedAverage_def Let_def)

lemma length_adx_dx [simp]:
  "length (adx_dx highs lows closes period) = Suc (length closes - 1 - period)"
  by (simp add: adx_dx_def Let_def)

lemma length_calculateADX:
  "0 < period \<Longrightarrow> length (calculateADX highs lows closes period) = max (length closes) (2 * period)"
  by (auto simp: calculateADX_def Let_def)

lemma calculateADX_tail:
  "calculateADX highs lows closes period =
     replicate (period * 2 - 1) NaN @
       (js_sum (js_slice (adx_dx highs lows closes period) 0 (int period)) / jsn period
        # for_push (smoothed_body (adx_dx highs lows closes period) period)
            (js_sum (js_slice (adx_dx highs lows closes period) 0 (int period)) / jsn period)
            [period..<length (adx_dx highs lows closes period)])"
  by (simp add: calculateADX_def Let_def del: upt_Suc length_adx_dx)

section \<open>The range on finite bars\<close>

lemma smoothed_nonneg:
  assumes "list_all fin_nonneg data" "0 < period"
  shows "list_all fin_nonneg (calculateSmoothedAverage data period)"
proof -
  let ?s = "js_sum (js_slice data 0 (int period)) / jsn period"
  from assms have s: "fin_nonneg ?s" by (simp add: rsi_seed_nonneg)
  have "fin_nonneg (snd (smoothed_body data period t i))" "fin_nonneg (fst (smoothed_body data period t i))"
    if "fin_nonneg t" "i \<in> set [period..<length data]" for t i
    using that assms by (simp_all add: smoothed_body_def Let_def wilder_nonneg list_all_length)
  with s have "list_all fin_nonneg (for_push (smoothed_body data period) ?s [period..<length data])"
    by (intro for_push_invariant [where P = fin_nonneg]) simp_all
  with s show ?thesis by (simp add: calculateSmoothedAverage_def Let_def)
qed

lemma di_ok_ratio: "fin_nonneg a \<Longrightarrow> fin_nonneg t \<Longrightarrow> di_ok (a / t * Fin 100)"
  by (cases a; cases t) (auto simp: signed_inf_def)

lemma dx_range: "di_ok p \<Longrightarrow> di_ok m \<Longrightarrow> nan_or_between 0 100 (Math_abs (p - m) / (p + m) * Fin 100)"
proof (cases p; cases m)
  fix a b
  assume *: "p = Fin a" "m = Fin b" and "di_ok p" "di_ok m"
  then have nn: "0 \<le> a" "0 \<le> b" by simp_all
  show ?thesis
  proof (cases "a + b = 0")
    case True
    with nn have "a = 0" "b = 0" by (simp_all add: add_nonneg_eq_0_iff)
    with * show ?thesis by simp
  next
    case False
    with nn have "0 < a + b" "\<bar>a - b\<bar> \<le> a + b" by simp_all
    then have "\<bar>a - b\<bar> / (a + b) * 100 \<le> 100" "0 \<le> \<bar>a - b\<bar> / (a + b) * 100"
      by (simp_all add: divide_le_eq)
    with False * show ?thesis by simp
  qed
qed (auto simp: signed_inf_def)

lemma nan_or_between_seed:
  assumes "list_all (nan_or_between 0 b) xs" "0 < period" "0 \<le> b"
  shows "nan_or_between 0 b (js_sum (take period xs) / jsn period)"
proof -
  from assms(1) have "list_all (nan_or_between 0 b) (take period xs)"
    by (auto simp: list_all_iff dest: in_set_takeD)
  then have "nan_or_between 0 (real (length (take period xs)) * b) (js_sum (take period xs))"
    using assms(3) by (rule nan_or_between_sum)
  moreover have "real (length (take period xs)) * b \<le> real period * b"
    using assms(3) by (intro mult_right_mono) simp_all
  ultimately show ?thesis
    using assms(2) by (cases "js_sum (take period xs)") (simp_all add: jsn_def divide_le_eq mult.commute)
qed

lemma nan_or_between_wilder:
  assumes "nan_or_between 0 b a" "nan_or_between 0 b x" "0 < period"
  shows "nan_or_between 0 b ((a * (jsn period - Fin 1) + x) / jsn period)"
proof (cases a; cases x)
  fix r v
  assume *: "a = Fin r" "x = Fin v"
  with assms have "r * (real period - 1) \<le> b * (real period - 1)" "0 \<le> r * (real period - 1)"
    by (simp_all add: mult_right_mono)
  with * assms show ?thesis
    by (simp add: jsn_def divide_le_eq algebra_simps)
qed (use assms in \<open>simp_all add: jsn_def\<close>)

lemma movement_nonneg:
  assumes "length hs = n" "length ls = n" "length cs = n"
  shows "list_all fin_nonneg (map (true_range (map Fin hs) (map Fin ls) (map Fin cs)) [1..<n])"
    "list_all fin_nonneg (map (plus_dm (map Fin hs) (map Fin ls)) [1..<n])"
    "list_all fin_nonneg (map (minus_dm (map Fin hs) (map Fin ls)) [1..<n])"
  using assms
  by (auto simp: list_all_iff true_range_def plus_dm_def minus_dm_def Let_def le_max_iff_disj)

lemma di_values_ok:
  "list_all fin_nonneg dm \<Longrightarrow> list_all fin_nonneg tr \<Longrightarrow> length dm = length tr \<Longrightarrow>
     list_all di_ok (map (directional_index dm tr) [0..<length tr])"
  by (simp add: list_all_length directional_index_def di_ok_ratio)

lemma dx_values_range:
  "list_all di_ok ps \<Longrightarrow> list_all di_ok ms \<Longrightarrow> length ms = length ps \<Longrightarrow>
     list_all (nan_or_between 0 100) (map (dx_value ps ms) [0..<length ps])"
  by (simp add: list_all_length dx_value_def dx_range)

lemma adx_dx_range:
  assumes "length hs = length cs" "length ls = length cs" "0 < period"
  shows "list_all (nan_or_between 0 100)
           (adx_dx (map Fin hs) (map Fin ls) (map Fin cs) period)"
  unfolding adx_dx_def Let_def
  by (intro dx_values_range di_values_ok smoothed_nonneg movement_nonneg)
    (simp_all add: assms)

lemma adx_range_lemma:
  assumes "list_all (nan_or_between 0 100) dx" "0 < period"
  shows "list_all (nan_or_between 0 100)
     (js_sum (js_slice dx 0 (int period)) / jsn period
        # for_push (smoothed_body dx period) (js_sum (js_slice dx 0 (int period)) / jsn period)
            [period..<length dx])"
proof -
  let ?s = "js_sum (js_slice dx 0 (int period)) / jsn period"
  from assms have s: "nan_or_between 0 100 ?s" by (simp add: nan_or_between_seed)
  have "nan_or_between 0 100 (snd (smoothed_body dx period t i))"
    "nan_or_between 0 100 (fst (smoothed_body dx period t i))" if "nan_or_between 0 100 t" for t i
    using that assms
    by (simp_all add: smoothed_body_def Let_def nan_or_between_wilder nan_or_between_nth)
  with s have "list_all (nan_or_between 0 100) (for_push (smoothed_body dx period) ?s [period..<length dx])"
    by (intro for_push_invariant [where P = "nan_or_between 0 100"]) simp_all
  with s show ?thesis by simp
qed

section \<open>Bars that do not move\<close>

lemma smoothed_zero:
  assumes "0 < period"
  shows "list_all (\<lambda>x. x = Fin 0) (calculateSmoothedAverage (replicate m (Fin 0)) period)"
proof -
  let ?d = "replicate m (Fin 0)"
  from assms have s: "js_sum (js_slice ?d 0 (int period)) / jsn period = Fin 0"
    by (simp add: jsn_def)
  have "snd (smoothed_body ?d period (Fin 0) i) = Fin 0" "fst (smoothed_body ?d period (Fin 0) i) = Fin 0"
    if "i \<in> set [period..<length ?d]" for i
    using that assms by (simp_all add: smoothed_body_def Let_def jsn_def)
  then have "list_all (\<lambda>x. x = Fin 0) (for_push (smoothed_body ?d period) (Fin 0) [period..<length ?d])"
    by (intro for_push_invariant [where P = "\<lambda>x. x = Fin 0"]) simp_all
  with s show ?thesis by (simp add: calculateSmoothedAverage_def Let_def del: js_slice_nat js_slice_0)
qed

lemma movement_flat:
  "map (true_range (replicate n (Fin c)) (replicate n (Fin c)) (replicate n (Fin c))) [1..<n]
     = replicate (n - 1) (Fin 0)"
  "map (plus_dm (replicate n (Fin c)) (replicate n (Fin c))) [1..<n] = replicate (n - 1) (Fin 0)"
  "map (minus_dm (replicate n (Fin c)) (replicate n (Fin c))) [1..<n] = replicate (n - 1) (Fin 0)"
  by (intro nth_equalityI; simp add: true_range_def plus_dm_def minus_dm_def)+

lemma adx_dx_flat:
  assumes "0 < period"
  shows "list_all (\<lambda>x. x = NaN)
     (adx_dx (replicate n (Fin c)) (replicate n (Fin c)) (replicate n (Fin c)) period)"
proof -
  let ?z = "calculateSmoothedAverage (replicate (n - 1) (Fin 0)) period"
  from assms obtain k where z: "?z = replicate k (Fin 0)"
    using all_eq_replicate [OF smoothed_zero] by blast
  have "directional_index (replicate k (Fin 0)) (replicate k (Fin 0)) i = NaN" if "i < k" for i
    using that by (simp add: directional_index_def)
  then show ?thesis
    unfolding adx_dx_def Let_def length_replicate movement_flat z
    by (simp add: list_all_length dx_value_def)
qed

lemma adx_all_NaN:
  assumes "list_all (\<lambda>x. x = NaN) dx" "dx \<noteq> []" "0 < period"
  shows "list_all (\<lambda>x. x = NaN)
     (js_sum (js_slice dx 0 (int period)) / jsn period
        # for_push (smoothed_body dx period) (js_sum (js_slice dx 0 (int period)) / jsn period)
            [period..<length dx])"
proof -
  from assms have "NaN \<in> set (take period dx)"
    by (cases dx; cases period) simp_all
  then have s: "js_sum (js_slice dx 0 (int period)) / jsn period = NaN"
    by (simp add: js_sum_NaN)
  have "list_all (\<lambda>x. x = NaN) (for_push (smoothed_body dx period) NaN [period..<length dx])"
    by (intro for_push_invariant [where P = "\<lambda>x. x = NaN"]) (simp_all add: smoothed_body_def)
  with s show ?thesis by simp
qed

section \<open>Claims\<close>

text \<open>On finite bars every value of the average directional index is
  \<open>NaN\<close> or a number between 0 and 100.\<close>

lemma calculateADX_range:
  assumes "length hs = length cs" "length ls = length cs" "0 < period"
  shows "list_all (nan_or_between 0 100)
           (calculateADX (map Fin hs) (map Fin ls) (map Fin cs) period)"
  using adx_range_lemma [OF adx_dx_range [OF assms] assms(3)]
  by (auto simp: calculateADX_def Let_def list_all_iff simp del: upt_Suc length_adx_dx)

text \<open>C10: on bars that do not move the average directional index is \<open>NaN\<close>
  everywhere: the directional indices divide 0 by 0, and nothing replaces the
  divisor.\<close>

theorem calculateADX_flat:
  assumes "0 < period"
  shows "calculateADX (replicate n (Fin c)) (replicate n (Fin c)) (replicate n (Fin c)) period
           = replicate (max n (2 * period)) NaN"
proof -
  let ?dx = "adx_dx (replicate n (Fin c)) (replicate n (Fin c)) (replicate n (Fin c)) period"
  let ?adx = "calculateADX (replicate n (Fin c)) (replicate n (Fin c)) (replicate n (Fin c)) period"
  have "length ?dx \<noteq> 0" by simp
  then have "?dx \<noteq> []" by (simp only: length_0_conv not_False_eq_True)
  with adx_dx_flat [OF assms] have "list_all (\<lambda>x. x = NaN) ?adx"
    unfolding calculateADX_tail list_all_append
    by (intro conjI adx_all_NaN assms) (simp add: list_all_iff)
  then have "?adx = replicate (length ?adx) NaN" by (rule all_eq_replicate)
  then show ?thesis by (simp only: length_calculateADX [OF assms] length_replicate)
qed

theorem calculateADX_flat_witness:
  "calculateADX (replicate 5 (Fin 7)) (replicate 5 (Fin 7)) (replicate 5 (Fin 7)) 2
     = replicate 5 NaN"
  using calculateADX_flat [of 2 5 7] by simp

end
