(* ===== verification/Stock_Data.thy ===== *)
theory Stock_Data
  imports JS_Array
begin

text \<open>
  The input of both engines: the daily bar \<^verbatim>\<open>StockTimeSeriesData\<close> of \<^verbatim>\<open>api.ts\<close>, a
  record of a date and five numbers. A series is a list of bars, oldest first.
  The engines read it only through the projections below (the
  \<^verbatim>\<open>stockData.map(item => item.close)\<close> of the source).
\<close>

record StockTimeSeriesData =
  date :: string
  "open" :: jsnum
  high :: jsnum
  low :: jsnum
  close :: jsnum
  volume :: jsnum

text \<open>A bar whose five numbers are finite, and a series of such bars.\<close>

definition finite_bar :: "StockTimeSeriesData \<Rightarrow> bool" where
  "finite_bar b \<longleftrightarrow>
     is_Fin (open b) \<and> is_Fin (high b) \<and> is_Fin (low b) \<and> is_Fin (close b) \<and> is_Fin (volume b)"

text \<open>A bar whose four prices are in order: the low is at most the open and
  the close, which are at most the high.\<close>

definition bar_ordered :: "StockTimeSeriesData \<Rightarrow> bool" where
  "bar_ordered b \<longleftrightarrow> low b \<le> open b \<and> low b \<le> close b \<and> open b \<le> high b \<and> close b \<le> high b"

text \<open>The bar of a day on which the price did not move: all four prices are \<open>p\<close>.\<close>

definition flat_bar :: "string \<Rightarrow> real \<Rightarrow> StockTimeSeriesData" where
  "flat_bar d p =
     \<lparr>date = d, open = Fin p, high = Fin p, low = Fin p, close = Fin p, volume = Fin 0\<rparr>"

text \<open>The series of flat bars with the given closing prices.\<close>

definition closing_series :: "real list \<Rightarrow> StockTimeSeriesData list" where
  "closing_series ps = map (flat_bar []) ps"

lemma flat_bar_simps [simp]:
  "date (flat_bar d p) = d" "open (flat_bar d p) = Fin p" "high (flat_bar d p) = Fin p"
  "low (flat_bar d p) = Fin p" "close (flat_bar d p) = Fin p" "volume (flat_bar d p) = Fin 0"
  by (simp_all add: flat_bar_def)

lemma finite_flat_bar [simp]: "finite_bar (flat_bar d p)"
  by (simp add: finite_bar_def)

lemma closing_series_simps [simp]:
  "length (closing_series ps) = length ps"
  "map close (closing_series ps) = map Fin ps"
  "map high (closing_series ps) = map Fin ps"
  "map low (closing_series ps) = map Fin ps"
  by (simp_all add: closing_series_def o_def)

lemma finite_series_highs_lows:
  assumes "list_all finite_bar bars"
  shows "\<exists>hs ls. map high bars = map Fin hs \<and> map low bars = map Fin ls"
proof -
  from assms have "list_all is_Fin (map high bars)" "list_all is_Fin (map low bars)"
    by (simp_all add: list_all_iff finite_bar_def)
  then show ?thesis by (blast dest: list_all_is_Fin_ex)
qed

lemma finite_series_closes:
  assumes "list_all finite_bar bars"
  shows "\<exists>rs. map close bars = map Fin rs"
proof -
  from assms have "list_all is_Fin (map close bars)"
    by (simp add: list_all_iff finite_bar_def)
  then show ?thesis by (rule list_all_is_Fin_ex)
qed

end
