(* ===== verification/Indicator_Engine.thy ===== *)
theory Indicator_Engine
  imports Parabolic_SAR Stock_Data
begin

text \<open>
  The entry point of the indicator engine: \<^verbatim>\<open>calculateAllIndicators\<close> of
  \<^verbatim>\<open>technical-indicators.ts\<close> and its result \<^verbatim>\<open>TechnicalIndicators\<close>. It projects
  the bars to their closes, highs, lows, volumes and dates and calls each
  indicator with the default arguments of the source: the periods 20 for the
  two averages, 12, 26 and 9 for the MACD, 14 for the strength index, 20 and
  the multiplier 2 for the bands, 14 for the directional index, and the steps
  0.02 and 0.2 for the tracker.

  The lemma: the lengths of the arrays of the result. They are those of the
  bars, except that the strength index has at least 15 values, the
  directional index at least 28 and the tracker at least one.

  \<open>volumes'\<close> and \<open>dates'\<close> stand for the local variables \<^verbatim>\<open>volumes\<close> and
  \<^verbatim>\<open>dates\<close>, whose names are those of fields of the result.
\<close>

record TechnicalIndicators =
  sma :: "jsnum list"
  ema :: "jsnum list"
  macd :: macd_result
  rsi :: "jsnum list"
  bollingerBands :: bollinger_bands
  volumes :: "jsnum list"
  dates :: "string list"
  adx :: "jsnum list"
  parabolicSAR :: "jsnum list"

definition calculateAllIndicators :: "StockTimeSeriesData list \<Rightarrow> TechnicalIndicators" where
  "calculateAllIndicators stockData =
     (let prices = map close stockData;
          highs = map high stockData;
          lows = map low stockData;
          volumes' = map volume stockData;
          dates' = map date stockData
      in \<lparr>sma = calculateSMA prices 20,
          ema = calculateEMA prices 20,
          macd = calculateMACD prices 12 26 9,
          rsi = calculateRSI prices 14,
          bollingerBands = calculateBollingerBands prices 20 2,
          volumes = volumes',
          dates = dates',
          adx = calculateADX highs lows prices 14,
          parabolicSAR = calculateParabolicSAR highs lows prices 0.02 0.2\<rparr>)"

section \<open>Claims\<close>

text \<open>C32: the arrays of the result have the length of the bars, except the
  strength index, which has 15 values on fewer than 15 bars, the directional
  index, which has 28 values on fewer than 28 bars, and the tracker, which has
  one value on no bars. From 28 bars on all arrays are aligned with the
  bars.\<close>

theorem calculateAllIndicators_lengths:
  "length (sma (calculateAllIndicators bars)) = length bars \<and>
   length (ema (calculateAllIndicators bars)) = length bars \<and>
   length (line (macd (calculateAllIndicators bars))) = length bars \<and>
   length (signal (macd (calculateAllIndicators bars))) = length bars \<and>
   length (histogram (macd (calculateAllIndicators bars))) = length bars \<and>
   length (upper (bollingerBands (calculateAllIndicators bars))) = length bars \<and>
   length (middle (bollingerBands (calculateAllIndicators bars))) = length bars \<and>
   length (lower (bollingerBands (calculateAllIndicators bars))) = length bars \<and>
   length (volumes (calculateAllIndicators bars)) = length bars \<and>
   length (dates (calculateAllIndicators bars)) = length bars \<and>
   length (rsi (calculateAllIndicators bars)) = max (length bars) 15 \<and>
   length (adx (calculateAllIndicators bars)) = max (length bars) 28 \<and>
   length (parabolicSAR (calculateAllIndicators bars)) = max 1 (length bars)"
  by (simp add: calculateAllIndicators_def Let_def length_calculateRSI length_calculateADX
      length_calculateParabolicSAR bollinger_fields)

end
