(* ===== verification/Regression.thy ===== *)
theory Regression
  imports JS_Array
begin

text \<open>
  The two numerical routines of the forecast engine (\<^verbatim>\<open>prediction.ts\<close>).

  \<^item> \<open>linearRegression\<close>: the least-squares line through the points
    \<open>(xValues[i], yValues[i])\<close>, evaluated at \<open>predict\<close>. The loop of the source
    adds into four accumulators from left to right; the model takes the four
    sums with \<open>js_sum\<close> over the same indices. An index past the end of
    \<open>yValues\<close> reads \<^verbatim>\<open>undefined\<close> and makes the sums \<open>NaN\<close>.
  \<^item> \<open>arimaInspiredPrediction\<close>: the autoregression on first differences. The
    source pushes each forecast onto the array it was given, so the caller's
    array changes: the model returns the forecasts and the array after the
    call. \<open>arima_step\<close> is one iteration of the loop over the carried pair
    (the differences, the array) and \<open>next_diff\<close> the regression it runs on the
    last \<open>window\<close> differences.

  The specification of the regression on reals is \<open>ls_predict\<close>; the model
  refines it on finite input when the least-squares denominator
  \<open>ls_denominator\<close> is not zero, and recovers an affine series exactly. For the
  autoregression the lemmas give the array after the call (the input followed
  by the forecasts), the first forecast, and every later one: the source
  reads \<^verbatim>\<open>data[data.length - 1 + i]\<close> after \<open>i\<close> pushes have already moved the
  end of the array, so for \<open>i > 0\<close> the read is past the end and the forecast
  is \<open>NaN\<close>.
\<close>

section \<open>Linear regression\<close>

definition linearRegression :: "jsnum list \<Rightarrow> jsnum list \<Rightarrow> jsnum \<Rightarrow> jsnum" where
  "linearRegression xValues yValues predict =
     (let n = length xValues;
          sumX = js_sum (map (\<lambda>i. js_nth xValues i) [0..<n]);
          sumY = js_sum (map (\<lambda>i. js_nth yValues i) [0..<n]);
          sumXY = js_sum (map (\<lambda>i. js_nth xValues i * js_nth yValues i) [0..<n]);
          sumXX = js_sum (map (\<lambda>i. js_nth xValues i * js_nth xValues i) [0..<n]);
          slope = (jsn n * sumXY - sumX * sumY) / (jsn n * sumXX - sumX * sumX);
          intercept = (sumY - slope * sumX) / jsn n
      in slope * predict + intercept)"

text \<open>The specification: the least-squares prediction on reals.\<close>

definition ls_denominator :: "real list \<Rightarrow> real" where
  "ls_denominator xs =
     real (length xs) * sum_list (map (\<lambda>x. x * x) xs) - sum_list xs * sum_list xs"

definition ls_predict :: "real list \<Rightarrow> real list \<Rightarrow> real \<Rightarrow> real" where
  "ls_predict xs ys p =
     (let n = real (length xs);
          slope = (n * sum_list (map2 (*) xs ys) - sum_list xs * sum_list ys) / ls_denominator xs
      in slope * p + (sum_list ys - slope * sum_list xs) / n)"

section \<open>Autoregression on first differences\<close>

definition next_diff :: "nat \<Rightarrow> jsnum list \<Rightarrow> jsnum" where
  "next_diff window differenced =
     (let xValues = map jsn [1..<window + 1];
          startIdx = int (length differenced) - int window;
          yValues = js_slice_from differenced startIdx
      in linearRegression xValues yValues (jsn (window + 1)))"

definition arima_step ::
  "nat \<Rightarrow> jsnum list \<times> jsnum list \<Rightarrow> nat \<Rightarrow> jsnum \<times> jsnum list \<times> jsnum list" where
  "arima_step window st i =
     (let differenced = fst st; data = snd st;
          nextDiff = next_diff window differenced;
          nextVal = js_at data (int (length data) - 1 + int i) + nextDiff
      in (nextVal, differenced @ [nextDiff], data @ [nextVal]))"

definition arimaInspiredPrediction :: "jsnum list \<Rightarrow> nat \<Rightarrow> jsnum list \<times> jsnum list" where
  "arimaInspiredPrediction data daysToPredict =
     (let window = 5;
          differenced = map (\<lambda>i. js_nth data i - js_nth data (i - 1)) [1..<length data]
      in (for_push (arima_step window) (differenced, data) [0..<daysToPredict],
          snd (for_state (arima_step window) (differenced, data) [0..<daysToPredict])))"

lemmas [js_defs] = linearRegression_def next_diff_def arima_step_def arimaInspiredPrediction_def

section \<open>The regression refines least squares\<close>

lemma regression_sums_Fin:
  assumes "length ys = length xs"
  shows "js_sum (map (js_nth (map Fin ys)) [0..<length xs]) = Fin (sum_list ys)"
    and "js_sum (map (\<lambda>i. js_nth (map Fin xs) i * js_nth (map Fin ys) i) [0..<length xs])
           = Fin (sum_list (map2 (*) xs ys))"
proof -
  from assms have "map (js_nth (map Fin ys)) [0..<length xs] = map Fin ys"
    using map_js_nth_upt [of "map Fin ys"] by simp
  then show "js_sum (map (js_nth (map Fin ys)) [0..<length xs]) = Fin (sum_list ys)"
    by (simp only: js_sum_Fin)
  from assms have "map (\<lambda>i. js_nth (map Fin xs) i * js_nth (map Fin ys) i) [0..<length xs]
      = map Fin (map2 (*) xs ys)"
    using map_js_nth_times [of "map Fin ys" "map Fin xs"] by (simp add: map2_times_Fin)
  then show "js_sum (map (\<lambda>i. js_nth (map Fin xs) i * js_nth (map Fin ys) i) [0..<length xs])
           = Fin (sum_list (map2 (*) xs ys))"
    by (simp only: js_sum_Fin)
qed

lemma linearRegression_Fin:
  assumes "length ys = length xs" "ls_denominator xs \<noteq> 0" "xs \<noteq> []"
  shows "linearRegression (map Fin xs) (map Fin ys) (Fin p) = Fin (ls_predict xs ys p)"
  using assms regression_sums_Fin [of ys xs] regression_sums_Fin [of xs xs]
  by (simp add: linearRegression_def Let_def ls_predict_def ls_denominator_def jsn_def)

lemma sum_list_affine:
  "sum_list (map (\<lambda>x. a + b * x) xs) = real (length xs) * a + b * sum_list xs"
  by (induction xs) (simp_all add: algebra_simps)

lemma sum_list_affine_mult:
  "sum_list (map2 (*) xs (map (\<lambda>x. a + b * x) xs)) =
     a * sum_list xs + b * sum_list (map (\<lambda>x. x * x) xs)" for xs :: "real list"
  by (induction xs) (simp_all add: algebra_simps)

lemma ls_predict_affine:
  assumes "ls_denominator xs \<noteq> 0" "xs \<noteq> []"
  shows "ls_predict xs (map (\<lambda>x. a + b * x) xs) p = a + b * p"
proof -
  let ?n = "real (length xs)"
  let ?D = "ls_denominator xs"
  have "?n * sum_list (map2 (*) xs (map (\<lambda>x. a + b * x) xs))
          - sum_list xs * sum_list (map (\<lambda>x. a + b * x) xs) = b * ?D"
    unfolding sum_list_affine sum_list_affine_mult ls_denominator_def
    by (simp add: algebra_simps)
  with assms show ?thesis
    by (simp add: ls_predict_def Let_def sum_list_affine)
qed

text \<open>The abscissae of the two call sites, \<open>1, \<dots>, 5\<close> and \<open>1, \<dots>, 20\<close>.\<close>

lemma ls_denominator_5: "ls_denominator (map real [1..<6]) = 50"
  by (simp add: ls_denominator_def upt_rec)

lemma ls_denominator_20: "ls_denominator (map real [1..<21]) = 13300"
  by (simp add: ls_denominator_def upt_rec)

lemma map_jsn: "map jsn ns = map Fin (map real ns)"
  by (simp add: jsn_def)

section \<open>The array and the forecasts after the autoregression\<close>

lemma arima_step_simps [simp]:
  "fst (arima_step w st i) =
     js_at (snd st) (int (length (snd st)) - 1 + int i) + next_diff w (fst st)"
  "fst (snd (arima_step w st i)) = fst st @ [next_diff w (fst st)]"
  "snd (snd (arima_step w st i)) = snd st @ [fst (arima_step w st i)]"
  by (simp_all add: arima_step_def Let_def)

lemma arima_state_data:
  "snd (for_state (arima_step w) (d, data) [0..<k]) =
     data @ for_push (arima_step w) (d, data) [0..<k]"
  by (induction k) simp_all

lemma arima_state_length:
  "length (snd (for_state (arima_step w) (d, data) [0..<k])) = length data + k"
  by (simp add: arima_state_data)

lemma arima_push_later:
  assumes "0 < i" "i < k"
  shows "for_push (arima_step w) (d, data) [0..<k] ! i = NaN"
proof -
  let ?st = "for_state (arima_step w) (d, data) [0..<i]"
  have "int (length (snd ?st)) \<le> int (length (snd ?st)) - 1 + int i"
    using assms by simp
  then have "js_at (snd ?st) (int (length (snd ?st)) - 1 + int i) = NaN"
    by (rule js_at_out)
  with assms show ?thesis
    by (simp add: nth_for_push)
qed

lemma arima_push_first:
  "0 < k \<Longrightarrow> data \<noteq> [] \<Longrightarrow>
     for_push (arima_step w) (d, data) [0..<k] ! 0 = last data + next_diff w d"
  by (simp add: nth_for_push js_at_def last_conv_nth nat_diff_distrib')

lemma length_arima [simp]:
  "length (fst (arimaInspiredPrediction data days)) = days"
  "length (snd (arimaInspiredPrediction data days)) = length data + days"
  by (simp_all add: arimaInspiredPrediction_def Let_def arima_state_length)

lemma arima_first:
  "0 < days \<Longrightarrow> data \<noteq> [] \<Longrightarrow>
     fst (arimaInspiredPrediction data days) ! 0 =
       last data + next_diff 5 (map (\<lambda>i. js_nth data i - js_nth data (i - 1)) [1..<length data])"
  by (simp add: arimaInspiredPrediction_def Let_def arima_push_first)

lemma linearRegression_line:
  assumes "ls_denominator xs \<noteq> 0" and "xs \<noteq> []"
  shows "linearRegression (map Fin xs) (map Fin (map (\<lambda>x. a + b * x) xs)) (Fin p)
           = Fin (a + b * p)"
  using assms linearRegression_Fin [of "map (\<lambda>x. a + b * x) xs" xs p]
  by (simp add: ls_predict_affine)

lemma arima_later:
  "0 < i \<Longrightarrow> i < days \<Longrightarrow> fst (arimaInspiredPrediction data days) ! i = NaN"
  by (simp add: arimaInspiredPrediction_def Let_def arima_push_later)

lemma arima_data:
  "snd (arimaInspiredPrediction data days) = data @ fst (arimaInspiredPrediction data days)"
  by (simp add: arimaInspiredPrediction_def Let_def arima_state_data)

section \<open>Claims\<close>

text \<open>C25: on finite points that lie on a line \<open>y = a + b x\<close>, whose abscissae are
  not all equal, the regression returns the value of that line at the point
  asked for.\<close>

theorem linearRegression_exact:
  assumes "ls_denominator xs \<noteq> 0" and "xs \<noteq> []"
  shows "linearRegression (map Fin xs) (map Fin (map (\<lambda>x. a + b * x) xs)) (Fin p)
           = Fin (a + b * p)"
  using assms by (rule linearRegression_line)

theorem linearRegression_exact_witness:
  "linearRegression (map Fin [1, 2, 3, 4, 5]) (map Fin [5, 8, 11, 14, 17]) (Fin 6) = Fin 20"
  using linearRegression_exact [of "[1, 2, 3, 4, 5]" 2 3 6]
  by (simp add: ls_denominator_def)

text \<open>C5: in a run of more than one step, every forecast after the first is
  \<open>NaN\<close>, whatever the data: the read \<^verbatim>\<open>data[data.length - 1 + i]\<close> is past the
  end of the array the loop has already extended.\<close>

theorem arima_later_NaN:
  "0 < i \<Longrightarrow> i < days \<Longrightarrow> fst (arimaInspiredPrediction data days) ! i = NaN"
  by (rule arima_later)

theorem arima_later_NaN_witness:
  "fst (arimaInspiredPrediction (map Fin [1, 2, 3, 4, 5, 6, 7]) 3) ! 1 = NaN"
  using arima_later_NaN [of 1 3 "map Fin [1, 2, 3, 4, 5, 6, 7]"] by simp

text \<open>The autoregression changes the array it is given: after the call it
  holds the input followed by the forecasts.\<close>

lemma arima_appends:
  "snd (arimaInspiredPrediction data days) = data @ fst (arimaInspiredPrediction data days)"
  by (rule arima_data)

end
