(* ===== verification/Forecast.thy ===== *)
theory Forecast
  imports Regression Stock_Data
begin

text \<open>
  The forecast engine: \<^verbatim>\<open>predictStockPrices\<close> of \<^verbatim>\<open>prediction.ts\<close> and the functions
  it calls.

  \<^item> \<open>predictStockPrices\<close> returns \<open>Inl InsufficientData\<close> where the source throws
    (fewer than 30 bars) and \<open>Inr\<close> of the result otherwise; \<open>forecast\<close> is the
    body that builds the result, in the order of the source.
  \<^item> The source extracts the closing prices into an array and hands that array
    to \<^verbatim>\<open>arimaInspiredPrediction\<close> twice. Each call pushes its forecasts onto
    it, so the array the later steps read is no longer the input: \<open>forecast\<close>
    names the three versions \<open>closePrices\<close>, \<open>closePrices'\<close> and \<open>closePrices''\<close>.
    The back-fit \<open>backfit\<close> is computed before the calls; the support and
    resistance levels, the trend, the slice \<^verbatim>\<open>actual\<close> that the confidence is
    measured against, and the field \<^verbatim>\<open>actual\<close> of the result are computed after
    them.
  \<^item> \<open>calculateSMA_pred\<close>, \<open>calculateEMA_pred\<close> and \<open>calculateRSI_pred\<close> are the
    private indicator helpers of \<^verbatim>\<open>prediction.ts\<close> (not those of the indicator
    engine, which have the same names in the source). \<open>forecast\<close> computes
    them as the source does; no field of the result depends on them.
  \<^item> \<^verbatim>\<open>null\<close> in the padded arrays is \<open>None\<close>: \<open>predicted\<close> is a list of optional
    numbers.
  \<^item> the names \<open>dates'\<close>, \<open>trend'\<close>, \<open>confidence'\<close> and \<open>actual'\<close> stand for the
    local variables \<^verbatim>\<open>dates\<close>, \<^verbatim>\<open>trend\<close>, \<^verbatim>\<open>confidence\<close> and \<^verbatim>\<open>actual\<close>, whose
    names are those of fields of the result.

  The lemmas are of two kinds. For each function on its own: the confidence
  is never outside \<open>[0, 1]\<close> unless it is \<open>NaN\<close>, is a number in \<open>[0, 1]\<close> on
  finite input and is \<open>1\<close> for a series measured against itself; the trend
  follows the percent change over the last ten values; support is at most
  resistance; the back-fit and the one-day forecast continue a series that
  grows by a constant step. For the pipeline: what the two pushes of the
  autoregression do to the result. The seven-day forecast is \<open>NaN\<close>; the array
  the later steps read ends in \<open>NaN\<close>, so the trend is always \<open>neutral\<close> and the
  confidence always \<open>NaN\<close>; and the field \<open>actual\<close> is eight values longer than
  \<open>dates\<close>.
\<close>

section \<open>Data\<close>

datatype trend = bullish | bearish | neutral

datatype prediction_error = InsufficientData

text \<open>The object \<^verbatim>\<open>{ support, resistance }\<close> that \<^verbatim>\<open>findSupportResistance\<close> returns.\<close>

record support_resistance =
  support :: jsnum
  resistance :: jsnum

section \<open>The indicator helpers of the forecast engine\<close>

definition calculateSMA_pred :: "jsnum list \<Rightarrow> nat \<Rightarrow> jsnum list" where
  "calculateSMA_pred data window =
     map (\<lambda>i. let windowSlice = js_slice data (i - int window + 1) (i + 1)
              in js_sum windowSlice / jsn window)
       [int window - 1 .. int (length data) - 1]"

definition calculateEMA_pred :: "jsnum list \<Rightarrow> nat \<Rightarrow> jsnum list" where
  "calculateEMA_pred data window =
     (let k = 2 / (jsn window + 1)
      in js_nth data 0 #
         for_push (\<lambda>prev i. let v = js_nth data i * k + prev * (1 - k) in (v, v))
           (js_nth data 0) [1..<length data])"

definition calculateRSI_pred :: "jsnum list \<Rightarrow> nat \<Rightarrow> jsnum option list" where
  "calculateRSI_pred data window =
     (let deltas = map (\<lambda>i. js_nth data i - js_nth data (i - 1)) [1..<length data];
          gains = map (\<lambda>d. if 0 < d then d else 0) deltas;
          losses = map (\<lambda>d. if d < 0 then Math_abs d else 0) deltas;
          avgGain = calculateSMA_pred gains window;
          avgLoss = calculateSMA_pred losses window;
          rs = map (\<lambda>i. js_nth avgGain i / js_or (js_nth avgLoss i) 0.001) [0..<length avgGain];
          rsi = map (\<lambda>rs. 100 - 100 / (1 + rs)) rs
      in replicate window None @ map Some rsi)"

section \<open>Levels, trend and confidence\<close>

definition findSupportResistance :: "jsnum list \<Rightarrow> support_resistance" where
  "findSupportResistance data =
     (let sorted = js_sort_by (\<lambda>a b. a - b) data;
          q1Index = Math_floor (jsn (length sorted) * 0.25);
          q3Index = Math_floor (jsn (length sorted) * 0.75)
      in \<lparr>support = js_index sorted q1Index, resistance = js_index sorted q3Index\<rparr>)"

definition determineTrend :: "jsnum list \<Rightarrow> trend" where
  "determineTrend data =
     (let recentDays = 10;
          recent = js_slice_from data (- int recentDays);
          startPrice = js_nth recent 0;
          endPrice = js_at recent (int (length recent) - 1);
          percentChange = (endPrice - startPrice) / startPrice * 100
      in if 3 < percentChange then bullish
         else if percentChange < - 3 then bearish
         else neutral)"

definition calculateConfidence :: "jsnum list \<Rightarrow> jsnum list \<Rightarrow> jsnum" where
  "calculateConfidence actual predicted =
     (if length predicted = 0 \<or> length actual < 10 then 0.5
      else let mse = js_sum (map (\<lambda>i. let error = js_nth predicted i - js_nth actual i
                                       in error * error) [0..<length predicted])
                       / jsn (length predicted);
               maxMSE = Math_pow (js_at actual (int (length actual) - 1) * 0.2) 2
           in Math_max 0 (Math_min 1 (1 - mse / maxMSE)))"

section \<open>The pipeline\<close>

record PredictionResult =
  dates :: "string list"
  actual :: "jsnum list"
  predicted :: "jsnum option list"
  nextDayPrediction :: jsnum
  nextWeekPrediction :: jsnum
  confidence :: jsnum
  trend :: trend
  supportLevel :: jsnum
  resistanceLevel :: jsnum

text \<open>The back-fit: at each index from \<open>trainingWindow\<close> on, the regression over
  the \<open>trainingWindow\<close> closes before it, evaluated one step ahead.\<close>

definition backfit :: "jsnum list \<Rightarrow> nat \<Rightarrow> jsnum list" where
  "backfit closePrices trainingWindow =
     map (\<lambda>i. let trainingData = js_slice closePrices (int i - int trainingWindow) (int i);
                  xValues = map jsn [1..<trainingWindow + 1]
              in linearRegression xValues trainingData (jsn (trainingWindow + 1)))
       [trainingWindow..<length closePrices]"

definition forecast :: "StockTimeSeriesData list \<Rightarrow> PredictionResult" where
  "forecast stockData =
     (let closePrices = map close stockData;
          dates' = map date stockData;
          sma20 = calculateSMA_pred closePrices 20;
          ema12 = calculateEMA_pred closePrices 12;
          ema26 = calculateEMA_pred closePrices 26;
          rsi = calculateRSI_pred closePrices 14;
          macd = map (\<lambda>i. js_nth ema12 i - js_nth ema26 i) [0..<length ema12];
          trainingWindow = 20;
          predictedValues = backfit closePrices trainingWindow;
          predictedValues' = replicate trainingWindow None @ map Some predictedValues;
          run1 = arimaInspiredPrediction closePrices 1;
          nextDay = js_nth (fst run1) 0;
          closePrices' = snd run1;
          run7 = arimaInspiredPrediction closePrices' 7;
          nextWeek = js_nth (fst run7) 6;
          closePrices'' = snd run7;
          sr = findSupportResistance closePrices'';
          trend' = determineTrend closePrices'';
          nonNullPredicted = List.map_filter (\<lambda>p. p) predictedValues';
          actual' = js_slice_from closePrices'' (- int (length nonNullPredicted));
          confidence' = calculateConfidence actual' nonNullPredicted
      in \<lparr>dates = dates', actual = closePrices'', predicted = predictedValues',
           nextDayPrediction = nextDay, nextWeekPrediction = nextWeek,
           confidence = confidence', trend = trend',
           supportLevel = support sr, resistanceLevel = resistance sr\<rparr>)"

definition predictStockPrices :: "StockTimeSeriesData list \<Rightarrow> prediction_error + PredictionResult" where
  "predictStockPrices stockData =
     (if length stockData < 30 then Inl InsufficientData else Inr (forecast stockData))"

lemmas [js_defs] = calculateSMA_pred_def calculateEMA_pred_def calculateRSI_pred_def
  findSupportResistance_def determineTrend_def calculateConfidence_def backfit_def
  forecast_def predictStockPrices_def

text \<open>Series used to state properties: one that grows by the step \<open>d\<close> from \<open>c\<close>,
  and the percent change the trend is decided on.\<close>

definition linear_series :: "real \<Rightarrow> real \<Rightarrow> nat \<Rightarrow> jsnum list" where
  "linear_series c d n = map (\<lambda>i. Fin (c + d * real i)) [0..<n]"

definition percent_change :: "real \<Rightarrow> real \<Rightarrow> real" where
  "percent_change s e = (e - s) / s * 100"

section \<open>The trend\<close>

text \<open>A series that ends in \<open>NaN\<close> has no trend: the percent change is \<open>NaN\<close> and
  both comparisons fail.\<close>

lemma determineTrend_last_NaN:
  assumes "data \<noteq> []" "last data = NaN"
  shows "determineTrend data = neutral"
proof -
  let ?recent = "drop (length data - 10) data"
  from assms have "?recent \<noteq> []" by (cases data) simp_all
  then have "js_at ?recent (int (length ?recent) - 1) = last ?recent"
    by (rule js_at_last)
  also have "\<dots> = NaN" using assms \<open>?recent \<noteq> []\<close> by simp
  finally show ?thesis
    using js_slice_from_neg [of 10 data] by (simp add: determineTrend_def Let_def)
qed

section \<open>The confidence\<close>

lemma calculateConfidence_last_NaN:
  assumes "prd \<noteq> []" "10 \<le> length act" "last act = NaN"
  shows "calculateConfidence act prd = NaN"
proof -
  from assms have "js_at act (int (length act) - 1) = NaN"
    by (cases "act = []") (simp_all add: js_at_last)
  with assms show ?thesis
    by (simp add: calculateConfidence_def Let_def)
qed

lemma clamp01: "Math_max 0 (Math_min 1 x) = NaN \<or>
    (0 \<le> Math_max 0 (Math_min 1 x) \<and> Math_max 0 (Math_min 1 x) \<le> 1)"
  by (cases x) (simp_all add: Math_min_def Math_max_def)

lemma mse_Fin:
  assumes "length ps \<le> length as"
  shows "js_sum (map (\<lambda>i. let error = js_nth (map Fin ps) i - js_nth (map Fin as) i
                          in error * error) [0..<length ps])
           = Fin (sum_list (map2 (\<lambda>p a. (p - a) * (p - a)) ps (take (length ps) as)))"
proof -
  have "map (\<lambda>i. let error = js_nth (map Fin ps) i - js_nth (map Fin as) i in error * error)
          [0..<length ps]
        = map Fin (map2 (\<lambda>p a. (p - a) * (p - a)) ps (take (length ps) as))"
    using assms by (intro nth_equalityI) (simp_all add: Let_def)
  then show ?thesis by (simp only: js_sum_Fin)
qed

section \<open>Support and resistance\<close>

lemma quartile_index [simp]:
  "\<lfloor>real n / 4\<rfloor> = int (n div 4)" "\<lfloor>real n * 3 / 4\<rfloor> = int (3 * n div 4)"
  using floor_divide_of_nat_eq [of n 4] floor_divide_of_nat_eq [of "3 * n" 4]
  by (simp_all add: mult.commute)

lemma findSupportResistance_Fin:
  assumes "rs \<noteq> []"
  shows "findSupportResistance (map Fin rs) =
     \<lparr>support = Fin (sort rs ! (length rs div 4)),
      resistance = Fin (sort rs ! (3 * length rs div 4))\<rparr>"
proof -
  from assms have "length rs div 4 < length rs" "3 * length rs div 4 < length rs"
    by (simp_all add: div_less_iff_less_mult)
  then show ?thesis
    by (simp add: findSupportResistance_def Let_def js_sort_by_minus_Fin js_index_def
        jsn_def js_nth_def)
qed

section \<open>The fields of the result\<close>

lemma map_filter_pad: "List.map_filter (\<lambda>p. p) (replicate n None @ map Some xs) = xs"
  by (induction n) (simp_all add: map_filter_simps map_filter_map_filter List.map_filter_def o_def)

lemma length_backfit [simp]: "length (backfit closes w) = length closes - w"
  by (simp add: backfit_def)

lemma backfit_nth:
  assumes "w \<le> i" "i < length closes"
  shows "backfit closes w ! (i - w) =
     linearRegression (map jsn [1..<w + 1]) (js_slice closes (int i - int w) (int i))
       (jsn (w + 1))"
proof -
  from assms have "[w..<length closes] ! (i - w) = i" "i - w < length [w..<length closes]"
    by simp_all
  then show ?thesis
    by (simp add: backfit_def Let_def del: upt_Suc)
qed

lemma forecast_closes:
  "actual (forecast bars) =
     map close bars @ fst (arimaInspiredPrediction (map close bars) 1)
       @ fst (arimaInspiredPrediction (snd (arimaInspiredPrediction (map close bars) 1)) 7)"
  by (simp add: forecast_def Let_def arima_data)

lemma forecast_actual_last: "last (actual (forecast bars)) = NaN"
proof -
  let ?p7 = "fst (arimaInspiredPrediction (snd (arimaInspiredPrediction (map close bars) 1)) 7)"
  have "?p7 \<noteq> []" using length_arima(1) [of "snd (arimaInspiredPrediction (map close bars) 1)" 7]
    by (metis length_0_conv zero_neq_numeral)
  then have "last (actual (forecast bars)) = last ?p7" by (simp add: forecast_closes)
  also have "\<dots> = ?p7 ! 6" using \<open>?p7 \<noteq> []\<close> by (simp add: last_conv_nth)
  also have "\<dots> = NaN" by (simp add: arima_later)
  finally show ?thesis .
qed

lemma forecast_fields:
  "predicted (forecast bars) = replicate 20 None @ map Some (backfit (map close bars) 20)"
  "dates (forecast bars) = map date bars"
  "trend (forecast bars) = determineTrend (actual (forecast bars))"
  "confidence (forecast bars) =
     calculateConfidence
       (js_slice_from (actual (forecast bars)) (- int (length bars - 20)))
       (backfit (map close bars) 20)"
  by (simp_all add: forecast_def Let_def map_filter_pad)

lemma length_forecast_actual [simp]: "length (actual (forecast bars)) = length bars + 8"
  by (simp add: forecast_closes)

lemma forecast_next: 
  "nextWeekPrediction (forecast bars) = NaN"
  "nextDayPrediction (forecast bars) = js_nth (fst (arimaInspiredPrediction (map close bars) 1)) 0"
  by (simp_all add: forecast_def Let_def arima_later)

lemma forecast_trend_neutral: "trend (forecast bars) = neutral"
proof -
  have "trend (forecast bars) = determineTrend (actual (forecast bars))"
    by (simp add: forecast_def Let_def)
  moreover have "actual (forecast bars) \<noteq> []"
    by (simp add: forecast_closes) (metis length_arima(1) length_0_conv zero_neq_numeral)
  ultimately show ?thesis
    by (simp add: determineTrend_last_NaN forecast_actual_last)
qed

lemma forecast_confidence_NaN:
  assumes "30 \<le> length bars"
  shows "confidence (forecast bars) = NaN"
proof -
  let ?act = "js_slice_from (actual (forecast bars)) (- int (length bars - 20))"
  from assms have "last ?act = NaN" "10 \<le> length ?act"
    by (simp_all add: js_slice_from_eq rel_index_def forecast_actual_last)
  moreover from assms have "backfit (map close bars) 20 \<noteq> []"
    using length_backfit [of "map close bars" 20] by (cases "backfit (map close bars) 20") simp_all
  ultimately show ?thesis
    by (simp add: forecast_fields(4) calculateConfidence_last_NaN)
qed

section \<open>Series that grow by a constant step\<close>

lemma length_linear_series [simp]: "length (linear_series c d n) = n"
  by (simp add: linear_series_def)

lemma nth_linear_series [simp]: "i < n \<Longrightarrow> linear_series c d n ! i = Fin (c + d * real i)"
  by (simp add: linear_series_def)

lemma affine_points:
  "map Fin (map (\<lambda>x. a + b * x) (map real [1..<w + 1]))
     = map (\<lambda>j. Fin (a + b * (real j + 1))) [0..<w]"
proof -
  have "[1..<w + 1] = map Suc [0..<w]"
    by (simp add: map_Suc_upt del: upt_Suc)
  then show ?thesis
    by (simp add: o_def add.commute del: upt_Suc)
qed

lemma linear_window:
  assumes "w \<le> i" "i \<le> n"
  shows "js_slice (linear_series c d n) (int i - int w) (int i)
     = map Fin (map (\<lambda>x. (c + d * (real i - real w - 1)) + d * x) (map real [1..<w + 1]))"
proof -
  from assms have "js_slice (linear_series c d n) (int i - int w) (int i)
      = take w (drop (i - w) (linear_series c d n))"
    using js_slice_nat [of "linear_series c d n" "i - w" i] by (simp add: of_nat_diff)
  also from assms have "\<dots> = map (\<lambda>j. Fin ((c + d * (real i - real w - 1)) + d * (real j + 1))) [0..<w]"
    by (intro nth_equalityI) (simp_all add: algebra_simps of_nat_diff del: upt_Suc)
  finally show ?thesis by (simp only: affine_points)
qed

lemma regression_20:
  "linearRegression (map jsn [1..<21]) (map Fin (map (\<lambda>x. a + b * x) (map real [1..<21]))) (jsn 21)
     = Fin (a + b * 21)"
proof -
  have "ls_denominator (map real [1..<21]) \<noteq> 0" "map real [1..<21] \<noteq> []"
    by (simp_all add: ls_denominator_def upt_rec)
  then have "linearRegression (map Fin (map real [1..<21]))
      (map Fin (map (\<lambda>x. a + b * x) (map real [1..<21]))) (Fin 21) = Fin (a + b * 21)"
    by (rule linearRegression_line)
  then show ?thesis by (simp only: map_jsn jsn_def of_nat_numeral)
qed

lemma regression_5:
  "linearRegression (map jsn [1..<6]) (map Fin (map (\<lambda>x. a + b * x) (map real [1..<6]))) (jsn 6)
     = Fin (a + b * 6)"
proof -
  have "ls_denominator (map real [1..<6]) \<noteq> 0" "map real [1..<6] \<noteq> []"
    by (simp_all add: ls_denominator_def upt_rec)
  then have "linearRegression (map Fin (map real [1..<6]))
      (map Fin (map (\<lambda>x. a + b * x) (map real [1..<6]))) (Fin 6) = Fin (a + b * 6)"
    by (rule linearRegression_line)
  then show ?thesis by (simp only: map_jsn jsn_def of_nat_numeral)
qed

lemma backfit_linear:
  assumes "20 \<le> i" "i < n"
  shows "backfit (linear_series c d n) 20 ! (i - 20) = Fin (c + d * real i)"
proof -
  from assms have "backfit (linear_series c d n) 20 ! (i - 20) =
      linearRegression (map jsn [1..<20 + 1])
        (js_slice (linear_series c d n) (int i - int 20) (int i)) (jsn (20 + 1))"
    by (intro backfit_nth) simp_all
  also from assms have "\<dots> = Fin ((c + d * (real i - real 20 - 1)) + d * 21)"
    using linear_window [of 20 i n c d] regression_20 [of "c + d * (real i - real 20 - 1)" d]
    by simp
  finally show ?thesis by (simp add: algebra_simps)
qed

lemma linear_differences:
  "map (\<lambda>i. js_nth (linear_series c d n) i - js_nth (linear_series c d n) (i - 1)) [1..<n]
     = replicate (n - 1) (Fin d)"
  by (intro nth_equalityI) (simp_all add: algebra_simps of_nat_diff)

lemma last_five:
  assumes "5 \<le> m"
  shows "js_slice_from (replicate m (Fin d)) (int m - int 5)
     = map Fin (map (\<lambda>x. d + 0 * x) (map real [1..<5 + 1]))"
proof -
  from assms have "js_slice_from (replicate m (Fin d)) (int m - int 5) = replicate 5 (Fin d)"
    by (simp add: js_slice_from_eq rel_index_def)
  also have "\<dots> = map (\<lambda>j. Fin (d + 0 * (real j + 1))) [0..<5]"
    by (intro nth_equalityI) simp_all
  finally show ?thesis by (simp only: affine_points)
qed

lemma next_day_linear:
  assumes "6 \<le> n"
  shows "fst (arimaInspiredPrediction (linear_series c d n) 1) ! 0 = Fin (c + d * real n)"
proof -
  from assms have "next_diff 5 (replicate (n - 1) (Fin d)) = Fin d"
    using last_five [of "n - 1" d] regression_5 [of d 0]
    by (simp add: next_diff_def Let_def del: upt_Suc map_map)
  then have nd: "next_diff 5 (map (\<lambda>i. js_nth (linear_series c d n) i
      - js_nth (linear_series c d n) (i - 1)) [1..<length (linear_series c d n)]) = Fin d"
    by (simp only: linear_differences length_linear_series)
  from assms have "linear_series c d n \<noteq> []"
    "last (linear_series c d n) = Fin (c + d * real (n - 1))"
    by (auto simp: linear_series_def last_map)
  with assms show ?thesis
    using arima_first [of 1 "linear_series c d n"] nd
    by (simp add: algebra_simps of_nat_diff)
qed

section \<open>Claims\<close>

text \<open>The pipeline refuses a series of fewer than thirty bars with the
  error \<open>InsufficientData\<close>, and returns a result for every other series.\<close>

lemma predict_insufficient:
  "(predictStockPrices bars = Inl InsufficientData \<longleftrightarrow> length bars < 30) \<and>
   (predictStockPrices bars = Inr (forecast bars) \<longleftrightarrow> 30 \<le> length bars)"
  by (simp add: predictStockPrices_def)

text \<open>C2: the seven-day forecast of every result is \<open>NaN\<close>: it is the seventh
  value of a run of the autoregression, and every value of a run after the
  first is read past the end of the array.\<close>

theorem predict_next_week_NaN:
  "predictStockPrices bars = Inr r \<Longrightarrow> nextWeekPrediction r = NaN"
  by (auto simp: predictStockPrices_def forecast_next split: if_splits)

theorem predict_next_week_NaN_witness:
  "nextWeekPrediction (forecast (closing_series (map real [100..<140]))) = NaN"
  using predict_next_week_NaN
    [of "closing_series (map real [100..<140])" "forecast (closing_series (map real [100..<140]))"]
  by (simp add: predictStockPrices_def)

text \<open>C1: the trend of every result is \<open>neutral\<close>, whatever the prices: it is
  decided on the array of closes after the two runs of the autoregression have
  appended their forecasts to it, and the last of them is \<open>NaN\<close>.\<close>

theorem predict_trend_neutral:
  "predictStockPrices bars = Inr r \<Longrightarrow> trend r = neutral"
  by (auto simp: predictStockPrices_def forecast_trend_neutral split: if_splits)

theorem predict_trend_neutral_witness:
  "trend (forecast (closing_series (map real [100..<140]))) = neutral"
  using predict_trend_neutral
    [of "closing_series (map real [100..<140])" "forecast (closing_series (map real [100..<140]))"]
  by (simp add: predictStockPrices_def)

text \<open>C6: the confidence of every result is \<open>NaN\<close>: the reference error is
  computed from the last element of the extended array of closes, which is
  \<open>NaN\<close>.\<close>

theorem predict_confidence_NaN:
  "predictStockPrices bars = Inr r \<Longrightarrow> confidence r = NaN"
  by (auto simp: predictStockPrices_def forecast_confidence_NaN split: if_splits)

theorem predict_confidence_NaN_witness:
  "confidence (forecast (closing_series (map real [100..<140]))) = NaN"
  using predict_confidence_NaN
    [of "closing_series (map real [100..<140])" "forecast (closing_series (map real [100..<140]))"]
  by (simp add: predictStockPrices_def)

text \<open>C26: the field \<^verbatim>\<open>actual\<close> of a result is not the echo of the closes: it
  holds the closes followed by the eight forecasts of the two runs, so it is
  eight longer than \<^verbatim>\<open>dates\<close>, starts with the closes and ends in \<open>NaN\<close>.\<close>

theorem predict_actual_extended:
  assumes "predictStockPrices bars = Inr r"
  shows "length (actual r) = length (dates r) + 8 \<and>
         take (length bars) (actual r) = map close bars \<and> last (actual r) = NaN"
proof -
  from assms have r: "r = forecast bars"
    by (auto simp: predictStockPrices_def split: if_splits)
  have "take (length bars) (actual (forecast bars)) = map close bars"
    by (simp add: forecast_closes)
  then show ?thesis
    unfolding r by (simp add: forecast_fields(2) forecast_actual_last)
qed

theorem predict_actual_extended_witness:
  "length (actual (forecast (closing_series (map real [100..<140])))) = 48 \<and>
   last (actual (forecast (closing_series (map real [100..<140])))) = NaN"
  using predict_actual_extended
    [of "closing_series (map real [100..<140])" "forecast (closing_series (map real [100..<140]))"]
  by (simp add: predictStockPrices_def forecast_fields(2))

text \<open>C29: on closes that grow by a constant step, the one-day forecast of the
  pipeline continues the line: it is the last close plus the step.\<close>

theorem predict_next_day_linear:
  assumes "predictStockPrices bars = Inr r"
    and "map close bars = linear_series c d (length bars)"
  shows "nextDayPrediction r = Fin (c + d * real (length bars))"
  using assms next_day_linear [of "length bars" c d]
  by (auto simp: predictStockPrices_def forecast_next js_nth_def split: if_splits)

theorem predict_next_day_linear_witness:
  "nextDayPrediction (forecast (closing_series (map (\<lambda>i. 100 + 1 * real i) [0..<40]))) = Fin 140"
  using predict_next_day_linear
    [of "closing_series (map (\<lambda>i. 100 + 1 * real i) [0..<40])"
        "forecast (closing_series (map (\<lambda>i. 100 + 1 * real i) [0..<40]))" 100 1]
  by (simp add: predictStockPrices_def linear_series_def)

text \<open>The back-fit is aligned with the dates: twenty undefined values,
  then one value per later bar; on closes that grow by a constant step the
  value at a bar is the close of that bar.\<close>

lemma predict_backfit_linear:
  assumes "predictStockPrices bars = Inr r"
    and "map close bars = linear_series c d (length bars)"
    and "i < length bars"
  shows "length (predicted r) = length (dates r) \<and>
         predicted r ! i = (if i < 20 then None else Some (close (bars ! i)))"
proof -
  from assms(1) have r: "r = forecast bars" "30 \<le> length bars"
    by (auto simp: predictStockPrices_def split: if_splits)
  from assms(3) have "close (bars ! i) = map close bars ! i" by simp
  with assms(2,3) have c: "close (bars ! i) = Fin (c + d * real i)" by simp
  from assms(2) have "backfit (map close bars) 20 = backfit (linear_series c d (length bars)) 20"
    by simp
  with r assms(3) c show ?thesis
    using backfit_linear [of i "length bars" c d]
    by (simp add: forecast_fields nth_append)
qed

text \<open>The confidence is \<open>NaN\<close> or a number between 0 and 1, for all
  arguments.\<close>

lemma calculateConfidence_range:
  "calculateConfidence act prd = NaN \<or>
     (0 \<le> calculateConfidence act prd \<and> calculateConfidence act prd \<le> 1)"
  using clamp01 by (simp add: calculateConfidence_def Let_def)

text \<open>On finite arguments, with at least ten actual values, at most as
  many predictions as actual values, at least one prediction and a last actual
  value other than zero, the confidence is a finite number between 0 and 1.\<close>

lemma calculateConfidence_finite:
  assumes "ps \<noteq> []" "length ps \<le> length as" "10 \<le> length as" "last as \<noteq> 0"
  shows "\<exists>c. calculateConfidence (map Fin as) (map Fin ps) = Fin c \<and> 0 \<le> c \<and> c \<le> 1"
proof -
  from assms have "as \<noteq> []" by auto
  then have "js_at (map Fin as) (int (length (map Fin as)) - 1) = Fin (last as)"
    using js_at_last [of "map Fin as"] by (simp add: last_map)
  with assms show ?thesis
    using mse_Fin [of ps as]
    by (simp add: calculateConfidence_def Let_def jsn_def del: length_greater_0_conv)
qed

text \<open>The confidence of a finite series of at least ten values against
  itself is 1, when its last value is not zero.\<close>

lemma calculateConfidence_self:
  assumes "10 \<le> length xs" "last xs \<noteq> 0"
  shows "calculateConfidence (map Fin xs) (map Fin xs) = Fin 1"
proof -
  from assms have "xs \<noteq> []" by auto
  then have "js_at (map Fin xs) (int (length (map Fin xs)) - 1) = Fin (last xs)"
    using js_at_last [of "map Fin xs"] by (simp add: last_map)
  moreover have "sum_list (map2 (\<lambda>p a. (p - a) * (p - a)) xs xs) = 0"
    by (simp add: sum_list_0)
  ultimately show ?thesis
    using assms \<open>xs \<noteq> []\<close> mse_Fin [of xs xs]
    by (simp add: calculateConfidence_def Let_def jsn_def del: length_greater_0_conv)
qed

text \<open>With fewer than ten actual values the confidence is 0.5.\<close>

lemma calculateConfidence_default:
  "length act < 10 \<Longrightarrow> calculateConfidence act prd = Fin (1 / 2)"
  by (simp add: calculateConfidence_def)

text \<open>On a finite series of at least ten values, whose value ten places
  before the end is not zero, the trend is decided by the percent change from
  that value to the last: bullish above 3, bearish below -3, neutral
  otherwise.\<close>

lemma determineTrend_finite:
  assumes "10 \<le> length rs" "rs ! (length rs - 10) \<noteq> 0"
  shows "determineTrend (map Fin rs) =
     (let c = percent_change (rs ! (length rs - 10)) (last rs)
      in if 3 < c then bullish else if c < - 3 then bearish else neutral)"
proof -
  let ?recent = "drop (length rs - 10) (map Fin rs)"
  from assms have ne: "?recent \<noteq> []" by auto
  then have "js_at ?recent (int (length ?recent) - 1) = last ?recent"
    by (rule js_at_last)
  also from assms ne have "\<dots> = Fin (last rs)"
    by (simp add: last_map drop_map del: drop_eq_Nil drop_eq_Nil2)
  finally have e: "js_at ?recent (int (length ?recent) - 1) = Fin (last rs)" .
  from assms have s: "js_nth ?recent 0 = Fin (rs ! (length rs - 10))"
    by (simp add: js_nth_def)
  from assms show ?thesis
    using js_slice_from_neg [of 10 "map Fin rs"] e s
    by (simp add: determineTrend_def Let_def percent_change_def)
qed

text \<open>On a finite series that is not empty the support is at most the
  resistance: they are the values at a quarter and at three quarters of the
  sorted series.\<close>

lemma support_le_resistance:
  assumes "rs \<noteq> []"
  shows "support (findSupportResistance (map Fin rs))
           \<le> resistance (findSupportResistance (map Fin rs))"
proof -
  from assms have "3 * length rs div 4 < length (sort rs)"
    by (simp add: div_less_iff_less_mult)
  moreover have "length rs div 4 \<le> 3 * length rs div 4" by simp
  ultimately have "sort rs ! (length rs div 4) \<le> sort rs ! (3 * length rs div 4)"
    using sorted_nth_mono [of "sort rs"] by simp
  with assms show ?thesis by (simp add: findSupportResistance_Fin)
qed

end
