(* ===== verification/JS_Text.thy ===== *)
theory JS_Text
  imports JS_Number
begin

text \<open>
  Numbers as text, as the runtime of the source writes and reads them.

  \<^item> \<open>string_of_nat\<close> is the decimal numeral of a natural number and
    \<open>digits_value\<close> the number a sequence of digits stands for.
  \<^item> \<open>toString_int\<close> is \<^verbatim>\<open>toString\<close> on an integer, and \<open>parseInt\<close> the call
    \<^verbatim>\<open>parseInt(s, 10)\<close>: leading white space, an optional sign, then decimal
    digits up to the first other character; \<open>None\<close> is \<open>NaN\<close>. The integers are
    exact.
  \<^item> \<open>Number_toString\<close> is the conversion of a number to a string, in a
    template literal and in \<^verbatim>\<open>String(x)\<close>: the three names of the values that
    are not finite, and the decimal numeral of an integer below \<open>10\<^sup>2\<^sup>1\<close>. The
    text of any other number is the shortest numeral that reads back as the
    same double, which depends on the representation; it is the input
    \<open>shortest\<close>.
  \<^item> \<open>toFixed\<close> is \<^verbatim>\<open>x.toFixed(f)\<close> for \<open>f > 0\<close>: the sign of \<open>x\<close>, then the
    integer nearest to \<open>|x| * 10\<^sup>f\<close> (the larger one of two) with a point before
    its last \<open>f\<close> digits, padded with zeros to \<open>f + 1\<close> digits; from \<open>10\<^sup>2\<^sup>1\<close> on and
    for a value that is not finite it is the text of the number.
  \<^item> \<open>read_fixed\<close> reads such a text back: an optional minus sign, digits, a
    point, digits. It is the part of \<^verbatim>\<open>parseFloat\<close> that the texts of \<open>toFixed\<close>
    need.
  \<^item> \<open>js_join\<close> is \<^verbatim>\<open>xs.join(sep)\<close> on an array of strings, \<open>newline\<close> the line
    feed, and \<open>text_lines\<close> the split of a text at its line feeds. \<open>one_line\<close>
    is a text without a line feed, and \<open>line_printer\<close> an input \<open>shortest\<close> that
    writes no line feed.

  The lemmas: \<open>digits_value\<close> and \<open>parseInt\<close> read back what \<open>string_of_nat\<close> and
  \<open>toString_int\<close> write; the text of \<open>toFixed\<close> for a finite number below \<open>10\<^sup>2\<^sup>1\<close>
  has a point before its last \<open>f\<close> characters and nothing but digits besides
  its sign, and \<open>read_fixed\<close> reads it as the number rounded to \<open>f\<close> decimals,
  which for two decimals is \<open>toFixed2\<close>; \<open>text_lines\<close> reads back the lines that
  \<open>js_join\<close> joined, and \<open>js_join\<close> the text that \<open>text_lines\<close> split.
\<close>

section \<open>Decimal numerals\<close>

fun string_of_nat :: "nat \<Rightarrow> string" where
  "string_of_nat n =
     (if n < 10 then [char_of (48 + n)]
      else string_of_nat (n div 10) @ [char_of (48 + n mod 10)])"

definition toString_int :: "int \<Rightarrow> string" where
  "toString_int k = (if k < 0 then CHR ''-'' # string_of_nat (nat (- k)) else string_of_nat (nat k))"

definition is_digit :: "char \<Rightarrow> bool" where
  "is_digit c \<longleftrightarrow> 48 \<le> (of_char c :: nat) \<and> (of_char c :: nat) \<le> 57"

definition is_space :: "char \<Rightarrow> bool" where
  "is_space c \<longleftrightarrow> (of_char c :: nat) \<in> set [9, 10, 11, 12, 13, 32]"

definition digits_value :: "string \<Rightarrow> nat" where
  "digits_value ds = foldl (\<lambda>a c. a * 10 + (of_char c - 48)) 0 ds"

definition parseInt :: "string \<Rightarrow> int option" where
  "parseInt s =
     (let t = dropWhile is_space s;
          neg = (t \<noteq> [] \<and> hd t = CHR ''-'');
          u = (if t \<noteq> [] \<and> (hd t = CHR ''-'' \<or> hd t = CHR ''+'') then tl t else t);
          ds = takeWhile is_digit u
      in if ds = [] then None
         else Some (if neg then - int (digits_value ds) else int (digits_value ds)))"

section \<open>Numbers in a text\<close>

definition Number_toString :: "(real \<Rightarrow> string) \<Rightarrow> jsnum \<Rightarrow> string" where
  "Number_toString shortest x =
     (case x of
        NaN \<Rightarrow> ''NaN''
      | PInf \<Rightarrow> ''Infinity''
      | NInf \<Rightarrow> ''-Infinity''
      | Fin r \<Rightarrow>
          if r = of_int \<lfloor>r\<rfloor> \<and> \<bar>r\<bar> < 10 ^ 21 then toString_int \<lfloor>r\<rfloor> else shortest r)"

definition fixed_digits :: "nat \<Rightarrow> nat \<Rightarrow> string" where
  "fixed_digits f n =
     (let m = string_of_nat n;
          m' = replicate (f + 1 - length m) (CHR ''0'') @ m
      in take (length m' - f) m' @ CHR ''.'' # drop (length m' - f) m')"

definition toFixed :: "(real \<Rightarrow> string) \<Rightarrow> nat \<Rightarrow> jsnum \<Rightarrow> string" where
  "toFixed shortest f x =
     (case x of
        Fin r \<Rightarrow>
          (if r < 0 then ''-'' else []) @
          (if 10 ^ 21 \<le> \<bar>r\<bar> then Number_toString shortest (Fin \<bar>r\<bar>)
           else fixed_digits f (nat \<lfloor>\<bar>r\<bar> * 10 ^ f + 1 / 2\<rfloor>))
      | _ \<Rightarrow> Number_toString shortest x)"

definition read_fixed :: "string \<Rightarrow> real" where
  "read_fixed s =
     (let neg = (s \<noteq> [] \<and> hd s = CHR ''-'');
          u = (if neg then tl s else s);
          whole = takeWhile is_digit u;
          frac = takeWhile is_digit (drop (length whole + 1) u);
          v = real (digits_value (whole @ frac)) / 10 ^ length frac
      in if neg then - v else v)"

definition newline :: string where
  "newline = [CHR 0x0A]"

fun js_join :: "string \<Rightarrow> string list \<Rightarrow> string" where
  "js_join sep [] = []"
| "js_join sep [x] = x"
| "js_join sep (x # y # ys) = x @ sep @ js_join sep (y # ys)"

text \<open>The lines of a text, \<^verbatim>\<open>text.split('\n')\<close>, and a text without a line feed.\<close>

fun text_lines :: "string \<Rightarrow> string list" where
  "text_lines [] = [[]]"
| "text_lines (c # cs) =
     (if c = CHR 0x0A then [] # text_lines cs
      else (c # hd (text_lines cs)) # tl (text_lines cs))"

definition one_line :: "string \<Rightarrow> bool" where
  "one_line s \<longleftrightarrow> CHR 0x0A \<notin> set s"

definition line_printer :: "(real \<Rightarrow> string) \<Rightarrow> bool" where
  "line_printer shortest \<longleftrightarrow> (\<forall>r. one_line (shortest r))"

section \<open>Lemmas on decimal numerals\<close>

declare string_of_nat.simps [simp del]

lemma string_of_nat_digits: "list_all is_digit (string_of_nat n)"
proof (induction n rule: string_of_nat.induct)
  case (1 n)
  have "is_digit (char_of (48 + k))" if "k < 10" for k :: nat
    using that by (simp add: is_digit_def)
  with 1 show ?case
    by (subst string_of_nat.simps) simp
qed

lemma string_of_nat_nonempty [simp]: "string_of_nat n \<noteq> []"
  by (subst string_of_nat.simps) simp

lemma digits_value_append:
  "digits_value (xs @ [c]) = digits_value xs * 10 + (of_char c - 48)"
  by (simp add: digits_value_def)

lemma digits_value_string_of_nat [simp]: "digits_value (string_of_nat n) = n"
proof (induction n rule: string_of_nat.induct)
  case (1 n)
  show ?case
  proof (cases "n < 10")
    case True
    then show ?thesis by (subst string_of_nat.simps) (simp add: digits_value_def)
  next
    case False
    with 1 show ?thesis
      by (subst string_of_nat.simps) (simp add: digits_value_append)
  qed
qed

lemma digit_not_sign:
  "is_digit c \<Longrightarrow> \<not> is_space c \<and> c \<noteq> CHR ''-'' \<and> c \<noteq> CHR ''+''"
  by (auto simp: is_digit_def is_space_def)

lemma hd_string_of_nat: "is_digit (hd (string_of_nat n))"
  using string_of_nat_digits [of n] by (cases "string_of_nat n") simp_all

lemma parseInt_digits:
  assumes "ds \<noteq> []" "list_all is_digit ds"
  shows "parseInt ds = Some (int (digits_value ds))"
    and "parseInt (CHR ''-'' # ds) = Some (- int (digits_value ds))"
proof -
  from assms obtain c cs where ds: "ds = c # cs" by (cases ds) simp_all
  with assms have c: "is_digit c" and tw: "takeWhile is_digit cs = cs"
    by (simp_all add: takeWhile_eq_all_conv list_all_iff)
  from c digit_not_sign [of c] show "parseInt ds = Some (int (digits_value ds))"
    by (simp add: parseInt_def Let_def ds tw)
  from c show "parseInt (CHR ''-'' # ds) = Some (- int (digits_value ds))"
    by (simp add: parseInt_def Let_def ds is_space_def tw)
qed

lemma parseInt_toString_int [simp]: "parseInt (toString_int k) = Some k"
  by (simp add: toString_int_def parseInt_digits string_of_nat_digits)

lemma parseInt_NaN [simp]: "parseInt ''NaN'' = None"
  by (simp add: parseInt_def is_space_def is_digit_def)

lemma is_digit_simps [simp]:
  "\<not> is_digit (CHR ''.'')" "\<not> is_digit (CHR ''-'')" "is_digit (CHR ''0'')"
  by (simp_all add: is_digit_def)

lemma digits_value_zeros [simp]: "digits_value (replicate k (CHR ''0'') @ ds) = digits_value ds"
proof -
  have "foldl (\<lambda>a c. a * 10 + (of_char c - 48)) 0 (replicate k (CHR ''0'')) = (0::nat)"
    by (induction k) simp_all
  then show ?thesis by (simp add: digits_value_def)
qed

section \<open>Lemmas on fixed-point texts\<close>

lemma read_fixed_parts:
  assumes "list_all is_digit w" "w \<noteq> []" "list_all is_digit fr"
  shows "read_fixed (w @ CHR ''.'' # fr) = real (digits_value (w @ fr)) / 10 ^ length fr"
    and "read_fixed (CHR ''-'' # w @ CHR ''.'' # fr) = - (real (digits_value (w @ fr)) / 10 ^ length fr)"
proof -
  from assms(1) have w: "takeWhile is_digit (w @ CHR ''.'' # fr) = w"
    by (simp add: takeWhile_append2 list_all_iff)
  from assms(3) have fr: "takeWhile is_digit fr = fr"
    by (simp add: takeWhile_eq_all_conv list_all_iff)
  from assms(1,2) have "hd w \<noteq> CHR ''-''" by (cases w) auto
  with assms(2) show "read_fixed (w @ CHR ''.'' # fr) = real (digits_value (w @ fr)) / 10 ^ length fr"
    by (simp add: read_fixed_def Let_def w fr)
  show "read_fixed (CHR ''-'' # w @ CHR ''.'' # fr) = - (real (digits_value (w @ fr)) / 10 ^ length fr)"
    by (simp add: read_fixed_def Let_def w fr)
qed

text \<open>The text of \<open>n\<close> with \<open>f\<close> decimals: digits, a point, \<open>f\<close> digits, which
  together are a numeral of \<open>n\<close>.\<close>

lemma fixed_digits_parts:
  obtains w fr where "fixed_digits f n = w @ CHR ''.'' # fr" "list_all is_digit w" "w \<noteq> []"
    "list_all is_digit fr" "length fr = f" "digits_value (w @ fr) = n"
proof -
  define m where "m = replicate (f + 1 - length (string_of_nat n)) (CHR ''0'') @ string_of_nat n"
  have len: "f + 1 \<le> length m" by (simp add: m_def)
  have dig: "list_all is_digit m"
    using string_of_nat_digits [of n] by (auto simp: m_def list_all_iff)
  have val: "digits_value m = n" by (simp add: m_def)
  show thesis
  proof
    show "fixed_digits f n = take (length m - f) m @ CHR ''.'' # drop (length m - f) m"
      by (simp add: fixed_digits_def Let_def m_def)
    from dig show "list_all is_digit (take (length m - f) m)" "list_all is_digit (drop (length m - f) m)"
      by (auto simp: list_all_iff dest: in_set_takeD in_set_dropD)
    from len show "take (length m - f) m \<noteq> []" "length (drop (length m - f) m) = f" by auto
    from val show "digits_value (take (length m - f) m @ drop (length m - f) m) = n" by simp
  qed
qed

lemma read_fixed_digits:
  "read_fixed (fixed_digits f n) = real n / 10 ^ f"
  "read_fixed (CHR ''-'' # fixed_digits f n) = - (real n / 10 ^ f)"
  by (rule fixed_digits_parts [of f n]; simp add: read_fixed_parts)+

text \<open>Below \<open>10\<^sup>2\<^sup>1\<close> the text of \<open>toFixed\<close> reads back as the number rounded to
  \<open>f\<close> decimals, halves away from zero.\<close>

lemma read_fixed_toFixed:
  assumes "\<bar>r\<bar> < 10 ^ 21"
  shows "read_fixed (toFixed shortest f (Fin r))
       = (if r < 0 then - 1 else 1) * (of_int \<lfloor>\<bar>r\<bar> * 10 ^ f + 1 / 2\<rfloor> / 10 ^ f)"
proof -
  define k where "k = \<lfloor>\<bar>r\<bar> * 10 ^ f + 1 / 2\<rfloor>"
  have "0 \<le> k" by (simp add: k_def)
  then have "real (nat k) = of_int k" by simp
  moreover from assms
  have "toFixed shortest f (Fin r) = (if r < 0 then ''-'' else []) @ fixed_digits f (nat k)"
    by (simp add: toFixed_def k_def)
  ultimately show ?thesis
    unfolding k_def [symmetric] by (simp add: read_fixed_digits)
qed

lemma read_toFixed2:
  assumes "\<bar>r\<bar> < 10 ^ 21"
  shows "Fin (read_fixed (toFixed shortest 2 (Fin r))) = toFixed2 (Fin r)"
  by (simp add: read_fixed_toFixed [OF assms] toFixed2_def)

lemma toFixed_not_finite [simp]:
  "toFixed shortest f NaN = ''NaN''" "toFixed shortest f PInf = ''Infinity''"
  "toFixed shortest f NInf = ''-Infinity''"
  by (simp_all add: toFixed_def Number_toString_def)

section \<open>Lemmas on lines\<close>

lemma one_line_simps [simp]:
  "one_line []" "one_line (c # s) \<longleftrightarrow> c \<noteq> CHR 0x0A \<and> one_line s"
  "one_line (s @ t) \<longleftrightarrow> one_line s \<and> one_line t"
  by (auto simp: one_line_def)

lemma one_line_digits: "list_all is_digit s \<Longrightarrow> one_line s"
  by (auto simp: one_line_def list_all_iff is_digit_def)

lemma one_line_toString_int [simp]: "one_line (toString_int k)"
  by (simp add: toString_int_def one_line_digits string_of_nat_digits)

lemma one_line_Number_toString:
  "line_printer shortest \<Longrightarrow> one_line (Number_toString shortest x)"
  by (cases x) (simp_all add: Number_toString_def line_printer_def)

lemma one_line_toFixed:
  assumes "line_printer shortest"
  shows "one_line (toFixed shortest f x)"
proof (cases x)
  case (Fin r)
  obtain w fr where "fixed_digits f (nat \<lfloor>\<bar>r\<bar> * 10 ^ f + 1 / 2\<rfloor>) = w @ CHR ''.'' # fr"
    "list_all is_digit w" "list_all is_digit fr" by (rule fixed_digits_parts)
  with Fin assms show ?thesis
    by (simp add: toFixed_def one_line_digits one_line_Number_toString)
qed (simp_all add: assms)

lemma js_join_Cons: "js_join sep (x # xs) = (if xs = [] then x else x @ sep @ js_join sep xs)"
  by (cases xs) simp_all

lemma js_join_append:
  "xs \<noteq> [] \<Longrightarrow> ys \<noteq> [] \<Longrightarrow> js_join sep (xs @ ys) = js_join sep xs @ sep @ js_join sep ys"
  by (induction sep xs rule: js_join.induct) (simp_all add: js_join_Cons)

text \<open>A joined text put into a line of a larger joined text: its first line
  continues that line, its other lines stand for themselves.\<close>

lemma js_join_nested:
  assumes "ds \<noteq> []"
  shows "js_join sep (xs @ (p @ js_join sep ds) # ys) = js_join sep (xs @ (p @ hd ds) # tl ds @ ys)"
proof -
  have "js_join sep ((p @ js_join sep ds) # ys) = js_join sep ((p @ hd ds) # tl ds @ ys)"
    using assms by (cases ds; cases ys) (simp_all add: js_join_Cons js_join_append)
  then show ?thesis
    by (cases "xs = []") (simp_all add: js_join_append)
qed

lemma text_lines_nonempty [simp]: "text_lines s \<noteq> []"
  by (induction s) simp_all

lemma text_lines_one_line: "one_line s \<Longrightarrow> text_lines s = [s]"
  by (induction s) simp_all

lemma text_lines_append: "one_line s \<Longrightarrow> text_lines (s @ CHR 0x0A # t) = s # text_lines t"
  by (induction s) simp_all

text \<open>Splitting reads back the lines that were joined.\<close>

lemma text_lines_join:
  "xs \<noteq> [] \<Longrightarrow> list_all one_line xs \<Longrightarrow> text_lines (js_join newline xs) = xs"
  by (induction newline xs rule: js_join.induct)
    (simp_all add: text_lines_one_line text_lines_append newline_def)

lemma js_join_text_lines [simp]: "js_join newline (text_lines s) = s"
proof (induction s)
  case (Cons c s)
  then show ?case
    by (cases "text_lines s") (auto simp: js_join_Cons newline_def split: if_splits)
qed (simp add: newline_def)

lemma list_all_one_line_text_lines: "list_all one_line (text_lines s)"
  by (induction s) (auto simp: list_all_iff dest: list.set_sel(2) [rotated])

end
