(* ===== verification/Storage.thy ===== *)
theory Storage
  imports Stock_Data JS_Text "HOL-Library.AList"
begin

text \<open>
  The cache and the call counter of \<^verbatim>\<open>src/src/lib/storage.ts\<close>, which keep their
  state in the \<^verbatim>\<open>localStorage\<close> of the browser.

  \<^item> The storage is an association list from keys to items, in the order the
    keys were first set (the order \<^verbatim>\<open>localStorage.key(i)\<close> enumerates them in).
    \<open>getItem\<close>, \<open>setItem\<close> and \<open>removeItem\<close> are the calls of the browser.
  \<^item> An item is a string. The kinds of strings the application writes are kept
    apart: \<open>Json c\<close> is the text \<^verbatim>\<open>JSON.stringify\<close> gives for the cache entry \<open>c\<close>,
    which \<^verbatim>\<open>JSON.parse\<close> reads back as \<open>c\<close>; \<open>Symbols l\<close> is the text it gives for
    the array of strings \<open>l\<close>, which is what the page keeps under the key
    \<open>watchlist_key\<close> of the same storage; \<open>Text t\<close> is any other string \<open>t\<close>, which
    \<^verbatim>\<open>JSON.parse\<close> rejects or reads as a value with no \<^verbatim>\<open>timestamp\<close>. For a
    \<open>Text\<close> and for a \<open>Symbols\<close> item \<^verbatim>\<open>getCachedStockData\<close> returns \<^verbatim>\<open>null\<close> (the
    difference of the time and \<^verbatim>\<open>undefined\<close> is \<open>NaN\<close>, which is below nothing). A
    \<open>Json\<close> item starts with a brace and a \<open>Symbols\<close> item with a bracket, so
    \<^verbatim>\<open>parseInt\<close> of them is \<open>NaN\<close> (\<open>item_parseInt\<close>) and they are not the empty string
    (\<open>item_truthy\<close>).
  \<^item> \<open>parseInt\<close> and \<open>toString_int\<close> are those of theory \<open>JS_Text\<close>; \<open>toString_num\<close>
    is \<^verbatim>\<open>toString\<close> on an integer or \<open>NaN\<close>. The integers are exact.
  \<^item> The clock is an input: every operation that reads \<^verbatim>\<open>Date.now()\<close> takes the
    time \<open>now\<close> in milliseconds, and every operation that builds the key of
    the day takes the date \<open>today\<close>.
  \<^item> The operations return the storage after the call; \<open>shouldRefreshCache\<close>
    returns its answer and the storage. The \<^verbatim>\<open>catch\<close> branches of the source
    answer a storage that throws, which the model does not have.
  \<^item> \<open>storage_op\<close>, \<open>storage_step\<close> and \<open>reachable\<close>: the operations as a datatype,
    one step of any of them at any time, and the storages that sequences of
    steps reach from the empty one.

  The lemmas: a cached series is returned for an hour and not after; a
  tracked call adds one to the count of the day; the invariant \<open>storage_wf\<close> (distinct keys, a positive
  decimal count under every key of a day, a decimal time under the key of the
  last refresh, an entry of the right symbol under every cache key) holds in
  every reachable storage, so the count of a day is never \<open>NaN\<close> there; and
  \<open>shouldRefreshCache\<close> refuses from 23 calls on.
\<close>

section \<open>The browser's storage\<close>

record CachedStockData =
  data :: "StockTimeSeriesData list"
  timestamp :: int
  symbol :: string

datatype item = Text string | Json CachedStockData | Symbols "string list"

type_synonym local_storage = "(string \<times> item) list"

definition getItem :: "local_storage \<Rightarrow> string \<Rightarrow> item option" where
  "getItem s k = map_of s k"

definition setItem :: "local_storage \<Rightarrow> string \<Rightarrow> item \<Rightarrow> local_storage" where
  "setItem s k v = AList.update k v s"

definition removeItem :: "local_storage \<Rightarrow> string \<Rightarrow> local_storage" where
  "removeItem s k = AList.delete k s"

definition toString_num :: "int option \<Rightarrow> string" where
  "toString_num x = (case x of None \<Rightarrow> ''NaN'' | Some k \<Rightarrow> toString_int k)"

definition item_truthy :: "item \<Rightarrow> bool" where
  "item_truthy v = (case v of Text t \<Rightarrow> t \<noteq> [] | Json c \<Rightarrow> True | Symbols l \<Rightarrow> True)"

definition item_parseInt :: "item \<Rightarrow> int option" where
  "item_parseInt v = (case v of Text t \<Rightarrow> parseInt t | Json c \<Rightarrow> None | Symbols l \<Rightarrow> None)"

section \<open>The operations of the module\<close>

definition CACHE_DURATION :: int where
  "CACHE_DURATION = 60 * 60 * 1000"

definition MAX_DAILY_CALLS :: int where
  "MAX_DAILY_CALLS = 25"

definition api_calls_key :: "string \<Rightarrow> string" where
  "api_calls_key today = ''api_calls_'' @ today"

definition stock_data_key :: "string \<Rightarrow> string" where
  "stock_data_key symb = ''stock_data_'' @ symb"

definition last_cache_refresh :: string where
  "last_cache_refresh = ''last_cache_refresh''"

definition watchlist_key :: string where
  "watchlist_key = ''stockWatchlist''"

definition clearAllApiTracking :: "string \<Rightarrow> local_storage \<Rightarrow> local_storage" where
  "clearAllApiTracking today s =
     removeItem (removeItem s (api_calls_key today)) last_cache_refresh"

definition getCachedStockData ::
  "int \<Rightarrow> string \<Rightarrow> local_storage \<Rightarrow> StockTimeSeriesData list option" where
  "getCachedStockData now symb s =
     (let cacheKey = stock_data_key symb
      in case getItem s cacheKey of
           None \<Rightarrow> None
         | Some (Text t) \<Rightarrow> None
         | Some (Symbols l) \<Rightarrow> None
         | Some (Json parsedCache) \<Rightarrow>
             if now - timestamp parsedCache < CACHE_DURATION then Some (data parsedCache)
             else None)"

definition cacheStockData ::
  "int \<Rightarrow> string \<Rightarrow> StockTimeSeriesData list \<Rightarrow> local_storage \<Rightarrow> local_storage" where
  "cacheStockData now symb d s =
     (let cacheKey = stock_data_key symb;
          cacheData = \<lparr>data = d, timestamp = now, symbol = symb\<rparr>
      in setItem s cacheKey (Json cacheData))"

definition getCachedSymbols :: "local_storage \<Rightarrow> string list" where
  "getCachedSymbols s =
     map (drop 11) (filter (\<lambda>key. key \<noteq> [] \<and> take 11 key = ''stock_data_'') (map fst s))"

definition getApiCallCount :: "string \<Rightarrow> local_storage \<Rightarrow> int option" where
  "getApiCallCount today s =
     (let countKey = api_calls_key today
      in case getItem s countKey of
           None \<Rightarrow> Some 0
         | Some currentCount \<Rightarrow>
             if item_truthy currentCount then item_parseInt currentCount else Some 0)"

definition trackApiCall :: "int \<Rightarrow> string \<Rightarrow> local_storage \<Rightarrow> local_storage" where
  "trackApiCall now today s =
     (let countKey = api_calls_key today;
          newCount = (case getItem s countKey of
                        None \<Rightarrow> Some 1
                      | Some currentCount \<Rightarrow>
                          if item_truthy currentCount
                          then map_option (\<lambda>k. k + 1) (item_parseInt currentCount)
                          else Some 1);
          s' = setItem s countKey (Text (toString_num newCount))
      in setItem s' last_cache_refresh (Text (toString_int now)))"

definition shouldRefreshCache :: "int \<Rightarrow> string \<Rightarrow> local_storage \<Rightarrow> bool \<times> local_storage" where
  "shouldRefreshCache now today s =
     (if (case getApiCallCount today s of None \<Rightarrow> False | Some k \<Rightarrow> MAX_DAILY_CALLS - 2 \<le> k)
      then (False, s)
      else let lastRefreshKey = last_cache_refresh
           in case getItem s lastRefreshKey of
                None \<Rightarrow> (True, setItem s lastRefreshKey (Text (toString_int now)))
              | Some lastRefresh \<Rightarrow>
                  if \<not> item_truthy lastRefresh
                  then (True, setItem s lastRefreshKey (Text (toString_int now)))
                  else (case item_parseInt lastRefresh of
                          None \<Rightarrow> (False, s)
                        | Some lastRefreshTime \<Rightarrow> (CACHE_DURATION < now - lastRefreshTime, s)))"

section \<open>Sequences of operations\<close>

datatype storage_op =
  ClearAllApiTracking
| CacheStockData string "StockTimeSeriesData list"
| TrackApiCall
| ShouldRefreshCache

fun storage_step :: "int \<Rightarrow> string \<Rightarrow> storage_op \<Rightarrow> local_storage \<Rightarrow> local_storage" where
  "storage_step now today ClearAllApiTracking s = clearAllApiTracking today s"
| "storage_step now today (CacheStockData symb d) s = cacheStockData now symb d s"
| "storage_step now today TrackApiCall s = trackApiCall now today s"
| "storage_step now today ShouldRefreshCache s = snd (shouldRefreshCache now today s)"

inductive reachable :: "local_storage \<Rightarrow> bool" where
  init: "reachable []"
| step: "reachable s \<Longrightarrow> reachable (storage_step now today op s)"

text \<open>The invariant: what the module keeps under each of its keys.\<close>

definition count_ok :: "item \<Rightarrow> bool" where
  "count_ok v = (case v of
       Text t \<Rightarrow> (case parseInt t of Some k \<Rightarrow> 0 < k \<and> t = toString_int k | None \<Rightarrow> False)
     | Json c \<Rightarrow> False
     | Symbols l \<Rightarrow> False)"

definition item_ok :: "string \<Rightarrow> item \<Rightarrow> bool" where
  "item_ok k v =
     (if take 10 k = ''api_calls_'' then count_ok v
      else if k = last_cache_refresh
           then (case v of Text t \<Rightarrow> (case parseInt t of Some n \<Rightarrow> t = toString_int n | None \<Rightarrow> False)
                 | Json c \<Rightarrow> False | Symbols l \<Rightarrow> False)
      else if take 11 k = ''stock_data_''
           then (case v of Json c \<Rightarrow> symbol c = drop 11 k | Text t \<Rightarrow> False | Symbols l \<Rightarrow> False)
      else if k = watchlist_key
           then (case v of Symbols l \<Rightarrow> True | Text t \<Rightarrow> False | Json c \<Rightarrow> False)
      else False)"

definition storage_wf :: "local_storage \<Rightarrow> bool" where
  "storage_wf s \<longleftrightarrow> distinct (map fst s) \<and> list_all (\<lambda>(k, v). item_ok k v) s"

section \<open>Reading and writing the storage\<close>

lemma getItem_setItem [simp]:
  "getItem (setItem s k v) k' = (if k' = k then Some v else getItem s k')"
  by (simp add: getItem_def setItem_def update_conv')

lemma getItem_removeItem [simp]:
  "getItem (removeItem s k) k' = (if k' = k then None else getItem s k')"
  by (simp add: getItem_def removeItem_def delete_conv')

lemma getItem_empty [simp]: "getItem [] k = None"
  by (simp add: getItem_def)

lemma wf_getItem:
  "storage_wf s \<Longrightarrow> getItem s k = Some v \<Longrightarrow> item_ok k v"
  by (auto simp: storage_wf_def getItem_def list_all_iff dest: map_of_SomeD)

lemma wf_setItem:
  assumes "storage_wf s" "item_ok k v"
  shows "storage_wf (setItem s k v)"
proof -
  have "set (AList.update k v s) \<subseteq> insert (k, v) (set s)"
    by (induction s) auto
  with assms show ?thesis
    by (auto simp: storage_wf_def setItem_def distinct_update list_all_iff)
qed

lemma wf_removeItem:
  assumes "storage_wf s"
  shows "storage_wf (removeItem s k)"
proof -
  have "set (AList.delete k s) \<subseteq> set s" by (auto simp: AList.delete_eq)
  with assms show ?thesis
    by (auto simp: storage_wf_def removeItem_def distinct_delete list_all_iff)
qed


section \<open>The cache\<close>

lemma keys_distinct [simp]:
  "api_calls_key today \<noteq> last_cache_refresh" "last_cache_refresh \<noteq> api_calls_key today"
  "api_calls_key today \<noteq> stock_data_key symb" "stock_data_key symb \<noteq> api_calls_key today"
  "stock_data_key symb \<noteq> last_cache_refresh" "last_cache_refresh \<noteq> stock_data_key symb"
  "watchlist_key \<noteq> api_calls_key today" "api_calls_key today \<noteq> watchlist_key"
  "watchlist_key \<noteq> stock_data_key symb" "stock_data_key symb \<noteq> watchlist_key"
  "watchlist_key \<noteq> last_cache_refresh" "last_cache_refresh \<noteq> watchlist_key"
  "api_calls_key today = api_calls_key today' \<longleftrightarrow> today = today'"
  "stock_data_key symb = stock_data_key symb' \<longleftrightarrow> symb = symb'"
  by (simp_all add: api_calls_key_def stock_data_key_def last_cache_refresh_def watchlist_key_def)


lemma cache_roundtrip_lemma:
  "getCachedStockData now' symb (cacheStockData now symb d s) =
     (if now' - now < CACHE_DURATION then Some d else None)"
  by (simp add: getCachedStockData_def cacheStockData_def Let_def)

lemma cache_other:
  "symb' \<noteq> symb \<Longrightarrow>
     getCachedStockData now' symb' (cacheStockData now symb d s) = getCachedStockData now' symb' s"
  by (simp add: getCachedStockData_def cacheStockData_def Let_def)

section \<open>The call counter\<close>

lemma toString_int_nonempty [simp]: "toString_int k \<noteq> []"
  by (simp add: toString_int_def)

lemma trackApiCall_count:
  "getApiCallCount today (trackApiCall now today s) =
     map_option (\<lambda>k. k + 1) (getApiCallCount today s)"
  by (auto simp: getApiCallCount_def trackApiCall_def Let_def item_truthy_def item_parseInt_def
      toString_num_def split: option.splits item.splits)

lemma count_ok_toString: "0 < k \<Longrightarrow> count_ok (Text (toString_int k))"
  by (simp add: count_ok_def)

lemma count_ok_value:
  "count_ok v \<Longrightarrow> item_truthy v \<and> (\<exists>k. item_parseInt v = Some k \<and> 0 < k)"
  by (auto simp: count_ok_def item_truthy_def item_parseInt_def split: item.splits option.splits)

lemma item_ok_keys [simp]:
  "item_ok (api_calls_key today) v = count_ok v"
  "item_ok last_cache_refresh (Text (toString_int n))"
  "item_ok (stock_data_key symb) (Json c) \<longleftrightarrow> symbol c = symb"
  "item_ok watchlist_key (Symbols l)"
  by (simp_all add: item_ok_def api_calls_key_def stock_data_key_def last_cache_refresh_def
      watchlist_key_def)

text \<open>The operations of the module leave the other keys of the storage as they
  are; in particular the watch list of the page.\<close>

lemma getItem_cacheStockData [simp]:
  "getItem (cacheStockData now symb d s) k =
     (if k = stock_data_key symb then Some (Json \<lparr>data = d, timestamp = now, symbol = symb\<rparr>)
      else getItem s k)"
  by (simp add: cacheStockData_def Let_def)

lemma getItem_trackApiCall_other:
  "k \<noteq> api_calls_key today \<Longrightarrow> k \<noteq> last_cache_refresh \<Longrightarrow>
     getItem (trackApiCall now today s) k = getItem s k"
  by (simp add: trackApiCall_def Let_def)

lemma getItem_shouldRefreshCache_other:
  "k \<noteq> last_cache_refresh \<Longrightarrow> getItem (snd (shouldRefreshCache now today s)) k = getItem s k"
  by (simp add: shouldRefreshCache_def Let_def split: option.splits)

section \<open>The invariant\<close>

lemma wf_clear: "storage_wf s \<Longrightarrow> storage_wf (clearAllApiTracking today s)"
  by (simp add: clearAllApiTracking_def wf_removeItem)

lemma wf_cache: "storage_wf s \<Longrightarrow> storage_wf (cacheStockData now symb d s)"
  by (simp add: cacheStockData_def Let_def wf_setItem)

lemma wf_track:
  assumes "storage_wf s"
  shows "storage_wf (trackApiCall now today s)"
proof -
  let ?new = "case getItem s (api_calls_key today) of
                None \<Rightarrow> Some 1
              | Some currentCount \<Rightarrow>
                  if item_truthy currentCount
                  then map_option (\<lambda>k. k + 1) (item_parseInt currentCount)
                  else Some 1"
  have "\<exists>k. ?new = Some k \<and> 0 < k"
  proof (cases "getItem s (api_calls_key today)")
    case None
    then show ?thesis by simp
  next
    case (Some v)
    with assms have "count_ok v" using wf_getItem [of s "api_calls_key today" v] by simp
    with Some show ?thesis by (auto dest: count_ok_value)
  qed
  then obtain k where "?new = Some k" "0 < k" by blast
  with assms show ?thesis
    by (simp add: trackApiCall_def Let_def toString_num_def wf_setItem count_ok_toString)
qed

lemma wf_refresh: "storage_wf s \<Longrightarrow> storage_wf (snd (shouldRefreshCache now today s))"
  by (simp add: shouldRefreshCache_def Let_def wf_setItem split: option.splits)

lemma wf_step: "storage_wf s \<Longrightarrow> storage_wf (storage_step now today op s)"
  by (cases op) (simp_all add: wf_clear wf_cache wf_track wf_refresh)

lemma reachable_wf: "reachable s \<Longrightarrow> storage_wf s"
  by (induction rule: reachable.induct) (simp_all add: wf_step, simp add: storage_wf_def)

lemma wf_count:
  assumes "storage_wf s"
  shows "\<exists>n. getApiCallCount today s = Some (int n)"
proof (cases "getItem s (api_calls_key today)")
  case None
  then show ?thesis by (simp add: getApiCallCount_def)
next
  case (Some v)
  with assms have "count_ok v" using wf_getItem [of s "api_calls_key today" v] by simp
  then obtain k where "item_truthy v" "item_parseInt v = Some k" "0 < k"
    by (auto dest: count_ok_value)
  with Some show ?thesis
    by (auto simp: getApiCallCount_def intro: exI [of _ "nat k"])
qed

section \<open>The cached symbols\<close>

lemma getCachedSymbols_set:
  "set (getCachedSymbols s) =
     drop 11 ` {k \<in> fst ` set s. k \<noteq> [] \<and> take 11 k = ''stock_data_''}"
  by (auto simp: getCachedSymbols_def)

lemma stock_data_key_simps [simp]:
  "take 11 (stock_data_key symb) = ''stock_data_''" "drop 11 (stock_data_key symb) = symb"
  "stock_data_key symb \<noteq> []"
  by (simp_all add: stock_data_key_def)

lemma cached_symbols:
  "set (getCachedSymbols (cacheStockData now symb d s)) = insert symb (set (getCachedSymbols s))"
proof -
  have "{k \<in> insert (stock_data_key symb) A. k \<noteq> [] \<and> take 11 k = ''stock_data_''}
      = insert (stock_data_key symb) {k \<in> A. k \<noteq> [] \<and> take 11 k = ''stock_data_''}" for A
    by (rule set_eqI) (auto simp del: take_eq_Nil)
  then show ?thesis
    by (simp add: getCachedSymbols_set cacheStockData_def setItem_def Let_def dom_update)
qed

section \<open>Claims\<close>


text \<open>When the count of the day is a number, tracking a call adds one to it.\<close>

lemma trackApiCall_increments:
  "getApiCallCount today s = Some k \<Longrightarrow>
     getApiCallCount today (trackApiCall now today s) = Some (k + 1)"
  by (simp add: trackApiCall_count)

text \<open>In every storage that the operations of the module reach from the
  empty one, at any times and on any days, the count of a day is a natural
  number, never \<open>NaN\<close>.\<close>

lemma reachable_count_defined:
  "reachable s \<Longrightarrow> \<exists>n. getApiCallCount today s = Some (int n)"
  by (rule wf_count) (rule reachable_wf)

text \<open>From \<open>MAX_DAILY_CALLS - 2 = 23\<close> calls on a day on,
  \<open>shouldRefreshCache\<close> answers no and leaves the storage as it is.\<close>

lemma shouldRefreshCache_limit:
  "getApiCallCount today s = Some k \<Longrightarrow> MAX_DAILY_CALLS - 2 \<le> k \<Longrightarrow>
     shouldRefreshCache now today s = (False, s)"
  by (simp add: shouldRefreshCache_def)

end
