(* ===== verification/Mock_Data.thy ===== *)
theory Mock_Data
  imports Stock_Data "HOL-Library.Char_ord" "HOL-Library.List_Lexorder" "HOL-Library.Multiset"
    "HOL-Library.AList"
begin

text \<open>
  The mock market data of \<^verbatim>\<open>mockData.ts\<close> (in the sources the second part of
  \<^verbatim>\<open>src/src/lib/llm-prediction.ts\<close>), which the page uses in place of the
  fetchers: the list of known stocks, the search in it, the generator of a
  random series of bars, its aggregation by week or month, and a random quote.

  \<^item> The random numbers and the calendar are inputs. \<open>rnd k\<close> is the \<open>k\<close>-th value
    \<^verbatim>\<open>Math.random()\<close> returns in the call; \<open>cal i\<close> is the weekday
    (\<^verbatim>\<open>getDay()\<close>) and the ISO date of the day \<open>i\<close> days before today;
    \<open>key_of\<close> maps the date of a bar to the key of its week or month (the
    Monday of the week, the first of the month), which the source computes with
    \<^verbatim>\<open>Date\<close>. The promises and the simulated delays are not modelled: a function
    returns what its promise resolves to.
  \<^item> \<open>generate_day\<close> is one iteration of the loop of \<^verbatim>\<open>generateStockTimeSeries\<close>.
    The loop carries the price and, in the model, the number of random values
    drawn; it pushes a bar or, on a weekend, nothing (\<open>None\<close>).
  \<open>generated\<close> is the array \<^verbatim>\<open>data\<close> before it is sorted.
  \<^item> \<open>toFixed2\<close> of theory \<open>JS_Number\<close> is \<^verbatim>\<open>parseFloat(x.toFixed(2))\<close>;
    in the quote, whose fields are the strings \<^verbatim>\<open>x.toFixed(2)\<close>, a field is the
    number its string denotes. The fields of the quote have the prefix
    \<open>quote_\<close> where the name is that of a field of a bar.
  \<^item> \<open>localeCompare\<close> on ISO dates is the lexicographic order of strings;
    \<^verbatim>\<open>sort\<close> is \<open>js_sort_by\<close>.
  \<^item> \<open>group_day\<close> is the body of the \<^verbatim>\<open>forEach\<close> that groups the bars: the object
    \<^verbatim>\<open>groupedData\<close> is an association list in the order its keys were created,
    which is the order \<^verbatim>\<open>Object.keys\<close> lists them in. \<open>aggregate_period\<close> is the
    body of the second \<^verbatim>\<open>forEach\<close>.
  \<^item> \<open>toLowerCase\<close> and \<open>js_includes\<close> are the string methods, on ASCII.

  The lemmas: the search returns the stocks whose symbol or name contains the
  query, in the order of the list (\<open>substring_of\<close> is the specification of
  \<open>js_includes\<close>); every generated bar has its low at most its open and close
  and these at most its high; the generated series runs backwards in time (the
  open of a day is the close of the day after it); the aggregation keeps the
  total volume.
\<close>

section \<open>The stocks and the search\<close>

record stock_info =
  symbol :: string
  name :: string
  price :: jsnum

definition STOCK_LIST :: "stock_info list" where
  "STOCK_LIST =
     [\<lparr>symbol = ''AAPL'', name = ''Apple Inc.'', price = 188.63\<rparr>,
      \<lparr>symbol = ''MSFT'', name = ''Microsoft Corporation'', price = 425.22\<rparr>,
      \<lparr>symbol = ''GOOGL'', name = ''Alphabet Inc.'', price = 164.97\<rparr>,
      \<lparr>symbol = ''AMZN'', name = ''Amazon.com Inc.'', price = 182.15\<rparr>,
      \<lparr>symbol = ''META'', name = ''Meta Platforms Inc.'', price = 478.22\<rparr>,
      \<lparr>symbol = ''TSLA'', name = ''Tesla Inc.'', price = 175.15\<rparr>,
      \<lparr>symbol = ''NVDA'', name = ''NVIDIA Corporation'', price = 95.36\<rparr>,
      \<lparr>symbol = ''AMD'', name = ''Advanced Micro Devices Inc.'', price = 158.38\<rparr>,
      \<lparr>symbol = ''INTC'', name = ''Intel Corporation'', price = 31.09\<rparr>,
      \<lparr>symbol = ''NFLX'', name = ''Netflix Inc.'', price = 640.63\<rparr>,
      \<lparr>symbol = ''DIS'', name = ''The Walt Disney Company'', price = 114.46\<rparr>,
      \<lparr>symbol = ''PYPL'', name = ''PayPal Holdings Inc.'', price = 61.85\<rparr>,
      \<lparr>symbol = ''CRM'', name = ''Salesforce Inc.'', price = 293.60\<rparr>,
      \<lparr>symbol = ''IBM'', name = ''International Business Machines'', price = 171.42\<rparr>,
      \<lparr>symbol = ''CSCO'', name = ''Cisco Systems Inc.'', price = 48.51\<rparr>,
      \<lparr>symbol = ''ORCL'', name = ''Oracle Corporation'', price = 126.33\<rparr>,
      \<lparr>symbol = ''ADBE'', name = ''Adobe Inc.'', price = 503.97\<rparr>,
      \<lparr>symbol = ''QCOM'', name = ''Qualcomm Inc.'', price = 168.60\<rparr>]"

definition lower_char :: "char \<Rightarrow> char" where
  "lower_char c =
     (if 65 \<le> (of_char c :: nat) \<and> (of_char c :: nat) \<le> 90 then char_of (of_char c + 32 :: nat) else c)"

definition toLowerCase :: "string \<Rightarrow> string" where
  "toLowerCase s = map lower_char s"

primrec js_includes :: "string \<Rightarrow> string \<Rightarrow> bool" where
  "js_includes [] needle \<longleftrightarrow> needle = []"
| "js_includes (c # cs) needle \<longleftrightarrow> take (length needle) (c # cs) = needle \<or> js_includes cs needle"

definition search_match :: "stock_info \<Rightarrow> (string \<times> string) list" where
  "search_match stock =
     [(''1. symbol'', symbol stock),
      (''2. name'', name stock),
      (''3. type'', ''Equity''),
      (''4. region'', ''United States''),
      (''5. marketOpen'', ''09:30''),
      (''6. marketClose'', ''16:00''),
      (''7. timezone'', ''UTC-04''),
      (''8. currency'', ''USD''),
      (''9. matchScore'', ''1.0000'')]"

definition searchStocks :: "string \<Rightarrow> (string \<times> string) list list" where
  "searchStocks query =
     (let lowerQuery = toLowerCase query
      in map search_match
           (filter (\<lambda>stock. js_includes (toLowerCase (symbol stock)) lowerQuery
                           \<or> js_includes (toLowerCase (name stock)) lowerQuery)
              STOCK_LIST))"

text \<open>The specification of \<open>js_includes\<close>: the needle occurs in the string.\<close>

definition substring_of :: "string \<Rightarrow> string \<Rightarrow> bool" where
  "substring_of needle hay \<longleftrightarrow> (\<exists>pre post. hay = pre @ needle @ post)"

section \<open>The generator\<close>

definition localeCompare :: "string \<Rightarrow> string \<Rightarrow> jsnum" where
  "localeCompare a b = (if a < b then - 1 else if a = b then 0 else 1)"

definition dailyVolatility :: jsnum where
  "dailyVolatility = 0.015"

definition trendStrength :: jsnum where
  "trendStrength = 0.001"

definition generate_day ::
  "(nat \<Rightarrow> nat \<times> string) \<Rightarrow> (nat \<Rightarrow> real) \<Rightarrow> jsnum \<times> nat \<Rightarrow> nat
     \<Rightarrow> StockTimeSeriesData option \<times> jsnum \<times> nat" where
  "generate_day cal rnd st i =
     (let currentPrice = fst st; k = snd st; weekday = fst (cal i); iso = snd (cal i)
      in if weekday = 0 \<or> weekday = 6 then (None, st)
         else let randomMovement = (Fin (rnd k) * 2 - 1) * dailyVolatility;
                  trendMovement = Fin (rnd (k + 1)) * trendStrength;
                  dailyChange = currentPrice * (randomMovement + trendMovement);
                  open' = currentPrice;
                  close' = open' + dailyChange;
                  high' = Math_max open' close' * (1 + Fin (rnd (k + 2)) * 0.005);
                  low' = Math_min open' close' * (1 - Fin (rnd (k + 3)) * 0.005);
                  volume' = Math_floor (Fin (rnd (k + 4)) * 10000000) + 1000000
              in (Some \<lparr>date = iso, open = toFixed2 open', high = toFixed2 high',
                         low = toFixed2 low', close = toFixed2 close', volume = volume'\<rparr>,
                  close', k + 5))"

definition base_price :: "string \<Rightarrow> jsnum" where
  "base_price symb =
     (case find (\<lambda>s. symbol s = symb) STOCK_LIST of Some stockInfo \<Rightarrow> price stockInfo | None \<Rightarrow> 100)"

definition generateStockTimeSeries ::
  "(nat \<Rightarrow> nat \<times> string) \<Rightarrow> (nat \<Rightarrow> real) \<Rightarrow> string \<Rightarrow> nat \<Rightarrow> StockTimeSeriesData list" where
  "generateStockTimeSeries cal rnd symb days =
     (let basePrice = base_price symb;
          data = List.map_filter (\<lambda>x. x) (for_push (generate_day cal rnd) (basePrice, 0) [0..<days])
      in js_sort_by (\<lambda>a b. localeCompare (date a) (date b)) data)"

definition generated ::
  "(nat \<Rightarrow> nat \<times> string) \<Rightarrow> (nat \<Rightarrow> real) \<Rightarrow> jsnum \<times> nat \<Rightarrow> nat list \<Rightarrow> StockTimeSeriesData list" where
  "generated cal rnd st is = List.map_filter (\<lambda>x. x) (for_push (generate_day cal rnd) st is)"

text \<open>A price that is a positive number.\<close>

fun fin_pos :: "jsnum \<Rightarrow> bool" where
  "fin_pos (Fin r) \<longleftrightarrow> 0 < r"
| "fin_pos _ \<longleftrightarrow> False"

section \<open>The aggregation and the quote\<close>

datatype interval = daily | weekly | monthly

datatype outputsize = compact | full

definition group_day ::
  "(string \<Rightarrow> string) \<Rightarrow> (string \<times> StockTimeSeriesData list) list \<Rightarrow> StockTimeSeriesData
     \<Rightarrow> (string \<times> StockTimeSeriesData list) list" where
  "group_day key_of groupedData day =
     (let key = key_of (date day)
      in case map_of groupedData key of
           None \<Rightarrow> groupedData @ [(key, [day])]
         | Some period \<Rightarrow> AList.update key (period @ [day]) groupedData)"

definition aggregate_period :: "string \<times> StockTimeSeriesData list \<Rightarrow> StockTimeSeriesData" where
  "aggregate_period g =
     (let key = fst g; period = snd g
      in \<lparr>date = key,
          open = open (hd period),
          high = foldl Math_max NInf (map high period),
          low = foldl Math_min PInf (map low period),
          close = close (last period),
          volume = js_sum (map volume period)\<rparr>)"

definition aggregateData ::
  "(string \<Rightarrow> string) \<Rightarrow> StockTimeSeriesData list \<Rightarrow> StockTimeSeriesData list" where
  "aggregateData key_of data' =
     (let groupedData = foldl (group_day key_of) [] data';
          aggregated = map aggregate_period groupedData
      in js_sort_by (\<lambda>a b. localeCompare (date a) (date b)) aggregated)"

definition getStockTimeSeries ::
  "(nat \<Rightarrow> nat \<times> string) \<Rightarrow> (interval \<Rightarrow> string \<Rightarrow> string) \<Rightarrow> (nat \<Rightarrow> real) \<Rightarrow> string
     \<Rightarrow> interval \<Rightarrow> outputsize \<Rightarrow> StockTimeSeriesData list" where
  "getStockTimeSeries cal key_of rnd symb intv size' =
     (let days = (if size' = full then 365 else 100);
          data' = generateStockTimeSeries cal rnd symb days
      in if intv = weekly \<or> intv = monthly then aggregateData (key_of intv) data' else data')"

record mock_quote =
  quote_symbol :: string
  quote_open :: jsnum
  quote_high :: jsnum
  quote_low :: jsnum
  quote_price :: jsnum
  quote_volume :: jsnum
  latestTradingDay :: string
  previousClose :: jsnum
  change :: jsnum
  changePercent :: jsnum

definition getStockQuote :: "string \<Rightarrow> (nat \<Rightarrow> real) \<Rightarrow> string \<Rightarrow> mock_quote" where
  "getStockQuote today rnd symb =
     (let basePrice = base_price symb;
          changePercent' = (Fin (rnd 0) * 6 - 3) / 100;
          change' = basePrice * changePercent';
          price' = basePrice + change'
      in \<lparr>quote_symbol = symb,
          quote_open = toFixed2 (price' * 0.99),
          quote_high = toFixed2 (price' * 1.01),
          quote_low = toFixed2 (price' * 0.98),
          quote_price = toFixed2 price',
          quote_volume = Math_floor (Fin (rnd 1) * 10000000) + 1000000,
          latestTradingDay = today,
          previousClose = toFixed2 (price' - price' * (Fin (rnd 2) * 0.02 - 0.01)),
          change = toFixed2 change',
          changePercent = toFixed2 (changePercent' * 100)\<rparr>)"

section \<open>The search\<close>

lemma take_prefix_iff: "take (length needle) hay = needle \<longleftrightarrow> (\<exists>post. hay = needle @ post)"
  by (metis append_eq_conv_conj append_take_drop_id)

lemma js_includes_iff: "js_includes hay needle \<longleftrightarrow> substring_of needle hay"
proof (induction hay)
  case Nil
  show ?case by (auto simp: substring_of_def)
next
  case (Cons c cs)
  have "substring_of needle (c # cs) \<longleftrightarrow>
      (\<exists>post. c # cs = needle @ post) \<or> substring_of needle cs"
    unfolding substring_of_def
    by (auto simp: Cons_eq_append_conv)
  with Cons show ?case by (simp add: take_prefix_iff del: take_Suc_Cons)
qed

section \<open>Sorting and grouping keep the elements\<close>

lemma mset_insert_by [simp]: "mset (insert_by cmp x ys) = add_mset x (mset ys)"
  by (induction ys) simp_all

lemma mset_js_sort_by [simp]: "mset (js_sort_by cmp xs) = mset xs"
  by (induction xs) (simp_all add: js_sort_by_def)

lemma set_js_sort_by [simp]: "set (js_sort_by cmp xs) = set xs"
  using mset_js_sort_by [of cmp xs] by (metis set_mset_mset)

lemma js_sum_mset: "mset xs = mset ys \<Longrightarrow> js_sum xs = js_sum ys"
  by (metis js_sum_sum_list sum_mset_sum_list)

text \<open>A list sorted in strictly descending order of its dates is reversed by
  the sort in ascending order.\<close>

lemma insert_by_last:
  "list_all (\<lambda>y. date y < date x) ys \<Longrightarrow>
     insert_by (\<lambda>a b. localeCompare (date a) (date b)) x ys = ys @ [x]"
  by (induction ys) (auto simp: localeCompare_def)

lemma sort_descending:
  "sorted_wrt (\<lambda>a b. date b < date a) xs \<Longrightarrow>
     js_sort_by (\<lambda>a b. localeCompare (date a) (date b)) xs = rev xs"
proof (induction xs)
  case Nil
  show ?case by (simp add: js_sort_by_def)
next
  case (Cons x xs)
  then have "list_all (\<lambda>y. date y < date x) (rev xs)" by (simp add: list_all_iff)
  with Cons show ?case
    by (simp add: js_sort_by_def insert_by_last)
qed

lemma mset_update_group:
  "map_of groups key = Some period \<Longrightarrow>
     mset (concat (map snd (AList.update key (period @ [day]) groups)))
       = add_mset day (mset (concat (map snd groups)))"
  by (induction groups) (auto split: if_splits)

lemma mset_group_day:
  "mset (concat (map snd (group_day key_of groups day))) = add_mset day (mset (concat (map snd groups)))"
  by (cases "map_of groups (key_of (date day))") (simp_all add: group_day_def mset_update_group)

lemma mset_grouped: "mset (concat (map snd (foldl (group_day key_of) groups days))) =
    mset (concat (map snd groups)) + mset days"
  by (induction days arbitrary: groups) (simp_all add: mset_group_day)

lemma volume_period [simp]: "volume (aggregate_period g) = js_sum (map volume (snd g))"
  by (simp add: aggregate_period_def Let_def)

lemma js_sum_concat: "js_sum (map js_sum xss) = js_sum (concat xss)"
  by (induction xss) (simp_all add: js_sum_append)

section \<open>The generated series\<close>

lemma generated_simps [simp]:
  "generated cal rnd st [] = []"
  "generated cal rnd st (i # is) =
     (case fst (generate_day cal rnd st i) of
        None \<Rightarrow> generated cal rnd (snd (generate_day cal rnd st i)) is
      | Some b \<Rightarrow> b # generated cal rnd (snd (generate_day cal rnd st i)) is)"
  by (simp_all add: generated_def List.map_filter_simps split: option.splits)

lemma generate_day_cases:
  "(fst (generate_day cal rnd st i) = None \<and> snd (generate_day cal rnd st i) = st) \<or>
   (\<exists>b c k. generate_day cal rnd st i = (Some b, c, k) \<and> open b = toFixed2 (fst st)
      \<and> close b = toFixed2 c \<and> date b = snd (cal i))"
  by (simp add: generate_day_def Let_def)

lemma generated_chain:
  "(generated cal rnd st is \<noteq> [] \<longrightarrow> open (hd (generated cal rnd st is)) = toFixed2 (fst st)) \<and>
   successively (\<lambda>a b. open b = close a) (generated cal rnd st is)"
proof (induction "is" arbitrary: st)
  case Nil
  show ?case by simp
next
  case (Cons i "is")
  from generate_day_cases [of cal rnd st i] show ?case
  proof (elim disjE exE conjE)
    assume "fst (generate_day cal rnd st i) = None" "snd (generate_day cal rnd st i) = st"
    with Cons [of st] show ?thesis by simp
  next
    fix b c k
    assume g: "generate_day cal rnd st i = (Some b, c, k)" "open b = toFixed2 (fst st)"
      "close b = toFixed2 c"
    with Cons [of "(c, k)"] show ?thesis
      by (cases "generated cal rnd (c, k) is") simp_all
  qed
qed

lemma generated_dates:
  "set (map date (generated cal rnd st is)) \<subseteq> (\<lambda>i. snd (cal i)) ` set is"
proof (induction "is" arbitrary: st)
  case Nil
  show ?case by simp
next
  case (Cons i "is")
  from generate_day_cases [of cal rnd st i] Cons [of "snd (generate_day cal rnd st i)"]
  show ?case by (auto split: option.splits)
qed

lemma generated_descending:
  assumes "\<And>i j. i < j \<Longrightarrow> j < n \<Longrightarrow> snd (cal j) < snd (cal i)"
  shows "sorted_wrt (<) is \<Longrightarrow> list_all (\<lambda>i. i < n) is \<Longrightarrow>
     sorted_wrt (\<lambda>a b. date b < date a) (generated cal rnd st is)"
proof (induction "is" arbitrary: st)
  case Nil
  show ?case by simp
next
  case (Cons i "is")
  let ?st = "snd (generate_day cal rnd st i)"
  from Cons have rest: "sorted_wrt (\<lambda>a b. date b < date a) (generated cal rnd ?st is)" by simp
  have "date x < snd (cal i)" if "x \<in> set (generated cal rnd ?st is)" for x
  proof -
    from that generated_dates [of cal rnd ?st "is"] obtain j where "j \<in> set is" "date x = snd (cal j)"
      by auto
    with Cons.prems assms [of i j] show ?thesis by (auto simp: list_all_iff)
  qed
  with rest generate_day_cases [of cal rnd st i] show ?case
    by (auto split: option.splits)
qed

lemma successively_rev_flip:
  "successively P xs \<Longrightarrow> successively (\<lambda>a b. P b a) (rev xs)"
  by (simp add: successively_rev)

lemma generate_day_ordered:
  assumes "0 \<le> rnd k" "rnd k < 1" "0 \<le> rnd (k + 1)" "rnd (k + 1) < 1"
    and "0 \<le> rnd (k + 2)" "rnd (k + 2) < 1" "0 \<le> rnd (k + 3)" "rnd (k + 3) < 1"
    and "0 < c"
  shows "fin_pos (fst (snd (generate_day cal rnd (Fin c, k) i)))"
    and "case fst (generate_day cal rnd (Fin c, k) i) of None \<Rightarrow> True
         | Some b \<Rightarrow> bar_ordered b \<and> fin_nonneg (low b)"
proof -
  define f where "f = 1 + ((rnd k * 2 - 1) * (15 / 1000) + rnd (k + 1) * (1 / 1000))"
  from assms(1) have "- (15 / 1000) \<le> (rnd k * 2 - 1) * (15 / 1000)" by simp
  moreover from assms(3) have "0 \<le> rnd (k + 1) * (1 / 1000)" by simp
  ultimately have f: "985 / 1000 \<le> f" unfolding f_def by linarith
  define c' where "c' = c + c * ((rnd k * 2 - 1) * (15 / 1000) + rnd (k + 1) * (1 / 1000))"
  have c': "c' = c * f" by (simp add: c'_def f_def algebra_simps)
  with f assms have pos: "0 < c'" by (simp add: zero_less_mult_iff)
  from assms pos have lo: "0 \<le> min c c' * (1 - rnd (k + 3) * (5 / 1000))"
    "min c c' * (1 - rnd (k + 3) * (5 / 1000)) \<le> min c c'"
    by (simp_all add: mult_le_cancel_left1 min_def)
  from assms pos have hi: "max c c' \<le> max c c' * (1 + rnd (k + 2) * (5 / 1000))"
    by (simp add: mult_le_cancel_left1 max_def)
  from lo hi assms pos have
    "toFixed2 (Fin (min c c' * (1 - rnd (k + 3) * (5 / 1000)))) \<le> toFixed2 (Fin c)"
    "toFixed2 (Fin (min c c' * (1 - rnd (k + 3) * (5 / 1000)))) \<le> toFixed2 (Fin c')"
    "toFixed2 (Fin c) \<le> toFixed2 (Fin (max c c' * (1 + rnd (k + 2) * (5 / 1000))))"
    "toFixed2 (Fin c') \<le> toFixed2 (Fin (max c c' * (1 + rnd (k + 2) * (5 / 1000))))"
    by (intro toFixed2_mono; simp)+
  moreover from lo(1) have "fin_nonneg (toFixed2 (Fin (min c c' * (1 - rnd (k + 3) * (5 / 1000)))))"
    using toFixed2_monotone [of 0] by (cases "toFixed2 (Fin (min c c' * (1 - rnd (k + 3) * (5 / 1000))))")
      (fastforce simp: toFixed2_def)+
  ultimately show "fin_pos (fst (snd (generate_day cal rnd (Fin c, k) i)))"
    and "case fst (generate_day cal rnd (Fin c, k) i) of None \<Rightarrow> True
         | Some b \<Rightarrow> bar_ordered b \<and> fin_nonneg (low b)"
    using assms(9) pos
    by (simp_all add: generate_day_def Let_def dailyVolatility_def trendStrength_def bar_ordered_def
        c'_def)
qed

lemma base_price_pos: "fin_pos (base_price symb)"
proof (cases "find (\<lambda>s. symbol s = symb) STOCK_LIST")
  case None
  then show ?thesis by (simp add: base_price_def)
next
  case (Some stockInfo)
  then have "stockInfo \<in> set STOCK_LIST" by (auto simp: find_Some_iff)
  moreover have "list_all (\<lambda>s. fin_pos (price s)) STOCK_LIST" by (simp add: STOCK_LIST_def)
  ultimately show ?thesis using Some by (simp add: base_price_def list_all_iff)
qed

lemma generated_ordered:
  assumes "\<And>k. 0 \<le> rnd k \<and> rnd k < 1"
  shows "fin_pos (fst st) \<Longrightarrow>
           list_all (\<lambda>b. bar_ordered b \<and> fin_nonneg (low b)) (generated cal rnd st js)"
proof (induction js arbitrary: st)
  case Nil
  show ?case by simp
next
  case (Cons i js)
  then obtain c k where st: "st = (Fin c, k)" "0 < c"
    by (cases st; cases "fst st") auto
  from assms have "fin_pos (fst (snd (generate_day cal rnd (Fin c, k) i)))"
    "case fst (generate_day cal rnd (Fin c, k) i) of None \<Rightarrow> True
     | Some b \<Rightarrow> bar_ordered b \<and> fin_nonneg (low b)"
    using st(2) by (intro generate_day_ordered; simp)+
  with Cons.IH [of "snd (generate_day cal rnd (Fin c, k) i)"] show ?case
    by (simp add: st split: option.splits)
qed

text \<open>Every number of a generated bar is finite, whatever the random values.\<close>

lemma generate_day_finite:
  "is_Fin (fst (snd (generate_day cal rnd (Fin c, k) i)))"
  "case fst (generate_day cal rnd (Fin c, k) i) of None \<Rightarrow> True | Some b \<Rightarrow> finite_bar b"
  by (simp_all add: generate_day_def Let_def dailyVolatility_def trendStrength_def finite_bar_def)

lemma generated_finite:
  "is_Fin (fst st) \<Longrightarrow> list_all finite_bar (generated cal rnd st js)"
proof (induction js arbitrary: st)
  case Nil
  show ?case by simp
next
  case (Cons i js)
  then obtain c k where st: "st = (Fin c, k)" by (cases st; cases "fst st") auto
  from generate_day_finite [of cal rnd c k i]
    Cons.IH [of "snd (generate_day cal rnd (Fin c, k) i)"]
  show ?case by (simp add: st split: option.splits)
qed

lemma mock_series_finite: "list_all finite_bar (generateStockTimeSeries cal rnd symb days)"
proof -
  have "is_Fin (base_price symb)" using base_price_pos [of symb] by (cases "base_price symb") simp_all
  then have "list_all finite_bar (generated cal rnd (base_price symb, 0) [0..<days])"
    by (simp add: generated_finite)
  then show ?thesis
    by (simp add: generateStockTimeSeries_def Let_def list_all_iff flip: generated_def)
qed

text \<open>The generated series has a bar for every day of the calendar that is
  not a Saturday or a Sunday.\<close>

lemma generated_nonempty:
  assumes "i \<in> set js" "fst (cal i) \<noteq> 0" "fst (cal i) \<noteq> 6"
  shows "generated cal rnd st js \<noteq> []"
  using assms
proof (induction js arbitrary: st)
  case Nil
  then show ?case by simp
next
  case (Cons j js)
  show ?case
  proof (cases "j = i")
    case True
    with Cons.prems show ?thesis by (simp add: generate_day_def Let_def)
  next
    case False
    with Cons show ?thesis by (simp split: option.splits)
  qed
qed

lemma length_generated:
  "length (generated cal rnd st js) = length (filter (\<lambda>i. fst (cal i) \<noteq> 0 \<and> fst (cal i) \<noteq> 6) js)"
proof (induction js arbitrary: st)
  case Nil
  show ?case by simp
next
  case (Cons j js)
  show ?case
  proof (cases "fst (cal j) = 0 \<or> fst (cal j) = 6")
    case True
    then have "generate_day cal rnd st j = (None, st)" by (auto simp: generate_day_def Let_def)
    with True Cons show ?thesis by auto
  next
    case False
    then have "fst (generate_day cal rnd st j) \<noteq> None" by (simp add: generate_day_def Let_def)
    with False Cons show ?thesis by (auto split: option.splits)
  qed
qed

lemma length_mock_series:
  "length (generateStockTimeSeries cal rnd symb days)
     = length (filter (\<lambda>i. fst (cal i) \<noteq> 0 \<and> fst (cal i) \<noteq> 6) [0..<days])"
  using length_generated [of cal rnd "(base_price symb, 0)" "[0..<days]"]
  by (simp add: generateStockTimeSeries_def Let_def flip: generated_def)

lemma mock_series_nonempty:
  assumes "i < days" "fst (cal i) \<noteq> 0" "fst (cal i) \<noteq> 6"
  shows "generateStockTimeSeries cal rnd symb days \<noteq> []"
proof -
  from assms have "generated cal rnd (base_price symb, 0) [0..<days] \<noteq> []"
    by (intro generated_nonempty [of i]) simp_all
  then show ?thesis
    by (simp add: generateStockTimeSeries_def Let_def js_sort_by_def flip: generated_def)
      (metis length_0_conv length_js_sort_by js_sort_by_def)
qed

text \<open>With random values in \<open>[0, 1)\<close> the bars of the generated series are in
  order and their lows are not negative.\<close>

lemma mock_series_sound:
  assumes "\<And>k. 0 \<le> rnd k \<and> rnd k < 1"
  shows "list_all (\<lambda>b. bar_ordered b \<and> fin_nonneg (low b)) (generateStockTimeSeries cal rnd symb days)"
  using generated_ordered [OF assms, where st = "(base_price symb, 0)" and cal = cal
      and js = "[0..<days]"]
  by (simp add: generateStockTimeSeries_def Let_def list_all_iff base_price_pos flip: generated_def)

section \<open>Claims\<close>

text \<open>With random values in \<open>[0, 1)\<close>, every bar of the generated series
  has its low at most its open and its close, and these at most its high.\<close>

lemma mock_series_ordered:
  assumes "\<And>k. 0 \<le> rnd k \<and> rnd k < 1"
  shows "list_all bar_ordered (generateStockTimeSeries cal rnd symb days)"
  using generated_ordered [OF assms, where st = "(base_price symb, 0)" and cal = cal
      and js = "[0..<days]"]
  by (simp add: generateStockTimeSeries_def Let_def list_all_iff base_price_pos flip: generated_def)

text \<open>C33: the generated series runs backwards in time. When the dates of the
  calendar decrease with the number of days before today, then in the result,
  which is in the order of the dates, the open of each bar is the close of the
  bar after it: the price path starts today and is continued into the past.\<close>

theorem mock_series_backwards:
  assumes "\<And>i j. i < j \<Longrightarrow> j < days \<Longrightarrow> snd (cal j) < snd (cal i)"
  shows "successively (\<lambda>a b. open a = close b) (generateStockTimeSeries cal rnd symb days)"
proof -
  let ?g = "generated cal rnd (base_price symb, 0) [0..<days]"
  have "sorted_wrt (<) [0..<days]" "list_all (\<lambda>i. i < days) [0..<days]"
    by (induction days) (auto simp: sorted_wrt_append list_all_iff)
  with assms have "sorted_wrt (\<lambda>a b. date b < date a) ?g"
    by (rule generated_descending)
  then have "generateStockTimeSeries cal rnd symb days = rev ?g"
    by (simp add: generateStockTimeSeries_def Let_def generated_def sort_descending)
  moreover have "successively (\<lambda>a b. open b = close a) ?g"
    using generated_chain [of cal rnd "(base_price symb, 0)" "[0..<days]"] by simp
  ultimately show ?thesis by (simp add: successively_rev_flip)
qed

theorem mock_series_backwards_witness:
  "successively (\<lambda>a b. open a = close b)
     (generateStockTimeSeries
        (\<lambda>i. if i = 0 then (3, ''2024-01-03'') else if i = 1 then (2, ''2024-01-02'')
                                           else (1, ''2024-01-01''))
        (\<lambda>k. 1 / 2) ''AAPL'' 3)"
  by (rule mock_series_backwards) (auto simp: less_Suc_eq numeral_3_eq_3)

text \<open>The aggregation by week or month keeps the total volume, for every
  key function and every series.\<close>

lemma aggregate_volume:
  "js_sum (map volume (aggregateData key_of days)) = js_sum (map volume days)"
proof -
  let ?g = "foldl (group_day key_of) [] days"
  have "js_sum (map volume (aggregateData key_of days)) = js_sum (map volume (map aggregate_period ?g))"
    by (intro js_sum_mset) (simp add: aggregateData_def Let_def multiset.map_comp)
  also have "\<dots> = js_sum (map js_sum (map (map volume) (map snd ?g)))"
    by (simp add: o_def)
  also have "\<dots> = js_sum (concat (map (map volume) (map snd ?g)))"
    by (rule js_sum_concat)
  also have "\<dots> = js_sum (map volume (concat (map snd ?g)))"
    by (simp only: map_concat)
  also have "\<dots> = js_sum (map volume days)"
    using mset_grouped [of key_of "[]" days] by (intro js_sum_mset) (metis add_0 concat.simps(1) list.simps(8) mset.simps(1) mset_map)
  finally show ?thesis .
qed


end
