(* ===== verification/Page.thy ===== *)
theory Page
  imports Storage Mock_Data
begin

text \<open>
  The page of the application, \<^verbatim>\<open>Home\<close> in \<^verbatim>\<open>src/src/app/page.tsx\<close>: its state, its
  effects, its handlers and what it shows, with the requests it has under way.

  \<^item> \<open>page_state\<close> is the state of the component, one field per \<^verbatim>\<open>useState\<close>.
    \<open>app\<close> adds what the handlers share with it: the storage of the browser
    (\<open>store\<close>), the continuations that wait for a response (\<open>pending\<close>) and the
    variables the callback of the timer has closed over (\<open>timer\<close>).
  \<^item> \<open>browser\<close> is what a step reads from outside: the time (\<^verbatim>\<open>Date.now()\<close>), the
    date of the day, the format of a time (\<^verbatim>\<open>toLocaleTimeString\<close>), and the
    calendar and the random numbers the mock series is generated from.
  \<^item> A handler of the source runs with the state of the last render; the state
    it sets is committed when it returns, and the effects whose dependencies
    changed run then, in the order of the source (\<open>commit\<close>, \<open>run_effects\<close>).
    The effect on \<^verbatim>\<open>[watchlist]\<close> runs whenever \<^verbatim>\<open>setWatchlist\<close> was called with a new
    array, the effect on \<^verbatim>\<open>[selectedStock]\<close> when the selected symbol is another.
    \<open>mount\<close> is the first render: the four effects on the initial state, then
    the effects on the watch list read from the storage.
  \<^item> An \<^verbatim>\<open>async\<close> function runs to its first \<^verbatim>\<open>await\<close> in the handler that calls
    it and leaves a \<open>task\<close>: \<open>Fetch symb sel awaited\<close> is a call of
    \<^verbatim>\<open>fetchStockDataFromAPI(symb)\<close> that waits for the series, made from a render
    whose selected stock was \<open>sel\<close>, by \<^verbatim>\<open>fetchStockData\<close> if \<open>awaited\<close>;
    \<open>Refresh rest wl sel\<close> is a run of \<^verbatim>\<open>refreshAllStockData\<close> that has the symbols
    \<open>rest\<close> left. \<open>fetchStockDataFromAPI\<close> is the function from the arrival of
    the series on, \<open>fetchStockData\<close> and \<open>refreshAllStockData\<close> are the parts
    before the first \<^verbatim>\<open>await\<close>, and \<open>resolve\<close> continues a task: the rest of a
    fetch, one round of the loop of a refresh, or its end. The mock series
    always arrives, so the \<^verbatim>\<open>catch\<close> branches are never taken; \<open>handleFetchError\<close>
    is modelled but not called.
  \<^item> \<open>truthy\<close> is the test \<^verbatim>\<open>if (x)\<close> on a string or \<^verbatim>\<open>null\<close>. An item under the key
    of the watch list that is not the text of an array of strings is taken as
    one \<^verbatim>\<open>JSON.parse\<close> rejects.
  \<^item> \<open>render\<close> is the part of the returned element that depends on the state:
    which of the panels is shown for the selected stock.
  \<^item> \<open>event\<close>, \<open>page_step\<close>, \<open>run\<close> and \<open>page_reachable\<close>: what can happen to the
    page (a stock selected or removed, a click on the refresh button, a tick
    of the timer, the \<open>n\<close>-th pending task continuing), one step, a sequence
    of steps, and the states the page reaches from its first render over a
    well-formed storage. Tasks continue in any order. \<open>drain\<close> continues the
    first pending task until none is left; \<open>work\<close> is the measure that
    decreases.

  The lemmas: what each operation leaves unchanged (\<open>page_frame\<close>); the
  invariants \<open>shell_inv\<close> (the selected stock is in the watch list, the
  storage holds the watch list, the timer has the watch list of the state)
  and \<open>page_inv\<close> (the storage is well formed, every pending fetch compares its
  symbol with itself, and while the page shows that it is loading a fetch
  that ends the loading is pending); \<open>drain\<close> terminates and ends the loading;
  the response of a fetch is shown whatever stock is selected when it arrives,
  and a sequence of steps in which it is shown under another stock.
\<close>

section \<open>The state of the page\<close>

record page_state =
  watchlist :: "string list"
  selectedStock :: "string option"
  stockData :: "StockTimeSeriesData list"
  isLoading :: bool
  error :: string
  showPredictions :: bool
  lastUpdate :: "string option"
  isCached :: bool

definition initial_state :: page_state where
  "initial_state =
     \<lparr>watchlist = [], selectedStock = None, stockData = [], isLoading = False, error = [],
      showPredictions = False, lastUpdate = None, isCached = False\<rparr>"

record browser =
  time_now :: int
  date_today :: string
  time_string :: "int \<Rightarrow> string"
  calendar :: "nat \<Rightarrow> nat \<times> string"
  period_key :: "interval \<Rightarrow> string \<Rightarrow> string"
  random :: "nat \<Rightarrow> real"

datatype task =
  Fetch string "string option" bool
| Refresh "string list" "string list" "string option"

record app =
  ui :: page_state
  store :: local_storage
  pending :: "task list"
  timer :: "string list \<times> string option"

definition truthy :: "string option \<Rightarrow> bool" where
  "truthy x = (case x of None \<Rightarrow> False | Some s \<Rightarrow> s \<noteq> [])"

section \<open>Fetching a series\<close>

definition fetch_series :: "browser \<Rightarrow> string \<Rightarrow> StockTimeSeriesData list" where
  "fetch_series w symb =
     getStockTimeSeries (calendar w) (period_key w) (random w) symb daily full"

definition handleFetchError :: "string \<Rightarrow> page_state \<Rightarrow> page_state" where
  "handleFetchError errorMessage u =
     (if js_includes errorMessage ''rate limit'' \<or> js_includes errorMessage ''API key''
         \<or> js_includes errorMessage ''limit is 25''
      then u\<lparr>error := ''Alpha Vantage API daily limit reached. The free tier is limited to 25 requests per day. Try again tomorrow or upgrade to a premium plan.'',
             stockData := []\<rparr>
      else u\<lparr>error := ''Failed to load stock data. Please try again later.'', stockData := []\<rparr>)"

definition fetchStockDataFromAPI :: "browser \<Rightarrow> string option \<Rightarrow> string \<Rightarrow> app \<Rightarrow> app" where
  "fetchStockDataFromAPI w sel symb a =
     (let data' = fetch_series w symb;
          a' = a\<lparr>store := cacheStockData (time_now w) symb data' (store a)\<rparr>
      in if Some symb = sel
         then a'\<lparr>ui := (ui a')\<lparr>stockData := data', isCached := False,
                    lastUpdate := Some (time_string w (time_now w)),
                    showPredictions := (30 \<le> length data' \<or> showPredictions (ui a'))\<rparr>\<rparr>
         else a')"

definition cache_timestamp :: "local_storage \<Rightarrow> string \<Rightarrow> int option" where
  "cache_timestamp s symb =
     (case getItem s (stock_data_key symb) of
        Some (Json cache) \<Rightarrow> if timestamp cache \<noteq> 0 then Some (timestamp cache) else None
      | _ \<Rightarrow> None)"

definition fetchStockData :: "browser \<Rightarrow> string option \<Rightarrow> string \<Rightarrow> app \<Rightarrow> app" where
  "fetchStockData w sel symb a =
     (let u = (ui a)\<lparr>isLoading := True, error := [], showPredictions := False, isCached := False\<rparr>
      in case getCachedStockData (time_now w) symb (store a) of
           Some cachedData \<Rightarrow>
             a\<lparr>ui := u\<lparr>stockData := cachedData, isCached := True,
                     lastUpdate := (case cache_timestamp (store a) symb of
                                      Some t \<Rightarrow> Some (time_string w t)
                                    | None \<Rightarrow> lastUpdate u),
                     showPredictions := (30 \<le> length cachedData),
                     isLoading := False\<rparr>\<rparr>
         | None \<Rightarrow> a\<lparr>ui := u, pending := pending a @ [Fetch symb sel True]\<rparr>)"

definition refreshAllStockData :: "browser \<Rightarrow> string list \<Rightarrow> string option \<Rightarrow> app \<Rightarrow> app" where
  "refreshAllStockData w wl sel a =
     (if wl = [] then a
      else a\<lparr>store := trackApiCall (time_now w) (date_today w) (store a),
             pending := pending a @ [Refresh wl wl sel]\<rparr>)"

fun resolve :: "browser \<Rightarrow> task \<Rightarrow> app \<Rightarrow> app" where
  "resolve w (Fetch symb sel awaited) a =
     (let a' = fetchStockDataFromAPI w sel symb a
      in if awaited then a'\<lparr>ui := (ui a')\<lparr>isLoading := False\<rparr>\<rparr> else a')"
| "resolve w (Refresh (symb # rest) wl sel) a =
     (let a' = fetchStockDataFromAPI w sel symb a
      in a'\<lparr>pending := pending a' @ [Refresh rest wl sel]\<rparr>)"
| "resolve w (Refresh [] wl sel) a =
     (let a' = a\<lparr>store := setItem (store a) last_cache_refresh (Text (toString_int (time_now w)))\<rparr>
      in if truthy sel \<and> the sel \<in> set wl then fetchStockData w sel (the sel) a' else a')"

section \<open>The effects\<close>

definition save_watchlist :: "app \<Rightarrow> app" where
  "save_watchlist a = a\<lparr>store := setItem (store a) watchlist_key (Symbols (watchlist (ui a)))\<rparr>"

definition load_chart :: "browser \<Rightarrow> app \<Rightarrow> app" where
  "load_chart w a =
     (let selectedStock' = selectedStock (ui a)
      in if truthy selectedStock' then fetchStockData w selectedStock' (the selectedStock') a
         else a\<lparr>ui := (ui a)\<lparr>stockData := []\<rparr>\<rparr>)"

definition refresh_check :: "browser \<Rightarrow> string list \<Rightarrow> string option \<Rightarrow> app \<Rightarrow> app" where
  "refresh_check w wl sel a =
     (let r = shouldRefreshCache (time_now w) (date_today w) (store a);
          a' = a\<lparr>store := snd r\<rparr>
      in if fst r \<and> wl \<noteq> [] then refreshAllStockData w wl sel a' else a')"

definition periodic_refresh :: "browser \<Rightarrow> app \<Rightarrow> app" where
  "periodic_refresh w a =
     (let wl = watchlist (ui a); sel = selectedStock (ui a)
      in (refresh_check w wl sel a)\<lparr>timer := (wl, sel)\<rparr>)"

definition run_effects :: "browser \<Rightarrow> bool \<Rightarrow> bool \<Rightarrow> app \<Rightarrow> app" where
  "run_effects w watchlist_changed selected_changed a =
     (let a1 = (if watchlist_changed then save_watchlist a else a);
          a2 = (if selected_changed then load_chart w a1 else a1)
      in if watchlist_changed then periodic_refresh w a2 else a2)"

definition mount :: "browser \<Rightarrow> local_storage \<Rightarrow> app" where
  "mount w s =
     (let savedWatchlist = getItem s watchlist_key;
          a = run_effects w True True \<lparr>ui = initial_state, store = s, pending = [], timer = ([], None)\<rparr>
      in case savedWatchlist of
           Some (Symbols parsed) \<Rightarrow>
             run_effects w True (parsed \<noteq> [])
               (a\<lparr>ui := (ui a)\<lparr>watchlist := parsed,
                      selectedStock := (if parsed \<noteq> [] then Some (hd parsed) else None)\<rparr>\<rparr>)
         | _ \<Rightarrow> a)"

section \<open>The handlers\<close>

definition commit :: "browser \<Rightarrow> bool \<Rightarrow> page_state \<Rightarrow> app \<Rightarrow> app" where
  "commit w watchlist_changed u a =
     run_effects w watchlist_changed (selectedStock u \<noteq> selectedStock (ui a)) (a\<lparr>ui := u\<rparr>)"

definition handleSelectStock :: "browser \<Rightarrow> string \<Rightarrow> app \<Rightarrow> app" where
  "handleSelectStock w symb a =
     (let u = ui a; added = (symb \<notin> set (watchlist u));
          u' = (if added then u\<lparr>watchlist := watchlist u @ [symb]\<rparr> else u)
      in commit w added (u'\<lparr>selectedStock := Some symb\<rparr>) a)"

definition handleRemoveSymbol :: "browser \<Rightarrow> string \<Rightarrow> app \<Rightarrow> app" where
  "handleRemoveSymbol w symb a =
     (let u = ui a;
          u' = u\<lparr>watchlist := filter (\<lambda>s. s \<noteq> symb) (watchlist u)\<rparr>
      in if selectedStock u = Some symb
         then let remaining = filter (\<lambda>s. s \<noteq> symb) (watchlist u)
              in commit w True (u'\<lparr>selectedStock := (if remaining \<noteq> [] then Some (hd remaining) else None)\<rparr>) a
         else commit w True u' a)"

definition handleRefresh :: "app \<Rightarrow> app" where
  "handleRefresh a =
     (let selectedStock' = selectedStock (ui a)
      in if truthy selectedStock'
         then a\<lparr>pending := pending a @ [Fetch (the selectedStock') selectedStock' False]\<rparr>
         else a)"

definition tick :: "browser \<Rightarrow> app \<Rightarrow> app" where
  "tick w a = refresh_check w (fst (timer a)) (snd (timer a)) a"

section \<open>What is shown\<close>

datatype label = Cached string | Fresh string | NoLabel

datatype view =
  Hidden
| Spinner string
| RateLimitAlert string
| ErrorCard string
| Chart label "StockTimeSeriesData list" string bool
| Placeholder

definition render :: "page_state \<Rightarrow> view" where
  "render u =
     (if \<not> truthy (selectedStock u) then Hidden
      else if isLoading u then Spinner (the (selectedStock u))
      else if error u \<noteq> [] then
        (if js_includes (error u) ''API rate limit'' \<or> js_includes (error u) ''limit reached''
            \<or> js_includes (error u) ''limit is 25''
         then RateLimitAlert (error u) else ErrorCard (error u))
      else if 0 < length (stockData u) then
        Chart (if isCached u \<and> truthy (lastUpdate u) then Cached (the (lastUpdate u))
               else if \<not> isCached u \<and> truthy (lastUpdate u) then Fresh (the (lastUpdate u))
               else NoLabel)
          (stockData u) (the (selectedStock u)) (showPredictions u)
      else Placeholder)"

section \<open>Events\<close>

datatype event = SelectStock string | RemoveSymbol string | ClickRefresh | Tick | Resolve nat

fun page_step :: "browser \<Rightarrow> event \<Rightarrow> app \<Rightarrow> app" where
  "page_step w (SelectStock symb) a = handleSelectStock w symb a"
| "page_step w (RemoveSymbol symb) a = handleRemoveSymbol w symb a"
| "page_step w ClickRefresh a = handleRefresh a"
| "page_step w Tick a = tick w a"
| "page_step w (Resolve n) a =
     (if n < length (pending a)
      then resolve w (pending a ! n) (a\<lparr>pending := take n (pending a) @ drop (Suc n) (pending a)\<rparr>)
      else a)"

definition run :: "(browser \<times> event) list \<Rightarrow> app \<Rightarrow> app" where
  "run evs a = foldl (\<lambda>a (w, ev). page_step w ev a) a evs"

inductive page_reachable :: "app \<Rightarrow> bool" where
  mounted: "storage_wf s \<Longrightarrow> page_reachable (mount w s)"
| step: "page_reachable a \<Longrightarrow> page_reachable (page_step w ev a)"

section \<open>Invariants and termination: definitions\<close>

definition task_ok :: "task \<Rightarrow> bool" where
  "task_ok t = (case t of Fetch symb sel awaited \<Rightarrow> sel = Some symb | Refresh rest wl sel \<Rightarrow> True)"

definition awaited_fetch :: "task \<Rightarrow> bool" where
  "awaited_fetch t = (case t of Fetch symb sel awaited \<Rightarrow> awaited | Refresh rest wl sel \<Rightarrow> False)"

definition page_inv :: "app \<Rightarrow> bool" where
  "page_inv a \<longleftrightarrow>
     storage_wf (store a) \<and> list_all task_ok (pending a) \<and>
     (if isLoading (ui a) then list_ex awaited_fetch (pending a) else True)"

definition shell_inv :: "app \<Rightarrow> bool" where
  "shell_inv a \<longleftrightarrow>
     set_option (selectedStock (ui a)) \<subseteq> set (watchlist (ui a)) \<and>
     getItem (store a) watchlist_key = Some (Symbols (watchlist (ui a))) \<and>
     fst (timer a) = watchlist (ui a)"

fun task_weight :: "task \<Rightarrow> nat" where
  "task_weight (Fetch symb sel awaited) = 1"
| "task_weight (Refresh rest wl sel) = length rest + 2"

definition work :: "app \<Rightarrow> nat" where
  "work a = sum_list (map task_weight (pending a))"

function drain :: "(nat \<Rightarrow> browser) \<Rightarrow> nat \<Rightarrow> app \<Rightarrow> app" where
  "drain ws k a =
     (if pending a = [] then a else drain ws (Suc k) (page_step (ws k) (Resolve 0) a))"
  by pat_completeness auto

text \<open>A browser for examples.\<close>

definition sample_browser :: "int \<Rightarrow> browser" where
  "sample_browser t =
     \<lparr>time_now = t, date_today = ''2024-01-02'', time_string = toString_int,
      calendar = (\<lambda>i. (1, [])), period_key = (\<lambda>i d. d), random = (\<lambda>k. 0)\<rparr>"

section \<open>What the operations leave unchanged\<close>

named_theorems page_frame

lemma fetchStockDataFromAPI_frame [page_frame, simp]:
  "watchlist (ui (fetchStockDataFromAPI w sel symb a)) = watchlist (ui a)"
  "selectedStock (ui (fetchStockDataFromAPI w sel symb a)) = selectedStock (ui a)"
  "isLoading (ui (fetchStockDataFromAPI w sel symb a)) = isLoading (ui a)"
  "error (ui (fetchStockDataFromAPI w sel symb a)) = error (ui a)"
  "pending (fetchStockDataFromAPI w sel symb a) = pending a"
  "timer (fetchStockDataFromAPI w sel symb a) = timer a"
  "store (fetchStockDataFromAPI w sel symb a) = cacheStockData (time_now w) symb (fetch_series w symb) (store a)"
  by (simp_all add: fetchStockDataFromAPI_def Let_def)

lemma fetchStockData_frame [page_frame, simp]:
  "watchlist (ui (fetchStockData w sel symb a)) = watchlist (ui a)"
  "selectedStock (ui (fetchStockData w sel symb a)) = selectedStock (ui a)"
  "store (fetchStockData w sel symb a) = store a"
  "timer (fetchStockData w sel symb a) = timer a"
  by (simp_all add: fetchStockData_def Let_def split: option.splits)

lemma refreshAllStockData_frame [page_frame, simp]:
  "ui (refreshAllStockData w wl sel a) = ui a"
  "timer (refreshAllStockData w wl sel a) = timer a"
  "getItem (store (refreshAllStockData w wl sel a)) watchlist_key = getItem (store a) watchlist_key"
  by (simp_all add: refreshAllStockData_def getItem_trackApiCall_other)

lemma refresh_check_frame [page_frame, simp]:
  "ui (refresh_check w wl sel a) = ui a"
  "timer (refresh_check w wl sel a) = timer a"
  "getItem (store (refresh_check w wl sel a)) watchlist_key = getItem (store a) watchlist_key"
  by (simp_all add: refresh_check_def Let_def getItem_shouldRefreshCache_other)

lemma resolve_frame [page_frame, simp]:
  "watchlist (ui (resolve w t a)) = watchlist (ui a)"
  "selectedStock (ui (resolve w t a)) = selectedStock (ui a)"
  "timer (resolve w t a) = timer a"
  "getItem (store (resolve w t a)) watchlist_key = getItem (store a) watchlist_key"
  by (induction w t a rule: resolve.induct) (simp_all add: Let_def)

lemma load_chart_frame [page_frame, simp]:
  "watchlist (ui (load_chart w a)) = watchlist (ui a)"
  "selectedStock (ui (load_chart w a)) = selectedStock (ui a)"
  "store (load_chart w a) = store a"
  "timer (load_chart w a) = timer a"
  by (simp_all add: load_chart_def Let_def)

lemma save_watchlist_frame [page_frame, simp]:
  "ui (save_watchlist a) = ui a"
  "pending (save_watchlist a) = pending a"
  "timer (save_watchlist a) = timer a"
  "getItem (store (save_watchlist a)) watchlist_key = Some (Symbols (watchlist (ui a)))"
  by (simp_all add: save_watchlist_def)

lemma periodic_refresh_frame [page_frame, simp]:
  "ui (periodic_refresh w a) = ui a"
  "timer (periodic_refresh w a) = (watchlist (ui a), selectedStock (ui a))"
  "getItem (store (periodic_refresh w a)) watchlist_key = getItem (store a) watchlist_key"
  by (simp_all add: periodic_refresh_def Let_def)

lemma run_effects_frame [page_frame, simp]:
  "watchlist (ui (run_effects w wc sc a)) = watchlist (ui a)"
  "selectedStock (ui (run_effects w wc sc a)) = selectedStock (ui a)"
  "getItem (store (run_effects w wc sc a)) watchlist_key =
     (if wc then Some (Symbols (watchlist (ui a))) else getItem (store a) watchlist_key)"
  "timer (run_effects w wc sc a) = (if wc then (watchlist (ui a), selectedStock (ui a)) else timer a)"
  by (simp_all add: run_effects_def Let_def)

lemma shell_inv_effects:
  assumes "set_option (selectedStock (ui a)) \<subseteq> set (watchlist (ui a))"
    and "wc \<or> getItem (store a) watchlist_key = Some (Symbols (watchlist (ui a))) \<and>
           fst (timer a) = watchlist (ui a)"
  shows "shell_inv (run_effects w wc sc a)"
  using assms by (auto simp: shell_inv_def)

lemma shell_inv_mount: "shell_inv (mount w s)"
  by (auto simp: mount_def Let_def initial_state_def intro!: shell_inv_effects
      split: option.splits item.splits)

lemma shell_inv_select: "shell_inv a \<Longrightarrow> shell_inv (handleSelectStock w symb a)"
  by (auto simp: handleSelectStock_def commit_def Let_def shell_inv_def intro!: shell_inv_effects)

lemma hd_filter_mem: "filter P xs \<noteq> [] \<Longrightarrow> hd (filter P xs) \<in> set (filter P xs)"
  by (rule hd_in_set)

lemma shell_inv_remove: "shell_inv a \<Longrightarrow> shell_inv (handleRemoveSymbol w symb a)"
  unfolding handleRemoveSymbol_def commit_def Let_def
  by (auto simp: shell_inv_def intro!: shell_inv_effects dest: hd_filter_mem split: option.splits)

lemma shell_inv_step: "shell_inv a \<Longrightarrow> shell_inv (page_step w ev a)"
  by (cases ev) (auto simp: shell_inv_select shell_inv_remove, auto simp: shell_inv_def handleRefresh_def tick_def Let_def)

section \<open>The invariant of the tasks\<close>

lemma page_inv_fetchStockDataFromAPI:
  "page_inv a \<Longrightarrow> page_inv (fetchStockDataFromAPI w sel symb a)"
  by (simp add: page_inv_def wf_cache)

lemma page_inv_fetchStockData:
  "page_inv a \<Longrightarrow> page_inv (fetchStockData w (Some symb) symb a)"
  by (simp add: page_inv_def fetchStockData_def Let_def task_ok_def awaited_fetch_def
      split: option.splits)

lemma page_inv_refreshAllStockData:
  "page_inv a \<Longrightarrow> page_inv (refreshAllStockData w wl sel a)"
  by (simp add: page_inv_def refreshAllStockData_def wf_track task_ok_def)

lemma page_inv_refresh_check:
  "page_inv a \<Longrightarrow> page_inv (refresh_check w wl sel a)"
proof -
  assume "page_inv a"
  then have "page_inv (a\<lparr>store := snd (shouldRefreshCache (time_now w) (date_today w) (store a))\<rparr>)"
    by (simp add: page_inv_def wf_refresh)
  then show ?thesis
    by (simp add: refresh_check_def Let_def page_inv_refreshAllStockData)
qed

lemma page_inv_load_chart: "page_inv a \<Longrightarrow> page_inv (load_chart w a)"
proof (cases "selectedStock (ui a)")
  case None
  assume "page_inv a"
  with None show ?thesis by (simp add: load_chart_def truthy_def page_inv_def)
next
  case (Some s)
  assume "page_inv a"
  then have "page_inv (fetchStockData w (Some s) s a)" by (rule page_inv_fetchStockData)
  moreover from \<open>page_inv a\<close> have "page_inv (a\<lparr>ui := (ui a)\<lparr>stockData := []\<rparr>\<rparr>)"
    by (simp add: page_inv_def)
  ultimately show ?thesis using Some by (simp add: load_chart_def Let_def)
qed

lemma page_inv_run_effects: "page_inv a \<Longrightarrow> page_inv (run_effects w wc sc a)"
proof -
  assume a: "page_inv a"
  have save: "page_inv (save_watchlist b)" if "page_inv b" for b
    using that by (simp add: page_inv_def save_watchlist_def wf_setItem)
  have periodic: "page_inv (periodic_refresh w b)" if "page_inv b" for b
    using page_inv_refresh_check [OF that, of w "watchlist (ui b)" "selectedStock (ui b)"]
    by (simp add: periodic_refresh_def Let_def page_inv_def)
  from a show ?thesis
    by (simp add: run_effects_def Let_def save periodic page_inv_load_chart)
qed

lemma page_inv_ui:
  "page_inv a \<Longrightarrow> isLoading u = isLoading (ui a) \<Longrightarrow> page_inv (a\<lparr>ui := u\<rparr>)"
  by (simp add: page_inv_def)

lemma page_inv_commit:
  "page_inv a \<Longrightarrow> isLoading u = isLoading (ui a) \<Longrightarrow> page_inv (commit w wc u a)"
  by (simp add: commit_def page_inv_run_effects page_inv_ui)

lemma page_inv_mount: "storage_wf s \<Longrightarrow> page_inv (mount w s)"
proof -
  assume "storage_wf s"
  then have "page_inv \<lparr>ui = initial_state, store = s, pending = [], timer = ([], None)\<rparr>"
    by (simp add: page_inv_def initial_state_def)
  then have "page_inv (run_effects w True True
      \<lparr>ui = initial_state, store = s, pending = [], timer = ([], None)\<rparr>)"
    by (rule page_inv_run_effects)
  then show ?thesis
    by (auto simp: mount_def Let_def split: option.splits item.splits
        intro!: page_inv_run_effects page_inv_ui)
qed

lemma page_inv_resolve:
  assumes "storage_wf (store a)" "list_all task_ok (pending a)" "task_ok t"
    and "isLoading (ui a) \<Longrightarrow> list_ex awaited_fetch (pending a) \<or> awaited_fetch t"
  shows "page_inv (resolve w t a)"
proof (cases t)
  case (Fetch symb sel aw)
  with assms show ?thesis
    by (auto simp: page_inv_def Let_def wf_cache awaited_fetch_def)
next
  case (Refresh rest wl sel)
  show ?thesis
  proof (cases rest)
    case Nil
    let ?a = "a\<lparr>store := setItem (store a) last_cache_refresh (Text (toString_int (time_now w)))\<rparr>"
    from assms Refresh have inv: "page_inv ?a"
      by (simp add: page_inv_def wf_setItem awaited_fetch_def)
    have "page_inv (fetchStockData w sel (the sel) ?a)" if "truthy sel"
    proof -
      from that obtain x where "sel = Some x" by (cases sel) (simp_all add: truthy_def)
      with inv show ?thesis by (simp add: page_inv_fetchStockData)
    qed
    with inv Refresh Nil show ?thesis by (simp add: Let_def)
  next
    case (Cons symb rest')
    with assms Refresh show ?thesis
      by (simp add: page_inv_def Let_def wf_cache awaited_fetch_def task_ok_def)
  qed
qed

lemma list_ex_remove_nth:
  assumes "list_ex P xs" "n < length xs"
  shows "list_ex P (take n xs @ drop (Suc n) xs) \<or> P (xs ! n)"
proof -
  have "xs = take n xs @ xs ! n # drop (Suc n) xs"
    using assms(2) by (simp add: id_take_nth_drop)
  then have "list_ex P xs = list_ex P (take n xs @ xs ! n # drop (Suc n) xs)" by simp
  with assms(1) show ?thesis by (auto simp: list_ex_iff)
qed

lemma list_all_remove_nth:
  "list_all P xs \<Longrightarrow> list_all P (take n xs @ drop (Suc n) xs)"
  by (auto simp: list_all_iff dest: in_set_takeD in_set_dropD)

lemma page_inv_step: "page_inv a \<Longrightarrow> page_inv (page_step w ev a)"
proof (cases ev)
  case (SelectStock symb)
  assume "page_inv a"
  then show ?thesis unfolding SelectStock
    by (simp add: handleSelectStock_def Let_def page_inv_commit)
next
  case (RemoveSymbol symb)
  assume "page_inv a"
  then show ?thesis unfolding RemoveSymbol
    by (simp add: handleRemoveSymbol_def Let_def page_inv_commit)
next
  case ClickRefresh
  assume "page_inv a"
  then show ?thesis unfolding ClickRefresh
    by (cases "selectedStock (ui a)")
      (simp_all add: handleRefresh_def Let_def truthy_def page_inv_def task_ok_def)
next
  case Tick
  assume "page_inv a"
  then show ?thesis unfolding Tick by (simp add: tick_def page_inv_refresh_check)
next
  case (Resolve n)
  assume a: "page_inv a"
  show ?thesis
  proof (cases "n < length (pending a)")
    case True
    let ?a = "a\<lparr>pending := take n (pending a) @ drop (Suc n) (pending a)\<rparr>"
    from a have "storage_wf (store ?a)" by (simp add: page_inv_def)
    moreover from a have "list_all task_ok (pending ?a)"
      using list_all_remove_nth [of task_ok "pending a" n] by (simp add: page_inv_def)
    moreover from a True have "task_ok (pending a ! n)" by (simp add: page_inv_def list_all_length)
    moreover have "list_ex awaited_fetch (pending ?a) \<or> awaited_fetch (pending a ! n)"
      if "isLoading (ui ?a)"
      using that a True list_ex_remove_nth [of awaited_fetch "pending a" n]
      by (simp add: page_inv_def)
    ultimately have "page_inv (resolve w (pending a ! n) ?a)" by (rule page_inv_resolve)
    with True show ?thesis unfolding Resolve by simp
  next
    case False
    with a show ?thesis unfolding Resolve by simp
  qed
qed

lemma reachable_inv: "page_reachable a \<Longrightarrow> page_inv a \<and> shell_inv a"
  by (induction rule: page_reachable.induct)
    (simp_all add: page_inv_mount shell_inv_mount page_inv_step shell_inv_step)

section \<open>Termination of the pending work\<close>

lemma work_fetchStockData:
  "work (fetchStockData w sel symb a) \<le> work a + 1"
  by (simp add: work_def fetchStockData_def Let_def split: option.splits)

lemma work_resolve: "work (resolve w t a) < work a + task_weight t"
proof (induction w t a rule: resolve.induct)
  case (3 w wl sel a)
  let ?a = "a\<lparr>store := setItem (store a) last_cache_refresh (Text (toString_int (time_now w)))\<rparr>"
  have "work (fetchStockData w sel (the sel) ?a) \<le> work ?a + 1" by (rule work_fetchStockData)
  moreover have "work ?a = work a" by (simp add: work_def)
  ultimately show ?case by (simp add: Let_def)
qed (simp_all add: work_def Let_def)

lemma work_step:
  assumes "pending a \<noteq> []"
  shows "work (page_step w (Resolve 0) a) < work a"
proof -
  from assms obtain t ts where p: "pending a = t # ts" by (cases "pending a") simp_all
  have "work (resolve w t (a\<lparr>pending := ts\<rparr>)) < work (a\<lparr>pending := ts\<rparr>) + task_weight t"
    by (rule work_resolve)
  with p show ?thesis by (simp add: work_def)
qed

text \<open>The same for the task at any position: the requests may end in any
  order.\<close>

lemma work_step_any:
  assumes "n < length (pending a)"
  shows "work (page_step w (Resolve n) a) < work a"
proof -
  let ?ts = "take n (pending a) @ drop (Suc n) (pending a)"
  have "work (resolve w (pending a ! n) (a\<lparr>pending := ?ts\<rparr>))
      < work (a\<lparr>pending := ?ts\<rparr>) + task_weight (pending a ! n)"
    by (rule work_resolve)
  moreover have "work (a\<lparr>pending := ?ts\<rparr>) + task_weight (pending a ! n) = work a"
    using arg_cong [OF id_take_nth_drop [OF assms], of "\<lambda>ts. sum_list (map task_weight ts)"]
    by (simp add: work_def)
  ultimately show ?thesis using assms by simp
qed

termination drain
  by (relation "measure (\<lambda>(ws, k, a). work a)") (simp_all add: work_step del: page_step.simps)

declare drain.simps [simp del]

lemma drain_settles: "pending (drain ws k a) = []"
  by (induction ws k a rule: drain.induct) (subst drain.simps, simp)

lemma page_inv_drain: "page_inv a \<Longrightarrow> page_inv (drain ws k a)"
  by (induction ws k a rule: drain.induct) (subst drain.simps, simp add: page_inv_step del: page_step.simps)

lemma reachable_drain: "page_reachable a \<Longrightarrow> page_reachable (drain ws k a)"
  by (induction ws k a rule: drain.induct) (subst drain.simps, simp add: page_reachable.step del: page_step.simps)

lemma page_count_defined:
  "page_reachable a \<Longrightarrow> \<exists>n. getApiCallCount today (store a) = Some (int n)"
  using reachable_inv [of a] by (simp add: page_inv_def wf_count)

section \<open>Sequences of steps\<close>

lemmas page_defs =
  mount_def run_effects_def save_watchlist_def load_chart_def periodic_refresh_def
  refresh_check_def refreshAllStockData_def fetchStockData_def fetchStockDataFromAPI_def
  handleSelectStock_def handleRemoveSymbol_def handleRefresh_def commit_def tick_def
  initial_state_def truthy_def cache_timestamp_def

lemmas storage_defs =
  getCachedStockData_def cacheStockData_def shouldRefreshCache_def getApiCallCount_def
  trackApiCall_def item_truthy_def item_parseInt_def MAX_DAILY_CALLS_def

lemma mount_empty:
  "mount w [] =
     \<lparr>ui = initial_state,
      store = setItem (setItem [] watchlist_key (Symbols [])) last_cache_refresh
                (Text (toString_int (time_now w))),
      pending = [], timer = ([], None)\<rparr>"
  by (simp add: page_defs storage_defs Let_def)

lemma sample_reachable:
  "page_reachable (page_step w ev (mount w0 []))"
  by (intro page_reachable.intros) (simp add: storage_wf_def)

lemma select_pending:
  "symb \<noteq> [] \<Longrightarrow> time_now w - time_now w0 \<le> CACHE_DURATION \<Longrightarrow>
     pending (page_step w (SelectStock symb) (mount w0 [])) = [Fetch symb (Some symb) True]"
  by (simp add: mount_empty page_defs storage_defs Let_def)

text \<open>The callback of the timer keeps the selected stock of the render in which the
  watch list last changed: after a stock of the watch list is selected again,
  it is not the selected stock of the state.\<close>

lemma timer_selection_stale:
  assumes "x \<noteq> y"
  shows "timer (run [(w1, SelectStock y), (w2, SelectStock x), (w3, SelectStock y)] (mount w0 []))
           = ([y, x], Some x)
       \<and> selectedStock (ui (run [(w1, SelectStock y), (w2, SelectStock x), (w3, SelectStock y)]
             (mount w0 []))) = Some y"
  using assms
  by (simp add: run_def mount_empty handleSelectStock_def commit_def Let_def initial_state_def)

section \<open>What is shown for an error\<close>

lemma rate_limit_alert:
  assumes "truthy (selectedStock u)" "\<not> isLoading u" "js_includes msg ''rate limit''"
  shows "\<exists>m. render (handleFetchError msg u) = RateLimitAlert m"
  using assms by (simp add: render_def handleFetchError_def)

section \<open>Claims\<close>

text \<open>C11: a response that arrives late is shown under another stock. The stock
  \<open>y\<close> is selected and its series arrives and is cached; \<open>x\<close> is selected, and
  before its series arrives \<open>y\<close> is selected again and shown from the cache;
  then the series of \<open>x\<close> arrives. The page now has \<open>y\<close> selected and shows the
  series of \<open>x\<close>, with nothing pending that would correct it.\<close>

theorem stale_response:
  assumes "final = run [(w1, SelectStock y), (w2, Resolve 0), (w3, SelectStock x),
             (w4, SelectStock y), (w5, Resolve 0)] (mount w0 [])"
    and "x \<noteq> y" "x \<noteq> []" "y \<noteq> []"
    and "time_now w1 - time_now w0 \<le> CACHE_DURATION" "time_now w3 - time_now w0 \<le> CACHE_DURATION"
    and "time_now w4 - time_now w2 < CACHE_DURATION"
  shows "selectedStock (ui final) = Some y \<and> stockData (ui final) = fetch_series w5 x
       \<and> pending final = [] \<and> \<not> isLoading (ui final) \<and> error (ui final) = []"
  using assms
  by (simp add: run_def mount_empty page_defs storage_defs Let_def)

theorem stale_response_witness:
  "selectedStock (ui (run [(sample_browser 1000, SelectStock ''MSFT''), (sample_browser 2000, Resolve 0),
       (sample_browser 3000, SelectStock ''AAPL''), (sample_browser 4000, SelectStock ''MSFT''),
       (sample_browser 5000, Resolve 0)] (mount (sample_browser 0) []))) = Some ''MSFT''
   \<and> stockData (ui (run [(sample_browser 1000, SelectStock ''MSFT''), (sample_browser 2000, Resolve 0),
       (sample_browser 3000, SelectStock ''AAPL''), (sample_browser 4000, SelectStock ''MSFT''),
       (sample_browser 5000, Resolve 0)] (mount (sample_browser 0) [])))
     = fetch_series (sample_browser 5000) ''AAPL''"
  using stale_response [where x = "''AAPL''" and y = "''MSFT''" and ?w0.0 = "sample_browser 0"
      and ?w1.0 = "sample_browser 1000" and ?w2.0 = "sample_browser 2000"
      and ?w3.0 = "sample_browser 3000" and ?w4.0 = "sample_browser 4000"
      and ?w5.0 = "sample_browser 5000", OF refl]
  by (simp add: sample_browser_def CACHE_DURATION_def)

text \<open>C15: in every state the page reaches, when a pending fetch of a symbol
  continues, the series that arrived becomes the series shown, whatever stock
  is selected: the test of \<^verbatim>\<open>fetchStockDataFromAPI\<close> compares the symbol with the
  selected stock of the render that made the call, which is the symbol.\<close>

theorem response_shown:
  assumes "page_reachable a" "n < length (pending a)" "pending a ! n = Fetch symb sel aw"
  shows "stockData (ui (page_step w (Resolve n) a)) = fetch_series w symb"
proof -
  from assms have "task_ok (Fetch symb sel aw)"
    using reachable_inv [of a] by (auto simp: page_inv_def list_all_length)
  then have "sel = Some symb" by (simp add: task_ok_def)
  with assms show ?thesis by (simp add: fetchStockDataFromAPI_def Let_def)
qed

theorem response_shown_witness:
  "stockData (ui (page_step (sample_browser 2000) (Resolve 0)
       (page_step (sample_browser 1000) (SelectStock ''AAPL'') (mount (sample_browser 0) []))))
     = fetch_series (sample_browser 2000) ''AAPL''"
proof -
  have "pending (page_step (sample_browser 1000) (SelectStock ''AAPL'') (mount (sample_browser 0) []))
      = [Fetch ''AAPL'' (Some ''AAPL'') True]"
    by (rule select_pending) (simp_all add: sample_browser_def CACHE_DURATION_def)
  then show ?thesis
    by (intro response_shown [where sel = "Some ''AAPL''" and aw = True] sample_reachable)
      (simp_all del: page_step.simps)
qed

text \<open>C16: from every state the page reaches, continuing the first pending task
  again and again comes to an end, and then nothing is pending and the page
  does not show that it is loading.\<close>

theorem spinner_ends:
  assumes "page_reachable a"
  shows "pending (drain ws k a) = [] \<and> \<not> isLoading (ui (drain ws k a))"
proof -
  from assms have "page_inv (drain ws k a)" by (simp add: reachable_inv page_inv_drain)
  then show ?thesis by (simp add: page_inv_def drain_settles split: if_splits)
qed

theorem spinner_ends_witness:
  "pending (drain (\<lambda>k. sample_browser 2000) 0
       (page_step (sample_browser 1000) (SelectStock ''AAPL'') (mount (sample_browser 0) []))) = []
   \<and> \<not> isLoading (ui (drain (\<lambda>k. sample_browser 2000) 0
       (page_step (sample_browser 1000) (SelectStock ''AAPL'') (mount (sample_browser 0) []))))"
  by (rule spinner_ends) (rule sample_reachable)

text \<open>C17: in every state the page reaches, the selected stock is in the watch
  list, the storage holds the watch list under its key, and the callback of
  the timer has the watch list of the state.\<close>

theorem reachable_shell:
  assumes "page_reachable a"
  shows "shell_inv a"
  using assms by (simp add: reachable_inv)

theorem reachable_shell_witness:
  "shell_inv (page_step (sample_browser 1000) (SelectStock ''AAPL'') (mount (sample_browser 0) []))"
  by (rule reachable_shell) (rule sample_reachable)

end
