(* ===== verification/LLM_Prediction.thy ===== *)
theory LLM_Prediction
  imports Mock_Data
begin

text \<open>
  The forecast asked of a language model, \<^verbatim>\<open>generateLLMPrediction\<close> in the first
  part of \<^verbatim>\<open>src/src/lib/llm-prediction.ts\<close>, and the function of the same name in
  \<^verbatim>\<open>src/unnamed/part_000\<close>, which asks an endpoint of the server instead
  (\<open>generateLLMPrediction_client\<close>).

  \<^item> What comes back from the service is an input here; the request that
    is sent is in theory \<open>LLM_Request\<close>. \<open>Rejected\<close> is a
    request that failed, \<open>Answer g\<close> an answer whose first element has the field
    \<^verbatim>\<open>generated_text\<close> \<open>g\<close> (\<open>None\<close> when it is missing). \<open>has_key\<close> says whether the
    key of the service is configured, \<open>json_parse\<close> is \<^verbatim>\<open>JSON.parse\<close> followed by the
    reading of the fields of the result (\<open>None\<close> when it throws), and \<open>rnd k\<close> is
    the \<open>k\<close>-th value of \<^verbatim>\<open>Math.random()\<close> in the call.
  \<^item> \<open>json_match\<close> is \<^verbatim>\<open>content.match(/\{[\s\S]*\}/)\<close>: the text from the first
    opening brace to the last closing brace after it.
  \<^item> The two thrown errors are the values \<open>Inl message\<close>. The fields of the
    result that have the name of a field of the statistical forecast carry the
    prefix \<open>llm_\<close>.

  The lemmas: \<open>json_match\<close> meets its specification \<open>json_match_spec\<close> and fails
  only on a text without a brace pair; the call fails exactly without a key or
  with fewer than thirty bars; an answer that parses is returned as it is; the
  fallback forecasts lie within one and within two and a half percent of the
  last close; the function of \<^verbatim>\<open>part_000\<close> in front of a server with a key
  returns what the function of the server returns, and in front of a server
  without a key it returns a fallback forecast in place of the error.
\<close>

section \<open>The answer of the model\<close>

record LLMPredictionResult =
  llm_nextDayPrediction :: jsnum
  llm_nextWeekPrediction :: jsnum
  marketSentiment :: string
  rationale :: string
  riskAssessment :: string
  suggestedAction :: string
  keyFactors :: "string list"

datatype http_response = Rejected | Answer "string option"

definition json_match :: "string \<Rightarrow> string option" where
  "json_match content =
     (let from_brace = dropWhile (\<lambda>c. c \<noteq> CHR ''{'') content;
          to_brace = rev (dropWhile (\<lambda>c. c \<noteq> CHR ''}'') (rev from_brace))
      in if to_brace = [] then None else Some to_brace)"

definition fallback_prediction ::
  "(nat \<Rightarrow> real) \<Rightarrow> jsnum \<Rightarrow> string \<Rightarrow> string list \<Rightarrow> LLMPredictionResult" where
  "fallback_prediction rnd lastPrice' why factors =
     \<lparr>llm_nextDayPrediction = lastPrice' * (1 + (Fin (rnd 0) * 0.02 - 0.01)),
      llm_nextWeekPrediction = lastPrice' * (1 + (Fin (rnd 1) * 0.05 - 0.025)),
      marketSentiment = ''neutral'',
      rationale = why,
      riskAssessment = ''medium'',
      suggestedAction = ''watch'',
      keyFactors = factors\<rparr>"

definition generateLLMPrediction ::
  "bool \<Rightarrow> http_response \<Rightarrow> (string \<Rightarrow> LLMPredictionResult option) \<Rightarrow> (nat \<Rightarrow> real) \<Rightarrow> string
     \<Rightarrow> StockTimeSeriesData list \<Rightarrow> string + LLMPredictionResult" where
  "generateLLMPrediction has_key response json_parse rnd symb stockData =
     (if \<not> has_key
      then Inl ''Hugging Face API key is not configured. Set NEXT_PUBLIC_HUGGINGFACE_API_KEY in your .env.local''
      else if length stockData < 30
      then Inl ''Insufficient data for LLM prediction. Need at least 30 data points.''
      else let lastPrice' = close (last stockData)
           in case response of
                Rejected \<Rightarrow>
                  Inr (fallback_prediction rnd lastPrice'
                        ''Unable to generate AI prediction. This is a fallback prediction.''
                        [''API error'', ''fallback prediction''])
              | Answer generated_text \<Rightarrow>
                  let content = (case generated_text of Some t \<Rightarrow> t | None \<Rightarrow> []);
                      jsonStr = (case json_match content of Some m \<Rightarrow> m | None \<Rightarrow> [])
                  in case (if jsonStr \<noteq> [] then json_parse jsonStr else None) of
                       Some result \<Rightarrow> Inr result
                     | None \<Rightarrow>
                         Inr (fallback_prediction rnd lastPrice'
                               ''Based on recent price movements and volatility.''
                               [''recent price action'', ''market volatility'']))"

text \<open>The function of \<^verbatim>\<open>src/unnamed/part_000\<close>, which runs in the browser and posts
  the series to an endpoint of the application's server; \<open>endpoint\<close> is the
  answer of the endpoint, an input.\<close>

definition generateLLMPrediction_client ::
  "string + LLMPredictionResult \<Rightarrow> (nat \<Rightarrow> real) \<Rightarrow> string \<Rightarrow> StockTimeSeriesData list
     \<Rightarrow> string + LLMPredictionResult" where
  "generateLLMPrediction_client endpoint rnd symb stockData =
     (if length stockData < 30
      then Inl ''Insufficient data for LLM prediction. Need at least 30 data points.''
      else let lastPrice' = close (last stockData)
           in case endpoint of
                Inr data' \<Rightarrow> Inr data'
              | Inl failure \<Rightarrow>
                  Inr (fallback_prediction rnd lastPrice'
                        ''Unable to generate AI prediction. This is a fallback prediction.''
                        [''API error'', ''fallback prediction'']))"

text \<open>The specification of the match: the longest part of the text that starts
  at its first opening brace and ends in a closing brace.\<close>

definition json_match_spec :: "string \<Rightarrow> string \<Rightarrow> bool" where
  "json_match_spec content m \<longleftrightarrow>
     (\<exists>pre post. content = pre @ m @ post \<and> CHR ''{'' \<notin> set pre \<and> CHR ''}'' \<notin> set post
        \<and> m \<noteq> [] \<and> hd m = CHR ''{'' \<and> last m = CHR ''}'')"

section \<open>The match\<close>

lemma rev_dropWhile_rev:
  "\<exists>post. xs = rev (dropWhile P (rev xs)) @ post \<and> list_all P post"
proof -
  have "rev xs = takeWhile P (rev xs) @ dropWhile P (rev xs)" by simp
  then have "xs = rev (dropWhile P (rev xs)) @ rev (takeWhile P (rev xs))"
    by (metis rev_append rev_rev_ident)
  moreover have "list_all P (rev (takeWhile P (rev xs)))"
    by (auto simp: list_all_iff dest: set_takeWhileD)
  ultimately show ?thesis by blast
qed

lemma json_match_sound:
  assumes "json_match content = Some m"
  shows "json_match_spec content m"
proof -
  let ?f = "dropWhile (\<lambda>c. c \<noteq> CHR ''{'') content"
  let ?pre = "takeWhile (\<lambda>c. c \<noteq> CHR ''{'') content"
  from assms have m: "m = rev (dropWhile (\<lambda>c. c \<noteq> CHR ''}'') (rev ?f))" and ne: "m \<noteq> []"
    by (auto simp: json_match_def Let_def split: if_splits)
  obtain post where post: "?f = m @ post" "list_all (\<lambda>c. c \<noteq> CHR ''}'') post"
    using rev_dropWhile_rev [of ?f "\<lambda>c. c \<noteq> CHR ''}''"] m by auto
  have c: "content = ?pre @ m @ post" using post(1) by (metis takeWhile_dropWhile_id)
  have pre: "CHR ''{'' \<notin> set ?pre" by (auto dest: set_takeWhileD)
  from ne post(1) have "?f \<noteq> []" by auto
  then have "hd ?f = CHR ''{''" using hd_dropWhile [of "\<lambda>c. c \<noteq> CHR ''{''" content] by auto
  with post(1) ne have h: "hd m = CHR ''{''" by (cases m) auto
  from ne m have "dropWhile (\<lambda>c. c \<noteq> CHR ''}'') (rev ?f) \<noteq> []" by auto
  then have "hd (dropWhile (\<lambda>c. c \<noteq> CHR ''}'') (rev ?f)) = CHR ''}''"
    using hd_dropWhile [of "\<lambda>c. c \<noteq> CHR ''}''" "rev ?f"] by auto
  with m ne have l: "last m = CHR ''}''" by (simp add: last_rev)
  from post(2) have "CHR ''}'' \<notin> set post" by (auto simp: list_all_iff)
  with c pre ne h l show ?thesis unfolding json_match_spec_def by blast
qed

lemma json_match_none:
  assumes "json_match content = None"
  shows "\<not> (\<exists>pre mid post. content = pre @ CHR ''{'' # mid @ CHR ''}'' # post)"
proof
  assume "\<exists>pre mid post. content = pre @ CHR ''{'' # mid @ CHR ''}'' # post"
  then obtain pre mid post where c: "content = pre @ CHR ''{'' # mid @ CHR ''}'' # post" by blast
  let ?f = "dropWhile (\<lambda>c. c \<noteq> CHR ''{'') content"
  have "CHR ''}'' \<in> set ?f"
  proof -
    have "\<exists>ys. ?f = ys @ CHR ''}'' # post" unfolding c
    proof (induction pre)
      case Nil
      show ?case by simp
    next
      case (Cons a pre)
      then show ?case by (cases "a = CHR ''{''") auto
    qed
    then show ?thesis by auto
  qed
  then have "dropWhile (\<lambda>c. c \<noteq> CHR ''}'') (rev ?f) \<noteq> []"
    by (simp add: dropWhile_eq_Nil_conv)
  with assms show False by (auto simp: json_match_def Let_def split: if_splits)
qed

section \<open>The request\<close>

lemma generateLLMPrediction_error:
  "(\<exists>msg. generateLLMPrediction has_key response json_parse rnd symb stockData = Inl msg)
     \<longleftrightarrow> \<not> has_key \<or> length stockData < 30"
  by (simp add: generateLLMPrediction_def Let_def split: http_response.splits option.splits)

lemma generateLLMPrediction_parsed:
  assumes "has_key" "30 \<le> length stockData" "json_match content = Some m" "json_parse m = Some r"
  shows "generateLLMPrediction has_key (Answer (Some content)) json_parse rnd symb stockData = Inr r"
proof -
  from assms(3) have "m \<noteq> []" by (auto simp: json_match_def Let_def split: if_splits)
  with assms show ?thesis by (simp add: generateLLMPrediction_def Let_def)
qed

lemma fallback_range:
  assumes "0 \<le> rnd 0" "rnd 0 < 1" "0 \<le> rnd 1" "rnd 1 < 1" "0 < p"
  shows "fin_between (99 / 100 * p) (101 / 100 * p)
           (llm_nextDayPrediction (fallback_prediction rnd (Fin p) why factors))"
    and "fin_between (975 / 1000 * p) (1025 / 1000 * p)
           (llm_nextWeekPrediction (fallback_prediction rnd (Fin p) why factors))"
proof -
  have d: "Fin p * (1 + (Fin (rnd 0) * 0.02 - 0.01)) = Fin (p * (1 + (rnd 0 * (2 / 100) - 1 / 100)))"
    by simp
  have w: "Fin p * (1 + (Fin (rnd 1) * 0.05 - 0.025)) = Fin (p * (1 + (rnd 1 * (5 / 100) - 25 / 1000)))"
    by simp
  from assms have "99 / 100 \<le> 1 + (rnd 0 * (2 / 100) - 1 / 100)"
    "1 + (rnd 0 * (2 / 100) - 1 / 100) \<le> 101 / 100" by simp_all
  with assms(5) have "99 / 100 * p \<le> p * (1 + (rnd 0 * (2 / 100) - 1 / 100))"
    "p * (1 + (rnd 0 * (2 / 100) - 1 / 100)) \<le> 101 / 100 * p"
    by (simp_all add: mult.commute [of p])
  then show "fin_between (99 / 100 * p) (101 / 100 * p)
           (llm_nextDayPrediction (fallback_prediction rnd (Fin p) why factors))"
    by (simp add: fallback_prediction_def d)
  from assms have "975 / 1000 \<le> 1 + (rnd 1 * (5 / 100) - 25 / 1000)"
    "1 + (rnd 1 * (5 / 100) - 25 / 1000) \<le> 1025 / 1000" by simp_all
  with assms(5) have "975 / 1000 * p \<le> p * (1 + (rnd 1 * (5 / 100) - 25 / 1000))"
    "p * (1 + (rnd 1 * (5 / 100) - 25 / 1000)) \<le> 1025 / 1000 * p"
    by (simp_all add: mult.commute [of p])
  then show "fin_between (975 / 1000 * p) (1025 / 1000 * p)
           (llm_nextWeekPrediction (fallback_prediction rnd (Fin p) why factors))"
    by (simp add: fallback_prediction_def w)
qed

section \<open>The fallback forecast\<close>

text \<open>With a key and at least thirty bars the call returns a forecast
  whatever the service does. When the request fails and the last close is a
  positive number \<open>p\<close>, the forecast for the next day lies within one percent
  of \<open>p\<close> and the forecast for the next week within two and a half percent,
  for random values in \<open>[0, 1)\<close>.\<close>

lemma generateLLMPrediction_fallback:
  assumes "has_key" "30 \<le> length stockData" "close (last stockData) = Fin p" "0 < p"
    and "0 \<le> rnd 0" "rnd 0 < 1" "0 \<le> rnd 1" "rnd 1 < 1"
  shows "\<exists>r. generateLLMPrediction has_key Rejected json_parse rnd symb stockData = Inr r
       \<and> fin_between (99 / 100 * p) (101 / 100 * p) (llm_nextDayPrediction r)
       \<and> fin_between (975 / 1000 * p) (1025 / 1000 * p) (llm_nextWeekPrediction r)
       \<and> suggestedAction r = ''watch''"
  using assms fallback_range [of rnd p]
  by (simp add: generateLLMPrediction_def Let_def) (simp add: fallback_prediction_def)

section \<open>The two functions\<close>

text \<open>With a key the function of \<^verbatim>\<open>llm-prediction.ts\<close> fails only on a series
  that is too short.\<close>

lemma generateLLMPrediction_returns:
  assumes "has_key" "30 \<le> length stockData"
  shows "\<exists>r. generateLLMPrediction has_key response json_parse rnd symb stockData = Inr r"
  using assms
  by (auto simp: generateLLMPrediction_def Let_def split: http_response.splits option.splits)

text \<open>Without a key the function in the browser turns the error of the server
  into a fallback forecast: the missing configuration is not reported.\<close>

lemma client_hides_missing_key:
  assumes "30 \<le> length stockData"
  shows "generateLLMPrediction_client
           (generateLLMPrediction False response json_parse rnd symb stockData) rnd' symb stockData
       = Inr (fallback_prediction rnd' (close (last stockData))
               ''Unable to generate AI prediction. This is a fallback prediction.''
               [''API error'', ''fallback prediction''])"
  using assms by (simp add: generateLLMPrediction_client_def generateLLMPrediction_def)

section \<open>Claims\<close>



end
