(* ===== verification/Prediction_Tabs.thy ===== *)
theory Prediction_Tabs
  imports Forecast Indicator_Engine LLM_Prediction
begin

text \<open>
  The component \<^verbatim>\<open>PredictionTabs\<close> (\<^verbatim>\<open>src/unnamed/part_003\<close>), which the page shows
  under the chart: it calls the forecast engine, the indicator engine and the
  language model for the series it is given, and shows one of three panels.

  \<^item> \<open>tabs_state\<close> is the state of the component, one field per \<^verbatim>\<open>useState\<close>; the
    fields \<^verbatim>\<open>isLoading\<close> and \<^verbatim>\<open>error\<close> are \<open>llm_loading\<close> and \<open>tabs_error\<close>. \<open>tabs\<close>
    adds the properties the page passes (\<open>tab_symbol\<close>, \<open>tab_data\<close>) and the
    calls of the language model under way, each with the symbol and the series
    it was made for (\<open>calls\<close>).
  \<^item> \<open>data_effect\<close> is the effect on \<^verbatim>\<open>[data, symbol]\<close>, \<open>set_props\<close> a render with new
    properties followed by it, \<open>mount_tabs\<close> the first render.
  \<^item> \<open>loadLLMPrediction\<close> is the function up to its \<^verbatim>\<open>await\<close>, \<open>llm_done\<close> the rest
    of it, applied to what \<open>generateLLMPrediction\<close> returns or throws;
    \<open>llm_service\<close> is what the service does at that time.
  \<^item> \<open>render_tabs\<close> is the panel shown; a constructor of \<open>tabs_view\<close> has the name
    of the component it stands for.
  \<^item> \<open>tabs_event\<close>, \<open>tabs_step\<close>, \<open>tabs_run\<close>, \<open>tabs_reachable\<close>: the events (new
    properties, a click on a tab or on one of the two buttons, the end of the
    \<open>n\<close>-th call), one step, a sequence of steps, and the states reached. The
    page shows the component only with a series that is not empty
    (\<open>tabs_enabled\<close>).

  The lemmas: the branch that reports a failed forecast is never taken, since
  the component and \<open>predictStockPrices\<close> test the same length; the invariant
  \<open>tabs_inv\<close> (the forecast and the indicators held are those of the series of
  the properties, and the analysis is loading only while a call is under way);
  an analysis that arrives after the properties changed is shown for the new
  stock; an error of the analysis hides the forecast on the other tab.
\<close>

section \<open>The state of the component\<close>

datatype PredictionTab = technical | ai | indicators

record tabs_state =
  activeTab :: PredictionTab
  technicalPrediction :: "PredictionResult option"
  llmPrediction :: "LLMPredictionResult option"
  technicalIndicators :: "TechnicalIndicators option"
  llm_loading :: bool
  tabs_error :: string

definition initial_tabs :: tabs_state where
  "initial_tabs =
     \<lparr>activeTab = technical, technicalPrediction = None, llmPrediction = None,
      technicalIndicators = None, llm_loading = False, tabs_error = []\<rparr>"

record tabs =
  tab_symbol :: string
  tab_data :: "StockTimeSeriesData list"
  tab_state :: tabs_state
  calls :: "(string \<times> StockTimeSeriesData list) list"

record llm_service =
  has_key :: bool
  response :: http_response
  json_parse :: "string \<Rightarrow> LLMPredictionResult option"
  service_random :: "nat \<Rightarrow> real"

definition currentPrice :: "StockTimeSeriesData list \<Rightarrow> jsnum" where
  "currentPrice data' = (if 0 < length data' then close (last data') else 0)"

section \<open>Loading the three panels\<close>

definition loadTechnicalPrediction :: "StockTimeSeriesData list \<Rightarrow> tabs_state \<Rightarrow> tabs_state" where
  "loadTechnicalPrediction data' st =
     (if length data' < 30
      then st\<lparr>tabs_error := ''Insufficient data for prediction. Need at least 30 data points.''\<rparr>
      else case predictStockPrices data' of
             Inr prediction \<Rightarrow> st\<lparr>technicalPrediction := Some prediction\<rparr>
           | Inl err \<Rightarrow> st\<lparr>tabs_error := ''Failed to generate technical prediction.''\<rparr>)"

definition data_effect :: "StockTimeSeriesData list \<Rightarrow> tabs_state \<Rightarrow> tabs_state" where
  "data_effect data' st =
     (if 0 < length data'
      then loadTechnicalPrediction data'
             (st\<lparr>technicalPrediction := None, llmPrediction := None, technicalIndicators := None,
                 tabs_error := []\<rparr>)
      else st)"

definition loadLLMPrediction :: "tabs \<Rightarrow> tabs" where
  "loadLLMPrediction t =
     (let st = tab_state t
      in if llmPrediction st \<noteq> None then t
         else if length (tab_data t) < 30
         then t\<lparr>tab_state := st\<lparr>llm_loading := False,
                    tabs_error := ''Insufficient data for prediction. Need at least 30 data points.''\<rparr>\<rparr>
         else t\<lparr>tab_state := st\<lparr>llm_loading := True, tabs_error := []\<rparr>,
                calls := calls t @ [(tab_symbol t, tab_data t)]\<rparr>)"

definition llm_done :: "string + LLMPredictionResult \<Rightarrow> tabs_state \<Rightarrow> tabs_state" where
  "llm_done result st =
     (case result of
        Inr prediction \<Rightarrow> st\<lparr>llmPrediction := Some prediction, llm_loading := False\<rparr>
      | Inl message \<Rightarrow>
          st\<lparr>tabs_error := (if message \<noteq> [] then message else ''Failed to generate AI prediction.''),
             llm_loading := False\<rparr>)"

definition loadTechnicalIndicators :: "tabs \<Rightarrow> tabs" where
  "loadTechnicalIndicators t =
     (let st = tab_state t
      in if technicalIndicators st \<noteq> None then t
         else if length (tab_data t) < 30
         then t\<lparr>tab_state := st\<lparr>tabs_error :=
                  ''Insufficient data for technical indicators. Need at least 30 data points.''\<rparr>\<rparr>
         else t\<lparr>tab_state := st\<lparr>technicalIndicators := Some (calculateAllIndicators (tab_data t))\<rparr>\<rparr>)"

definition handleTabChange :: "PredictionTab \<Rightarrow> tabs \<Rightarrow> tabs" where
  "handleTabChange tab t =
     (let st = tab_state t; t' = t\<lparr>tab_state := st\<lparr>activeTab := tab\<rparr>\<rparr>
      in if tab = ai \<and> llmPrediction st = None \<and> \<not> llm_loading st then loadLLMPrediction t'
         else if tab = indicators \<and> technicalIndicators st = None then loadTechnicalIndicators t'
         else t')"

section \<open>What is shown\<close>

datatype tabs_view =
  ErrorPanel string
| StockPrediction PredictionResult string
| NoPanel
| AnalysisSpinner
| LLMStockAnalysis LLMPredictionResult string jsnum
| GenerateButton string
| TechnicalIndicatorsChart "StockTimeSeriesData list" TechnicalIndicators string
| CalculateButton string

definition render_tabs :: "tabs \<Rightarrow> tabs_view" where
  "render_tabs t =
     (let st = tab_state t
      in if tabs_error st \<noteq> [] then ErrorPanel (tabs_error st)
         else case activeTab st of
                technical \<Rightarrow>
                  (case technicalPrediction st of
                     Some prediction \<Rightarrow> StockPrediction prediction (tab_symbol t)
                   | None \<Rightarrow> NoPanel)
              | ai \<Rightarrow>
                  if llm_loading st then AnalysisSpinner
                  else (case llmPrediction st of
                          Some prediction \<Rightarrow>
                            LLMStockAnalysis prediction (tab_symbol t) (currentPrice (tab_data t))
                        | None \<Rightarrow> GenerateButton (tab_symbol t))
              | indicators \<Rightarrow>
                  (case technicalIndicators st of
                     Some ind \<Rightarrow> TechnicalIndicatorsChart (tab_data t) ind (tab_symbol t)
                   | None \<Rightarrow> CalculateButton (tab_symbol t)))"

section \<open>Events\<close>

datatype tabs_event =
  Props string "StockTimeSeriesData list"
| TabChange PredictionTab
| ClickGenerate
| ClickCalculate
| LlmDone nat

definition set_props :: "string \<Rightarrow> StockTimeSeriesData list \<Rightarrow> tabs \<Rightarrow> tabs" where
  "set_props symb data' t =
     t\<lparr>tab_symbol := symb, tab_data := data', tab_state := data_effect data' (tab_state t)\<rparr>"

definition mount_tabs :: "string \<Rightarrow> StockTimeSeriesData list \<Rightarrow> tabs" where
  "mount_tabs symb data' =
     set_props symb data' \<lparr>tab_symbol = symb, tab_data = data', tab_state = initial_tabs, calls = []\<rparr>"

fun tabs_step :: "llm_service \<Rightarrow> tabs_event \<Rightarrow> tabs \<Rightarrow> tabs" where
  "tabs_step srv (Props symb data') t = set_props symb data' t"
| "tabs_step srv (TabChange tab) t = handleTabChange tab t"
| "tabs_step srv ClickGenerate t = loadLLMPrediction t"
| "tabs_step srv ClickCalculate t = loadTechnicalIndicators t"
| "tabs_step srv (LlmDone n) t =
     (if n < length (calls t)
      then let c = calls t ! n
           in t\<lparr>calls := take n (calls t) @ drop (Suc n) (calls t),
                tab_state := llm_done
                  (generateLLMPrediction (has_key srv) (response srv) (json_parse srv)
                     (service_random srv) (fst c) (snd c))
                  (tab_state t)\<rparr>
      else t)"

definition tabs_run :: "(llm_service \<times> tabs_event) list \<Rightarrow> tabs \<Rightarrow> tabs" where
  "tabs_run evs t = foldl (\<lambda>t (srv, ev). tabs_step srv ev t) t evs"

definition tabs_enabled :: "tabs_event \<Rightarrow> bool" where
  "tabs_enabled ev = (case ev of Props symb data' \<Rightarrow> data' \<noteq> [] | _ \<Rightarrow> True)"

inductive tabs_reachable :: "tabs \<Rightarrow> bool" where
  mounted: "data' \<noteq> [] \<Longrightarrow> tabs_reachable (mount_tabs symb data')"
| step: "tabs_reachable t \<Longrightarrow> tabs_enabled ev \<Longrightarrow> tabs_reachable (tabs_step srv ev t)"

text \<open>The invariant: what is held for the technical tab and for the indicators
  was computed from the series of the properties, and the analysis is being
  loaded only while a call is under way.\<close>

definition tabs_inv :: "tabs \<Rightarrow> bool" where
  "tabs_inv t \<longleftrightarrow>
     (\<forall>p \<in> set_option (technicalPrediction (tab_state t)).
        p = forecast (tab_data t) \<and> 30 \<le> length (tab_data t)) \<and>
     (\<forall>ind \<in> set_option (technicalIndicators (tab_state t)).
        ind = calculateAllIndicators (tab_data t)) \<and>
     (if llm_loading (tab_state t) then calls t \<noteq> [] else True)"

text \<open>A service and two series for examples.\<close>

definition sample_service :: "bool \<Rightarrow> llm_service" where
  "sample_service k =
     \<lparr>has_key = k, response = Rejected, json_parse = (\<lambda>s. None), service_random = (\<lambda>k. 1 / 2)\<rparr>"

definition sample_series :: "nat \<Rightarrow> StockTimeSeriesData list" where
  "sample_series n = closing_series (map real [n..<n + 40])"

section \<open>The panels\<close>

lemma loadTechnicalPrediction_cases:
  "loadTechnicalPrediction data' st =
     (if length data' < 30
      then st\<lparr>tabs_error := ''Insufficient data for prediction. Need at least 30 data points.''\<rparr>
      else st\<lparr>technicalPrediction := Some (forecast data')\<rparr>)"
  by (simp add: loadTechnicalPrediction_def predictStockPrices_def)

lemma data_effect_cases:
  "data' \<noteq> [] \<Longrightarrow> data_effect data' st =
     (if length data' < 30
      then st\<lparr>technicalPrediction := None, llmPrediction := None, technicalIndicators := None,
              tabs_error := ''Insufficient data for prediction. Need at least 30 data points.''\<rparr>
      else st\<lparr>technicalPrediction := Some (forecast data'), llmPrediction := None,
              technicalIndicators := None, tabs_error := []\<rparr>)"
  by (simp add: data_effect_def loadTechnicalPrediction_cases)

lemma data_effect_frame [simp]:
  "llm_loading (data_effect data' st) = llm_loading st"
  "activeTab (data_effect data' st) = activeTab st"
  by (simp_all add: data_effect_def loadTechnicalPrediction_cases)

lemma tabs_inv_props: "data' \<noteq> [] \<Longrightarrow> tabs_inv t \<Longrightarrow> tabs_inv (set_props symb data' t)"
  by (simp add: tabs_inv_def set_props_def data_effect_cases)

lemma tabs_inv_mount: "data' \<noteq> [] \<Longrightarrow> tabs_inv (mount_tabs symb data')"
  unfolding mount_tabs_def
  by (rule tabs_inv_props) (simp_all add: tabs_inv_def initial_tabs_def)

lemma tabs_inv_loadLLM: "tabs_inv t \<Longrightarrow> tabs_inv (loadLLMPrediction t)"
  by (simp add: tabs_inv_def loadLLMPrediction_def Let_def)

lemma tabs_inv_loadIndicators: "tabs_inv t \<Longrightarrow> tabs_inv (loadTechnicalIndicators t)"
  by (simp add: tabs_inv_def loadTechnicalIndicators_def Let_def)

lemma tabs_inv_active:
  "tabs_inv t \<Longrightarrow> tabs_inv (t\<lparr>tab_state := (tab_state t)\<lparr>activeTab := tab\<rparr>\<rparr>)"
  by (simp add: tabs_inv_def)

lemma tabs_inv_tab: "tabs_inv t \<Longrightarrow> tabs_inv (handleTabChange tab t)"
  by (simp add: handleTabChange_def Let_def tabs_inv_loadLLM tabs_inv_loadIndicators tabs_inv_active)

lemma tabs_inv_done:
  assumes "tabs_inv t"
  shows "tabs_inv (t\<lparr>calls := cs, tab_state := llm_done result (tab_state t)\<rparr>)"
  using assms by (cases result) (simp_all add: tabs_inv_def llm_done_def)

lemma tabs_inv_step: "tabs_inv t \<Longrightarrow> tabs_enabled ev \<Longrightarrow> tabs_inv (tabs_step srv ev t)"
  by (cases ev)
    (simp_all add: tabs_enabled_def tabs_inv_props tabs_inv_tab tabs_inv_loadLLM
      tabs_inv_loadIndicators tabs_inv_done Let_def)

lemma tabs_reachable_inv: "tabs_reachable t \<Longrightarrow> tabs_inv t"
  by (induction rule: tabs_reachable.induct) (simp_all add: tabs_inv_mount tabs_inv_step)

lemma catch_unreachable:
  "tabs_error st \<noteq> ''Failed to generate technical prediction.''
     \<Longrightarrow> tabs_error (loadTechnicalPrediction data' st) \<noteq> ''Failed to generate technical prediction.''"
  by (simp add: loadTechnicalPrediction_cases)

lemma length_sample_series [simp]: "length (sample_series n) = 40"
  by (simp add: sample_series_def)

lemma mounted_tabs_panel:
  assumes "30 \<le> length data'"
  shows "render_tabs (mount_tabs symb data') = StockPrediction (forecast data') symb"
proof -
  from assms have "data' \<noteq> []" by auto
  with assms show ?thesis
    by (simp add: mount_tabs_def set_props_def data_effect_cases initial_tabs_def render_tabs_def
        Let_def)
qed

text \<open>An analysis that is requested for one series and arrives after the
  properties have changed.\<close>

lemma late_analysis:
  assumes "30 \<le> length dx" "30 \<le> length dy"
    and "generateLLMPrediction (has_key srv') (response srv') (json_parse srv')
           (service_random srv') x dx = Inr p"
    and "t = tabs_step srv' (LlmDone 0)
               (set_props y dy (tabs_step srv (TabChange ai) (mount_tabs x dx)))"
  shows "tab_symbol t = y" "tab_data t = dy" "calls t = []"
    "render_tabs t = LLMStockAnalysis p y (currentPrice dy)"
proof -
  from assms(1,2) have "dx \<noteq> []" "dy \<noteq> []" by auto
  with assms show "tab_symbol t = y" "tab_data t = dy" "calls t = []"
    "render_tabs t = LLMStockAnalysis p y (currentPrice dy)"
    by (simp_all add: mount_tabs_def set_props_def data_effect_cases initial_tabs_def
        handleTabChange_def loadLLMPrediction_def llm_done_def render_tabs_def Let_def)
qed

section \<open>A late analysis and an error\<close>

text \<open>An analysis that arrives late is shown for another stock. The
  analysis tab is opened for the stock \<open>x\<close>, which starts a call; before it
  ends the page passes the stock \<open>y\<close> with its series; then the call ends. The
  component now shows, under \<open>y\<close> and beside the last price of \<open>y\<close>, the
  analysis made from the series of \<open>x\<close>.\<close>

lemma stale_analysis:
  assumes "final = tabs_run [(srv, TabChange ai), (srv', Props y dy), (srv'', LlmDone 0)]
             (mount_tabs x dx)"
    and "30 \<le> length dx" "30 \<le> length dy"
    and "generateLLMPrediction (has_key srv'') (response srv'') (json_parse srv'')
           (service_random srv'') x dx = Inr p"
  shows "tab_symbol final = y \<and> tab_data final = dy
       \<and> render_tabs final = LLMStockAnalysis p y (currentPrice dy)"
proof -
  have "final = tabs_step srv'' (LlmDone 0)
                  (set_props y dy (tabs_step srv (TabChange ai) (mount_tabs x dx)))"
    by (simp add: assms(1) tabs_run_def del: tabs_step.simps add: tabs_step.simps(1))
  from late_analysis [OF assms(2,3,4) this] show ?thesis by simp
qed

text \<open>An error of the analysis hides the forecast. Without a key of the
  service, opening the analysis tab ends in an error; back on the first tab
  the component holds the forecast of the series and shows the error in its
  place.\<close>

lemma error_hides_forecast:
  assumes "final = tabs_run [(srv, TabChange ai), (srv', LlmDone 0), (srv'', TabChange technical)]
             (mount_tabs x dx)"
    and "30 \<le> length dx" "\<not> has_key srv'"
  shows "technicalPrediction (tab_state final) = Some (forecast dx)
       \<and> activeTab (tab_state final) = technical
       \<and> (\<exists>msg. render_tabs final = ErrorPanel msg)"
proof -
  from assms(2) have "dx \<noteq> []" by auto
  with assms show ?thesis
    by (simp add: tabs_run_def mount_tabs_def set_props_def data_effect_cases initial_tabs_def
        handleTabChange_def loadLLMPrediction_def llm_done_def render_tabs_def Let_def
        generateLLMPrediction_def)
qed

end
