(* ===== verification/Displays.thy ===== *)
theory Displays
  imports Forecast Indicator_Engine
begin

text \<open>
  What three components compute and show: the price chart \<^verbatim>\<open>StockChart\<close>
  (\<^verbatim>\<open>src/unnamed/part_002\<close>), the rows of the chart of the indicators
  \<^verbatim>\<open>TechnicalIndicatorsChart\<close> and the panel of the forecast \<^verbatim>\<open>StockPrediction\<close>
  (the first and the second part of
  \<^verbatim>\<open>src/src/components/TechnicalIndicatorsChart.tsx\<close>).

  \<^item> A chart is the description the markup gives the chart library
    (\<open>chart_spec\<close>); the drawing is the library's and is not modelled.
  \<^item> \<open>filteredData\<close> keeps the bars of the selected range. The dates are
    compared as times: \<open>time_of\<close> is \<^verbatim>\<open>new Date(item.date)\<close> as a number (\<open>NaN\<close> for
    a text that is no date) and \<open>threshold\<close> the start of each range, both
    inputs. \<open>yDomain\<close> is the range of the price axis; \<^verbatim>\<open>Math.min\<close> and
    \<^verbatim>\<open>Math.max\<close> of a spread array are folds from the infinities.
    \<open>price_chart_spec\<close> is the chart, \<open>range_buttons\<close> the buttons of the ranges,
    \<open>setTimeRange\<close> the click on one, and \<open>chart_tooltip\<close> the tooltip, which
    prints the bar under the pointer.
  \<^item> \<open>Math_ceil\<close> and \<open>Math_round\<close> are the functions of \<^verbatim>\<open>Math\<close>, exact on the
    reals; \<^verbatim>\<open>Math.round\<close> rounds a half up.
  \<^item> \<open>indicator_chartData\<close> joins the bars with the arrays of the indicators by
    index; the fields of a row carry the prefix \<open>r_\<close>. An index outside an
    array gives \<open>NaN\<close> for \<^verbatim>\<open>undefined\<close>.
  \<^item> \<open>prediction_chartData\<close> is the array the panel of the forecast draws: a
    row per date and two rows for the next day and the next week, whose dates
    are inputs; \<open>None\<close> is the \<^verbatim>\<open>null\<close> of a row without a value.
    \<open>StockPrediction_view\<close> collects what the panel shows: the confidence in
    percent, the icon of the trend, the two forecasts with the colour that
    \<open>target_class\<close> chooses, the chart, the two levels, and the comparison
    \<open>expects_upward\<close> that chooses between the texts for an upward and a
    downward movement.

  The lemmas: the price axis contains every low, close and high of a series
  of ordered bars that are not negative, and is the pair of the infinities for
  a range without bars; the interval of the ticks; the rows of the forecast
  show the closes; on every result of the forecast engine the panel shows
  \<open>NaN\<close> percent, the neutral icon, both forecasts in red and the text for a
  downward movement.
\<close>

section \<open>Charts as data\<close>

text \<open>What the markup gives the chart library: the kind of the chart, the
  interval of the ticks of the date axis, the domain of the value axis, the
  drawn elements with their key into the rows and their name, and the
  reference lines with their label.\<close>

datatype chart_kind = ComposedChart | AreaChart | LineChart | BarChart

datatype mark_kind = Line | Area | Bar

datatype y_domain = AutoDomain | FixedDomain jsnum jsnum | DefaultDomain

record chart_spec =
  cs_kind :: chart_kind
  cs_interval :: jsnum
  cs_domain :: y_domain
  cs_marks :: "(mark_kind \<times> string \<times> string) list"
  cs_references :: "(jsnum \<times> string) list"

definition x_interval :: "'a list \<Rightarrow> jsnum" where
  "x_interval chartData = Math_floor (jsn (length chartData) / 10)"

definition x_interval_min :: "'a list \<Rightarrow> jsnum" where
  "x_interval_min chartData = Math_max (Math_floor (jsn (length chartData) / 10)) 1"

section \<open>The price chart\<close>

datatype TimeRange = W1 | M1 | M3 | M6 | Y1 | All

definition Math_ceil :: "jsnum \<Rightarrow> jsnum" where
  "Math_ceil x = - Math_floor (- x)"

definition Math_round :: "jsnum \<Rightarrow> jsnum" where
  "Math_round x = Math_floor (x + 0.5)"

definition filteredData ::
  "(TimeRange \<Rightarrow> jsnum) \<Rightarrow> (string \<Rightarrow> jsnum) \<Rightarrow> TimeRange \<Rightarrow> StockTimeSeriesData list
     \<Rightarrow> StockTimeSeriesData list" where
  "filteredData threshold time_of timeRange data' =
     (if timeRange = All then data'
      else filter (\<lambda>item. threshold timeRange \<le> time_of (date item)) data')"

definition yDomain :: "StockTimeSeriesData list \<Rightarrow> jsnum \<times> jsnum" where
  "yDomain chartData =
     (let minValue = foldl Math_min PInf (map low chartData);
          maxValue = foldl Math_max NInf (map high chartData)
      in (Math_floor (minValue * 0.995), Math_ceil (maxValue * 1.005)))"

datatype chart_view = NoChartData | PriceChart "StockTimeSeriesData list" "jsnum \<times> jsnum"

definition StockChart ::
  "(TimeRange \<Rightarrow> jsnum) \<Rightarrow> (string \<Rightarrow> jsnum) \<Rightarrow> TimeRange \<Rightarrow> StockTimeSeriesData list
     \<Rightarrow> chart_view" where
  "StockChart threshold time_of timeRange data' =
     (if length data' = 0 then NoChartData
      else let chartData = filteredData threshold time_of timeRange data'
           in PriceChart chartData (yDomain chartData))"

definition initial_timeRange :: TimeRange where
  "initial_timeRange = M1"

definition setTimeRange :: "TimeRange \<Rightarrow> TimeRange \<Rightarrow> TimeRange" where
  "setTimeRange r timeRange = r"

definition range_buttons :: "TimeRange \<Rightarrow> (TimeRange \<times> bool) list" where
  "range_buttons timeRange = map (\<lambda>range. (range, timeRange = range)) [W1, M1, M3, M6, Y1, All]"

definition price_chart_spec :: "StockTimeSeriesData list \<Rightarrow> chart_spec" where
  "price_chart_spec chartData =
     \<lparr>cs_kind = LineChart, cs_interval = x_interval_min chartData,
      cs_domain = FixedDomain (fst (yDomain chartData)) (snd (yDomain chartData)),
      cs_marks = [(Line, ''close'', ''Price'')], cs_references = []\<rparr>"

definition formatTooltipDate :: "(string \<Rightarrow> string option) \<Rightarrow> string \<Rightarrow> string" where
  "formatTooltipDate format_date d = (case format_date d of Some s \<Rightarrow> s | None \<Rightarrow> d)"

text \<open>The tooltip of the price chart shows the bar under the pointer, which the
  chart library passes in the first entry of \<open>payload\<close>: its date formatted,
  its prices with two decimals and its volume.\<close>

definition chart_tooltip ::
  "(string \<Rightarrow> string option) \<Rightarrow> bool \<Rightarrow> StockTimeSeriesData list option \<Rightarrow> string
     \<Rightarrow> StockTimeSeriesData option" where
  "chart_tooltip format_date active pl label =
     (case pl of
        Some (item # rest) \<Rightarrow>
          if active
          then Some \<lparr>date = formatTooltipDate format_date label, open = toFixed2 (open item),
                      high = toFixed2 (high item), low = toFixed2 (low item),
                      close = toFixed2 (close item), volume = volume item\<rparr>
          else None
      | _ \<Rightarrow> None)"

section \<open>The chart of the indicators\<close>

datatype IndicatorType = price_chart | bollinger | macd_chart | rsi_chart | adx_chart | volume_chart | sar

record indicator_row =
  r_date :: string
  r_price :: jsnum
  r_volume :: jsnum
  r_sma :: jsnum
  r_ema :: jsnum
  r_upper :: jsnum
  r_middle :: jsnum
  r_lower :: jsnum
  r_macdLine :: jsnum
  r_macdSignal :: jsnum
  r_macdHistogram :: jsnum
  r_rsi :: jsnum
  r_adx :: jsnum
  r_psar :: jsnum

definition indicator_chartData ::
  "StockTimeSeriesData list \<Rightarrow> TechnicalIndicators \<Rightarrow> indicator_row list" where
  "indicator_chartData data' ind =
     map (\<lambda>index. let item = data' ! index
          in \<lparr>r_date = date item, r_price = close item, r_volume = volume item,
              r_sma = js_nth (sma ind) index,
              r_ema = js_nth (ema ind) index,
              r_upper = js_nth (upper (bollingerBands ind)) index,
              r_middle = js_nth (middle (bollingerBands ind)) index,
              r_lower = js_nth (lower (bollingerBands ind)) index,
              r_macdLine = js_nth (line (macd ind)) index,
              r_macdSignal = js_nth (signal (macd ind)) index,
              r_macdHistogram = js_nth (histogram (macd ind)) index,
              r_rsi = js_nth (rsi ind) index,
              r_adx = js_nth (adx ind) index,
              r_psar = js_nth (parabolicSAR ind) index\<rparr>)
       [0..<length data']"

fun getIndicatorName :: "IndicatorType \<Rightarrow> string" where
  "getIndicatorName price_chart = ''Price & Moving Averages''"
| "getIndicatorName bollinger = ''Bollinger Bands''"
| "getIndicatorName macd_chart = ''Moving Average Convergence Divergence (MACD)''"
| "getIndicatorName rsi_chart = ''Relative Strength Index (RSI)''"
| "getIndicatorName adx_chart = ''Average Directional Index (ADX)''"
| "getIndicatorName volume_chart = ''Volume''"
| "getIndicatorName sar = ''Parabolic SAR''"

section \<open>The panel of the forecast\<close>

record prediction_row =
  row_date :: string
  row_actual :: "jsnum option"
  row_predicted :: "jsnum option"

definition prediction_chartData :: "string \<Rightarrow> string \<Rightarrow> PredictionResult \<Rightarrow> prediction_row list" where
  "prediction_chartData nextDay nextWeek prediction =
     map (\<lambda>i. \<lparr>row_date = PredictionResult.dates prediction ! i,
                row_actual = Some (js_nth (actual prediction) i),
                row_predicted = (if i < length (predicted prediction) then predicted prediction ! i
                                 else None)\<rparr>)
       [0..<length (PredictionResult.dates prediction)]
     @ [\<lparr>row_date = nextDay, row_actual = None,
          row_predicted = Some (nextDayPrediction prediction)\<rparr>,
        \<lparr>row_date = nextWeek, row_actual = None,
          row_predicted = Some (nextWeekPrediction prediction)\<rparr>]"

definition confidencePercentage :: "PredictionResult \<Rightarrow> jsnum" where
  "confidencePercentage prediction = Math_round (confidence prediction * 100)"

text \<open>The icons of \<^verbatim>\<open>react-icons/fi\<close> that the components choose between.\<close>

datatype fi = FiTrendingUp | FiTrendingDown | FiMinus | FiCheckCircle | FiEye | FiArrowUp | FiArrowDown

definition getTrendIndicator :: "PredictionResult \<Rightarrow> fi" where
  "getTrendIndicator prediction =
     (case trend prediction of bullish \<Rightarrow> FiTrendingUp | bearish \<Rightarrow> FiTrendingDown
      | neutral \<Rightarrow> FiMinus)"

definition expects_upward :: "PredictionResult \<Rightarrow> bool" where
  "expects_upward prediction \<longleftrightarrow>
     js_at (actual prediction) (int (length (actual prediction)) - 1) < nextDayPrediction prediction"

definition target_class :: "PredictionResult \<Rightarrow> jsnum \<Rightarrow> string" where
  "target_class prediction target =
     (if js_at (actual prediction) (int (length (actual prediction)) - 1) < target
      then ''text-success'' else ''text-danger'')"

definition prediction_chart_spec :: "prediction_row list \<Rightarrow> PredictionResult \<Rightarrow> chart_spec" where
  "prediction_chart_spec chartData prediction =
     \<lparr>cs_kind = LineChart, cs_interval = x_interval_min chartData, cs_domain = AutoDomain,
      cs_marks = [(Line, ''actual'', ''Actual Price''), (Line, ''predicted'', ''Predicted Price'')],
      cs_references = [(supportLevel prediction, ''Support''),
                       (resistanceLevel prediction, ''Resistance'')]\<rparr>"

text \<open>The tooltip of the panel: the date and a line for each of the two values
  of the row that is not \<^verbatim>\<open>null\<close>, with two decimals.\<close>

definition prediction_tooltip ::
  "(string \<Rightarrow> string option) \<Rightarrow> bool \<Rightarrow> (jsnum option \<times> jsnum option) option \<Rightarrow> string
     \<Rightarrow> (string \<times> jsnum option \<times> jsnum option) option" where
  "prediction_tooltip format_date active pl label =
     (case pl of
        Some (actual', predicted') \<Rightarrow>
          if active
          then Some (case format_date label of Some s \<Rightarrow> s | None \<Rightarrow> label,
                     map_option toFixed2 actual', map_option toFixed2 predicted')
          else None
      | None \<Rightarrow> None)"

record prediction_view =
  pv_symbol :: string
  pv_icon :: fi
  pv_trend :: trend
  pv_confidence :: jsnum
  pv_day_class :: string
  pv_day_price :: jsnum
  pv_week_class :: string
  pv_week_price :: jsnum
  pv_chart :: chart_spec
  pv_rows :: "prediction_row list"
  pv_support :: jsnum
  pv_resistance :: jsnum
  pv_upward :: bool

definition StockPrediction_view :: "string \<Rightarrow> string \<Rightarrow> PredictionResult \<Rightarrow> string \<Rightarrow> prediction_view" where
  "StockPrediction_view nextDay nextWeek prediction symb =
     (let chartData = prediction_chartData nextDay nextWeek prediction
      in \<lparr>pv_symbol = symb,
          pv_icon = getTrendIndicator prediction,
          pv_trend = trend prediction,
          pv_confidence = confidencePercentage prediction,
          pv_day_class = target_class prediction (nextDayPrediction prediction),
          pv_day_price = toFixed2 (nextDayPrediction prediction),
          pv_week_class = target_class prediction (nextWeekPrediction prediction),
          pv_week_price = toFixed2 (nextWeekPrediction prediction),
          pv_chart = prediction_chart_spec chartData prediction,
          pv_rows = chartData,
          pv_support = toFixed2 (supportLevel prediction),
          pv_resistance = toFixed2 (resistanceLevel prediction),
          pv_upward = expects_upward prediction\<rparr>)"

section \<open>The ticks of the date axis\<close>

text \<open>The interval is the tenth of the number of rows, rounded down; the price
  chart and the panel of the forecast raise it to 1, the chart of the
  indicators leaves it 0 on fewer than ten rows.\<close>

lemma floor_tenth: "\<lfloor>real n / 10\<rfloor> = int (n div 10)"
  by (simp add: floor_divide_of_nat_eq [of n 10, where ?'a = real, simplified])

lemma x_interval_div: "x_interval rows = jsn (length rows div 10)"
  by (simp add: x_interval_def jsn_def floor_tenth)

lemma x_interval_min_div: "x_interval_min rows = jsn (max (length rows div 10) 1)"
  by (simp add: x_interval_min_def jsn_def floor_tenth max_def)

section \<open>The axis of the price chart\<close>

lemma foldl_Math_min_Fin:
  "foldl Math_min (Fin a) (map Fin rs) = Fin (fold min rs a)"
  by (induction rs arbitrary: a) (simp_all add: min.commute)

lemma foldl_Math_max_Fin:
  "foldl Math_max (Fin a) (map Fin rs) = Fin (fold max rs a)"
  by (induction rs arbitrary: a) (simp_all add: max.commute)

lemma fold_min_bound:
  "fold min rs a \<le> (a :: real) \<and> (\<forall>r \<in> set rs. fold min rs a \<le> r)"
proof (induction rs arbitrary: a)
  case Nil
  show ?case by simp
next
  case (Cons x rs)
  from Cons [of "min x a"] have "fold min rs (min x a) \<le> min x a"
    and "\<forall>r \<in> set rs. fold min rs (min x a) \<le> r" by simp_all
  then show ?case by (simp add: min_le_iff_disj)
qed

lemma fold_max_bound:
  "(a :: real) \<le> fold max rs a \<and> (\<forall>r \<in> set rs. r \<le> fold max rs a)"
proof (induction rs arbitrary: a)
  case Nil
  show ?case by simp
next
  case (Cons x rs)
  from Cons [of "max x a"] have "max x a \<le> fold max rs (max x a)"
    and "\<forall>r \<in> set rs. r \<le> fold max rs (max x a)" by simp_all
  then show ?case by (simp add: le_max_iff_disj)
qed

lemma fold_min_mem: "fold min rs a \<in> insert (a :: real) (set rs)"
  by (induction rs arbitrary: a) (auto simp: min_def)

lemma fold_max_mem: "fold max rs a \<in> insert (a :: real) (set rs)"
  by (induction rs arbitrary: a) (auto simp: max_def)

lemma foldl_Math_min_PInf:
  "rs \<noteq> [] \<Longrightarrow> \<exists>m \<in> set rs. foldl Math_min PInf (map Fin rs) = Fin m \<and> (\<forall>r \<in> set rs. m \<le> r)"
proof (cases rs)
  case (Cons a as)
  have "foldl Math_min PInf (map Fin rs) = Fin (fold min as a)"
    by (simp add: Cons Math_min_def foldl_Math_min_Fin)
  with fold_min_bound [where rs = as and a = a] fold_min_mem [where rs = as and a = a] show ?thesis by (auto simp: Cons)
qed simp

lemma foldl_Math_max_NInf:
  "rs \<noteq> [] \<Longrightarrow> \<exists>m \<in> set rs. foldl Math_max NInf (map Fin rs) = Fin m \<and> (\<forall>r \<in> set rs. r \<le> m)"
proof (cases rs)
  case (Cons a as)
  have "foldl Math_max NInf (map Fin rs) = Fin (fold max as a)"
    by (simp add: Cons Math_max_def foldl_Math_max_Fin)
  with fold_max_bound [where rs = as and a = a] fold_max_mem [where rs = as and a = a] show ?thesis by (auto simp: Cons)
qed simp

lemma yDomain_empty: "yDomain [] = (PInf, NInf)"
  by (simp add: yDomain_def Math_ceil_def)

lemma yDomain_bounds:
  assumes "map low chartData = map Fin ls" "map high chartData = map Fin hs"
    and "\<forall>l \<in> set ls. 0 \<le> l" "\<forall>h \<in> set hs. 0 \<le> h" "chartData \<noteq> []"
  shows "\<exists>lo hi. yDomain chartData = (Fin lo, Fin hi)
           \<and> (\<forall>l \<in> set ls. lo \<le> l) \<and> (\<forall>h \<in> set hs. h \<le> hi)"
proof -
  from assms have ne: "ls \<noteq> []" "hs \<noteq> []" by (auto dest: map_eq_imp_length_eq)
  from foldl_Math_min_PInf [OF ne(1)] obtain m where
    m: "m \<in> set ls" "foldl Math_min PInf (map Fin ls) = Fin m" "\<forall>r \<in> set ls. m \<le> r" by blast
  from foldl_Math_max_NInf [OF ne(2)] obtain M where
    M: "M \<in> set hs" "foldl Math_max NInf (map Fin hs) = Fin M" "\<forall>r \<in> set hs. r \<le> M" by blast
  from m(1) M(1) assms have pos: "0 \<le> m" "0 \<le> M" by auto
  have "of_int \<lfloor>m * (995 / 1000)\<rfloor> \<le> m * (995 / 1000)" by (rule of_int_floor_le)
  also from pos have "\<dots> \<le> m" by simp
  finally have lo: "of_int \<lfloor>m * (995 / 1000)\<rfloor> \<le> m" .
  have "M \<le> M * (1005 / 1000)" using pos by simp
  also have "\<dots> \<le> of_int \<lceil>M * (1005 / 1000)\<rceil>" by (rule le_of_int_ceiling)
  finally have hi: "M \<le> of_int \<lceil>M * (1005 / 1000)\<rceil>" .
  have "yDomain chartData = (Fin (of_int \<lfloor>m * (995 / 1000)\<rfloor>), Fin (of_int \<lceil>M * (1005 / 1000)\<rceil>))"
    by (simp add: yDomain_def Let_def assms(1,2) m(2) M(2) Math_ceil_def ceiling_def)
  with lo hi m(3) M(3) show ?thesis by (auto intro: order_trans)
qed

text \<open>The price chart draws within its axis: for bars that are finite, in
  order and not negative, the axis is a pair of numbers that contains the
  close, the low and the high of every bar.\<close>

lemma price_chart_axis:
  assumes "list_all finite_bar chartData" "list_all bar_ordered chartData"
    and "list_all (\<lambda>b. fin_nonneg (low b)) chartData" "chartData \<noteq> []"
  shows "\<exists>lo hi. cs_domain (price_chart_spec chartData) = FixedDomain (Fin lo) (Fin hi)
           \<and> list_all (\<lambda>b. fin_between lo hi (low b) \<and> fin_between lo hi (close b)
                            \<and> fin_between lo hi (high b)) chartData"
proof -
  from assms(1) obtain hs ls where fin: "map high chartData = map Fin hs" "map low chartData = map Fin ls"
    using finite_series_highs_lows by blast
  have bar: "0 \<le> l \<and> l \<le> c \<and> c \<le> h"
    if "b \<in> set chartData" "low b = Fin l" "close b = Fin c" "high b = Fin h" for b l c h
    using that assms(2,3) by (auto simp: list_all_iff bar_ordered_def)
  have sets: "Fin ` set ls = low ` set chartData" "Fin ` set hs = high ` set chartData"
    using fin by (metis set_map)+
  have fields: "\<exists>l c h. low b = Fin l \<and> close b = Fin c \<and> high b = Fin h" if "b \<in> set chartData" for b
    using that assms(1) by (cases "low b"; cases "close b"; cases "high b")
      (auto simp: list_all_iff finite_bar_def)
  have "\<forall>l \<in> set ls. 0 \<le> l"
  proof
    fix l assume "l \<in> set ls"
    with sets(1) obtain b where "b \<in> set chartData" "low b = Fin l" by (metis imageE imageI)
    with fields [of b] bar [of b] show "0 \<le> l" by auto
  qed
  moreover have "\<forall>h \<in> set hs. 0 \<le> h"
  proof
    fix h assume "h \<in> set hs"
    with sets(2) obtain b where "b \<in> set chartData" "high b = Fin h" by (metis imageE imageI)
    with fields [of b] bar [of b] show "0 \<le> h" by fastforce
  qed
  ultimately obtain lo hi where dom: "yDomain chartData = (Fin lo, Fin hi)"
    and lo: "\<forall>l \<in> set ls. lo \<le> l" and hi: "\<forall>h \<in> set hs. h \<le> hi"
    using yDomain_bounds [OF fin(2,1) _ _ assms(4)] by blast
  have "fin_between lo hi (low b) \<and> fin_between lo hi (close b) \<and> fin_between lo hi (high b)"
    if b: "b \<in> set chartData" for b
  proof -
    from fields [OF b] obtain l c h where f: "low b = Fin l" "close b = Fin c" "high b = Fin h"
      by blast
    with b sets have "l \<in> set ls" "h \<in> set hs" by (metis imageI inj_image_mem_iff injI jsnum.inject)+
    with lo hi bar [OF b f] show ?thesis by (auto simp: f)
  qed
  with dom show ?thesis by (simp add: price_chart_spec_def list_all_iff)
qed

text \<open>The button of the chosen range is the one that is highlighted. A range
  without a bar of a series that has bars is drawn, as an empty chart between
  the infinities.\<close>

lemma range_chosen: "filter snd (range_buttons (setTimeRange r timeRange)) = [(r, True)]"
  by (cases r) (simp_all add: range_buttons_def setTimeRange_def)

lemma empty_range_chart:
  assumes "data' \<noteq> []" "filteredData threshold time_of timeRange data' = []"
  shows "StockChart threshold time_of timeRange data' = PriceChart [] (PInf, NInf)"
  using assms by (simp add: StockChart_def yDomain_empty)

lemma filteredData_sublist:
  "set (filteredData threshold time_of timeRange data') \<subseteq> set data'"
  "filteredData threshold time_of All data' = data'"
  by (auto simp: filteredData_def)

section \<open>The rows of the indicator chart\<close>

lemma length_indicator_chartData [simp]:
  "length (indicator_chartData data' ind) = length data'"
  by (simp add: indicator_chartData_def)

section \<open>The panel of the forecast on a result of the forecast engine\<close>

lemma length_prediction_chartData [simp]:
  "length (prediction_chartData nextDay nextWeek p) = length (PredictionResult.dates p) + 2"
  by (simp add: prediction_chartData_def)

lemma prediction_rows_actual:
  assumes "i < length bars"
  shows "row_actual (prediction_chartData nextDay nextWeek (forecast bars) ! i) = Some (close (bars ! i))"
    and "row_date (prediction_chartData nextDay nextWeek (forecast bars) ! i) = date (bars ! i)"
  using assms
  by (simp_all add: prediction_chartData_def forecast_fields(2) nth_append forecast_closes)

lemma panel_degenerate:
  assumes "30 \<le> length bars"
  shows "confidencePercentage (forecast bars) = NaN"
    and "getTrendIndicator (forecast bars) = FiMinus"
    and "\<not> expects_upward (forecast bars)"
    and "row_predicted (last (prediction_chartData nextDay nextWeek (forecast bars))) = Some NaN"
    and "target_class (forecast bars) target = ''text-danger''"
proof -
  show "confidencePercentage (forecast bars) = NaN"
    using assms by (simp add: confidencePercentage_def Math_round_def forecast_confidence_NaN)
  show "getTrendIndicator (forecast bars) = FiMinus"
    by (simp add: getTrendIndicator_def forecast_trend_neutral)
  have "actual (forecast bars) \<noteq> []" by (simp add: forecast_closes) (use assms in auto)
  then have "js_at (actual (forecast bars)) (int (length (actual (forecast bars))) - 1) = NaN"
    using forecast_actual_last [of bars] js_at_last [of "actual (forecast bars)"] by simp
  then show "\<not> expects_upward (forecast bars)"
    and "target_class (forecast bars) target = ''text-danger''"
    by (simp_all add: expects_upward_def target_class_def)
  show "row_predicted (last (prediction_chartData nextDay nextWeek (forecast bars))) = Some NaN"
    by (simp add: prediction_chartData_def forecast_next)
qed

section \<open>Claims\<close>

text \<open>C21: for every result of \<^verbatim>\<open>predictStockPrices\<close> the panel of the forecast shows
  the confidence \<open>NaN\<close>, the icon of the neutral trend, the text for a
  downward movement and both forecasts in the colour of a fall, whatever the
  forecasts are: the comparisons read the last element of \<^verbatim>\<open>actual\<close>, which is
  \<open>NaN\<close>. The price printed for the next week is \<open>NaN\<close>.\<close>

theorem panel_always_downward:
  assumes "predictStockPrices bars = Inr p" "v = StockPrediction_view nextDay nextWeek p symb"
  shows "pv_confidence v = NaN \<and> pv_icon v = FiMinus \<and> \<not> pv_upward v
       \<and> pv_day_class v = ''text-danger'' \<and> pv_week_class v = ''text-danger''
       \<and> pv_week_price v = NaN"
proof -
  from assms have "30 \<le> length bars" "p = forecast bars"
    by (auto simp: predictStockPrices_def split: if_splits)
  then show ?thesis
    using panel_degenerate(1-3,5) [of bars]
    by (simp add: assms(2) StockPrediction_view_def Let_def forecast_next)
qed

theorem panel_always_downward_witness:
  "pv_confidence (StockPrediction_view ''2024-03-02'' ''2024-03-08''
       (forecast (closing_series (map real [100..<140]))) ''AAPL'') = NaN
   \<and> \<not> pv_upward (StockPrediction_view ''2024-03-02'' ''2024-03-08''
       (forecast (closing_series (map real [100..<140]))) ''AAPL'')
   \<and> pv_day_class (StockPrediction_view ''2024-03-02'' ''2024-03-08''
       (forecast (closing_series (map real [100..<140]))) ''AAPL'') = ''text-danger''"
  using panel_always_downward
    [of "closing_series (map real [100..<140])" "forecast (closing_series (map real [100..<140]))"
      _ "''2024-03-02''" "''2024-03-08''" "''AAPL''", OF _ refl]
  by (simp add: predictStockPrices_def)

end
