(* ===== verification/Indicator_Chart.thy ===== *)
theory Indicator_Chart
  imports Mock_Data Displays
begin

text \<open>
  The component \<^verbatim>\<open>TechnicalIndicatorsChart\<close>, the first part of
  \<^verbatim>\<open>src/src/components/TechnicalIndicatorsChart.tsx\<close>: its state, the chart it
  draws for the active indicator, its tooltip and the text below the chart.

  \<^item> The state is the active indicator and the tooltip that is open; no
    handler of the source sets the second.
  \<^item> A chart is described by what the markup gives the chart library: the
    kind of the chart, the interval of the ticks, the domain of the value
    axis, the lines, areas and bars with their key into the rows and their
    name, and the reference lines (\<open>chart_spec\<close>). \<open>renderChart\<close> is the
    \<^verbatim>\<open>switch\<close> of the source. \<open>row_field\<close> reads a row by a key, as the chart
    library does; a key the rows do not have gives \<open>NaN\<close> for \<^verbatim>\<open>undefined\<close>.
  \<^item> The tooltip receives from the library, for the row under the pointer,
    the names and values of the drawn elements (\<open>payload\<close>, an input).
    \<open>CustomTooltip\<close> returns the lines it shows: a value printed with a number
    of decimals, the text \<^verbatim>\<open>N/A\<close>, or nothing. \<open>format_date\<close> is the formatting of
    a date, an input that may fail.

  The lemmas: every chart draws keys of the rows; on finite bars the values
  the two oscillator charts draw are \<open>NaN\<close> or within the fixed axis; the
  tooltip looks up names that the chart draws, and has no line for the
  stop-and-reverse chart; the text below the price chart announces volume bars
  that the chart does not draw.
\<close>

section \<open>The state\<close>

record chart_state =
  activeIndicator :: IndicatorType
  chart_showTooltip :: "string option"

definition initial_chart :: chart_state where
  "initial_chart = \<lparr>activeIndicator = price_chart, chart_showTooltip = None\<rparr>"

definition setActiveIndicator :: "IndicatorType \<Rightarrow> chart_state \<Rightarrow> chart_state" where
  "setActiveIndicator ind st = st\<lparr>activeIndicator := ind\<rparr>"

section \<open>The charts\<close>

definition row_keys :: "string list" where
  "row_keys = [''price'', ''volume'', ''sma'', ''ema'', ''upper'', ''middle'', ''lower'',
     ''macdLine'', ''macdSignal'', ''macdHistogram'', ''rsi'', ''adx'', ''psar'']"

definition row_field :: "string \<Rightarrow> indicator_row \<Rightarrow> jsnum" where
  "row_field k row =
     (case map_of (zip row_keys [r_price row, r_volume row, r_sma row, r_ema row, r_upper row,
            r_middle row, r_lower row, r_macdLine row, r_macdSignal row, r_macdHistogram row,
            r_rsi row, r_adx row, r_psar row]) k of
        Some v \<Rightarrow> v | None \<Rightarrow> NaN)"

fun renderChart :: "IndicatorType \<Rightarrow> indicator_row list \<Rightarrow> chart_spec" where
  "renderChart price_chart chartData =
     \<lparr>cs_kind = ComposedChart, cs_interval = x_interval chartData, cs_domain = AutoDomain,
      cs_marks = [(Line, ''price'', ''Price''), (Line, ''sma'', ''SMA(20)''),
                  (Line, ''ema'', ''EMA(20)''), (Line, ''psar'', ''PSAR'')],
      cs_references = []\<rparr>"
| "renderChart bollinger chartData =
     \<lparr>cs_kind = AreaChart, cs_interval = x_interval chartData, cs_domain = AutoDomain,
      cs_marks = [(Area, ''upper'', ''Upper''), (Area, ''lower'', ''Lower''),
                  (Line, ''middle'', ''Middle''), (Line, ''price'', ''Price'')],
      cs_references = []\<rparr>"
| "renderChart macd_chart chartData =
     \<lparr>cs_kind = ComposedChart, cs_interval = x_interval chartData, cs_domain = AutoDomain,
      cs_marks = [(Line, ''macdLine'', ''MACD''), (Line, ''macdSignal'', ''Signal''),
                  (Bar, ''macdHistogram'', ''Histogram'')],
      cs_references = [(0, [])]\<rparr>"
| "renderChart rsi_chart chartData =
     \<lparr>cs_kind = LineChart, cs_interval = x_interval chartData, cs_domain = FixedDomain 0 100,
      cs_marks = [(Line, ''rsi'', ''RSI'')],
      cs_references = [(70, ''Overbought''), (30, ''Oversold'')]\<rparr>"
| "renderChart adx_chart chartData =
     \<lparr>cs_kind = LineChart, cs_interval = x_interval chartData, cs_domain = FixedDomain 0 100,
      cs_marks = [(Line, ''adx'', ''ADX'')],
      cs_references = [(25, ''Strong Trend'')]\<rparr>"
| "renderChart volume_chart chartData =
     \<lparr>cs_kind = BarChart, cs_interval = x_interval chartData, cs_domain = DefaultDomain,
      cs_marks = [(Bar, ''volume'', ''Volume'')],
      cs_references = []\<rparr>"
| "renderChart sar chartData =
     \<lparr>cs_kind = ComposedChart, cs_interval = x_interval chartData, cs_domain = AutoDomain,
      cs_marks = [(Line, ''price'', ''Price''), (Line, ''psar'', ''PSAR'')],
      cs_references = []\<rparr>"

section \<open>The tooltip\<close>

datatype tip_value = Printed jsnum nat | Grouped jsnum | NotAvailable | Blank

datatype tip_line = TipLine string string tip_value

type_synonym payload = "(string \<times> jsnum option) list"

definition formatDate :: "(string \<Rightarrow> string option) \<Rightarrow> string \<Rightarrow> string" where
  "formatDate format_date d = (case format_date d of Some s \<Rightarrow> s | None \<Rightarrow> d)"

definition find_value :: "payload \<Rightarrow> string \<Rightarrow> jsnum option" where
  "find_value pl n = (case find (\<lambda>p. fst p = n) pl of Some p \<Rightarrow> snd p | None \<Rightarrow> None)"

definition fixed_or_blank :: "nat \<Rightarrow> jsnum option \<Rightarrow> tip_value" where
  "fixed_or_blank digits v = (case v of Some x \<Rightarrow> Printed x digits | None \<Rightarrow> Blank)"

definition fixed_or_na :: "nat \<Rightarrow> jsnum option \<Rightarrow> tip_value" where
  "fixed_or_na digits v = (case v of Some x \<Rightarrow> Printed x digits | None \<Rightarrow> NotAvailable)"

definition value_or_zero :: "jsnum option \<Rightarrow> tip_value" where
  "value_or_zero v = Grouped (case v of Some x \<Rightarrow> js_or x 0 | None \<Rightarrow> 0)"

fun tooltip_lines :: "IndicatorType \<Rightarrow> payload \<Rightarrow> tip_line list" where
  "tooltip_lines price_chart pl =
     [TipLine ''text-primary-600'' ''Price'' (fixed_or_blank 2 (find_value pl ''Price'')),
      TipLine ''text-green-600'' ''SMA(20)'' (fixed_or_na 2 (find_value pl ''SMA(20)'')),
      TipLine ''text-purple-600'' ''EMA(20)'' (fixed_or_na 2 (find_value pl ''EMA(20)'')),
      TipLine ''text-gray-500'' ''PSAR'' (fixed_or_na 2 (find_value pl ''PSAR''))]"
| "tooltip_lines bollinger pl =
     [TipLine ''text-primary-600'' ''Price'' (fixed_or_blank 2 (find_value pl ''Price'')),
      TipLine ''text-green-600'' ''Middle'' (fixed_or_na 2 (find_value pl ''Middle'')),
      TipLine ''text-red-600'' ''Upper'' (fixed_or_na 2 (find_value pl ''Upper'')),
      TipLine ''text-blue-600'' ''Lower'' (fixed_or_na 2 (find_value pl ''Lower''))]"
| "tooltip_lines macd_chart pl =
     [TipLine ''text-blue-600'' ''MACD'' (fixed_or_na 4 (find_value pl ''MACD'')),
      TipLine ''text-red-600'' ''Signal'' (fixed_or_na 4 (find_value pl ''Signal'')),
      TipLine ''text-green-600'' ''Histogram'' (fixed_or_na 4 (find_value pl ''Histogram''))]"
| "tooltip_lines rsi_chart pl =
     [TipLine ''text-primary-600'' ''RSI'' (fixed_or_na 2 (find_value pl ''RSI''))]"
| "tooltip_lines adx_chart pl =
     [TipLine ''text-primary-600'' ''ADX'' (fixed_or_na 2 (find_value pl ''ADX''))]"
| "tooltip_lines volume_chart pl =
     [TipLine ''text-primary-600'' ''Volume'' (value_or_zero (find_value pl ''Volume''))]"
| "tooltip_lines sar pl = []"

definition CustomTooltip ::
  "(string \<Rightarrow> string option) \<Rightarrow> IndicatorType \<Rightarrow> bool \<Rightarrow> payload option \<Rightarrow> string
     \<Rightarrow> (string \<times> tip_line list) option" where
  "CustomTooltip format_date ind active pl label =
     (case pl of
        Some entries \<Rightarrow>
          if active \<and> entries \<noteq> []
          then Some (formatDate format_date label, tooltip_lines ind entries)
          else None
      | None \<Rightarrow> None)"

section \<open>The component\<close>

fun getIndicatorDescription :: "IndicatorType \<Rightarrow> string" where
  "getIndicatorDescription price_chart =
     ''Stock price over time with volume bars indicating trading activity''"
| "getIndicatorDescription bollinger =
     ''Bollinger Bands: Shows volatility channels around a moving average - price outside bands often signals potential reversals''"
| "getIndicatorDescription macd_chart =
     ''Moving Average Convergence Divergence: Momentum indicator showing relationship between two moving averages - crossovers signal potential trend changes''"
| "getIndicatorDescription rsi_chart =
     ''Relative Strength Index: Measures speed and change of price movements on a scale of 0-100 - values above 70 indicate overbought conditions, below 30 indicate oversold''"
| "getIndicatorDescription adx_chart =
     ''Average Directional Index: Measures trend strength on a scale of 0-100 - values above 25 indicate strong trends''"
| "getIndicatorDescription volume_chart =
     ''Trading volume: Number of shares traded in a given period - high volume often confirms price movements''"
| "getIndicatorDescription sar =
     ''Parabolic SAR: Stop And Reverse - dots below price indicate uptrend, dots above indicate downtrend''"

definition indicator_buttons :: "(IndicatorType \<times> string) list" where
  "indicator_buttons =
     [(price_chart, ''Price & Moving Averages''), (bollinger, ''Bollinger Bands''), (macd_chart, ''MACD''),
      (rsi_chart, ''RSI''), (adx_chart, ''ADX''), (volume_chart, ''Volume''), (sar, ''PSAR'')]"

record indicators_view =
  iv_symbol :: string
  iv_buttons :: "(string \<times> bool) list"
  iv_chart :: chart_spec
  iv_about :: string
  iv_description :: string

definition TechnicalIndicatorsChart_view ::
  "StockTimeSeriesData list \<Rightarrow> TechnicalIndicators \<Rightarrow> string \<Rightarrow> chart_state \<Rightarrow> indicators_view" where
  "TechnicalIndicatorsChart_view data' ind symb st =
     (let chartData = indicator_chartData data' ind
      in \<lparr>iv_symbol = symb,
          iv_buttons = map (\<lambda>(i, text). (text, activeIndicator st = i)) indicator_buttons,
          iv_chart = renderChart (activeIndicator st) chartData,
          iv_about = getIndicatorName (activeIndicator st),
          iv_description = getIndicatorDescription (activeIndicator st)\<rparr>)"

text \<open>What the chart library passes to the tooltip for a row: an entry per
  drawn element, with its name and the value of the row under its key. This
  is the behaviour of the library the lemmas about the tooltip assume.\<close>

definition row_payload :: "(mark_kind \<times> string \<times> string) list \<Rightarrow> indicator_row \<Rightarrow> payload" where
  "row_payload marks row = map (\<lambda>(m, k, n). (n, Some (row_field k row))) marks"

fun tip_label :: "tip_line \<Rightarrow> string" where
  "tip_label (TipLine c l v) = l"

fun tip_shown :: "tip_line \<Rightarrow> tip_value" where
  "tip_shown (TipLine c l v) = v"

section \<open>Keys and names\<close>

lemma row_field_simps [simp]:
  "row_field ''price'' row = r_price row" "row_field ''volume'' row = r_volume row"
  "row_field ''sma'' row = r_sma row" "row_field ''ema'' row = r_ema row"
  "row_field ''upper'' row = r_upper row" "row_field ''middle'' row = r_middle row"
  "row_field ''lower'' row = r_lower row" "row_field ''macdLine'' row = r_macdLine row"
  "row_field ''macdSignal'' row = r_macdSignal row"
  "row_field ''macdHistogram'' row = r_macdHistogram row"
  "row_field ''rsi'' row = r_rsi row" "row_field ''adx'' row = r_adx row"
  "row_field ''psar'' row = r_psar row"
  by (simp_all add: row_field_def row_keys_def)

text \<open>Every element of every chart is drawn from a key the rows have.\<close>

lemma plotted_keys: "fst ` snd ` set (cs_marks (renderChart ind rows)) \<subseteq> set row_keys"
  by (cases ind) (simp_all add: row_keys_def)

text \<open>For every chart but that of the stop-and-reverse tracker the tooltip has
  a line for each drawn element, under its name; for that chart it has no
  line.\<close>

lemma tooltip_names:
  "ind \<noteq> sar \<Longrightarrow>
     set (map tip_label (tooltip_lines ind pl)) = (snd \<circ> snd) ` set (cs_marks (renderChart ind rows))"
  by (cases ind) auto

lemma tooltip_sar: "tooltip_lines sar pl = [] \<and> cs_marks (renderChart sar rows) \<noteq> []"
  by simp

text \<open>The tooltip prints \<^verbatim>\<open>N/A\<close> for a value that is missing. The engine pads
  the warm-up of an indicator with \<open>NaN\<close>, which is a value: for a row of the
  chart no line of the tooltip is \<^verbatim>\<open>N/A\<close>, and in the warm-up of the moving
  average the line shows \<open>NaN\<close>.\<close>

lemma find_value_payload:
  "find_value (row_payload marks row) n
     = map_option (\<lambda>(m, k, n'). row_field k row) (find (\<lambda>(m, k, n'). n' = n) marks)"
  by (induction marks) (auto simp: find_value_def row_payload_def)

lemma tooltip_never_na:
  "NotAvailable \<notin> tip_shown ` set (tooltip_lines ind (row_payload (cs_marks (renderChart ind rows)) row))"
  by (cases ind)
    (simp_all add: find_value_payload fixed_or_na_def fixed_or_blank_def value_or_zero_def)

lemma tooltip_warmup:
  assumes "r_sma row = NaN"
  shows "tooltip_lines price_chart (row_payload (cs_marks (renderChart price_chart rows)) row) ! 1
       = TipLine ''text-green-600'' ''SMA(20)'' (Printed NaN 2)"
  using assms by (simp add: find_value_payload fixed_or_na_def)

text \<open>The text below the price chart announces volume bars; the chart draws
  none.\<close>

lemma description_volume_bars: "js_includes (getIndicatorDescription price_chart) ''volume bars''"
  by code_simp

lemma price_chart_no_volume:
  "''volume'' \<notin> fst ` snd ` set (cs_marks (renderChart price_chart rows))"
  "Bar \<notin> fst ` set (cs_marks (renderChart price_chart rows))"
  by simp_all

section \<open>The component and its buttons\<close>

lemma active_button:
  "filter snd (iv_buttons (TechnicalIndicatorsChart_view data' ind symb (setActiveIndicator i st)))
     = [(the (map_of indicator_buttons i), True)]"
  by (cases i)
    (simp_all add: TechnicalIndicatorsChart_view_def setActiveIndicator_def indicator_buttons_def)

section \<open>The axis of the oscillators\<close>

lemma row_oscillators:
  assumes "row \<in> set (indicator_chartData bars ind)"
  shows "\<exists>i. r_rsi row = js_nth (rsi ind) i \<and> r_adx row = js_nth (adx ind) i"
  using assms by (auto simp: indicator_chartData_def Let_def)

lemma engine_oscillators_range:
  assumes "list_all finite_bar bars"
  shows "list_all (nan_or_between 0 100) (rsi (calculateAllIndicators bars))"
    and "list_all (nan_or_between 0 100) (adx (calculateAllIndicators bars))"
proof -
  from assms obtain cs hs ls where fin: "map close bars = map Fin cs" "map high bars = map Fin hs"
    "map low bars = map Fin ls"
    using finite_series_closes finite_series_highs_lows by blast
  then have len: "length hs = length cs" "length ls = length cs"
    by (metis length_map)+
  show "list_all (nan_or_between 0 100) (rsi (calculateAllIndicators bars))"
    using rsi_nan_or_between [of 14 cs] by (simp add: calculateAllIndicators_def Let_def fin)
  show "list_all (nan_or_between 0 100) (adx (calculateAllIndicators bars))"
    using calculateADX_range [OF len, of 14] by (simp add: calculateAllIndicators_def Let_def fin)
qed

text \<open>C37: a chart with a fixed value axis draws within it. For finite bars and
  the indicators the engine computes from them, whenever the chart of an
  indicator fixes the domain of its value axis, every value it draws, of
  every element and every row, is \<open>NaN\<close> (a gap in the line) or a number within
  that domain: the strength index and the directional index are drawn
  between 0 and 100.\<close>

theorem fixed_axis_contains_values:
  assumes "list_all finite_bar bars"
    and "cs_domain (renderChart ind rows) = FixedDomain (Fin lo) (Fin hi)"
    and "row \<in> set (indicator_chartData bars (calculateAllIndicators bars))"
    and "(m, k, n) \<in> set (cs_marks (renderChart ind rows))"
  shows "nan_or_between lo hi (row_field k row)"
proof -
  from assms(3) obtain i where i: "r_rsi row = js_nth (rsi (calculateAllIndicators bars)) i"
    "r_adx row = js_nth (adx (calculateAllIndicators bars)) i"
    using row_oscillators by blast
  have "nan_or_between 0 100 (r_rsi row)" "nan_or_between 0 100 (r_adx row)"
    using engine_oscillators_range [OF assms(1)] by (simp_all add: i nan_or_between_nth)
  with assms(2,4) show ?thesis by (cases ind) auto
qed

theorem fixed_axis_contains_values_witness:
  "nan_or_between 0 100
     (row_field ''rsi'' (hd (indicator_chartData (closing_series [1])
        (calculateAllIndicators (closing_series [1])))))"
proof -
  have "indicator_chartData (closing_series [1]) (calculateAllIndicators (closing_series [1])) \<noteq> []"
    by (simp add: indicator_chartData_def)
  then show ?thesis
    using fixed_axis_contains_values [of "closing_series [1]" rsi_chart "[]" 0 100 _ Line "''rsi''"
        "''RSI''"]
    by (simp add: closing_series_def)
qed

end
