(* ===== verification/Analysis_Panel.thy ===== *)
theory Analysis_Panel
  imports Prediction_Tabs Displays
begin

text \<open>
  The component \<^verbatim>\<open>LLMStockAnalysis\<close> (\<^verbatim>\<open>src/unnamed/part_004\<close>), which shows a
  forecast of the language model beside the last price.

  \<^item> The six helper functions of the component are functions of the forecast:
    \<open>getSentimentDetails\<close>, \<open>getActionIcon\<close>, \<open>getRiskStyle\<close>, \<open>explainSentiment\<close>,
    \<open>explainAction\<close> and \<open>explainRisk\<close>, each a \<^verbatim>\<open>switch\<close> with its default branch.
    An icon is a constructor of \<open>fi\<close> of theory \<open>Displays\<close> with its colour class.
  \<^item> \<open>price_change\<close> is the change in percent that the component prints, the
    number behind \<^verbatim>\<open>toFixed(2)\<close>.
  \<^item> \<open>LLMStockAnalysis_view\<close> is what the markup shows: the record \<open>analysis_view\<close>
    has one field per value the markup interpolates.

  The lemmas show which branches depend on the case of the letters, that the
  colour of a forecast agrees with the sign of the printed change, and what
  the panel shows for a fallback forecast.
\<close>

section \<open>The helper functions\<close>

record sentiment_details =
  sd_icon :: "fi \<times> string"
  sd_color :: string
  sd_bgColor :: string
  sd_borderColor :: string

definition getSentimentDetails :: "LLMPredictionResult \<Rightarrow> sentiment_details" where
  "getSentimentDetails prediction =
     (let s = toLowerCase (marketSentiment prediction)
      in if s = ''bullish''
         then \<lparr>sd_icon = (FiTrendingUp, ''text-success text-xl''), sd_color = ''text-success'',
               sd_bgColor = ''bg-green-50'', sd_borderColor = ''border-green-200''\<rparr>
         else if s = ''bearish''
         then \<lparr>sd_icon = (FiTrendingDown, ''text-danger text-xl''), sd_color = ''text-danger'',
               sd_bgColor = ''bg-red-50'', sd_borderColor = ''border-red-200''\<rparr>
         else \<lparr>sd_icon = (FiMinus, ''text-warning text-xl''), sd_color = ''text-warning'',
               sd_bgColor = ''bg-yellow-50'', sd_borderColor = ''border-yellow-200''\<rparr>)"

definition getActionIcon :: "LLMPredictionResult \<Rightarrow> fi \<times> string" where
  "getActionIcon prediction =
     (let a = suggestedAction prediction
      in if a = ''buy'' then (FiTrendingUp, ''text-success text-xl'')
         else if a = ''sell'' then (FiTrendingDown, ''text-danger text-xl'')
         else if a = ''hold'' then (FiCheckCircle, ''text-primary-600 text-xl'')
         else if a = ''watch'' then (FiEye, ''text-warning text-xl'')
         else (FiEye, ''text-gray-600 text-xl''))"

definition getRiskStyle :: "LLMPredictionResult \<Rightarrow> string" where
  "getRiskStyle prediction =
     (let r = toLowerCase (riskAssessment prediction)
      in if r = ''high'' then ''text-danger''
         else if r = ''medium'' then ''text-warning''
         else if r = ''low'' then ''text-success''
         else ''text-gray-600'')"

definition explainSentiment :: "LLMPredictionResult \<Rightarrow> string" where
  "explainSentiment prediction =
     (let s = toLowerCase (marketSentiment prediction)
      in if s = ''bullish''
         then ''A bullish sentiment suggests the market expects this stock to rise in value. This is often based on positive fundamentals, technical indicators, or broader market conditions.''
         else if s = ''bearish''
         then ''A bearish sentiment suggests the market expects this stock to fall in value. This could be due to concerning fundamentals, negative technical patterns, or broader market weaknesses.''
         else if s = ''neutral''
         then ''A neutral sentiment suggests the market is balanced between positive and negative outlooks. The stock may trade sideways or follow broader market trends.''
         else ''This represents the overall market attitude toward this stock based on current data and trends.'')"

definition explainAction :: "LLMPredictionResult \<Rightarrow> string" where
  "explainAction prediction =
     (let a = suggestedAction prediction
      in if a = ''buy''
         then ''The AI suggests considering a purchase based on positive indicators and outlook.''
         else if a = ''sell''
         then ''The AI suggests considering selling based on negative indicators and outlook.''
         else if a = ''hold''
         then ''The AI suggests maintaining current positions without adding or reducing.''
         else if a = ''watch''
         then ''The AI suggests monitoring this stock for better entry points or more clarity.''
         else ''The AI recommends this action based on current analysis.'')"

definition explainRisk :: "LLMPredictionResult \<Rightarrow> string" where
  "explainRisk prediction =
     (let r = toLowerCase (riskAssessment prediction)
      in if r = ''high''
         then ''High risk indicates significant volatility or uncertainty. Only suitable for risk-tolerant investors.''
         else if r = ''medium''
         then ''Medium risk indicates moderate volatility with some uncertainty about future movement.''
         else if r = ''low''
         then ''Low risk indicates relatively stable performance with lower expected volatility.''
         else ''This measures the potential volatility and uncertainty in this stock.'')"

section \<open>The panel\<close>

definition price_change :: "jsnum \<Rightarrow> jsnum \<Rightarrow> jsnum" where
  "price_change p currentPrice' = toFixed2 ((p - currentPrice') / currentPrice' * 100)"

definition forecast_class :: "jsnum \<Rightarrow> jsnum \<Rightarrow> string" where
  "forecast_class p currentPrice' =
     (if p > currentPrice' then ''text-success'' else ''text-danger'')"

record analysis_view =
  av_symbol :: string
  av_sentiment :: sentiment_details
  av_sentiment_label :: string
  av_sentiment_help :: string
  av_rationale :: string
  av_day_class :: string
  av_day_price :: jsnum
  av_day_change :: jsnum
  av_week_class :: string
  av_week_price :: jsnum
  av_week_change :: jsnum
  av_action_icon :: "fi \<times> string"
  av_action_help :: string
  av_action_label :: string
  av_risk_help :: string
  av_risk_class :: string
  av_risk_label :: string
  av_factors :: "(nat \<times> string) list"

definition LLMStockAnalysis_view :: "LLMPredictionResult \<Rightarrow> string \<Rightarrow> jsnum \<Rightarrow> analysis_view" where
  "LLMStockAnalysis_view prediction symb currentPrice' =
     (let sentimentDetails = getSentimentDetails prediction;
          nextDayChange = price_change (llm_nextDayPrediction prediction) currentPrice';
          nextWeekChange = price_change (llm_nextWeekPrediction prediction) currentPrice'
      in \<lparr>av_symbol = symb,
          av_sentiment = sentimentDetails,
          av_sentiment_label = marketSentiment prediction,
          av_sentiment_help = explainSentiment prediction,
          av_rationale = rationale prediction,
          av_day_class = forecast_class (llm_nextDayPrediction prediction) currentPrice',
          av_day_price = toFixed2 (llm_nextDayPrediction prediction),
          av_day_change = nextDayChange,
          av_week_class = forecast_class (llm_nextWeekPrediction prediction) currentPrice',
          av_week_price = toFixed2 (llm_nextWeekPrediction prediction),
          av_week_change = nextWeekChange,
          av_action_icon = getActionIcon prediction,
          av_action_help = explainAction prediction,
          av_action_label = suggestedAction prediction,
          av_risk_help = explainRisk prediction,
          av_risk_class = getRiskStyle prediction,
          av_risk_label = riskAssessment prediction,
          av_factors = enumerate 0 (keyFactors prediction)\<rparr>)"

text \<open>What the tabs show for the analysis: the panel of the forecast they hold,
  for the symbol and the last price of the series the page passed.\<close>

definition analysis_shown :: "tabs \<Rightarrow> analysis_view option" where
  "analysis_shown t =
     (case render_tabs t of
        LLMStockAnalysis prediction symb currentPrice' \<Rightarrow>
          Some (LLMStockAnalysis_view prediction symb currentPrice')
      | _ \<Rightarrow> None)"

section \<open>The change in percent\<close>

lemma price_change_Fin:
  "c \<noteq> 0 \<Longrightarrow> price_change (Fin d) (Fin c) = toFixed2 (Fin ((d - c) / c * 100))"
  by (simp add: price_change_def)

text \<open>Without a last price the change is not a number, or infinite.\<close>

lemma price_change_zero:
  "price_change (Fin d) (Fin 0) = (if d = 0 then NaN else if 0 < d then PInf else NInf)"
  by (simp add: price_change_def signed_inf_def toFixed2_def)

text \<open>The colour of a forecast agrees with the sign of the printed change, for
  a positive last price: a forecast in green has a change that is not negative
  and a forecast in red one that is not positive.\<close>

lemma colour_agrees_with_change:
  assumes "0 < c"
  shows "if forecast_class (Fin d) (Fin c) = ''text-success''
         then Fin 0 \<le> price_change (Fin d) (Fin c) else price_change (Fin d) (Fin c) \<le> Fin 0"
proof (cases "c < d")
  case True
  with assms have "0 \<le> (d - c) / c * 100" by simp
  then have "toFixed2 (Fin 0) \<le> toFixed2 (Fin ((d - c) / c * 100))" by (rule toFixed2_monotone)
  with assms True show ?thesis by (simp add: price_change_Fin forecast_class_def)
next
  case False
  with assms have "(d - c) / c * 100 \<le> 0" by (simp add: divide_le_0_iff)
  then have "toFixed2 (Fin ((d - c) / c * 100)) \<le> toFixed2 (Fin 0)" by (rule toFixed2_monotone)
  with assms False show ?thesis by (simp add: price_change_Fin forecast_class_def)
qed

lemma price_change_between:
  assumes "0 < c" "fin_between ((1 + of_int a / 10000) * c) ((1 + of_int b / 10000) * c) x"
  shows "fin_between (of_int a / 100) (of_int b / 100) (price_change x (Fin c))"
proof -
  from assms(2) obtain d where x: "x = Fin d"
    and d: "(1 + of_int a / 10000) * c \<le> d" "d \<le> (1 + of_int b / 10000) * c"
    by (cases x) simp_all
  from d have "of_int a / 10000 * c \<le> d - c" "d - c \<le> of_int b / 10000 * c"
    by (simp_all add: algebra_simps)
  with assms(1) have "of_int a / 10000 \<le> (d - c) / c" "(d - c) / c \<le> of_int b / 10000"
    by (simp_all add: pos_le_divide_eq pos_divide_le_eq)
  then have "of_int a / 100 \<le> (d - c) / c * 100" "(d - c) / c * 100 \<le> of_int b / 100"
    by linarith+
  then show ?thesis
    using assms(1) by (simp add: x price_change_Fin toFixed2_between)
qed

section \<open>The letters of the answer\<close>

text \<open>The sentiment and the risk are compared without regard to the case of
  their letters, the action as it is: an answer with the action \<^verbatim>\<open>Buy\<close> gets
  the icon and the text of the default branch, one with the sentiment
  \<^verbatim>\<open>Bullish\<close> those of \<^verbatim>\<open>bullish\<close>.\<close>

lemma lower_words [simp]:
  "toLowerCase ''Bullish'' = ''bullish''" "toLowerCase ''neutral'' = ''neutral''"
  "toLowerCase ''medium'' = ''medium''"
  by code_simp+

lemma action_case_sensitive:
  "getActionIcon (prediction\<lparr>suggestedAction := ''Buy''\<rparr>) = (FiEye, ''text-gray-600 text-xl'')"
  "explainAction (prediction\<lparr>suggestedAction := ''Buy''\<rparr>)
     = ''The AI recommends this action based on current analysis.''"
  "sd_icon (getSentimentDetails (prediction\<lparr>marketSentiment := ''Bullish''\<rparr>))
     = (FiTrendingUp, ''text-success text-xl'')"
  by (simp_all add: getActionIcon_def explainAction_def getSentimentDetails_def)

text \<open>A sentiment that is none of the three words is drawn as a neutral one
  and explained as an unknown one.\<close>

lemma sentiment_default:
  assumes "toLowerCase (marketSentiment prediction) \<notin> {''bullish'', ''bearish'', ''neutral''}"
  shows "sd_icon (getSentimentDetails prediction) = (FiMinus, ''text-warning text-xl'')"
    and "explainSentiment prediction
      = ''This represents the overall market attitude toward this stock based on current data and trends.''"
  using assms by (simp_all add: getSentimentDetails_def explainSentiment_def)

section \<open>The panel of a fallback forecast\<close>

lemma fallback_labels:
  "getActionIcon (fallback_prediction rnd q why factors) = (FiEye, ''text-warning text-xl'')"
  "sd_icon (getSentimentDetails (fallback_prediction rnd q why factors))
     = (FiMinus, ''text-warning text-xl'')"
  "getRiskStyle (fallback_prediction rnd q why factors) = ''text-warning''"
  by (simp_all add: getActionIcon_def getSentimentDetails_def getRiskStyle_def
      fallback_prediction_def)

lemma fallback_changes:
  assumes "0 \<le> rnd 0" "rnd 0 < 1" "0 \<le> rnd 1" "rnd 1 < 1" "0 < c"
  shows "fin_between (- 1) 1
           (price_change (llm_nextDayPrediction (fallback_prediction rnd (Fin c) why factors)) (Fin c))"
    and "fin_between (- 5 / 2) (5 / 2)
           (price_change (llm_nextWeekPrediction (fallback_prediction rnd (Fin c) why factors)) (Fin c))"
  using price_change_between [of c "- 100" 100, OF assms(5)]
    price_change_between [of c "- 250" 250, OF assms(5)] fallback_range [OF assms]
  by (simp_all add: mult.commute)

section \<open>From the request to the panel\<close>

text \<open>Opening the analysis tab on a series of at least thirty bars starts a
  call; when it ends the tabs show the panel of its forecast, or its error.\<close>

lemma opened_analysis:
  assumes "30 \<le> length dx"
  shows "render_tabs (tabs_run [(srv, TabChange ai), (srv', LlmDone 0)] (mount_tabs x dx))
       = (case generateLLMPrediction (has_key srv') (response srv') (json_parse srv')
                 (service_random srv') x dx of
            Inr p \<Rightarrow> LLMStockAnalysis p x (currentPrice dx)
          | Inl m \<Rightarrow> ErrorPanel (if m \<noteq> [] then m else ''Failed to generate AI prediction.''))"
proof -
  from assms have "dx \<noteq> []" by auto
  with assms show ?thesis
    by (simp add: tabs_run_def mount_tabs_def set_props_def data_effect_cases initial_tabs_def
        handleTabChange_def loadLLMPrediction_def llm_done_def render_tabs_def Let_def
        split: sum.split)
qed

lemma rejected_fallback:
  assumes "30 \<le> length dx"
  shows "generateLLMPrediction True Rejected parse rnd x dx
       = Inr (fallback_prediction rnd (close (last dx))
               ''Unable to generate AI prediction. This is a fallback prediction.''
               [''API error'', ''fallback prediction''])"
  using assms by (simp add: generateLLMPrediction_def)

text \<open>C36: a rejected request ends in a cautious panel. When the analysis tab is
  opened on a series of at least thirty bars whose last close is a positive
  number and the request to the language model is rejected, the tabs show the
  analysis panel for the stock, with the eye icon of the action \<^verbatim>\<open>watch\<close>, the
  neutral sentiment and the medium risk in the warning colour, a change for
  the next day within one percent and a change for the next week within two
  and a half percent, for random values in \<open>[0, 1)\<close>.\<close>

theorem rejected_request_panel:
  assumes "final = tabs_run [(srv, TabChange ai), (srv', LlmDone 0)] (mount_tabs x dx)"
    and "30 \<le> length dx" "close (last dx) = Fin c" "0 < c"
    and "has_key srv'" "response srv' = Rejected"
    and "0 \<le> service_random srv' 0" "service_random srv' 0 < 1"
    and "0 \<le> service_random srv' 1" "service_random srv' 1 < 1"
  shows "\<exists>v. analysis_shown final = Some v \<and> av_symbol v = x
       \<and> av_action_icon v = (FiEye, ''text-warning text-xl'')
       \<and> sd_icon (av_sentiment v) = (FiMinus, ''text-warning text-xl'')
       \<and> av_risk_class v = ''text-warning''
       \<and> fin_between (- 1) 1 (av_day_change v)
       \<and> fin_between (- 5 / 2) (5 / 2) (av_week_change v)"
proof -
  from assms(2) have "dx \<noteq> []" by auto
  with assms(3) have "currentPrice dx = Fin c" by (simp add: currentPrice_def)
  with assms show ?thesis
    using fallback_changes [of "service_random srv'" c]
    by (simp add: analysis_shown_def opened_analysis rejected_fallback LLMStockAnalysis_view_def
        fallback_labels)
qed

theorem rejected_request_panel_witness:
  "\<exists>v. analysis_shown (tabs_run [(sample_service True, TabChange ai),
          (sample_service True, LlmDone 0)] (mount_tabs ''AAPL'' (sample_series 100))) = Some v
     \<and> av_symbol v = ''AAPL''
     \<and> av_action_icon v = (FiEye, ''text-warning text-xl'')
     \<and> sd_icon (av_sentiment v) = (FiMinus, ''text-warning text-xl'')
     \<and> av_risk_class v = ''text-warning''
     \<and> fin_between (- 1) 1 (av_day_change v)
     \<and> fin_between (- 5 / 2) (5 / 2) (av_week_change v)"
proof -
  have "close (last (sample_series 100)) = Fin 139"
    by (simp add: sample_series_def closing_series_def last_map)
  then show ?thesis
    using rejected_request_panel [OF refl, where x = "''AAPL''" and dx = "sample_series 100"
        and srv = "sample_service True" and srv' = "sample_service True" and c = 139]
    by (simp add: sample_service_def)
qed

end
