(* ===== verification/Api.thy ===== *)
theory Api
  imports Storage Mock_Data
begin

text \<open>
  The requests of \<^verbatim>\<open>api.ts\<close> (the first part of \<^verbatim>\<open>src/unnamed/part_001\<close>) from the
  answer of the service on: the test for a rate limit, the errors, and the
  reshaping of the answer into a quote or a series of bars.

  \<^item> The HTTP request is not modelled; its outcome is an input, \<open>Inl failure\<close>
    for a request that failed with the message \<open>failure\<close> and \<open>Inr data\<close> for the
    body of the answer, a value of the datatype \<open>json\<close>. An object is the list
    of its properties in the order \<^verbatim>\<open>Object.entries\<close> lists them in, with
    distinct keys (the keys of a series are dates, which keep the order of
    the text).
  \<^item> A thrown error is a value \<open>Inl e\<close> of the datatype \<open>api_error\<close>; \<open>message\<close> is
    its text. \<open>NullRead\<close> is the \<^verbatim>\<open>TypeError\<close> of reading a property of \<^verbatim>\<open>null\<close>.
    Every function catches and throws again, so an error of the request is
    the error of the call.
  \<^item> \<open>get_field\<close> reads a property (\<open>None\<close> is \<^verbatim>\<open>undefined\<close>), \<open>js_truthy\<close> is the
    test \<^verbatim>\<open>if (v)\<close>, \<open>object_entries\<close> is \<^verbatim>\<open>Object.entries\<close>.
  \<^item> \<^verbatim>\<open>parseFloat\<close> and \<^verbatim>\<open>parseInt\<close> first turn their argument into a text:
    \<open>to_text\<close>, where \<open>str\<close>, an input, is the text of a value that is not a
    string. \<^verbatim>\<open>parseFloat\<close> on texts is the input \<open>pf\<close>; \<^verbatim>\<open>parseInt\<close> on texts is
    \<open>parseInt\<close> of theory \<open>Storage\<close>.
  \<^item> The functions have the suffix \<open>_api\<close>, the fields of a quote the prefix
    \<open>sq_\<close>: the mock data has functions and fields of the same names.

  The lemmas: the outcomes of a request for a series; a series is the entries
  of the answer in reverse, so an answer with the newest day first gives a
  series with the oldest day first.
\<close>

section \<open>Responses\<close>

datatype json =
  JNull
| JBool bool
| JNumber jsnum
| JString string
| JArray "json list"
| JObject "(string \<times> json) list"

datatype api_error = RateLimit | NoQuote | NoTimeSeries | NullRead | RequestFailed string

fun message :: "api_error \<Rightarrow> string" where
  "message RateLimit =
     ''Alpha Vantage API rate limit reached. The free tier is limited to 25 requests per day.''"
| "message NoQuote = ''No data found for this symbol''"
| "message NoTimeSeries = ''No time series data found for this symbol''"
| "message NullRead = ''Cannot read properties of null''"
| "message (RequestFailed m) = m"

definition get_field :: "json \<Rightarrow> string \<Rightarrow> json option" where
  "get_field v k = (case v of JObject fs \<Rightarrow> map_of fs k | _ \<Rightarrow> None)"

definition js_truthy :: "json option \<Rightarrow> bool" where
  "js_truthy v =
     (case v of
        None \<Rightarrow> False
      | Some JNull \<Rightarrow> False
      | Some (JBool b) \<Rightarrow> b
      | Some (JNumber n) \<Rightarrow> \<not> isNaN n \<and> n \<noteq> 0
      | Some (JString s) \<Rightarrow> s \<noteq> []
      | Some (JArray xs) \<Rightarrow> True
      | Some (JObject fs) \<Rightarrow> True)"

definition is_object :: "json \<Rightarrow> bool" where
  "is_object v = (case v of JObject fs \<Rightarrow> True | JArray xs \<Rightarrow> True | _ \<Rightarrow> False)"

definition object_entries :: "json \<Rightarrow> (string \<times> json) list" where
  "object_entries v =
     (case v of
        JObject fs \<Rightarrow> fs
      | JArray xs \<Rightarrow> map (\<lambda>i. (string_of_nat i, xs ! i)) [0..<length xs]
      | JString s \<Rightarrow> map (\<lambda>i. (string_of_nat i, JString [s ! i])) [0..<length s]
      | _ \<Rightarrow> [])"

definition checkForRateLimitError :: "json \<Rightarrow> bool" where
  "checkForRateLimitError data' =
     (if is_object data'
      then let note = (if js_truthy (get_field data' ''Note'') then get_field data' ''Note''
                       else if js_truthy (get_field data' ''Information'')
                       then get_field data' ''Information''
                       else Some (JString []))
           in case note of
                Some (JString s) \<Rightarrow>
                  js_includes s ''API call frequency'' \<or> js_includes s ''rate limit''
                  \<or> js_includes s ''API key'' \<or> js_includes s ''limit is 25''
              | _ \<Rightarrow> False
      else False)"

section \<open>Numbers in a response\<close>

definition to_text :: "(json \<Rightarrow> string) \<Rightarrow> json option \<Rightarrow> string" where
  "to_text str v = (case v of None \<Rightarrow> ''undefined'' | Some (JString s) \<Rightarrow> s | Some x \<Rightarrow> str x)"

definition parse_float :: "(string \<Rightarrow> jsnum) \<Rightarrow> (json \<Rightarrow> string) \<Rightarrow> json option \<Rightarrow> jsnum" where
  "parse_float pf str v = pf (to_text str v)"

definition parse_int :: "(json \<Rightarrow> string) \<Rightarrow> json option \<Rightarrow> jsnum" where
  "parse_int str v = (case parseInt (to_text str v) of Some k \<Rightarrow> Fin (of_int k) | None \<Rightarrow> NaN)"

section \<open>The three requests\<close>

definition time_series_key :: "interval \<Rightarrow> string" where
  "time_series_key intv =
     (if intv = daily then ''Time Series (Daily)''
      else if intv = weekly then ''Weekly Time Series'' else ''Monthly Time Series'')"

definition series_entry ::
  "(string \<Rightarrow> jsnum) \<Rightarrow> (json \<Rightarrow> string) \<Rightarrow> string \<times> json \<Rightarrow> StockTimeSeriesData" where
  "series_entry pf str e =
     (let date' = fst e; values = snd e
      in \<lparr>date = date',
          open = parse_float pf str (get_field values ''1. open''),
          high = parse_float pf str (get_field values ''2. high''),
          low = parse_float pf str (get_field values ''3. low''),
          close = parse_float pf str (get_field values ''4. close''),
          volume = parse_int str (get_field values ''5. volume'')\<rparr>)"

definition getStockTimeSeries_api ::
  "(string \<Rightarrow> jsnum) \<Rightarrow> (json \<Rightarrow> string) \<Rightarrow> string + json \<Rightarrow> interval
     \<Rightarrow> api_error + StockTimeSeriesData list" where
  "getStockTimeSeries_api pf str response intv =
     (case response of
        Inl failure \<Rightarrow> Inl (RequestFailed failure)
      | Inr data' \<Rightarrow>
          if data' = JNull then Inl NullRead
          else if checkForRateLimitError data' then Inl RateLimit
          else let timeSeries = get_field data' (time_series_key intv)
               in if \<not> js_truthy timeSeries \<or> length (object_entries (the timeSeries)) = 0
                  then Inl NoTimeSeries
                  else if list_ex (\<lambda>e. snd e = JNull) (object_entries (the timeSeries))
                  then Inl NullRead
                  else Inr (rev (map (series_entry pf str) (object_entries (the timeSeries)))))"

record StockQuote =
  sq_symbol :: "json option"
  sq_open :: jsnum
  sq_high :: jsnum
  sq_low :: jsnum
  sq_price :: jsnum
  sq_volume :: jsnum
  sq_latestTradingDay :: "json option"
  sq_previousClose :: jsnum
  sq_change :: jsnum
  sq_changePercent :: "json option"

definition getStockQuote_api ::
  "(string \<Rightarrow> jsnum) \<Rightarrow> (json \<Rightarrow> string) \<Rightarrow> string + json \<Rightarrow> api_error + StockQuote" where
  "getStockQuote_api pf str response =
     (case response of
        Inl failure \<Rightarrow> Inl (RequestFailed failure)
      | Inr data' \<Rightarrow>
          if checkForRateLimitError data' then Inl RateLimit
          else if data' = JNull then Inl NullRead
          else let quoteData = get_field data' ''Global Quote''
               in if \<not> js_truthy quoteData \<or> length (object_entries (the quoteData)) = 0
                  then Inl NoQuote
                  else Inr \<lparr>sq_symbol = get_field (the quoteData) ''01. symbol'',
                           sq_open = parse_float pf str (get_field (the quoteData) ''02. open''),
                           sq_high = parse_float pf str (get_field (the quoteData) ''03. high''),
                           sq_low = parse_float pf str (get_field (the quoteData) ''04. low''),
                           sq_price = parse_float pf str (get_field (the quoteData) ''05. price''),
                           sq_volume = parse_int str (get_field (the quoteData) ''06. volume''),
                           sq_latestTradingDay = get_field (the quoteData) ''07. latest trading day'',
                           sq_previousClose =
                             parse_float pf str (get_field (the quoteData) ''08. previous close''),
                           sq_change = parse_float pf str (get_field (the quoteData) ''09. change''),
                           sq_changePercent = get_field (the quoteData) ''10. change percent''\<rparr>)"

definition searchStocks_api :: "string + json \<Rightarrow> api_error + json" where
  "searchStocks_api response =
     (case response of
        Inl failure \<Rightarrow> Inl (RequestFailed failure)
      | Inr data' \<Rightarrow>
          if checkForRateLimitError data' then Inl RateLimit
          else if data' = JNull then Inl NullRead
          else if js_truthy (get_field data' ''bestMatches'') then Inr (the (get_field data' ''bestMatches''))
          else Inr (JArray []))"

section \<open>The outcomes of a request\<close>

lemma checkForRateLimitError_JNull [simp]: "\<not> checkForRateLimitError JNull"
  by (simp add: checkForRateLimitError_def is_object_def)

lemma getStockTimeSeries_api_outcome:
  "getStockTimeSeries_api pf str (Inl failure) intv = Inl (RequestFailed failure)"
  "checkForRateLimitError data' \<Longrightarrow> getStockTimeSeries_api pf str (Inr data') intv = Inl RateLimit"
  "\<not> checkForRateLimitError data' \<Longrightarrow> \<not> js_truthy (get_field data' (time_series_key intv))
     \<Longrightarrow> data' \<noteq> JNull \<Longrightarrow> getStockTimeSeries_api pf str (Inr data') intv = Inl NoTimeSeries"
  by (auto simp: getStockTimeSeries_api_def Let_def)

lemma getStockTimeSeries_api_series:
  assumes "getStockTimeSeries_api pf str response intv = Inr series"
  shows "\<exists>data' entries. response = Inr data' \<and> \<not> checkForRateLimitError data'
           \<and> get_field data' (time_series_key intv) \<noteq> None
           \<and> entries = object_entries (the (get_field data' (time_series_key intv)))
           \<and> entries \<noteq> [] \<and> series = rev (map (series_entry pf str) entries)"
  using assms
  by (cases response)
    (auto simp: getStockTimeSeries_api_def Let_def js_truthy_def split: if_splits option.splits)

lemma series_entry_date [simp]: "date (series_entry pf str e) = fst e"
  by (simp add: series_entry_def Let_def)

lemma series_dates:
  assumes "getStockTimeSeries_api pf str (Inr data') intv = Inr series"
  shows "map date series
           = rev (map fst (object_entries (the (get_field data' (time_series_key intv)))))"
  using getStockTimeSeries_api_series [OF assms] by (auto simp: rev_map o_def)

lemma sorted_wrt_rev_flip:
  "sorted_wrt (\<lambda>a b. b < a) xs \<Longrightarrow> sorted_wrt (<) (rev (xs :: 'a :: order list))"
  by (simp add: sorted_wrt_rev)

section \<open>The order of the series\<close>

text \<open>When the answer lists the days from the newest to the oldest, as the
  service does, the series of a successful request has one bar per day, in
  the order of the dates, oldest first: the order the engines read.\<close>

lemma api_series_ascending:
  assumes "getStockTimeSeries_api pf str (Inr data') intv = Inr series"
    and "sorted_wrt (\<lambda>a b. b < a) (map fst (object_entries (the (get_field data' (time_series_key intv)))))"
  shows "sorted_wrt (<) (map date series)
       \<and> length series = length (object_entries (the (get_field data' (time_series_key intv))))"
  using assms series_dates [OF assms(1)] getStockTimeSeries_api_series [OF assms(1)]
  by (auto simp: sorted_wrt_rev)

end
