(* ===== verification/Watch_List.thy ===== *)
theory Watch_List
  imports Api
begin

text \<open>
  The component \<^verbatim>\<open>WatchList\<close> (\<^verbatim>\<open>src/src/components/WatchList.tsx\<close>): the quotes of
  the stocks of the watch list, which it fetches with \<^verbatim>\<open>getStockQuote\<close> of
  \<^verbatim>\<open>api.ts\<close>, one after the other.

  \<^item> \<open>watch_state\<close> is the state of the component; its three objects indexed by
    symbol are association lists. \<open>watch\<close> adds the property \<^verbatim>\<open>initialSymbols\<close>,
    the runs of \<^verbatim>\<open>fetchQuotes\<close> under way (\<open>fetches\<close>: of each run the symbols it
    has left, the first being the one whose quote it waits for) and the
    symbols the callback of the timer has closed over.
  \<^item> \<open>fetchQuotes\<close> is the function up to its first \<^verbatim>\<open>await\<close>; \<open>quote_done\<close> continues
    a run with the outcome of the request, a quote or an error of theory
    \<open>Api\<close>. \<open>begin_symbol\<close> and \<open>end_symbol\<close> are the updates before and after
    the \<^verbatim>\<open>await\<close>, \<open>next_symbol\<close> the head of the loop, which skips empty
    symbols and sets the time of the refresh at the end.
  \<^item> The clock is an input: \<open>now\<close> is the time of the step.
  \<^item> \<open>watch_event\<close>, \<open>watch_step\<close>, \<open>watch_reachable\<close>: the events (new symbols from
    the page, a tick of the timer, the buttons, the end of the request of the
    \<open>n\<close>-th run), one step, and the states reached from the first render. The
    call of \<^verbatim>\<open>onRemoveSymbol\<close> is the handler of the page, in theory \<open>Page\<close>.
  \<^item> \<open>drain_quotes\<close> continues the first run until none is left; \<open>answers k\<close>
    is the time and the outcome of the \<open>k\<close>-th request. It is a \<open>function\<close>
    whose termination is proved with the measure \<open>watch_work\<close>.

  \<^item> \<open>render_header\<close> is the head of the component and \<open>watch_enabled\<close> what its
    markup lets the user do: choose an interval among \<open>refresh_options\<close>, press
    the button while no row is loading.

  The lemmas: the invariant \<open>watch_inv\<close> (a symbol is shown as loading only
  while a run waits for its quote); the runs end; after them no row is
  loading; a symbol that the page adds gets no row before the next tick; the
  interval stays one of the options.
\<close>

section \<open>The state of the component\<close>

record watch_state =
  quotes :: "(string \<times> StockQuote) list"
  loading :: "(string \<times> bool) list"
  errors :: "(string \<times> string) list"
  refreshInterval :: nat
  lastRefresh :: "int option"

definition initial_watch :: watch_state where
  "initial_watch = \<lparr>quotes = [], loading = [], errors = [], refreshInterval = 60, lastRefresh = None\<rparr>"

record watch =
  initialSymbols :: "string list"
  watch_st :: watch_state
  fetches :: "string list list"
  interval_symbols :: "string list"

section \<open>Fetching the quotes\<close>

definition begin_symbol :: "string \<Rightarrow> watch_state \<Rightarrow> watch_state" where
  "begin_symbol symb st =
     st\<lparr>loading := AList.update symb True (loading st), errors := AList.update symb [] (errors st)\<rparr>"

definition end_symbol :: "string \<Rightarrow> api_error + StockQuote \<Rightarrow> watch_state \<Rightarrow> watch_state" where
  "end_symbol symb result st =
     (let st' = (case result of
                   Inr quote \<Rightarrow> st\<lparr>quotes := AList.update symb quote (quotes st)\<rparr>
                 | Inl error \<Rightarrow>
                     st\<lparr>errors := AList.update symb (''Failed to load data for '' @ symb) (errors st)\<rparr>)
      in st'\<lparr>loading := AList.update symb False (loading st')\<rparr>)"

definition next_symbol :: "int \<Rightarrow> string list \<Rightarrow> watch \<Rightarrow> watch" where
  "next_symbol now symbols w =
     (let rest = dropWhile (\<lambda>symb. symb = []) symbols
      in if rest = [] then w\<lparr>watch_st := (watch_st w)\<lparr>lastRefresh := Some now\<rparr>\<rparr>
         else w\<lparr>watch_st := begin_symbol (hd rest) (watch_st w), fetches := fetches w @ [rest]\<rparr>)"

definition fetchQuotes :: "int \<Rightarrow> string list \<Rightarrow> watch \<Rightarrow> watch" where
  "fetchQuotes now symbols w = next_symbol now symbols w"

definition quote_done :: "int \<Rightarrow> string list \<Rightarrow> api_error + StockQuote \<Rightarrow> watch \<Rightarrow> watch" where
  "quote_done now task result w =
     (case task of
        [] \<Rightarrow> w
      | symb # rest \<Rightarrow> next_symbol now rest (w\<lparr>watch_st := end_symbol symb result (watch_st w)\<rparr>))"

section \<open>The handlers\<close>

definition fetch_if_any :: "int \<Rightarrow> string list \<Rightarrow> watch \<Rightarrow> watch" where
  "fetch_if_any now symbols w = (if 0 < length symbols then fetchQuotes now symbols w else w)"

definition mount_watch :: "int \<Rightarrow> string list \<Rightarrow> watch" where
  "mount_watch now symbols =
     fetch_if_any now symbols
       \<lparr>initialSymbols = symbols, watch_st = initial_watch, fetches = [], interval_symbols = symbols\<rparr>"

definition handleRemove :: "string \<Rightarrow> watch \<Rightarrow> watch" where
  "handleRemove symb w = w\<lparr>watch_st := (watch_st w)\<lparr>quotes := AList.delete symb (quotes (watch_st w))\<rparr>\<rparr>"

definition updateRefreshInterval :: "nat \<Rightarrow> watch \<Rightarrow> watch" where
  "updateRefreshInterval seconds w =
     w\<lparr>watch_st := (watch_st w)\<lparr>refreshInterval := seconds\<rparr>, interval_symbols := initialSymbols w\<rparr>"

definition set_symbols :: "string list \<Rightarrow> watch \<Rightarrow> watch" where
  "set_symbols symbols w = w\<lparr>initialSymbols := symbols, interval_symbols := symbols\<rparr>"

section \<open>What is shown\<close>

datatype row_view = is_loading: RowLoading string | RowError string | RowQuote StockQuote | RowNothing

datatype watch_view = EmptyWatchlist | Rows "row_view list"

definition render_row :: "watch_state \<Rightarrow> string \<Rightarrow> row_view" where
  "render_row st symb =
     (if map_of (loading st) symb = Some True then RowLoading symb
      else if (case map_of (errors st) symb of Some e \<Rightarrow> e \<noteq> [] | None \<Rightarrow> False)
      then RowError (the (map_of (errors st) symb))
      else case map_of (quotes st) symb of Some quote \<Rightarrow> RowQuote quote | None \<Rightarrow> RowNothing)"

definition render_watch :: "watch \<Rightarrow> watch_view" where
  "render_watch w =
     (if length (initialSymbols w) = 0 then EmptyWatchlist
      else Rows (map (render_row (watch_st w)) (initialSymbols w)))"

definition refresh_disabled :: "watch_state \<Rightarrow> bool" where
  "refresh_disabled st = list_ex (\<lambda>isLoading. isLoading) (map snd (loading st))"

text \<open>The head of the component: the interval chosen among the options of the
  \<^verbatim>\<open>select\<close>, the button \<^verbatim>\<open>Refresh Now\<close>, and the time of the last refresh once
  there was one.\<close>

definition refresh_options :: "nat list" where
  "refresh_options = [15, 30, 60, 300, 600]"

record watch_header =
  wh_interval :: nat
  wh_options :: "nat list"
  wh_disabled :: bool
  wh_lastRefresh :: "int option"

definition render_header :: "watch_state \<Rightarrow> watch_header" where
  "render_header st =
     \<lparr>wh_interval = refreshInterval st, wh_options = refresh_options,
      wh_disabled = refresh_disabled st, wh_lastRefresh = lastRefresh st\<rparr>"

section \<open>Events\<close>

datatype watch_event =
  SetSymbols "string list"
| IntervalTick
| RefreshNow
| Remove string
| SetInterval nat
| QuoteDone nat "api_error + StockQuote"

fun watch_step :: "int \<Rightarrow> watch_event \<Rightarrow> watch \<Rightarrow> watch" where
  "watch_step now (SetSymbols symbols) w = set_symbols symbols w"
| "watch_step now IntervalTick w = fetch_if_any now (interval_symbols w) w"
| "watch_step now RefreshNow w = fetch_if_any now (initialSymbols w) w"
| "watch_step now (Remove symb) w = handleRemove symb w"
| "watch_step now (SetInterval seconds) w = updateRefreshInterval seconds w"
| "watch_step now (QuoteDone n result) w =
     (if n < length (fetches w)
      then quote_done now (fetches w ! n) result
             (w\<lparr>fetches := take n (fetches w) @ drop (Suc n) (fetches w)\<rparr>)
      else w)"

text \<open>What the markup lets the user do: choose an interval among the options,
  and press the button while no row is loading. The other events come from
  the page, the timer and the network.\<close>

fun watch_enabled :: "watch \<Rightarrow> watch_event \<Rightarrow> bool" where
  "watch_enabled w (SetInterval seconds) \<longleftrightarrow> seconds \<in> set refresh_options"
| "watch_enabled w RefreshNow \<longleftrightarrow> \<not> refresh_disabled (watch_st w)"
| "watch_enabled w ev \<longleftrightarrow> True"

inductive watch_reachable :: "watch \<Rightarrow> bool" where
  mounted: "watch_reachable (mount_watch now symbols)"
| step: "watch_reachable w \<Longrightarrow> watch_reachable (watch_step now ev w)"

definition watch_work :: "watch \<Rightarrow> nat" where
  "watch_work w = sum_list (map (\<lambda>task. Suc (length task)) (fetches w))"

definition loading_ok :: "string set \<Rightarrow> (string \<times> bool) list \<Rightarrow> bool" where
  "loading_ok heads l = list_all (\<lambda>symb. map_of l symb = Some True \<longrightarrow> symb \<in> heads) (map fst l)"

definition watch_inv :: "watch \<Rightarrow> bool" where
  "watch_inv w \<longleftrightarrow>
     list_all (\<lambda>task. task \<noteq> [] \<and> hd task \<noteq> []) (fetches w) \<and>
     loading_ok (hd ` set (fetches w)) (loading (watch_st w)) \<and>
     interval_symbols w = initialSymbols w"

function drain_quotes :: "(nat \<Rightarrow> int \<times> (api_error + StockQuote)) \<Rightarrow> nat \<Rightarrow> watch \<Rightarrow> watch" where
  "drain_quotes answers k w =
     (if fetches w = [] then w
      else drain_quotes answers (Suc k)
             (watch_step (fst (answers k)) (QuoteDone 0 (snd (answers k))) w))"
  by pat_completeness auto

section \<open>The pending fetches\<close>

lemma length_dropWhile_le': "length (dropWhile P xs) \<le> length xs"
  by (induction xs) simp_all

lemma next_symbol_fetches:
  "fetches (next_symbol now symbols w) =
     (if dropWhile (\<lambda>symb. symb = []) symbols = [] then fetches w
      else fetches w @ [dropWhile (\<lambda>symb. symb = []) symbols])"
  by (simp add: next_symbol_def Let_def)

lemma watch_work_next: "watch_work (next_symbol now symbols w) \<le> watch_work w + Suc (length symbols)"
  by (simp add: watch_work_def next_symbol_fetches length_dropWhile_le')

lemma watch_work_done:
  assumes "fetches w \<noteq> []"
  shows "watch_work (watch_step now (QuoteDone 0 result) w) < watch_work w"
proof -
  from assms obtain task ts where f: "fetches w = task # ts" by (cases "fetches w") auto
  show ?thesis
  proof (cases task)
    case Nil
    with f show ?thesis by (simp add: quote_done_def watch_work_def)
  next
    case (Cons symb rest)
    let ?w = "w\<lparr>fetches := ts, watch_st := end_symbol symb result (watch_st w)\<rparr>"
    have "watch_work (next_symbol now rest ?w) \<le> watch_work ?w + Suc (length rest)"
      by (rule watch_work_next)
    with f Cons show ?thesis by (simp add: quote_done_def watch_work_def)
  qed
qed

text \<open>The same for the run at any position: the requests may end in any
  order.\<close>

lemma watch_work_done_any:
  assumes "n < length (fetches w)"
  shows "watch_work (watch_step now (QuoteDone n result) w) < watch_work w"
proof -
  let ?ts = "take n (fetches w) @ drop (Suc n) (fetches w)" and ?t = "fetches w ! n"
  have split: "watch_work (w\<lparr>fetches := ?ts\<rparr>) + Suc (length ?t) = watch_work w"
    using arg_cong [OF id_take_nth_drop [OF assms], of "\<lambda>ts. sum_list (map (\<lambda>t. Suc (length t)) ts)"]
    by (simp add: watch_work_def)
  show ?thesis
  proof (cases ?t)
    case Nil
    with assms split show ?thesis by (simp add: quote_done_def)
  next
    case (Cons symb rest)
    let ?w = "w\<lparr>fetches := ?ts, watch_st := end_symbol symb result (watch_st w)\<rparr>"
    have "watch_work (next_symbol now rest ?w) \<le> watch_work ?w + Suc (length rest)"
      by (rule watch_work_next)
    moreover have "watch_work ?w = watch_work (w\<lparr>fetches := ?ts\<rparr>)" by (simp add: watch_work_def)
    ultimately show ?thesis using assms split Cons by (simp add: quote_done_def)
  qed
qed

termination drain_quotes
  by (relation "measure (\<lambda>(answers, k, w). watch_work w)")
    (simp_all add: watch_work_done del: watch_step.simps)

declare drain_quotes.simps [simp del]

lemma drain_quotes_settles: "fetches (drain_quotes answers k w) = []"
  by (induction answers k w rule: drain_quotes.induct) (subst drain_quotes.simps, simp)

section \<open>The invariant\<close>

lemma dropWhile_hd: "dropWhile P xs \<noteq> [] \<Longrightarrow> \<not> P (hd (dropWhile P xs))"
  using hd_dropWhile by blast

lemma loading_ok_iff:
  "loading_ok heads l \<longleftrightarrow> (\<forall>symb. map_of l symb = Some True \<longrightarrow> symb \<in> heads)"
proof
  assume l: "loading_ok heads l"
  show "\<forall>symb. map_of l symb = Some True \<longrightarrow> symb \<in> heads"
  proof (intro allI impI)
    fix symb
    assume m: "map_of l symb = Some True"
    then have e: "(symb, True) \<in> set l" by (rule map_of_SomeD)
    from l have "\<forall>e \<in> set l. map_of l (fst e) = Some True \<longrightarrow> fst e \<in> heads"
      by (simp add: loading_ok_def list_all_iff)
    with e m show "symb \<in> heads" by force
  qed
next
  assume "\<forall>symb. map_of l symb = Some True \<longrightarrow> symb \<in> heads"
  then show "loading_ok heads l" by (simp add: loading_ok_def list_all_iff)
qed

lemma loading_ok_Nil [simp]: "loading_ok heads []"
  by (simp add: loading_ok_def)

lemma loading_update_False:
  assumes "loading_ok (insert symb heads) l"
  shows "loading_ok heads (AList.update symb False l)"
  using assms by (auto simp: loading_ok_iff update_conv')

lemma loading_update_True:
  assumes "loading_ok heads l" "symb \<in> heads"
  shows "loading_ok heads (AList.update symb True l)"
  using assms by (auto simp: loading_ok_iff update_conv')

lemma loading_mono: "loading_ok heads l \<Longrightarrow> heads \<subseteq> heads' \<Longrightarrow> loading_ok heads' l"
  by (auto simp: loading_ok_iff)

lemma watch_inv_next: "watch_inv w \<Longrightarrow> watch_inv (next_symbol now symbols w)"
proof -
  assume w: "watch_inv w"
  let ?rest = "dropWhile (\<lambda>symb. symb = []) symbols"
  show ?thesis
  proof (cases "?rest = []")
    case True
    with w show ?thesis by (simp add: next_symbol_def watch_inv_def)
  next
    case False
    then have h: "hd ?rest \<noteq> []" using dropWhile_hd [of "\<lambda>symb. symb = []" symbols] by simp
    from w have "loading_ok (hd ` set (fetches w @ [?rest])) (loading (watch_st w))"
      by (auto simp: watch_inv_def intro: loading_mono)
    then have "loading_ok (hd ` set (fetches w @ [?rest]))
        (AList.update (hd ?rest) True (loading (watch_st w)))"
      by (rule loading_update_True) simp
    with w False h show ?thesis
      by (simp add: next_symbol_def Let_def watch_inv_def begin_symbol_def)
  qed
qed

lemma watch_inv_done:
  assumes "watch_inv w" "n < length (fetches w)"
  shows "watch_inv (quote_done now (fetches w ! n) result
           (w\<lparr>fetches := take n (fetches w) @ drop (Suc n) (fetches w)\<rparr>))"
proof -
  let ?ts = "take n (fetches w) @ drop (Suc n) (fetches w)"
  from assms have "fetches w ! n \<noteq> []" by (simp add: watch_inv_def list_all_length)
  then obtain symb rest where t: "fetches w ! n = symb # rest" by (cases "fetches w ! n") auto
  have split: "fetches w = take n (fetches w) @ (symb # rest) # drop (Suc n) (fetches w)"
    using id_take_nth_drop [OF assms(2)] t by simp
  then have "set (fetches w) = insert (symb # rest) (set ?ts)"
    by (metis Un_insert_right list.simps(15) set_append)
  with assms(1) have l: "loading_ok (insert symb (hd ` set ?ts)) (loading (watch_st w))"
    by (simp add: watch_inv_def)
  from assms(1) have "list_all (\<lambda>task. task \<noteq> [] \<and> hd task \<noteq> []) ?ts"
    by (auto simp: watch_inv_def list_all_iff dest: in_set_takeD in_set_dropD)
  with l assms(1) have "watch_inv (w\<lparr>fetches := ?ts, watch_st := end_symbol symb result (watch_st w)\<rparr>)"
    by (cases result) (simp_all add: watch_inv_def end_symbol_def loading_update_False)
  then have "watch_inv (next_symbol now rest
      (w\<lparr>fetches := ?ts, watch_st := end_symbol symb result (watch_st w)\<rparr>))"
    by (rule watch_inv_next)
  then show ?thesis by (simp add: t quote_done_def)
qed

lemma watch_inv_step: "watch_inv w \<Longrightarrow> watch_inv (watch_step now ev w)"
proof (cases ev)
  case (QuoteDone n result)
  assume "watch_inv w"
  then show ?thesis unfolding QuoteDone by (simp add: watch_inv_done)
qed (simp_all add: fetch_if_any_def fetchQuotes_def watch_inv_next,
     simp_all add: watch_inv_def set_symbols_def handleRemove_def updateRefreshInterval_def)

lemma watch_inv_mount: "watch_inv (mount_watch now symbols)"
proof -
  have "watch_inv \<lparr>initialSymbols = symbols, watch_st = initial_watch, fetches = [],
      interval_symbols = symbols\<rparr>"
    by (simp add: watch_inv_def initial_watch_def)
  then show ?thesis
    unfolding mount_watch_def fetch_if_any_def fetchQuotes_def by (auto intro: watch_inv_next)
qed

lemma watch_reachable_inv: "watch_reachable w \<Longrightarrow> watch_inv w"
  by (induction rule: watch_reachable.induct) (simp_all add: watch_inv_mount watch_inv_step)

lemma watch_inv_drain: "watch_inv w \<Longrightarrow> watch_inv (drain_quotes answers k w)"
  by (induction answers k w rule: drain_quotes.induct)
    (subst drain_quotes.simps, simp add: watch_inv_step del: watch_step.simps)

lemma no_spinner:
  assumes "watch_inv w" "fetches w = []"
  shows "render_row (watch_st w) symb \<noteq> RowLoading symb'"
proof -
  from assms have "map_of (loading (watch_st w)) symb \<noteq> Some True"
    by (auto simp: watch_inv_def loading_ok_iff)
  then show ?thesis by (simp add: render_row_def split: option.splits)
qed

text \<open>The page renders the component first with an empty watch list and passes
  the stored symbols afterwards. New symbols start no request: the row of an
  added symbol shows nothing until the timer ticks or the refresh button is
  clicked.\<close>

lemma added_symbol_no_quote:
  "render_watch (watch_step now' (SetSymbols [symb]) (mount_watch now [])) = Rows [RowNothing]
   \<and> fetches (watch_step now' (SetSymbols [symb]) (mount_watch now [])) = []"
  by (simp add: mount_watch_def fetch_if_any_def set_symbols_def render_watch_def render_row_def
      initial_watch_def)

section \<open>The head\<close>

text \<open>The interval stays one of the options under the events the markup
  allows, and the button is disabled exactly while a row shows that it is
  loading.\<close>

lemma refreshInterval_step:
  "refreshInterval (watch_st (watch_step now ev w))
     = (case ev of SetInterval seconds \<Rightarrow> seconds | _ \<Rightarrow> refreshInterval (watch_st w))"
proof (cases ev)
  case (QuoteDone n result)
  have n: "refreshInterval (watch_st (next_symbol now' symbols w')) = refreshInterval (watch_st w')"
    for now' symbols w'
    by (simp add: next_symbol_def Let_def begin_symbol_def)
  show ?thesis
    by (simp add: QuoteDone quote_done_def n end_symbol_def Let_def split: list.splits sum.splits)
qed (simp_all add: fetch_if_any_def fetchQuotes_def next_symbol_def Let_def begin_symbol_def
      handleRemove_def updateRefreshInterval_def set_symbols_def)

lemma interval_option:
  assumes "refreshInterval (watch_st w) \<in> set refresh_options" "watch_enabled w ev"
  shows "wh_interval (render_header (watch_st (watch_step now ev w))) \<in> set refresh_options"
  using assms
  by (cases ev) (simp_all add: refreshInterval_step render_header_def del: watch_step.simps)

lemma interval_mounted: "refreshInterval (watch_st (mount_watch now symbols)) \<in> set refresh_options"
  by (simp add: mount_watch_def fetch_if_any_def fetchQuotes_def next_symbol_def Let_def
      begin_symbol_def initial_watch_def refresh_options_def)

lemma button_disabled_iff:
  "wh_disabled (render_header st) \<longleftrightarrow> (\<exists>symb. (symb, True) \<in> set (loading st))"
  by (force simp: render_header_def refresh_disabled_def list_ex_iff)

section \<open>The runs settle\<close>

text \<open>The requests for the quotes come to an end. From every state the
  component reaches, whatever the outcomes of the requests, continuing the
  runs under way ends with no run left, and then no row of the list shows
  that it is loading.\<close>

lemma quotes_settle:
  assumes "watch_reachable w"
  shows "fetches (drain_quotes answers k w) = []
       \<and> \<not> is_loading (render_row (watch_st (drain_quotes answers k w)) symb)"
proof -
  from assms have "watch_inv (drain_quotes answers k w)"
    by (simp add: watch_reachable_inv watch_inv_drain)
  then show ?thesis
    using no_spinner [of "drain_quotes answers k w" symb]
    by (cases "render_row (watch_st (drain_quotes answers k w)) symb")
      (auto simp: drain_quotes_settles render_row_def split: if_splits option.splits)
qed

end
