(* ===== verification/Stock_Search.thy ===== *)
theory Stock_Search
  imports Storage Mock_Data
begin

text \<open>
  The search box \<^verbatim>\<open>StockSearch\<close> (\<^verbatim>\<open>src/src/components/StockSearch.tsx\<close>), from which
  the page gets the symbols to select.

  \<^item> \<open>search_state\<close> is the state of the component; its field \<^verbatim>\<open>isLoading\<close> is
    \<open>search_isLoading\<close>. A result is the object \<open>searchStocks\<close> of the mock data
    returns, an association list of its fields.
  \<^item> \<open>handleSearch\<close> is the whole handler: \<open>searchStocks\<close> of the mock data
    returns its result at once, so nothing happens between the \<^verbatim>\<open>await\<close> and
    the end of the handler. \<open>trim\<close> is \<^verbatim>\<open>String.prototype.trim\<close> on ASCII.
  \<^item> \<open>search_step\<close> returns the symbol passed to \<^verbatim>\<open>onSelectStock\<close>, if any, and the
    state after the event; a click on a result or on a popular stock is given
    by its index.

  \<^item> \<open>render_search\<close> is what the markup shows: the tips, the text of the
    input, the button, the popular stocks, and the rows of the results when
    there are any.

  The lemmas: every result held is a stock of \<open>STOCK_LIST\<close> (\<open>search_inv\<close>), so
  every symbol the search box passes to the page is one, and the generator of
  the mock series starts from its listed price; every row shown has a symbol,
  a name, the region and the currency, and the button is never disabled.
\<close>

section \<open>The state of the search box\<close>

record search_state =
  query :: string
  results :: "(string \<times> string) list list"
  search_isLoading :: bool
  showTooltip :: bool

definition initial_search :: search_state where
  "initial_search = \<lparr>query = [], results = [], search_isLoading = False, showTooltip = False\<rparr>"

definition trim :: "string \<Rightarrow> string" where
  "trim s = rev (dropWhile is_space (rev (dropWhile is_space s)))"

definition popularStocks :: "(string \<times> string) list" where
  "popularStocks =
     [(''AAPL'', ''Apple''), (''MSFT'', ''Microsoft''), (''GOOGL'', ''Alphabet''),
      (''AMZN'', ''Amazon''), (''TSLA'', ''Tesla'')]"

section \<open>The handlers\<close>

definition handleSearch :: "search_state \<Rightarrow> search_state" where
  "handleSearch st =
     (if trim (query st) = [] then st
      else st\<lparr>results := searchStocks (query st), search_isLoading := False\<rparr>)"

definition handleKeyDown :: "string \<Rightarrow> search_state \<Rightarrow> search_state" where
  "handleKeyDown key st = (if key = ''Enter'' then handleSearch st else st)"

definition handleSelectResult :: "string option \<Rightarrow> search_state \<Rightarrow> string option \<times> search_state" where
  "handleSelectResult symb st = (symb, st\<lparr>query := [], results := []\<rparr>)"

section \<open>What is shown\<close>

record result_row =
  rr_symbol :: "string option"
  rr_name :: "string option"
  rr_region :: "string option"
  rr_currency :: "string option"

record search_view =
  sv_tips :: bool
  sv_value :: string
  sv_disabled :: bool
  sv_spinner :: bool
  sv_popular :: "(string \<times> string) list"
  sv_results :: "result_row list option"

definition row_of_result :: "(string \<times> string) list \<Rightarrow> result_row" where
  "row_of_result r =
     \<lparr>rr_symbol = map_of r ''1. symbol'', rr_name = map_of r ''2. name'',
      rr_region = map_of r ''4. region'', rr_currency = map_of r ''8. currency''\<rparr>"

definition render_search :: "search_state \<Rightarrow> search_view" where
  "render_search st =
     \<lparr>sv_tips = showTooltip st,
      sv_value = query st,
      sv_disabled = search_isLoading st,
      sv_spinner = search_isLoading st,
      sv_popular = popularStocks,
      sv_results = (if 0 < length (results st) then Some (map row_of_result (results st)) else None)\<rparr>"

section \<open>Events\<close>

datatype search_event =
  Type string
| ClickSearch
| KeyDown string
| ClickPopular nat
| ClickResult nat
| Hover bool

fun search_step :: "search_event \<Rightarrow> search_state \<Rightarrow> string option \<times> search_state" where
  "search_step (Type text) st = (None, st\<lparr>query := text\<rparr>)"
| "search_step ClickSearch st = (None, handleSearch st)"
| "search_step (KeyDown key) st = (None, handleKeyDown key st)"
| "search_step (ClickPopular i) st =
     (if i < length popularStocks then handleSelectResult (Some (fst (popularStocks ! i))) st
      else (None, st))"
| "search_step (ClickResult i) st =
     (if i < length (results st) then handleSelectResult (map_of (results st ! i) ''1. symbol'') st
      else (None, st))"
| "search_step (Hover over) st = (None, st\<lparr>showTooltip := over\<rparr>)"

inductive search_reachable :: "search_state \<Rightarrow> bool" where
  initial: "search_reachable initial_search"
| step: "search_reachable st \<Longrightarrow> search_reachable (snd (search_step ev st))"

definition known_symbol :: "string \<Rightarrow> bool" where
  "known_symbol symb \<longleftrightarrow> symb \<in> set (map symbol STOCK_LIST)"

definition search_inv :: "search_state \<Rightarrow> bool" where
  "search_inv st \<longleftrightarrow>
     list_all (\<lambda>r. case map_of r ''1. symbol'' of Some symb \<Rightarrow> known_symbol symb | None \<Rightarrow> False)
       (results st)
     \<and> \<not> search_isLoading st"

section \<open>The results\<close>

lemma search_match_symbol [simp]: "map_of (search_match stock) ''1. symbol'' = Some (symbol stock)"
  by (simp add: search_match_def)

lemma searchStocks_known:
  "list_all (\<lambda>r. case map_of r ''1. symbol'' of Some symb \<Rightarrow> known_symbol symb | None \<Rightarrow> False)
     (searchStocks q)"
  by (auto simp: searchStocks_def Let_def list_all_iff known_symbol_def)

lemma popular_known: "list_all (\<lambda>p. known_symbol (fst p)) popularStocks"
  by (simp add: popularStocks_def known_symbol_def STOCK_LIST_def)

lemma search_inv_step: "search_inv st \<Longrightarrow> search_inv (snd (search_step ev st))"
  by (cases ev)
    (auto simp: search_inv_def handleSearch_def handleKeyDown_def handleSelectResult_def
      searchStocks_known)

lemma search_reachable_inv: "search_reachable st \<Longrightarrow> search_inv st"
  by (induction rule: search_reachable.induct)
    (simp_all add: search_inv_step, simp add: search_inv_def initial_search_def)

lemma selected_known:
  assumes "search_reachable st" "fst (search_step ev st) = Some symb"
  shows "known_symbol symb"
proof (cases ev)
  case (ClickPopular i)
  with assms(2) have "i < length popularStocks" "symb = fst (popularStocks ! i)"
    by (auto simp: handleSelectResult_def split: if_splits)
  with popular_known show ?thesis by (simp add: list_all_length)
next
  case (ClickResult i)
  with assms(2) have i: "i < length (results st)" "map_of (results st ! i) ''1. symbol'' = Some symb"
    by (auto simp: handleSelectResult_def split: if_splits)
  from assms(1) have "search_inv st" by (rule search_reachable_inv)
  with i show ?thesis by (auto simp: search_inv_def list_all_length split: option.splits)
qed (use assms(2) in simp_all)

lemma known_base_price:
  assumes "known_symbol symb"
  shows "\<exists>stock \<in> set STOCK_LIST. symbol stock = symb \<and> base_price symb = price stock"
proof -
  from assms obtain s where s: "s \<in> set STOCK_LIST" "symbol s = symb"
    by (auto simp: known_symbol_def)
  have "distinct (map symbol STOCK_LIST)" by (simp add: STOCK_LIST_def)
  then have "find (\<lambda>x. symbol x = symb) STOCK_LIST = Some s"
    using s by (auto simp: find_Some_iff distinct_conv_nth in_set_conv_nth)
  with s show ?thesis by (auto simp: base_price_def)
qed

section \<open>The view\<close>

text \<open>In every state the search box reaches the button is enabled and shows
  the icon, and every row of the results has a symbol of \<open>STOCK_LIST\<close>, a
  name, the region and the currency.\<close>

lemma result_row_match:
  "row_of_result (search_match stock)
     = \<lparr>rr_symbol = Some (symbol stock), rr_name = Some (name stock),
        rr_region = Some ''United States'', rr_currency = Some ''USD''\<rparr>"
  by (simp add: row_of_result_def search_match_def)

lemma results_matches:
  assumes "search_reachable st"
  shows "\<forall>r \<in> set (results st). \<exists>stock \<in> set STOCK_LIST. r = search_match stock"
  using assms
proof (induction rule: search_reachable.induct)
  case initial
  show ?case by (simp add: initial_search_def)
next
  case (step st ev)
  then show ?case
    by (cases ev)
      (auto simp: handleSearch_def handleKeyDown_def handleSelectResult_def searchStocks_def
        Let_def)
qed

lemma search_view_rows:
  assumes "search_reachable st" "sv_results (render_search st) = Some rows" "row \<in> set rows"
  shows "\<exists>stock \<in> set STOCK_LIST. rr_symbol row = Some (symbol stock) \<and> rr_name row = Some (name stock)
           \<and> rr_region row = Some ''United States'' \<and> rr_currency row = Some ''USD''"
proof -
  from assms(2,3) obtain r where r: "r \<in> set (results st)" "row = row_of_result r"
    by (auto simp: render_search_def split: if_splits)
  with results_matches [OF assms(1)] obtain stock where "stock \<in> set STOCK_LIST" "r = search_match stock"
    by blast
  then show ?thesis by (auto simp: r(2) result_row_match intro!: bexI [of _ stock])
qed

lemma search_button_enabled:
  "search_reachable st \<Longrightarrow> \<not> sv_disabled (render_search st) \<and> \<not> sv_spinner (render_search st)"
  using search_reachable_inv [of st] by (simp add: render_search_def search_inv_def)

section \<open>What is passed to the page\<close>

text \<open>Every symbol the search box passes to the page, from a result or from
  the popular stocks, in any state it reaches, is the symbol of a stock of
  \<open>STOCK_LIST\<close>, and the mock series of it starts from the price listed
  there.\<close>

lemma selected_symbol_listed:
  assumes "search_reachable st" "fst (search_step ev st) = Some symb"
  shows "\<exists>stock \<in> set STOCK_LIST. symbol stock = symb \<and> base_price symb = price stock"
  using assms by (intro known_base_price selected_known)

end
