(* ===== verification/Panels.thy ===== *)
theory Panels
  imports Watch_List Displays
begin

text \<open>
  Three components that lay out what they are given: the card of a quote
  \<^verbatim>\<open>StockQuote\<close> (\<^verbatim>\<open>src/unnamed/part_006\<close>), which the watch list shows for each
  symbol with a quote, the notice \<^verbatim>\<open>RateLimitAlert\<close> (\<^verbatim>\<open>src/unnamed/part_005\<close>),
  which the page shows for an error of the rate limit, and \<^verbatim>\<open>ApiCallStatus\<close>
  (\<^verbatim>\<open>src/src/components/ui/ApiCallStatus.tsx\<close>).

  \<^item> \<open>StockQuote_view\<close> is the card: the values the markup prints, the arrow and
    its colour. The component calls \<^verbatim>\<open>replace\<close> on the change in percent, which
    throws when that field is not a text: the result is a sum whose left
    side is the error. \<open>pf\<close> is \<^verbatim>\<open>parseFloat\<close> and \<open>distance\<close> the formatting of
    the trading day as a distance to now, which fails on a text that is no
    date; both are inputs.
  \<^item> \<open>RateLimitAlert_view\<close> is the notice; it does not use the message it is
    given.
  \<^item> \<open>ApiCallStatus\<close> has a compact and a full form.

  The lemmas: the arrow follows the sign of the change and points down for a
  change that is no number; a quote of the service without a change in percent
  is accepted by the fetcher and makes the card throw.
\<close>

section \<open>The card of a quote\<close>

datatype render_error = TypeError

definition strip_percent :: "string \<Rightarrow> string" where
  "strip_percent s =
     takeWhile (\<lambda>c. c \<noteq> CHR ''%'') s @ drop 1 (dropWhile (\<lambda>c. c \<noteq> CHR ''%'') s)"

record quote_card =
  qc_symbol :: "json option"
  qc_updated :: "json option"
  qc_remove :: bool
  qc_price :: jsnum
  qc_arrow :: fi
  qc_colour :: string
  qc_change :: jsnum
  qc_changePercent :: jsnum
  qc_previousClose :: jsnum
  qc_open :: jsnum
  qc_volume :: jsnum
  qc_low :: jsnum
  qc_high :: jsnum

definition formattedDate :: "(json option \<Rightarrow> string option) \<Rightarrow> StockQuote \<Rightarrow> json option" where
  "formattedDate distance q =
     (case distance (sq_latestTradingDay q) of
        Some s \<Rightarrow> Some (JString s)
      | None \<Rightarrow> sq_latestTradingDay q)"

definition StockQuote_view ::
  "(string \<Rightarrow> jsnum) \<Rightarrow> (json option \<Rightarrow> string option) \<Rightarrow> StockQuote \<Rightarrow> bool
     \<Rightarrow> render_error + quote_card" where
  "StockQuote_view pf distance q onRemove =
     (case sq_changePercent q of
        Some (JString percent) \<Rightarrow>
          let isPositive = (0 \<le> sq_change q);
              changePercent = pf (strip_percent percent)
          in Inr \<lparr>qc_symbol = sq_symbol q,
                  qc_updated = formattedDate distance q,
                  qc_remove = onRemove,
                  qc_price = toFixed2 (sq_price q),
                  qc_arrow = (if isPositive then FiArrowUp else FiArrowDown),
                  qc_colour = (if isPositive then ''text-green-600'' else ''text-red-600''),
                  qc_change = toFixed2 (Math_abs (sq_change q)),
                  qc_changePercent = toFixed2 (Math_abs changePercent),
                  qc_previousClose = toFixed2 (sq_previousClose q),
                  qc_open = toFixed2 (sq_open q),
                  qc_volume = sq_volume q,
                  qc_low = toFixed2 (sq_low q),
                  qc_high = toFixed2 (sq_high q)\<rparr>
      | _ \<Rightarrow> Inl TypeError)"

text \<open>The row of the watch list for a symbol, with the card in place of the
  quote.\<close>

datatype card_view = CardLoading string | CardError string | Card "render_error + quote_card"
  | CardNothing

definition row_card ::
  "(string \<Rightarrow> jsnum) \<Rightarrow> (json option \<Rightarrow> string option) \<Rightarrow> row_view \<Rightarrow> card_view" where
  "row_card pf distance r =
     (case r of
        RowLoading symb \<Rightarrow> CardLoading symb
      | RowError e \<Rightarrow> CardError e
      | RowQuote q \<Rightarrow> Card (StockQuote_view pf distance q True)
      | RowNothing \<Rightarrow> CardNothing)"

section \<open>The notice of the rate limit\<close>

record alert_view =
  alert_title :: string
  alert_features :: "string list"
  alert_note :: string

definition RateLimitAlert_view :: "string \<Rightarrow> alert_view" where
  "RateLimitAlert_view message' =
     \<lparr>alert_title = ''Using Mock Data - No API Limits!'',
      alert_features = [''No rate limits or API restrictions'', ''Realistic stock price simulation'',
                        ''Includes popular tech stocks''],
      alert_note = ''All data is generated locally for demonstration purposes.''\<rparr>"

section \<open>The status of the data source\<close>

datatype status_view = CompactStatus string | FullStatus string string string

definition ApiCallStatus :: "bool \<Rightarrow> status_view" where
  "ApiCallStatus compact' =
     (if compact' then CompactStatus ''Using Mock Data''
      else FullStatus ''Data Source'' ''Using generated mock data'' ''Unlimited requests'')"

section \<open>Properties of the card\<close>

lemma while_percent:
  assumes "CHR ''%'' \<notin> set s"
  shows "takeWhile (\<lambda>c. c \<noteq> CHR ''%'') s = s" "dropWhile (\<lambda>c. c \<noteq> CHR ''%'') s = []"
  using assms by (induction s) auto

lemma strip_percent_none: "CHR ''%'' \<notin> set s \<Longrightarrow> strip_percent s = s"
  by (simp add: strip_percent_def while_percent del: takeWhile_eq_all_conv)

lemma strip_percent_suffix: "CHR ''%'' \<notin> set s \<Longrightarrow> strip_percent (s @ ''%'') = s"
  unfolding strip_percent_def
  by (simp add: takeWhile_append dropWhile_append while_percent del: takeWhile_eq_all_conv)

text \<open>The arrow points up exactly when the change is a number that is not
  negative, or \<open>Infinity\<close>; for a change that did not parse it points down, in
  red.\<close>

lemma quote_arrow:
  assumes "StockQuote_view pf distance q b = Inr c"
  shows "qc_arrow c = FiArrowUp \<longleftrightarrow> 0 \<le> sq_change q"
    and "qc_colour c = ''text-green-600'' \<longleftrightarrow> 0 \<le> sq_change q"
  using assms
  by (auto simp: StockQuote_view_def Let_def split: option.splits json.splits if_splits)

lemma quote_arrow_NaN:
  assumes "StockQuote_view pf distance q b = Inr c" "sq_change q = NaN"
  shows "qc_arrow c = FiArrowDown \<and> qc_change c = NaN"
  using assms
  by (auto simp: StockQuote_view_def Let_def split: option.splits json.splits)

text \<open>The card is drawn exactly for a quote whose change in percent is a
  text.\<close>

lemma card_drawn:
  "(\<exists>c. StockQuote_view pf distance q b = Inr c) \<longleftrightarrow> (\<exists>s. sq_changePercent q = Some (JString s))"
  by (auto simp: StockQuote_view_def Let_def split: option.splits json.splits)

text \<open>The fetcher accepts every quote object that is not empty. An answer with
  a price and no change in percent gives a quote, and the watch list, which
  shows the card for every quote it holds, makes the card throw.\<close>

lemma quote_without_percent:
  assumes "response = Inr (JObject [(''Global Quote'', JObject [(''05. price'', JString ''1'')])])"
  shows "\<exists>q. getStockQuote_api pf str response = Inr q
           \<and> row_card pf distance (RowQuote q) = Card (Inl TypeError)"
  by (simp add: assms getStockQuote_api_def checkForRateLimitError_def get_field_def js_truthy_def
      object_entries_def Let_def row_card_def StockQuote_view_def)

text \<open>The notice does not depend on the message.\<close>

lemma alert_ignores_message: "RateLimitAlert_view m = RateLimitAlert_view m'"
  by (simp add: RateLimitAlert_view_def)

end
