(* ===== verification/Application.thy ===== *)
theory Application
  imports Page Watch_List Stock_Search Panels Prediction_Tabs
begin

text \<open>
  The page with the two components it always shows, as one system: how
  \<^verbatim>\<open>src/src/app/page.tsx\<close> wires \<^verbatim>\<open>StockSearch\<close> and \<^verbatim>\<open>WatchList\<close> to its state and
  handlers.

  \<^item> The state \<open>application\<close> is the state of the page (theory \<open>Page\<close>), of the
    search box (theory \<open>Stock_Search\<close>) and of the watch list (theory
    \<open>Watch_List\<close>).
  \<^item> \<open>watch_props\<close> is the render of \<^verbatim>\<open>WatchList\<close> with the watch list of the page
    as its property \<^verbatim>\<open>initialSymbols\<close>; it follows every step.
  \<^item> A step is an event of one of the three. \<open>on_search\<close> passes the symbol the
    search box selects to \<^verbatim>\<open>handleSelectStock\<close> of the page (the property
    \<^verbatim>\<open>onSelectStock\<close>); \<open>on_watch\<close> passes the symbol the watch list removes to
    \<^verbatim>\<open>handleRemoveSymbol\<close> (the property \<^verbatim>\<open>onRemoveSymbol\<close>); \<open>on_page\<close> is a
    step of the page itself.
  \<^item> \<open>app_enabled\<close> names the events that come from the user, the timers and
    the network: a selection or a removal reaches the page only through its
    children, and the properties of the watch list are set only by the page.
  \<^item> At the first render the watch list of the page is empty; the stored list
    arrives with the second render. \<open>mount_application\<close> mounts the watch list
    with the empty list and then passes the list of the mounted page.
  \<^item> \<open>alert_shown\<close> is the notice the page shows in place of a chart.
  \<^item> \<open>chart_mounted\<close> and \<open>tabs_mounted\<close> are \<^verbatim>\<open>StockChart\<close> and \<^verbatim>\<open>PredictionTabs\<close>
    as the page mounts them for the series it shows. The states the two reach
    afterwards are part of the state of theory \<open>Session\<close>, not of the
    application.
  \<^item> \<open>app_drain\<close> lets the fetches of the page and the requests of the watch
    list end, one per step, in the order and with the outcomes the
    \<open>environment\<close> chooses (\<open>next_event\<close>), until none is under way. It is a
    \<open>function\<close> whose termination is proved with the measure \<open>app_work\<close>, the
    sum of the measures of the page and of the watch list.

  The lemmas: every reachable state of the application projects to reachable
  states of its three components, and the watch list always shows the watch
  list of the page; when the stored list holds known symbols only, so does the
  watch list of the page in every reachable state, and so does the selection;
  a stock that is added from the search box has an empty row and no request
  under way; in every order the requests end, and then nothing is loading.
\<close>

section \<open>The state and the wiring\<close>

record application =
  the_page :: app
  the_search :: search_state
  the_watch :: watch

definition watch_props :: "application \<Rightarrow> application" where
  "watch_props s = s\<lparr>the_watch := set_symbols (watchlist (ui (the_page s))) (the_watch s)\<rparr>"

definition mount_application :: "browser \<Rightarrow> local_storage \<Rightarrow> application" where
  "mount_application w stored =
     watch_props \<lparr>the_page = mount w stored, the_search = initial_search,
                  the_watch = mount_watch (time_now w) (watchlist initial_state)\<rparr>"

definition on_search :: "browser \<Rightarrow> search_event \<Rightarrow> application \<Rightarrow> application" where
  "on_search w ev s =
     (let r = search_step ev (the_search s)
      in s\<lparr>the_search := snd r,
           the_page := (case fst r of Some symb \<Rightarrow> handleSelectStock w symb (the_page s)
                        | None \<Rightarrow> the_page s)\<rparr>)"

definition on_watch :: "browser \<Rightarrow> watch_event \<Rightarrow> application \<Rightarrow> application" where
  "on_watch w ev s =
     s\<lparr>the_watch := watch_step (time_now w) ev (the_watch s),
       the_page := (case ev of Remove symb \<Rightarrow> handleRemoveSymbol w symb (the_page s)
                    | _ \<Rightarrow> the_page s)\<rparr>"

definition on_page :: "browser \<Rightarrow> event \<Rightarrow> application \<Rightarrow> application" where
  "on_page w ev s = s\<lparr>the_page := page_step w ev (the_page s)\<rparr>"

datatype app_event = Search search_event | Watch watch_event | PageEvent event

fun app_step :: "browser \<Rightarrow> app_event \<Rightarrow> application \<Rightarrow> application" where
  "app_step w (Search ev) s = watch_props (on_search w ev s)"
| "app_step w (Watch ev) s = watch_props (on_watch w ev s)"
| "app_step w (PageEvent ev) s = watch_props (on_page w ev s)"

fun app_enabled :: "app_event \<Rightarrow> bool" where
  "app_enabled (Search ev) = True"
| "app_enabled (Watch (SetSymbols symbols)) = False"
| "app_enabled (Watch ev) = True"
| "app_enabled (PageEvent (SelectStock symb)) = False"
| "app_enabled (PageEvent (RemoveSymbol symb)) = False"
| "app_enabled (PageEvent ev) = True"

definition app_run :: "(browser \<times> app_event) list \<Rightarrow> application \<Rightarrow> application" where
  "app_run evs s = foldl (\<lambda>s (w, ev). app_step w ev s) s evs"

inductive app_reachable :: "local_storage \<Rightarrow> application \<Rightarrow> bool" for stored where
  mounted: "storage_wf stored \<Longrightarrow> app_reachable stored (mount_application w stored)"
| step: "app_reachable stored s \<Longrightarrow> app_enabled ev \<Longrightarrow> app_reachable stored (app_step w ev s)"

text \<open>The stored watch list holds known symbols only.\<close>

definition stored_known :: "local_storage \<Rightarrow> bool" where
  "stored_known stored \<longleftrightarrow>
     (\<forall>parsed. getItem stored watchlist_key = Some (Symbols parsed) \<longrightarrow> list_all known_symbol parsed)"

definition known_inv :: "application \<Rightarrow> bool" where
  "known_inv s \<longleftrightarrow>
     list_all known_symbol (watchlist (ui (the_page s)))
     \<and> set_option (selectedStock (ui (the_page s))) \<subseteq> Collect known_symbol"

definition alert_shown :: "application \<Rightarrow> alert_view option" where
  "alert_shown s =
     (case render (ui (the_page s)) of
        RateLimitAlert m \<Rightarrow> Some (RateLimitAlert_view m)
      | _ \<Rightarrow> None)"

section \<open>The components of a series\<close>

text \<open>While the page shows a series it mounts \<^verbatim>\<open>StockChart\<close> for it, and
  \<^verbatim>\<open>PredictionTabs\<close> when the predictions are shown. \<open>chart_mounted\<close> and
  \<open>tabs_mounted\<close> are the two as they are when they have just been mounted
  for what the page shows; \<open>forecast_panel\<close> is the panel of the first tab.\<close>

definition chart_mounted ::
  "(TimeRange \<Rightarrow> jsnum) \<Rightarrow> (string \<Rightarrow> jsnum) \<Rightarrow> application \<Rightarrow> chart_view option" where
  "chart_mounted threshold time_of s =
     (case render (ui (the_page s)) of
        Chart lbl data' symb predictions \<Rightarrow>
          Some (StockChart threshold time_of initial_timeRange data')
      | _ \<Rightarrow> None)"

definition tabs_mounted :: "application \<Rightarrow> tabs option" where
  "tabs_mounted s =
     (case render (ui (the_page s)) of
        Chart lbl data' symb predictions \<Rightarrow>
          if predictions then Some (mount_tabs symb data') else None
      | _ \<Rightarrow> None)"

definition forecast_panel :: "string \<Rightarrow> string \<Rightarrow> application \<Rightarrow> prediction_view option" where
  "forecast_panel nextDay nextWeek s =
     (case map_option render_tabs (tabs_mounted s) of
        Some (StockPrediction prediction symb) \<Rightarrow>
          Some (StockPrediction_view nextDay nextWeek prediction symb)
      | _ \<Rightarrow> None)"

section \<open>The requests under way\<close>

text \<open>What the environment decides when a request ends: the browser of the
  step, the outcome of a request for a quote, whether a fetch of the page or
  a request of the watch list ends, and which of those under way.\<close>

record environment =
  env_browser :: browser
  env_outcome :: "api_error + StockQuote"
  env_page_first :: bool
  env_index :: nat

definition next_event :: "environment \<Rightarrow> application \<Rightarrow> app_event option" where
  "next_event e s =
     (let p = length (pending (the_page s)); f = length (fetches (the_watch s))
      in if p = 0 \<and> f = 0 then None
         else if f = 0 \<or> (p \<noteq> 0 \<and> env_page_first e)
         then Some (PageEvent (Resolve (env_index e mod p)))
         else Some (Watch (QuoteDone (env_index e mod f) (env_outcome e))))"

definition app_work :: "application \<Rightarrow> nat" where
  "app_work s = work (the_page s) + watch_work (the_watch s)"

function app_drain :: "(nat \<Rightarrow> environment) \<Rightarrow> nat \<Rightarrow> application \<Rightarrow> application" where
  "app_drain env k s =
     (case next_event (env k) s of
        None \<Rightarrow> s
      | Some ev \<Rightarrow> app_drain env (Suc k) (app_step (env_browser (env k)) ev s))"
  by pat_completeness auto

section \<open>The watch list of the page under a step\<close>

lemma watchlist_select:
  "watchlist (ui (handleSelectStock w symb a))
     = (if symb \<in> set (watchlist (ui a)) then watchlist (ui a) else watchlist (ui a) @ [symb])"
  "selectedStock (ui (handleSelectStock w symb a)) = Some symb"
  by (simp_all add: handleSelectStock_def commit_def Let_def)

lemma watchlist_remove:
  "watchlist (ui (handleRemoveSymbol w symb a)) = filter (\<lambda>s. s \<noteq> symb) (watchlist (ui a))"
  by (simp add: handleRemoveSymbol_def commit_def Let_def)

lemma watchlist_step:
  "ev \<noteq> SelectStock symb \<Longrightarrow> ev \<noteq> RemoveSymbol symb' \<Longrightarrow> app_enabled (PageEvent ev) \<Longrightarrow>
     watchlist (ui (page_step w ev a)) = watchlist (ui a)
     \<and> selectedStock (ui (page_step w ev a)) = selectedStock (ui a)"
  by (cases ev) (simp_all add: handleRefresh_def tick_def Let_def)

lemma watchlist_mount:
  "watchlist (ui (mount w stored))
     = (case getItem stored watchlist_key of Some (Symbols parsed) \<Rightarrow> parsed | _ \<Rightarrow> [])"
  by (simp add: mount_def Let_def initial_state_def split: option.splits item.splits)

section \<open>The components of a reachable state\<close>

lemma watch_props_fields [simp]:
  "the_page (watch_props s) = the_page s" "the_search (watch_props s) = the_search s"
  "initialSymbols (the_watch (watch_props s)) = watchlist (ui (the_page s))"
  "interval_symbols (the_watch (watch_props s)) = watchlist (ui (the_page s))"
  "watch_st (the_watch (watch_props s)) = watch_st (the_watch s)"
  "fetches (the_watch (watch_props s)) = fetches (the_watch s)"
  by (simp_all add: watch_props_def set_symbols_def)

lemma watch_props_reachable:
  "watch_reachable (the_watch s) \<Longrightarrow> watch_reachable (the_watch (watch_props s))"
  using watch_reachable.step [of "the_watch s" 0 "SetSymbols (watchlist (ui (the_page s)))"]
  by (simp add: watch_props_def)

lemma app_components:
  assumes "app_reachable stored s"
  shows "page_reachable (the_page s) \<and> search_reachable (the_search s)
       \<and> watch_reachable (the_watch s)
       \<and> initialSymbols (the_watch s) = watchlist (ui (the_page s))"
  using assms
proof (induction rule: app_reachable.induct)
  case (mounted w)
  then show ?case
    by (auto simp: mount_application_def intro!: watch_props_reachable page_reachable.mounted
        search_reachable.initial watch_reachable.mounted)
next
  case (step s ev w)
  show ?case
  proof (cases ev)
    case (Search e)
    have "page_reachable (the_page (on_search w e s))"
      using step.IH page_reachable.step [of "the_page s" w "SelectStock _"]
      by (auto simp: on_search_def Let_def split: option.splits)
    moreover have "search_reachable (the_search (on_search w e s))"
      using step.IH by (auto simp: on_search_def Let_def intro: search_reachable.step)
    moreover have "watch_reachable (the_watch (on_search w e s))"
      using step.IH by (simp add: on_search_def Let_def)
    ultimately show ?thesis by (simp add: Search watch_props_reachable)
  next
    case (Watch e)
    have "page_reachable (the_page (on_watch w e s))"
      using step.IH page_reachable.step [of "the_page s" w "RemoveSymbol _"]
      by (auto simp: on_watch_def split: watch_event.splits)
    moreover have "watch_reachable (the_watch (on_watch w e s))"
      using step.IH by (auto simp: on_watch_def intro: watch_reachable.step)
    moreover have "search_reachable (the_search (on_watch w e s))"
      using step.IH by (simp add: on_watch_def)
    ultimately show ?thesis by (simp add: Watch watch_props_reachable)
  next
    case (PageEvent e)
    with step.IH show ?thesis
      by (auto simp: on_page_def intro: page_reachable.step watch_props_reachable)
  qed
qed

section \<open>The requests end\<close>

lemma next_event_cases:
  assumes "next_event e s = Some ev"
  shows "(\<exists>n. ev = PageEvent (Resolve n) \<and> n < length (pending (the_page s)))
       \<or> (\<exists>n result. ev = Watch (QuoteDone n result) \<and> n < length (fetches (the_watch s)))"
  using assms by (auto simp: next_event_def Let_def split: if_splits)

lemma next_event_none:
  "next_event e s = None \<longleftrightarrow> pending (the_page s) = [] \<and> fetches (the_watch s) = []"
  by (simp add: next_event_def Let_def)

lemma next_event_enabled: "next_event e s = Some ev \<Longrightarrow> app_enabled ev"
  by (auto dest: next_event_cases)

lemma watch_work_props [simp]: "watch_work (the_watch (watch_props s)) = watch_work (the_watch s)"
  by (simp add: watch_work_def)

lemma app_work_step:
  assumes "next_event e s = Some ev"
  shows "app_work (app_step w ev s) < app_work s"
  using next_event_cases [OF assms]
  by (auto simp: app_work_def on_page_def on_watch_def work_step_any watch_work_done_any
      simp del: page_step.simps watch_step.simps)

termination app_drain
  by (relation "measure (\<lambda>(env, k, s). app_work s)") (simp_all add: app_work_step)

declare app_drain.simps [simp del]

lemma app_drain_settles:
  "pending (the_page (app_drain env k s)) = [] \<and> fetches (the_watch (app_drain env k s)) = []"
proof (induction env k s rule: app_drain.induct)
  case (1 env k s)
  then show ?case
    by (subst (1 2) app_drain.simps) (auto simp: next_event_none split: option.splits)
qed

lemma app_drain_reachable:
  "app_reachable stored s \<Longrightarrow> app_reachable stored (app_drain env k s)"
proof (induction env k s rule: app_drain.induct)
  case (1 env k s)
  show ?case
  proof (cases "next_event (env k) s")
    case None
    with 1 show ?thesis by (subst app_drain.simps) simp
  next
    case (Some ev)
    with 1 show ?thesis
      by (subst app_drain.simps) (simp add: app_reachable.step next_event_enabled)
  qed
qed

section \<open>Nothing under way, nothing loading\<close>

lemma settled_quiet:
  assumes "app_reachable stored s" "pending (the_page s) = []" "fetches (the_watch s) = []"
  shows "\<not> isLoading (ui (the_page s))" "\<not> is_loading (render_row (watch_st (the_watch s)) symb)"
proof -
  from assms(1) have i: "page_inv (the_page s)" "watch_inv (the_watch s)"
    using app_components reachable_inv watch_reachable_inv by blast+
  from i(1) assms(2) show "\<not> isLoading (ui (the_page s))"
    by (auto simp: page_inv_def split: if_splits)
  from i(2) assms(3) show "\<not> is_loading (render_row (watch_st (the_watch s)) symb)"
    using no_spinner [of "the_watch s" symb]
    by (cases "render_row (watch_st (the_watch s)) symb")
      (auto simp: render_row_def split: if_splits option.splits)
qed

section \<open>Known symbols\<close>

lemma known_inv_mount: "stored_known stored \<Longrightarrow> known_inv (mount_application w stored)"
  unfolding known_inv_def mount_application_def
  using shell_inv_mount [of w stored]
  by (auto simp: watchlist_mount stored_known_def shell_inv_def list_all_iff
      split: option.splits item.splits)

lemma known_inv_search:
  assumes "search_reachable (the_search s)" "known_inv s"
  shows "known_inv (on_search w ev s)"
proof (cases "fst (search_step ev (the_search s))")
  case None
  with assms(2) show ?thesis by (simp add: known_inv_def on_search_def Let_def)
next
  case (Some symb)
  with assms(1) have "known_symbol symb" by (rule selected_known)
  with assms(2) Some show ?thesis
    by (simp add: known_inv_def on_search_def Let_def watchlist_select)
qed

lemma known_inv_watch:
  assumes "shell_inv (the_page s)" "known_inv s"
  shows "known_inv (on_watch w ev s)"
proof (cases ev)
  case (Remove symb)
  from assms(1) have "shell_inv (handleRemoveSymbol w symb (the_page s))" by (rule shell_inv_remove)
  with assms(2) show ?thesis
    by (auto simp: known_inv_def on_watch_def Remove watchlist_remove shell_inv_def list_all_iff)
qed (use assms(2) in \<open>simp_all add: known_inv_def on_watch_def\<close>)

lemma known_inv_page:
  assumes "app_enabled (PageEvent ev)" "known_inv s"
  shows "known_inv (on_page w ev s)"
  using assms watchlist_step [of ev _ _ w "the_page s"]
  by (cases ev) (simp_all add: known_inv_def on_page_def)

lemma known_inv_props [simp]: "known_inv (watch_props s) = known_inv s"
  by (simp add: known_inv_def)

lemma known_reachable:
  assumes "app_reachable stored s" "stored_known stored"
  shows "known_inv s"
  using assms
proof (induction rule: app_reachable.induct)
  case (mounted w)
  then show ?case by (simp add: known_inv_mount)
next
  case (step s ev w)
  from step.hyps(1) have c: "search_reachable (the_search s)" "shell_inv (the_page s)"
    using app_components reachable_inv by blast+
  from step show ?case
    by (cases ev) (simp_all add: known_inv_search known_inv_watch known_inv_page c)
qed

section \<open>A stock that is added\<close>

text \<open>A stock chosen from the popular stocks right after the page is opened on
  an empty storage is selected and loading on the page, and has a row in the
  watch list that is empty, with no request for a quote under way: the watch
  list requests quotes when it is mounted, which is before the page has a
  symbol, and when its timer ticks.\<close>

lemma added_stock_row_empty:
  assumes "i < length popularStocks" "s = app_step w (Search (ClickPopular i)) (mount_application w0 [])"
  shows "selectedStock (ui (the_page s)) = Some (fst (popularStocks ! i))"
    and "render_watch (the_watch s) = Rows [RowNothing]"
    and "fetches (the_watch s) = []"
proof -
  let ?symb = "fst (popularStocks ! i)" and ?m = "mount_application w0 []"
  from assms(1) have r: "search_step (ClickPopular i) initial_search
      = (Some ?symb, initial_search\<lparr>query := [], results := []\<rparr>)"
    by (simp add: handleSelectResult_def)
  have wl: "watchlist (ui (mount w0 [])) = []"
    by (simp add: watchlist_mount getItem_def)
  have m: "the_search ?m = initial_search" "the_page ?m = mount w0 []"
    "watch_st (the_watch ?m) = initial_watch" "fetches (the_watch ?m) = []"
    by (simp_all add: mount_application_def mount_watch_def fetch_if_any_def initial_state_def)
  have os: "on_search w (ClickPopular i) ?m
      = ?m\<lparr>the_search := initial_search\<lparr>query := [], results := []\<rparr>,
            the_page := handleSelectStock w ?symb (mount w0 [])\<rparr>"
    by (simp add: on_search_def r m del: search_step.simps)
  show "selectedStock (ui (the_page s)) = Some ?symb"
    by (simp add: assms(2) os watchlist_select)
  show "render_watch (the_watch s) = Rows [RowNothing]"
    by (simp add: assms(2) os watchlist_select wl render_watch_def render_row_def m
        initial_watch_def)
  show "fetches (the_watch s) = []"
    by (simp add: assms(2) os m)
qed

section \<open>A click on a popular stock\<close>

lemma popular_nonempty: "i < length popularStocks \<Longrightarrow> fst (popularStocks ! i) \<noteq> []"
proof -
  have "list_all (\<lambda>p. fst p \<noteq> []) popularStocks" by (simp add: popularStocks_def)
  then show "i < length popularStocks \<Longrightarrow> fst (popularStocks ! i) \<noteq> []"
    by (simp add: list_all_length)
qed

lemma click_popular:
  assumes "i < length popularStocks"
  shows "the_page (app_step w (Search (ClickPopular i)) s)
       = handleSelectStock w (fst (popularStocks ! i)) (the_page s)"
  using assms by (simp add: on_search_def handleSelectResult_def)

lemma resolve_page: "the_page (app_step w (PageEvent ev) s) = page_step w ev (the_page s)"
  by (simp add: on_page_def)

lemma mount_page: "the_page (mount_application w stored) = mount w stored"
  by (simp add: mount_application_def)

section \<open>From a selection to the series\<close>

text \<open>A stock that is selected within the hour after the page was opened on an
  empty storage: the page shows the spinner, with one fetch under way; when
  the fetch ends it shows the series that arrived, with the predictions when
  the series has thirty bars.\<close>

lemma select_spinner:
  assumes "symb \<noteq> []" "time_now w1 - time_now w0 \<le> CACHE_DURATION"
  shows "render (ui (handleSelectStock w1 symb (mount w0 []))) = Spinner symb"
    and "pending (handleSelectStock w1 symb (mount w0 [])) = [Fetch symb (Some symb) True]"
  using assms by (simp_all add: mount_empty page_defs storage_defs Let_def render_def)

lemma select_resolved:
  assumes "symb \<noteq> []" "time_now w1 - time_now w0 \<le> CACHE_DURATION"
    and "fetch_series w2 symb \<noteq> []"
  shows "\<exists>lbl. render (ui (page_step w2 (Resolve 0) (handleSelectStock w1 symb (mount w0 []))))
           = Chart lbl (fetch_series w2 symb) symb (30 \<le> length (fetch_series w2 symb))"
  using assms by (simp add: mount_empty page_defs storage_defs Let_def render_def)

section \<open>The notice\<close>

lemma alert_title_fixed:
  "alert_shown s = Some v \<Longrightarrow> alert_title v = ''Using Mock Data - No API Limits!''"
  by (auto simp: alert_shown_def RateLimitAlert_view_def split: view.splits)

section \<open>Claims\<close>

text \<open>C39: the application only ever watches stocks it knows. When the stored
  watch list holds symbols of \<open>STOCK_LIST\<close> only, then in every state the
  application reaches through events of the user, the timers and the network,
  the watch list the page holds and \<^verbatim>\<open>WatchList\<close> shows, and the selected stock,
  are symbols of \<open>STOCK_LIST\<close>: a selection reaches the page from the search
  box only, which offers what \<^verbatim>\<open>searchStocks\<close> found and the popular stocks.\<close>

theorem watched_symbols_known:
  assumes "app_reachable stored s" "stored_known stored"
  shows "list_all known_symbol (initialSymbols (the_watch s))
       \<and> set_option (selectedStock (ui (the_page s))) \<subseteq> Collect known_symbol"
  using known_reachable [OF assms] app_components [OF assms(1)] by (simp add: known_inv_def)

theorem watched_symbols_known_witness:
  "list_all known_symbol
     (initialSymbols (the_watch (app_step (sample_browser 1) (Search (ClickPopular 0))
        (mount_application (sample_browser 0) []))))"
proof -
  have "app_reachable [] (app_step (sample_browser 1) (Search (ClickPopular 0))
      (mount_application (sample_browser 0) []))"
    by (intro app_reachable.step app_reachable.mounted) (simp_all add: storage_wf_def)
  moreover have "stored_known []" by (simp add: stored_known_def getItem_def)
  ultimately show ?thesis using watched_symbols_known by blast
qed

text \<open>The application comes to rest. In every state the application
  reaches, whatever the order in which the fetches of the page and the
  requests of the watch list end and whatever their outcomes, they all end;
  then nothing is under way, the page shows no spinner, and no row of the
  watch list shows that it is loading.\<close>

lemma application_settles:
  assumes "app_reachable stored s" "s' = app_drain env k s"
  shows "pending (the_page s') = [] \<and> fetches (the_watch s') = []
       \<and> \<not> isLoading (ui (the_page s'))
       \<and> \<not> is_loading (render_row (watch_st (the_watch s')) symb)"
proof -
  from assms have "app_reachable stored s'" by (simp add: app_drain_reachable)
  moreover have "pending (the_page s') = []" "fetches (the_watch s') = []"
    by (simp_all add: assms(2) app_drain_settles)
  ultimately show ?thesis by (simp add: settled_quiet)
qed

end
