(* ===== verification/Session.thy ===== *)
theory Session
  imports Application Indicator_Chart Analysis_Panel
begin

text \<open>
  The application together with the components the page mounts for a series:
  \<^verbatim>\<open>StockChart\<close> and \<^verbatim>\<open>PredictionTabs\<close> (\<^verbatim>\<open>src/src/app/page.tsx\<close>, lines 270 to 286) and,
  inside the tabs, \<^verbatim>\<open>TechnicalIndicatorsChart\<close> (\<^verbatim>\<open>src/unnamed/part_003\<close>, lines 181 to
  187). A component that is not shown has no state: it is mounted with its
  initial state when the page comes to show it and loses its state, and the
  calls it has under way, when the page hides it.

  \<^item> \<open>session\<close> is the state of the application (theory \<open>Application\<close>) with the
    states of the three components, each \<open>None\<close> while it is not mounted: the
    range of the chart, the tabs, and the indicator the indicator chart shows.
  \<^item> \<open>sets_stock_data\<close> tells whether a task of the page, when it continues,
    calls \<^verbatim>\<open>setStockData\<close>: a fetch does when its symbol is the selected stock
    of its render, the end of a refresh when it shows the selected stock from
    the cache (\<open>refresh_shows_cached\<close>); \<open>new_series\<close> tells whether a step of
    the application does so from a task. The array it sets is a new one, so
    the effect of the tabs on \<^verbatim>\<open>[data, symbol]\<close> runs although the bars may be
    the same.
  \<^item> \<open>show_children\<close> is the render of the page that follows a step: the chart
    keeps its range while it is shown; the tabs are mounted, receive the new
    properties (and run their effect when the series is new or the symbol is
    another), or are removed. \<open>show_indicator\<close> is the same for the indicator
    chart inside the tabs.
  \<^item> \<open>session_event\<close>, \<open>session_step\<close>, \<open>session_enabled\<close>, \<open>session_run\<close>,
    \<open>session_reachable\<close>: an event of the application, a click on a range of
    the chart, an event of the tabs (with what the language model does at that
    time), a click on an indicator; the properties of the tabs are set by the
    page only.
  \<^item> \<open>session_drain\<close> lets the fetches, the requests for quotes and the calls
    of the language model end in the order the \<open>session_env\<close> chooses, until
    none is under way; the measure of its termination is \<open>session_work\<close>.
  \<^item> \<open>forecast_shown\<close> and \<open>analysis_of\<close> are the forecast and the analysis on
    the screen.

  A handler of the page and the effects it triggers are one step of \<open>Page\<close>;
  the render between them, in which the tabs see the new symbol with the old
  series, leaves no trace, since the effect of the tabs on the render after it
  overwrites what that render set (\<open>data_effect_twice\<close>).

  The lemmas: the components of a reachable session are reachable states of
  their own theories, and every reachable state of the application is the
  application of a reachable session; \<open>children_inv\<close>, the components are
  mounted exactly while the page shows them and the tabs hold the symbol and
  the series of the page; what a step of the application does to the tabs
  and to the range of the chart; what the components lose with a new series;
  every request ends, and then no spinner is shown anywhere. Theory
  \<open>Session_Runs\<close> follows the session through sequences of events.
\<close>

section \<open>The state\<close>

record session =
  the_app :: application
  the_range :: "TimeRange option"
  the_tabs :: "tabs option"
  the_indicator :: "chart_state option"

section \<open>A new series\<close>

definition refresh_shows_cached :: "browser \<Rightarrow> string list \<Rightarrow> string option \<Rightarrow> app \<Rightarrow> bool" where
  "refresh_shows_cached w wl sel a =
     (truthy sel \<and> the sel \<in> set wl
      \<and> getCachedStockData (time_now w) (the sel)
          (setItem (store a) last_cache_refresh (Text (toString_int (time_now w)))) \<noteq> None)"

fun sets_stock_data :: "browser \<Rightarrow> task \<Rightarrow> app \<Rightarrow> bool" where
  "sets_stock_data w (Fetch symb sel awaited) a = (Some symb = sel)"
| "sets_stock_data w (Refresh (symb # rest) wl sel) a = (Some symb = sel)"
| "sets_stock_data w (Refresh [] wl sel) a = refresh_shows_cached w wl sel a"

definition new_series :: "browser \<Rightarrow> app_event \<Rightarrow> application \<Rightarrow> bool" where
  "new_series w ev s =
     (case ev of
        PageEvent (Resolve n) \<Rightarrow>
          n < length (pending (the_page s)) \<and> sets_stock_data w (pending (the_page s) ! n) (the_page s)
      | _ \<Rightarrow> False)"

section \<open>Mounting and removing the components\<close>

definition is_indicators :: "tabs_view \<Rightarrow> bool" where
  "is_indicators v = (case v of TechnicalIndicatorsChart d ind symb \<Rightarrow> True | _ \<Rightarrow> False)"

definition show_indicator :: "session \<Rightarrow> session" where
  "show_indicator s =
     s\<lparr>the_indicator :=
         (case the_tabs s of
            Some t \<Rightarrow>
              if is_indicators (render_tabs t)
              then Some (case the_indicator s of None \<Rightarrow> initial_chart | Some c \<Rightarrow> c)
              else None
          | None \<Rightarrow> None)\<rparr>"

definition pass_props :: "bool \<Rightarrow> string \<Rightarrow> StockTimeSeriesData list \<Rightarrow> tabs option \<Rightarrow> tabs" where
  "pass_props fresh symb data' mounted =
     (case mounted of
        None \<Rightarrow> mount_tabs symb data'
      | Some t \<Rightarrow> if fresh \<or> symb \<noteq> tab_symbol t then set_props symb data' t else t)"

definition show_children :: "bool \<Rightarrow> session \<Rightarrow> session" where
  "show_children fresh s =
     (case render (ui (the_page (the_app s))) of
        Chart lbl data' symb predictions \<Rightarrow>
          show_indicator
            (s\<lparr>the_range := Some (case the_range s of None \<Rightarrow> initial_timeRange | Some r \<Rightarrow> r),
               the_tabs := (if predictions then Some (pass_props fresh symb data' (the_tabs s))
                            else None)\<rparr>)
      | _ \<Rightarrow> s\<lparr>the_range := None, the_tabs := None, the_indicator := None\<rparr>)"

definition mount_session :: "browser \<Rightarrow> local_storage \<Rightarrow> session" where
  "mount_session w stored =
     show_children False
       \<lparr>the_app = mount_application w stored, the_range = None, the_tabs = None,
        the_indicator = None\<rparr>"

section \<open>Events\<close>

datatype session_event =
  AppEvent app_event
| ChartEvent TimeRange
| TabsEvent llm_service tabs_event
| IndicatorEvent IndicatorType

fun session_step :: "browser \<Rightarrow> session_event \<Rightarrow> session \<Rightarrow> session" where
  "session_step w (AppEvent ev) s =
     show_children (new_series w ev (the_app s)) (s\<lparr>the_app := app_step w ev (the_app s)\<rparr>)"
| "session_step w (ChartEvent r) s = s\<lparr>the_range := map_option (setTimeRange r) (the_range s)\<rparr>"
| "session_step w (TabsEvent srv ev) s =
     show_indicator (s\<lparr>the_tabs := map_option (tabs_step srv ev) (the_tabs s)\<rparr>)"
| "session_step w (IndicatorEvent i) s =
     s\<lparr>the_indicator := map_option (setActiveIndicator i) (the_indicator s)\<rparr>"

fun session_enabled :: "session_event \<Rightarrow> bool" where
  "session_enabled (AppEvent ev) = app_enabled ev"
| "session_enabled (TabsEvent srv (Props symb data')) = False"
| "session_enabled ev = True"

definition session_run :: "(browser \<times> session_event) list \<Rightarrow> session \<Rightarrow> session" where
  "session_run evs s = foldl (\<lambda>s (w, ev). session_step w ev s) s evs"

inductive session_reachable :: "local_storage \<Rightarrow> session \<Rightarrow> bool" for stored where
  mounted: "storage_wf stored \<Longrightarrow> session_reachable stored (mount_session w stored)"
| step: "session_reachable stored s \<Longrightarrow> session_enabled ev
           \<Longrightarrow> session_reachable stored (session_step w ev s)"

section \<open>What is on the screen\<close>

definition chart_of :: "page_state \<Rightarrow> (StockTimeSeriesData list \<times> string \<times> bool) option" where
  "chart_of u = (case render u of Chart lbl data' symb predictions \<Rightarrow> Some (data', symb, predictions)
                 | _ \<Rightarrow> None)"

definition chart_shown ::
  "(TimeRange \<Rightarrow> jsnum) \<Rightarrow> (string \<Rightarrow> jsnum) \<Rightarrow> session \<Rightarrow> chart_view option" where
  "chart_shown threshold time_of s =
     (case (chart_of (ui (the_page (the_app s))), the_range s) of
        (Some (data', symb, predictions), Some r) \<Rightarrow> Some (StockChart threshold time_of r data')
      | _ \<Rightarrow> None)"

definition forecast_shown :: "session \<Rightarrow> (PredictionResult \<times> string) option" where
  "forecast_shown s =
     (case map_option render_tabs (the_tabs s) of
        Some (StockPrediction prediction symb) \<Rightarrow> Some (prediction, symb)
      | _ \<Rightarrow> None)"

definition analysis_of :: "session \<Rightarrow> analysis_view option" where
  "analysis_of s = (case the_tabs s of Some t \<Rightarrow> analysis_shown t | None \<Rightarrow> None)"

definition analysis_loading :: "session \<Rightarrow> bool" where
  "analysis_loading s = (map_option render_tabs (the_tabs s) = Some AnalysisSpinner)"

text \<open>The invariant: the chart is mounted exactly while the page shows a
  series, the tabs exactly while it shows the predictions, and then they hold
  the series and the symbol of the page; the indicator chart is mounted
  exactly while the tabs show it.\<close>

definition children_inv :: "session \<Rightarrow> bool" where
  "children_inv s \<longleftrightarrow>
     (the_range s = None \<longleftrightarrow> chart_of (ui (the_page (the_app s))) = None) \<and>
     (the_tabs s = None \<longleftrightarrow>
        (\<forall>c \<in> set_option (chart_of (ui (the_page (the_app s)))). \<not> snd (snd c))) \<and>
     (\<forall>t \<in> set_option (the_tabs s).
        chart_of (ui (the_page (the_app s))) = Some (tab_data t, tab_symbol t, True)
        \<and> tabs_reachable t) \<and>
     (the_indicator s = None \<longleftrightarrow>
        (\<forall>t \<in> set_option (the_tabs s). \<not> is_indicators (render_tabs t)))"

section \<open>The requests under way\<close>

record session_env =
  env_app :: environment
  env_service :: llm_service
  env_llm_first :: bool

definition calls_open :: "session \<Rightarrow> nat" where
  "calls_open s = (case the_tabs s of None \<Rightarrow> 0 | Some t \<Rightarrow> length (calls t))"

definition next_step :: "session_env \<Rightarrow> session \<Rightarrow> session_event option" where
  "next_step e s =
     (let c = calls_open s; ev = next_event (env_app e) (the_app s)
      in if c \<noteq> 0 \<and> (env_llm_first e \<or> ev = None)
         then Some (TabsEvent (env_service e) (LlmDone (env_index (env_app e) mod c)))
         else map_option AppEvent ev)"

definition session_work :: "session \<Rightarrow> nat" where
  "session_work s = app_work (the_app s) + calls_open s"

function session_drain :: "(nat \<Rightarrow> session_env) \<Rightarrow> nat \<Rightarrow> session \<Rightarrow> session" where
  "session_drain env k s =
     (case next_step (env k) s of
        None \<Rightarrow> s
      | Some ev \<Rightarrow> session_drain env (Suc k) (session_step (env_browser (env_app (env k))) ev s))"
  by pat_completeness auto

section \<open>The series of the page under a step\<close>

lemma run_effects_same_stock [simp]: "ui (run_effects w wc False a) = ui a"
  by (simp add: run_effects_def Let_def)

lemma sets_stock_data_pending [simp]:
  "sets_stock_data w t (a\<lparr>pending := p\<rparr>) = sets_stock_data w t a"
  by (induction w t a rule: sets_stock_data.induct) (simp_all add: refresh_shows_cached_def)

lemma resolve_keeps_data:
  assumes "\<not> sets_stock_data w t a" "\<not> isLoading (ui (resolve w t a))"
  shows "stockData (ui (resolve w t a)) = stockData (ui a)"
  using assms
  by (induction w t a rule: resolve.induct)
    (auto simp: fetchStockDataFromAPI_def fetchStockData_def refresh_shows_cached_def Let_def
      split: option.splits)

lemma select_keeps_data:
  assumes "selectedStock (ui (handleSelectStock w symb a)) = selectedStock (ui a)"
  shows "stockData (ui (handleSelectStock w symb a)) = stockData (ui a)"
  using assms by (auto simp: handleSelectStock_def commit_def Let_def)

lemma remove_keeps_data:
  assumes "selectedStock (ui (handleRemoveSymbol w symb a)) = selectedStock (ui a)"
  shows "stockData (ui (handleRemoveSymbol w symb a)) = stockData (ui a)"
  using assms by (auto simp: handleRemoveSymbol_def commit_def Let_def split: if_splits)

lemma page_keeps_data:
  assumes "\<forall>n. ev = Resolve n \<longrightarrow> n < length (pending a) \<longrightarrow> \<not> sets_stock_data w (pending a ! n) a"
    and "selectedStock (ui (page_step w ev a)) = selectedStock (ui a)"
    and "\<not> isLoading (ui (page_step w ev a))"
  shows "stockData (ui (page_step w ev a)) = stockData (ui a)"
proof (cases ev)
  case (Resolve n)
  show ?thesis
  proof (cases "n < length (pending a)")
    case True
    let ?a = "a\<lparr>pending := take n (pending a) @ drop (Suc n) (pending a)\<rparr>"
    from assms(1) Resolve True have "\<not> sets_stock_data w (pending a ! n) ?a" by simp
    with assms(3) Resolve True show ?thesis
      using resolve_keeps_data [of w "pending a ! n" ?a] by simp
  qed (simp add: Resolve)
qed (use assms in \<open>simp_all add: select_keeps_data remove_keeps_data handleRefresh_def tick_def Let_def\<close>)

lemma app_keeps_data:
  assumes "\<not> new_series w ev s"
    and "selectedStock (ui (the_page (app_step w ev s))) = selectedStock (ui (the_page s))"
    and "\<not> isLoading (ui (the_page (app_step w ev s)))"
  shows "stockData (ui (the_page (app_step w ev s))) = stockData (ui (the_page s))"
proof (cases ev)
  case (Search e)
  with assms(2) show ?thesis
    by (cases "fst (search_step e (the_search s))")
      (simp_all add: on_search_def Let_def select_keeps_data del: search_step.simps)
next
  case (Watch e)
  with assms(2) show ?thesis
    by (cases e) (simp_all add: on_watch_def remove_keeps_data del: watch_step.simps)
next
  case (PageEvent e)
  with assms show ?thesis
    using page_keeps_data [of e "the_page s" w]
    by (auto simp: new_series_def on_page_def simp del: page_step.simps split: event.splits)
qed

section \<open>The render between a handler and its effects\<close>

lemma data_effect_twice:
  "data' \<noteq> [] \<Longrightarrow> data_effect data' (data_effect d0 st) = data_effect data' st"
  by (cases "d0 = []") (simp_all add: data_effect_def loadTechnicalPrediction_cases)

lemma set_props_twice:
  "data' \<noteq> [] \<Longrightarrow> set_props symb data' (set_props s0 d0 t) = set_props symb data' t"
  by (simp add: set_props_def data_effect_twice)

section \<open>The components are mounted while they are shown\<close>

lemma chart_of_render: "chart_of u = Some (d, symb, p) \<longleftrightarrow> (\<exists>lbl. render u = Chart lbl d symb p)"
  by (auto simp: chart_of_def split: view.splits)

lemma chart_of_data:
  assumes "chart_of u = Some (d, symb, p)"
  shows "d = stockData u" "selectedStock u = Some symb" "\<not> isLoading u" "d \<noteq> []"
    "p = showPredictions u" "error u = []" "symb \<noteq> []"
  using assms
  by (auto simp: chart_of_def render_def truthy_def split: if_splits option.splits)

lemma show_indicator_fields [simp]:
  "the_app (show_indicator s) = the_app s" "the_range (show_indicator s) = the_range s"
  "the_tabs (show_indicator s) = the_tabs s"
  "the_indicator (show_indicator s) = None
     \<longleftrightarrow> (\<forall>t \<in> set_option (the_tabs s). \<not> is_indicators (render_tabs t))"
  by (auto simp: show_indicator_def split: option.splits)

lemma show_children_app [simp]: "the_app (show_children fresh s) = the_app s"
  by (simp add: show_children_def split: view.splits)

lemma pass_props_reachable:
  assumes "data' \<noteq> []" "\<forall>t \<in> set_option m. tabs_reachable t"
  shows "tabs_reachable (pass_props fresh symb data' m)"
  using assms tabs_reachable.step [of _ "Props symb data'"]
  by (auto simp: pass_props_def tabs_enabled_def intro: tabs_reachable.mounted split: option.splits)

lemma pass_props_fields:
  assumes "\<forall>t \<in> set_option m. \<not> fresh \<longrightarrow> symb = tab_symbol t \<longrightarrow> data' = tab_data t"
  shows "tab_symbol (pass_props fresh symb data' m) = symb"
    and "tab_data (pass_props fresh symb data' m) = data'"
  using assms by (auto simp: pass_props_def mount_tabs_def set_props_def split: option.splits)

lemma children_inv_show:
  assumes "\<forall>t \<in> set_option (the_tabs s). tabs_reachable t"
    and "\<forall>t \<in> set_option (the_tabs s). \<not> fresh \<longrightarrow>
           (\<forall>d p. chart_of (ui (the_page (the_app s))) = Some (d, tab_symbol t, p) \<longrightarrow> d = tab_data t)"
  shows "children_inv (show_children fresh s)"
proof (cases "chart_of (ui (the_page (the_app s)))")
  case None
  then show ?thesis
    by (auto simp: children_inv_def show_children_def chart_of_def split: view.splits)
next
  case (Some c)
  obtain d symb p where c: "c = (d, symb, p)" by (cases c)
  with Some obtain lbl where r: "render (ui (the_page (the_app s))) = Chart lbl d symb p"
    by (auto simp: chart_of_render)
  from Some c have d: "d \<noteq> []" by (simp add: chart_of_data)
  from assms(2) Some c
  have "\<forall>t \<in> set_option (the_tabs s). \<not> fresh \<longrightarrow> symb = tab_symbol t \<longrightarrow> d = tab_data t"
    by auto
  note f = pass_props_fields [OF this]
  from d assms(1) have "tabs_reachable (pass_props fresh symb d (the_tabs s))"
    by (rule pass_props_reachable)
  with Some c f show ?thesis
    by (simp add: children_inv_def show_children_def r)
qed

lemma tabs_step_props:
  assumes "session_enabled (TabsEvent srv ev)"
  shows "tab_data (tabs_step srv ev t) = tab_data t" "tab_symbol (tabs_step srv ev t) = tab_symbol t"
  using assms
  by (cases ev; simp add: handleTabChange_def loadLLMPrediction_def loadTechnicalIndicators_def Let_def)+

lemma children_inv_mount: "children_inv (mount_session w stored)"
  unfolding mount_session_def by (rule children_inv_show) simp_all

lemma children_inv_step:
  assumes "children_inv s" "session_enabled ev"
  shows "children_inv (session_step w ev s)"
proof (cases ev)
  case (AppEvent e)
  let ?s = "s\<lparr>the_app := app_step w e (the_app s)\<rparr>" and ?f = "new_series w e (the_app s)"
  have "children_inv (show_children ?f ?s)"
  proof (rule children_inv_show)
    from assms(1) show "\<forall>t \<in> set_option (the_tabs ?s). tabs_reachable t"
      by (simp add: children_inv_def)
    show "\<forall>t \<in> set_option (the_tabs ?s). \<not> ?f \<longrightarrow>
           (\<forall>d p. chart_of (ui (the_page (the_app ?s))) = Some (d, tab_symbol t, p) \<longrightarrow> d = tab_data t)"
    proof (intro ballI impI allI)
      fix t d p
      assume t: "t \<in> set_option (the_tabs ?s)" and f: "\<not> ?f"
        and c: "chart_of (ui (the_page (the_app ?s))) = Some (d, tab_symbol t, p)"
      from assms(1) t have
        old: "chart_of (ui (the_page (the_app s))) = Some (tab_data t, tab_symbol t, True)"
        by (simp add: children_inv_def)
      from chart_of_data(1,2,3) [OF c] chart_of_data(1,2) [OF old] f
      show "d = tab_data t"
        using app_keeps_data [of w e "the_app s"] by simp
    qed
  qed
  with AppEvent show ?thesis by simp
next
  case (ChartEvent r)
  with assms(1) show ?thesis by (simp add: children_inv_def)
next
  case (TabsEvent srv e)
  with assms show ?thesis
    using tabs_reachable.step [of _ e srv]
    by (cases e; cases "the_tabs s")
      (auto simp: children_inv_def tabs_step_props tabs_enabled_def simp del: tabs_step.simps)
next
  case (IndicatorEvent i)
  with assms(1) show ?thesis by (simp add: children_inv_def)
qed

lemma session_children:
  "session_reachable stored s \<Longrightarrow> children_inv s"
  by (induction rule: session_reachable.induct) (simp_all add: children_inv_mount children_inv_step)

lemma session_components:
  "session_reachable stored s \<Longrightarrow> app_reachable stored (the_app s)"
proof (induction rule: session_reachable.induct)
  case (mounted w)
  then show ?case by (simp add: mount_session_def app_reachable.mounted)
next
  case (step s ev w)
  then show ?case by (cases ev) (simp_all add: app_reachable.step)
qed

lemma session_tabs:
  assumes "session_reachable stored s" "the_tabs s = Some t"
  shows "tabs_reachable t" "tab_data t = stockData (ui (the_page (the_app s)))"
    "selectedStock (ui (the_page (the_app s))) = Some (tab_symbol t)"
proof -
  from session_children [OF assms(1)] assms(2)
  have c: "chart_of (ui (the_page (the_app s))) = Some (tab_data t, tab_symbol t, True)"
    and r: "tabs_reachable t"
    by (simp_all add: children_inv_def)
  from r show "tabs_reachable t" .
  from chart_of_data(1,2) [OF c]
  show "tab_data t = stockData (ui (the_page (the_app s)))"
    "selectedStock (ui (the_page (the_app s))) = Some (tab_symbol t)" by simp_all
qed

section \<open>The requests end\<close>

lemma calls_open_show: "calls_open (show_children fresh s) \<le> calls_open s"
  by (auto simp: calls_open_def show_children_def pass_props_def mount_tabs_def set_props_def
      split: view.splits option.splits)

lemma next_step_cases:
  assumes "next_step e s = Some ev"
  shows "(\<exists>srv n t. ev = TabsEvent srv (LlmDone n) \<and> the_tabs s = Some t \<and> n < length (calls t))
       \<or> (\<exists>e'. ev = AppEvent e' \<and> next_event (env_app e) (the_app s) = Some e')"
  using assms
  by (auto simp: next_step_def Let_def calls_open_def split: if_splits option.splits)

lemma next_step_none:
  "next_step e s = None \<longleftrightarrow> calls_open s = 0 \<and> next_event (env_app e) (the_app s) = None"
  by (auto simp: next_step_def Let_def)

lemma next_step_enabled: "next_step e s = Some ev \<Longrightarrow> session_enabled ev"
  by (auto dest!: next_step_cases dest: next_event_enabled)

lemma session_work_step:
  assumes "next_step e s = Some ev"
  shows "session_work (session_step w ev s) < session_work s"
  using next_step_cases [OF assms]
proof (elim disjE exE conjE)
  fix srv n t
  assume "ev = TabsEvent srv (LlmDone n)" "the_tabs s = Some t" "n < length (calls t)"
  then show ?thesis by (simp add: session_work_def calls_open_def Let_def)
next
  fix e'
  assume "ev = AppEvent e'" "next_event (env_app e) (the_app s) = Some e'"
  then show ?thesis
    using app_work_step [of "env_app e" "the_app s" e' w]
      calls_open_show [of "new_series w e' (the_app s)" "s\<lparr>the_app := app_step w e' (the_app s)\<rparr>"]
    by (simp add: session_work_def calls_open_def del: app_step.simps)
qed

termination session_drain
  by (relation "measure (\<lambda>(env, k, s). session_work s)") (simp_all add: session_work_step)

declare session_drain.simps [simp del]

lemma session_drain_settles:
  "calls_open (session_drain env k s) = 0
   \<and> pending (the_page (the_app (session_drain env k s))) = []
   \<and> fetches (the_watch (the_app (session_drain env k s))) = []"
proof (induction env k s rule: session_drain.induct)
  case (1 env k s)
  then show ?case
    by (subst (1 2 3) session_drain.simps)
      (auto simp: next_step_none next_event_none split: option.splits)
qed

lemma session_drain_reachable:
  "session_reachable stored s \<Longrightarrow> session_reachable stored (session_drain env k s)"
proof (induction env k s rule: session_drain.induct)
  case (1 env k s)
  show ?case
  proof (cases "next_step (env k) s")
    case None
    with 1 show ?thesis by (subst session_drain.simps) simp
  next
    case (Some ev)
    with 1 show ?thesis
      by (subst session_drain.simps) (simp add: session_reachable.step next_step_enabled)
  qed
qed

lemma no_calls_no_spinner:
  assumes "session_reachable stored s" "calls_open s = 0"
  shows "\<not> analysis_loading s"
proof (cases "the_tabs s")
  case (Some t)
  with assms(1) have "tabs_inv t" by (simp add: session_tabs tabs_reachable_inv)
  with assms(2) Some show ?thesis
    by (auto simp: analysis_loading_def calls_open_def tabs_inv_def render_tabs_def Let_def
        split: if_splits PredictionTab.splits option.splits)
qed (simp add: analysis_loading_def)

section \<open>The forecast and the chart\<close>

lemma forecast_shown_tabs:
  "forecast_shown s = Some (p, symb) \<longleftrightarrow>
     (\<exists>t. the_tabs s = Some t \<and> render_tabs t = StockPrediction p symb)"
  by (auto simp: forecast_shown_def split: option.splits tabs_view.splits)

lemma render_forecast:
  assumes "render_tabs t = StockPrediction p symb"
  shows "technicalPrediction (tab_state t) = Some p" "symb = tab_symbol t"
  using assms
  by (auto simp: render_tabs_def Let_def split: if_splits PredictionTab.splits option.splits)

section \<open>One step of the application\<close>

lemma show_children_hidden:
  "chart_of (ui (the_page (the_app s))) = None \<Longrightarrow>
     show_children fresh s = s\<lparr>the_range := None, the_tabs := None, the_indicator := None\<rparr>"
  by (auto simp: show_children_def chart_of_def split: view.splits)

lemma show_children_chart:
  assumes "chart_of (ui (the_page (the_app s))) = Some (d, symb, p)"
  shows "the_range (show_children fresh s)
           = Some (case the_range s of None \<Rightarrow> initial_timeRange | Some r \<Rightarrow> r)"
    and "the_tabs (show_children fresh s)
           = (if p then Some (pass_props fresh symb d (the_tabs s)) else None)"
  using assms by (auto simp: show_children_def chart_of_def split: view.splits)

lemma session_page_step:
  "the_page (the_app (session_step w (AppEvent (PageEvent ev)) s))
     = page_step w ev (the_page (the_app s))"
  by (simp add: resolve_page del: app_step.simps page_step.simps)

lemma session_app_tabs:
  assumes "s' = session_step w (AppEvent ev) s"
  shows "the_tabs s'
     = (case chart_of (ui (the_page (the_app s'))) of
          Some (d, symb, p) \<Rightarrow>
            if p then Some (pass_props (new_series w ev (the_app s)) symb d (the_tabs s)) else None
        | None \<Rightarrow> None)"
  unfolding assms
  by (auto simp: show_children_def chart_of_def split: view.splits simp del: app_step.simps)

lemma session_app_range:
  assumes "s' = session_step w (AppEvent ev) s"
  shows "the_range s'
     = (case chart_of (ui (the_page (the_app s'))) of
          Some c \<Rightarrow> Some (case the_range s of None \<Rightarrow> initial_timeRange | Some r \<Rightarrow> r)
        | None \<Rightarrow> None)"
  unfolding assms
  by (auto simp: show_children_def chart_of_def split: view.splits simp del: app_step.simps)

lemma session_tabs_app [simp]: "the_app (session_step w (TabsEvent srv ev) s) = the_app s"
  by simp

section \<open>What the components keep and lose\<close>

text \<open>While the page is loading nothing of a series is mounted, and no call of
  the language model is under way: the tabs that made it are gone.\<close>

lemma loading_unmounts:
  assumes "session_reachable stored s" "isLoading (ui (the_page (the_app s)))"
  shows "the_range s = None" "the_tabs s = None" "the_indicator s = None" "calls_open s = 0"
proof -
  from assms(2) have "chart_of (ui (the_page (the_app s))) = None"
    by (simp add: chart_of_def render_def)
  with session_children [OF assms(1)]
  show "the_range s = None" and t: "the_tabs s = None"
    by (simp_all add: children_inv_def)
  with session_children [OF assms(1)] show "the_indicator s = None" "calls_open s = 0"
    by (simp_all add: children_inv_def calls_open_def)
qed

text \<open>With a new series the analysis and the indicators the tabs held are
  dropped: the two tabs fall back to their buttons.\<close>

lemma new_series_buttons:
  assumes "30 \<le> length data'" "t' = set_props symb data' t"
  shows "activeTab (tab_state t) = indicators \<Longrightarrow> render_tabs t' = CalculateButton symb"
    and "activeTab (tab_state t) = ai \<Longrightarrow> \<not> llm_loading (tab_state t)
           \<Longrightarrow> render_tabs t' = GenerateButton symb"
    and "activeTab (tab_state t) = technical \<Longrightarrow> render_tabs t' = StockPrediction (forecast data') symb"
proof -
  from assms(1) have "data' \<noteq> []" by auto
  with assms show "activeTab (tab_state t) = indicators \<Longrightarrow> render_tabs t' = CalculateButton symb"
    and "activeTab (tab_state t) = ai \<Longrightarrow> \<not> llm_loading (tab_state t)
           \<Longrightarrow> render_tabs t' = GenerateButton symb"
    and "activeTab (tab_state t) = technical \<Longrightarrow> render_tabs t' = StockPrediction (forecast data') symb"
    by (simp_all add: set_props_def data_effect_cases render_tabs_def Let_def)
qed

text \<open>A range that is clicked is the range of the chart; an indicator that
  is clicked is the indicator shown.\<close>

lemma range_clicked:
  assumes "session_reachable stored s" "chart_of (ui (the_page (the_app s))) = Some (d, symb, p)"
  shows "chart_shown threshold time_of (session_step w (ChartEvent r) s)
           = Some (StockChart threshold time_of r d)"
  using session_children [OF assms(1)] assms(2)
  by (auto simp: children_inv_def chart_shown_def setTimeRange_def)

lemma indicator_clicked:
  assumes "the_indicator s = Some c"
  shows "map_option activeIndicator (the_indicator (session_step w (IndicatorEvent i) s)) = Some i"
  using assms by (simp add: setActiveIndicator_def)

text \<open>With a new series the indicator chart is removed, and with it the
  indicator that was chosen.\<close>

lemma new_series_indicator:
  assumes "children_inv s" "the_tabs s = Some (set_props symb data' t)" "data' \<noteq> []"
  shows "the_indicator s = None"
  using assms
  by (auto simp: children_inv_def is_indicators_def set_props_def data_effect_cases
      render_tabs_def Let_def split: PredictionTab.splits)

section \<open>The session and the application\<close>

text \<open>The session and the application: the components of a series never
  change the application, and every state of the application is the
  application of a state of the session.\<close>

lemma children_leave_application:
  "the_app (session_step w (ChartEvent r) s) = the_app s"
  "the_app (session_step w (TabsEvent srv ev) s) = the_app s"
  "the_app (session_step w (IndicatorEvent i) s) = the_app s"
  "the_app (session_step w (AppEvent e) s) = app_step w e (the_app s)"
  by simp_all

lemma application_lifts:
  "app_reachable stored a \<Longrightarrow> \<exists>s. session_reachable stored s \<and> the_app s = a"
proof (induction rule: app_reachable.induct)
  case (mounted w)
  then have "session_reachable stored (mount_session w stored)" by (rule session_reachable.mounted)
  moreover have "the_app (mount_session w stored) = mount_application w stored"
    by (simp add: mount_session_def)
  ultimately show ?case by blast
next
  case (step a ev w)
  then obtain s where s: "session_reachable stored s" "the_app s = a" by blast
  with step.hyps(2) have "session_reachable stored (session_step w (AppEvent ev) s)"
    by (intro session_reachable.step) simp_all
  moreover from s(2) have "the_app (session_step w (AppEvent ev) s) = app_step w ev a"
    by (simp del: app_step.simps)
  ultimately show ?case by blast
qed

text \<open>Tabs that a step mounts are the tabs as \<open>tabs_mounted\<close> of theory
  \<open>Application\<close> has them.\<close>

lemma mounted_fresh:
  assumes "s' = session_step w (AppEvent ev) s" "the_tabs s = None" "the_tabs s' = Some t"
  shows "tabs_mounted (the_app s') = Some t"
  using session_app_tabs [OF assms(1)] assms(2,3)
  by (auto simp: tabs_mounted_def chart_of_def pass_props_def split: view.splits if_splits)

section \<open>Claims\<close>

text \<open>C19: the session comes to rest. In every state the session reaches,
  whatever the order in which the fetches of the page, the requests of the
  watch list and the calls of the language model end and whatever they
  return, they all end; then nothing is under way, and neither the page nor a
  row of the watch list nor the analysis tab shows that it is loading.\<close>

theorem session_settles:
  assumes "session_reachable stored s" "s' = session_drain env k s"
  shows "pending (the_page (the_app s')) = [] \<and> fetches (the_watch (the_app s')) = []
       \<and> calls_open s' = 0
       \<and> \<not> isLoading (ui (the_page (the_app s')))
       \<and> \<not> is_loading (render_row (watch_st (the_watch (the_app s'))) symb)
       \<and> \<not> analysis_loading s'"
proof -
  from assms have r: "session_reachable stored s'" by (simp add: session_drain_reachable)
  have e: "calls_open s' = 0" "pending (the_page (the_app s')) = []"
    "fetches (the_watch (the_app s')) = []"
    by (simp_all add: assms(2) session_drain_settles)
  from r have "app_reachable stored (the_app s')" by (rule session_components)
  from settled_quiet [OF this e(2,3)] no_calls_no_spinner [OF r e(1)] e show ?thesis by simp
qed

theorem session_settles_witness:
  "calls_open (session_drain (\<lambda>k. \<lparr>env_app = \<lparr>env_browser = sample_browser 2000,
        env_outcome = Inl NoQuote, env_page_first = True, env_index = k\<rparr>,
        env_service = sample_service True, env_llm_first = False\<rparr>) 0
      (session_step (sample_browser 1) (AppEvent (Search (ClickPopular 0)))
         (mount_session (sample_browser 0) []))) = 0
   \<and> \<not> analysis_loading (session_drain (\<lambda>k. \<lparr>env_app = \<lparr>env_browser = sample_browser 2000,
        env_outcome = Inl NoQuote, env_page_first = True, env_index = k\<rparr>,
        env_service = sample_service True, env_llm_first = False\<rparr>) 0
      (session_step (sample_browser 1) (AppEvent (Search (ClickPopular 0)))
         (mount_session (sample_browser 0) [])))"
proof -
  have "session_reachable [] (session_step (sample_browser 1) (AppEvent (Search (ClickPopular 0)))
      (mount_session (sample_browser 0) []))"
    by (intro session_reachable.step session_reachable.mounted) (simp_all add: storage_wf_def)
  then show ?thesis using session_settles [OF _ refl] by blast
qed

end
