(* ===== verification/Session_Runs.thy ===== *)
theory Session_Runs
  imports Session
begin

text \<open>
  The session of theory \<open>Session\<close> on sequences of events that start from the
  first render on an empty storage: a click on a popular stock and the
  arrival of its series; a click on the refresh button and the arrival of the
  new series; a second stock, and the first shown again from the cache.

  The lemmas give the state of the page and of the tabs after each of these
  sequences. The claims: the forecast on the screen is always the forecast
  of the series of the chart above it, while an analysis is shown under
  another stock when that stock comes from the cache while the call of the
  language model is under way, and beside the prices of a refresh that
  arrived before it.
\<close>

section \<open>The first stock\<close>

lemma mount_session_empty:
  "mount_session w [] =
     \<lparr>the_app = mount_application w [], the_range = None, the_tabs = None, the_indicator = None\<rparr>"
  by (simp add: mount_session_def show_children_hidden chart_of_def render_def mount_page
      mount_empty initial_state_def truthy_def)

lemma session_click_page:
  "i < length popularStocks \<Longrightarrow>
     the_page (the_app (session_step w (AppEvent (Search (ClickPopular i))) s))
       = page_step w (SelectStock (fst (popularStocks ! i))) (the_page (the_app s))"
  using click_popular [of i w "the_app s"] by (simp del: app_step.simps)

text \<open>A popular stock is clicked within the hour after the page was opened on
  an empty storage, and its series arrives: the chart is mounted with the
  range of one month and the tabs are mounted for the series.\<close>

lemma first_selection:
  assumes "i < length popularStocks" "symb = fst (popularStocks ! i)"
    and "time_now w1 - time_now w0 \<le> CACHE_DURATION"
    and "s2 = session_run [(w1, AppEvent (Search (ClickPopular i))),
                           (w2, AppEvent (PageEvent (Resolve 0)))] (mount_session w0 [])"
    and "30 \<le> length (fetch_series w2 symb)"
  shows "the_tabs s2 = Some (mount_tabs symb (fetch_series w2 symb))"
    and "the_range s2 = Some initial_timeRange"
    and "pending (the_page (the_app s2)) = []"
proof -
  let ?a1 = "handleSelectStock w1 symb (mount w0 [])"
  define s1 where "s1 = session_step w1 (AppEvent (Search (ClickPopular i))) (mount_session w0 [])"
  from assms(1,2) have ne: "symb \<noteq> []" by (simp add: popular_nonempty)
  from assms(5) have d: "fetch_series w2 symb \<noteq> []" by auto
  have p1: "the_page (the_app s1) = ?a1"
    using click_popular [OF assms(1)]
    by (simp add: s1_def mount_session_empty mount_page assms(2) del: app_step.simps)
  from select_spinner [OF ne assms(3)] have c1: "chart_of (ui (the_page (the_app s1))) = None"
    and q1: "pending (the_page (the_app s1)) = [Fetch symb (Some symb) True]"
    by (simp_all add: chart_of_def p1)
  from session_app_tabs [OF s1_def] session_app_range [OF s1_def] c1
  have t1: "the_tabs s1 = None" "the_range s1 = None" by simp_all
  have s2: "s2 = session_step w2 (AppEvent (PageEvent (Resolve 0))) s1"
    by (simp add: assms(4) session_run_def s1_def del: session_step.simps)
  then have p2: "the_page (the_app s2) = page_step w2 (Resolve 0) ?a1"
    by (simp only: session_page_step p1)
  from select_resolved [OF ne assms(3) d] assms(5)
  have c2: "chart_of (ui (the_page (the_app s2))) = Some (fetch_series w2 symb, symb, True)"
    by (auto simp: chart_of_render p2)
  from p2 q1 p1 show "pending (the_page (the_app s2)) = []"
    by (simp add: Let_def)
  from session_app_tabs [OF s2] session_app_range [OF s2] c2 t1
  show "the_tabs s2 = Some (mount_tabs symb (fetch_series w2 symb))"
    and "the_range s2 = Some initial_timeRange"
    by (simp_all add: pass_props_def)
qed

section \<open>A refresh while the tabs are shown\<close>

lemma refresh_resolved:
  assumes "chart_of (ui a) = Some (d, symb, p)" "n = length (pending a)"
    and "a' = page_step w (Resolve n) (page_step w' ClickRefresh a)"
  shows "ui a' = (ui a)\<lparr>stockData := fetch_series w symb, isCached := False,
                    lastUpdate := Some (time_string w (time_now w)),
                    showPredictions := (30 \<le> length (fetch_series w symb) \<or> p)\<rparr>"
    and "pending a' = pending a"
    and "fetch_series w symb \<noteq> [] \<Longrightarrow>
           chart_of (ui a') = Some (fetch_series w symb, symb, 30 \<le> length (fetch_series w symb) \<or> p)"
proof -
  note c = chart_of_data [OF assms(1)]
  from c(2,7) assms(2,3)
  show u: "ui a' = (ui a)\<lparr>stockData := fetch_series w symb, isCached := False,
                    lastUpdate := Some (time_string w (time_now w)),
                    showPredictions := (30 \<le> length (fetch_series w symb) \<or> p)\<rparr>"
    by (simp add: handleRefresh_def truthy_def fetchStockDataFromAPI_def Let_def c(5))
  from c(2,7) assms(2,3) show "pending a' = pending a"
    by (simp add: handleRefresh_def truthy_def Let_def)
  assume "fetch_series w symb \<noteq> []"
  with c(2,3,6,7) show "chart_of (ui a')
      = Some (fetch_series w symb, symb, 30 \<le> length (fetch_series w symb) \<or> p)"
    by (simp add: u chart_of_def render_def truthy_def)
qed

lemma refresh_new_series:
  assumes "chart_of (ui (the_page s)) = Some (d, symb, p)"
  shows "new_series w (PageEvent (Resolve (length (pending (the_page s)))))
           (app_step w' (PageEvent ClickRefresh) s)"
  using chart_of_data(2,7) [OF assms]
  by (simp add: new_series_def on_page_def handleRefresh_def truthy_def)

text \<open>The refresh button is clicked and the series arrives: the tabs receive
  the new series and run their effect, the chart keeps its range.\<close>

lemma session_refresh:
  assumes "children_inv s" "the_tabs s = Some t" "fetch_series w (tab_symbol t) \<noteq> []"
    and "n = length (pending (the_page (the_app s)))"
    and "s' = session_step w (AppEvent (PageEvent (Resolve n)))
                (session_step w' (AppEvent (PageEvent ClickRefresh)) s)"
  shows "the_tabs s' = Some (set_props (tab_symbol t) (fetch_series w (tab_symbol t)) t)"
    and "the_range s' = the_range s"
    and "stockData (ui (the_page (the_app s'))) = fetch_series w (tab_symbol t)"
proof -
  let ?symb = "tab_symbol t" and ?a = "the_page (the_app s)"
  define s1 where "s1 = session_step w' (AppEvent (PageEvent ClickRefresh)) s"
  from assms(1,2) have c: "chart_of (ui ?a) = Some (tab_data t, ?symb, True)"
    and r: "the_range s \<noteq> None"
    by (auto simp: children_inv_def)
  have p1: "the_page (the_app s1) = page_step w' ClickRefresh ?a"
    unfolding s1_def by (rule session_page_step)
  with c have c1: "chart_of (ui (the_page (the_app s1))) = Some (tab_data t, ?symb, True)"
    by (simp add: handleRefresh_def Let_def)
  have "\<not> new_series w' (PageEvent ClickRefresh) (the_app s)" by (simp add: new_series_def)
  with session_app_tabs [OF s1_def] session_app_range [OF s1_def] c1 r assms(2)
  have t1: "the_tabs s1 = Some t" "the_range s1 = the_range s"
    by (auto simp: pass_props_def)
  have s': "s' = session_step w (AppEvent (PageEvent (Resolve n))) s1"
    by (simp add: assms(5) s1_def)
  then have p2: "the_page (the_app s') = page_step w (Resolve n) (page_step w' ClickRefresh ?a)"
    by (simp only: session_page_step p1)
  from refresh_resolved(3) [OF c assms(4) p2 assms(3)]
  have c2: "chart_of (ui (the_page (the_app s'))) = Some (fetch_series w ?symb, ?symb, True)"
    by simp
  have "new_series w (PageEvent (Resolve n)) (the_app s1)"
    using refresh_new_series [OF c, of w w'] by (simp add: assms(4) s1_def del: app_step.simps)
  with session_app_tabs [OF s'] session_app_range [OF s'] c2 t1 r
  show "the_tabs s' = Some (set_props ?symb (fetch_series w ?symb) t)"
    and "the_range s' = the_range s"
    by (auto simp: pass_props_def)
  from chart_of_data(1) [OF c2]
  show "stockData (ui (the_page (the_app s'))) = fetch_series w ?symb" by simp
qed

lemma refresh_unmounts_indicator:
  assumes "session_reachable stored s" "the_tabs s = Some t" "fetch_series w (tab_symbol t) \<noteq> []"
    and "n = length (pending (the_page (the_app s)))"
    and "s' = session_step w (AppEvent (PageEvent (Resolve n)))
                (session_step w' (AppEvent (PageEvent ClickRefresh)) s)"
  shows "the_indicator s' = None"
proof -
  from assms(1) have "session_reachable stored s'"
    unfolding assms(5) by (intro session_reachable.step) simp_all
  then have "children_inv s'" by (rule session_children)
  moreover note session_refresh(1) [OF session_children [OF assms(1)] assms(2,3,4,5)] assms(3)
  ultimately show ?thesis by (rule new_series_indicator)
qed

text \<open>An analysis outlives the series it was made of. A popular stock is
  clicked and its series arrives; the analysis tab is opened, which starts a
  call of the language model for that series; the refresh button is clicked
  and a new series arrives; then the call ends. The page now holds the new
  series, and the analysis made of the old one is on the screen, its targets
  compared with the last price of the new series; no call is left that would
  replace it.\<close>

lemma refreshed_analysis_stale:
  assumes "i < length popularStocks" "symb = fst (popularStocks ! i)"
    and "time_now w1 - time_now w0 \<le> CACHE_DURATION"
    and "final = session_run
           [(w1, AppEvent (Search (ClickPopular i))), (w2, AppEvent (PageEvent (Resolve 0))),
            (w3, TabsEvent srv3 (TabChange ai)), (w4, AppEvent (PageEvent ClickRefresh)),
            (w5, AppEvent (PageEvent (Resolve 0))), (w6, TabsEvent srv6 (LlmDone 0))]
           (mount_session w0 [])"
    and "30 \<le> length (fetch_series w2 symb)" "30 \<le> length (fetch_series w5 symb)"
    and "generateLLMPrediction (has_key srv6) (response srv6) (json_parse srv6)
           (service_random srv6) symb (fetch_series w2 symb) = Inr p"
  shows "stockData (ui (the_page (the_app final))) = fetch_series w5 symb
       \<and> analysis_of final
           = Some (LLMStockAnalysis_view p symb (currentPrice (fetch_series w5 symb)))
       \<and> calls_open final = 0"
proof -
  let ?t3 = "tabs_step srv3 (TabChange ai) (mount_tabs symb (fetch_series w2 symb))"
  define s2 where "s2 = session_run [(w1, AppEvent (Search (ClickPopular i))),
      (w2, AppEvent (PageEvent (Resolve 0)))] (mount_session w0 [])"
  define s3 where "s3 = session_step w3 (TabsEvent srv3 (TabChange ai)) s2"
  define s5 where "s5 = session_step w5 (AppEvent (PageEvent (Resolve 0)))
      (session_step w4 (AppEvent (PageEvent ClickRefresh)) s3)"
  have f: "final = session_step w6 (TabsEvent srv6 (LlmDone 0)) s5"
    by (simp add: assms(4) session_run_def s2_def s3_def s5_def del: session_step.simps)
  note fs = first_selection [OF assms(1,2,3) s2_def assms(5)]
  have "session_reachable [] (mount_session w0 [])"
    by (rule session_reachable.mounted) (simp add: storage_wf_def)
  then have "session_reachable [] s3"
    unfolding s3_def s2_def session_run_def foldl.simps prod.case
    by (intro session_reachable.step) simp_all
  then have inv: "children_inv s3" by (rule session_children)
  have t3: "the_tabs s3 = Some ?t3" and a3: "the_app s3 = the_app s2"
    by (simp_all add: s3_def fs(1) del: tabs_step.simps)
  have y: "tab_symbol ?t3 = symb"
    by (simp add: tabs_step_props mount_tabs_def set_props_def del: tabs_step.simps)
  from assms(6) have d: "fetch_series w5 (tab_symbol ?t3) \<noteq> []" unfolding y by auto
  from fs(3) have n: "0 = length (pending (the_page (the_app s3)))" by (simp add: a3)
  note sr = session_refresh [OF inv t3 d n s5_def, unfolded y]
  let ?t = "tabs_step srv6 (LlmDone 0) (set_props symb (fetch_series w5 symb) ?t3)"
  note la = late_analysis [OF assms(5,6,7), where t = ?t and srv = srv3 and y = symb, OF refl]
  have "the_tabs final = Some ?t" "the_app final = the_app s5"
    by (simp_all add: f sr(1) del: tabs_step.simps)
  with la(3,4) sr(3) show ?thesis
    by (simp add: analysis_of_def analysis_shown_def calls_open_def)
qed

section \<open>A stock shown from the cache\<close>

text \<open>The page after \<open>y\<close> was selected and arrived, \<open>x\<close> was selected and
  arrived, and \<open>y\<close> is selected again while its series is in the cache: the
  series of \<open>y\<close> is shown at once, without a spinner.\<close>

lemma reselect_cached:
  assumes "x \<noteq> y" "x \<noteq> []" "y \<noteq> []"
    and "time_now w1 - time_now w0 \<le> CACHE_DURATION" "time_now w3 - time_now w0 \<le> CACHE_DURATION"
    and "time_now w5 - time_now w2 < CACHE_DURATION"
    and "fetch_series w2 y \<noteq> []" "fetch_series w4 x \<noteq> []"
    and "a3 = run [(w1, SelectStock y), (w2, Resolve 0), (w3, SelectStock x)] (mount w0 [])"
    and "a4 = page_step w4 (Resolve 0) a3" "a5 = page_step w5 (SelectStock y) a4"
  shows "chart_of (ui a3) = None"
    and "chart_of (ui a4) = Some (fetch_series w4 x, x, 30 \<le> length (fetch_series w4 x))"
    and "chart_of (ui a5) = Some (fetch_series w2 y, y, 30 \<le> length (fetch_series w2 y))"
  using assms
  by (simp_all add: run_def mount_empty page_defs storage_defs Let_def chart_of_def render_def)

lemma popular_distinct:
  assumes "i < length popularStocks" "j < length popularStocks" "i \<noteq> j"
  shows "fst (popularStocks ! i) \<noteq> fst (popularStocks ! j)"
proof -
  have "distinct (map fst popularStocks)" by (simp add: popularStocks_def)
  with assms show ?thesis
    using nth_eq_iff_index_eq [of "map fst popularStocks" i j] by simp
qed

text \<open>A second stock after the first: the tabs are mounted for it.\<close>

lemma second_selection:
  assumes "i < length popularStocks" "j < length popularStocks" "i \<noteq> j"
    and "y = fst (popularStocks ! i)" "x = fst (popularStocks ! j)"
    and "time_now w1 - time_now w0 \<le> CACHE_DURATION" "time_now w3 - time_now w0 \<le> CACHE_DURATION"
    and "fetch_series w2 y \<noteq> []" "30 \<le> length (fetch_series w4 x)"
    and "s4 = session_run
           [(w1, AppEvent (Search (ClickPopular i))), (w2, AppEvent (PageEvent (Resolve 0))),
            (w3, AppEvent (Search (ClickPopular j))), (w4, AppEvent (PageEvent (Resolve 0)))]
           (mount_session w0 [])"
  shows "the_tabs s4 = Some (mount_tabs x (fetch_series w4 x))"
    and "the_page (the_app s4)
       = page_step w4 (Resolve 0)
           (run [(w1, SelectStock y), (w2, Resolve 0), (w3, SelectStock x)] (mount w0 []))"
proof -
  define s2 where "s2 = session_run
      [(w1, AppEvent (Search (ClickPopular i))), (w2, AppEvent (PageEvent (Resolve 0)))]
      (mount_session w0 [])"
  define s3 where "s3 = session_step w3 (AppEvent (Search (ClickPopular j))) s2"
  from assms(1-5) have xy: "x \<noteq> y" "x \<noteq> []" "y \<noteq> []"
    using popular_distinct [of j i] by (simp_all add: popular_nonempty)
  from assms(9) have d: "fetch_series w4 x \<noteq> []" by auto
  have p3: "the_page (the_app s3)
      = run [(w1, SelectStock y), (w2, Resolve 0), (w3, SelectStock x)] (mount w0 [])"
    by (simp add: s3_def s2_def session_run_def run_def session_click_page session_page_step
        assms(1,2,4,5) mount_session_empty mount_page del: session_step.simps page_step.simps)
  have e4: "s4 = session_step w4 (AppEvent (PageEvent (Resolve 0))) s3"
    by (simp add: assms(10) s3_def s2_def session_run_def del: session_step.simps)
  then have p4: "the_page (the_app s4) = page_step w4 (Resolve 0) (the_page (the_app s3))"
    by (simp only: session_page_step)
  then show "the_page (the_app s4)
      = page_step w4 (Resolve 0)
          (run [(w1, SelectStock y), (w2, Resolve 0), (w3, SelectStock x)] (mount w0 []))"
    by (simp only: p3)
  have "(0::int) < CACHE_DURATION" by (simp add: CACHE_DURATION_def)
  then have "time_now w2 - time_now w2 < CACHE_DURATION" by simp
  note c = reselect_cached [OF xy assms(6,7) this assms(8) d p3 p4 refl]
  from session_app_tabs [OF s3_def] c(1) have "the_tabs s3 = None" by simp
  with session_app_tabs [OF e4] c(2) assms(9)
  show "the_tabs s4 = Some (mount_tabs x (fetch_series w4 x))"
    by (simp add: pass_props_def)
qed

text \<open>The first stock again, from the cache, after a click in the tabs: the
  tabs keep the state of that click and get the symbol and the series of the
  first stock.\<close>

lemma reselect_keeps_tabs:
  assumes "i < length popularStocks" "j < length popularStocks" "i \<noteq> j"
    and "y = fst (popularStocks ! i)" "x = fst (popularStocks ! j)"
    and "time_now w1 - time_now w0 \<le> CACHE_DURATION" "time_now w3 - time_now w0 \<le> CACHE_DURATION"
    and "time_now w6 - time_now w2 < CACHE_DURATION"
    and "30 \<le> length (fetch_series w2 y)" "30 \<le> length (fetch_series w4 x)"
    and "s4 = session_run
           [(w1, AppEvent (Search (ClickPopular i))), (w2, AppEvent (PageEvent (Resolve 0))),
            (w3, AppEvent (Search (ClickPopular j))), (w4, AppEvent (PageEvent (Resolve 0)))]
           (mount_session w0 [])"
    and "s6 = session_step w6 (AppEvent (Search (ClickPopular i)))
                (session_step w5 (TabsEvent srv (TabChange ai)) s4)"
  shows "the_tabs s4 = Some (mount_tabs x (fetch_series w4 x))"
    and "the_tabs s6 = Some (set_props y (fetch_series w2 y)
                         (tabs_step srv (TabChange ai) (mount_tabs x (fetch_series w4 x))))"
    and "chart_of (ui (the_page (the_app s6))) = Some (fetch_series w2 y, y, True)"
proof -
  define s5 where "s5 = session_step w5 (TabsEvent srv (TabChange ai)) s4"
  from assms(1-5) have xy: "x \<noteq> y" "x \<noteq> []" "y \<noteq> []"
    using popular_distinct [of j i] by (simp_all add: popular_nonempty)
  from assms(9,10) have d: "fetch_series w2 y \<noteq> []" "fetch_series w4 x \<noteq> []" by auto
  note s4 = second_selection [OF assms(1-7) d(1) assms(10,11)]
  show "the_tabs s4 = Some (mount_tabs x (fetch_series w4 x))" by (rule s4(1))
  then have t5: "the_tabs s5 = Some (tabs_step srv (TabChange ai) (mount_tabs x (fetch_series w4 x)))"
    by (simp add: s5_def del: tabs_step.simps)
  have e6: "s6 = session_step w6 (AppEvent (Search (ClickPopular i))) s5"
    by (simp add: assms(12) s5_def)
  then have p6: "the_page (the_app s6) = page_step w6 (SelectStock y) (the_page (the_app s4))"
    by (simp add: s5_def session_click_page assms(1,4) del: session_step.simps page_step.simps
        add: session_tabs_app)
  have y5: "tab_symbol (tabs_step srv (TabChange ai) (mount_tabs x (fetch_series w4 x))) = x"
    by (simp add: tabs_step_props mount_tabs_def set_props_def del: tabs_step.simps)
  from reselect_cached(3) [OF xy assms(6,7,8) d refl s4(2) p6] assms(9)
  show c6: "chart_of (ui (the_page (the_app s6))) = Some (fetch_series w2 y, y, True)"
    by simp
  with session_app_tabs [OF e6] t5 y5 xy(1)
  show "the_tabs s6 = Some (set_props y (fetch_series w2 y)
      (tabs_step srv (TabChange ai) (mount_tabs x (fetch_series w4 x))))"
    by (simp add: pass_props_def del: tabs_step.simps)
qed

section \<open>Claims\<close>

text \<open>C14: the forecast on the screen belongs to the chart above it, and says
  nothing. In every state the session reaches, when the first tab shows a
  forecast for a symbol, the forecast is the one \<open>predictStockPrices\<close> makes of
  the series the page holds and the chart shows, that series has thirty bars,
  and the symbol is the selected stock: the effect of the tabs runs whenever
  the page sets a series, so a forecast never outlives the series it was made
  of. Its trend is \<open>neutral\<close>, and its confidence and its forecast for the next
  week are \<open>NaN\<close>, whatever the series.\<close>

theorem forecast_of_chart:
  assumes "session_reachable stored s" "forecast_shown s = Some (p, symb)"
  shows "p = forecast (stockData (ui (the_page (the_app s))))
       \<and> 30 \<le> length (stockData (ui (the_page (the_app s))))
       \<and> selectedStock (ui (the_page (the_app s))) = Some symb
       \<and> chart_of (ui (the_page (the_app s)))
           = Some (stockData (ui (the_page (the_app s))), symb, True)
       \<and> trend p = neutral \<and> confidence p = NaN \<and> nextWeekPrediction p = NaN"
proof -
  from assms(2) obtain t where t: "the_tabs s = Some t" "render_tabs t = StockPrediction p symb"
    by (auto simp: forecast_shown_tabs)
  note st = session_tabs [OF assms(1) t(1)] and rf = render_forecast [OF t(2)]
  from st(1) have "tabs_inv t" by (rule tabs_reachable_inv)
  with rf(1) have p: "p = forecast (tab_data t)" "30 \<le> length (tab_data t)"
    by (simp_all add: tabs_inv_def)
  moreover from session_children [OF assms(1)] t(1)
  have "chart_of (ui (the_page (the_app s))) = Some (tab_data t, tab_symbol t, True)"
    by (simp add: children_inv_def)
  ultimately show ?thesis
    using st(2,3) rf(2)
    by (simp add: forecast_trend_neutral forecast_confidence_NaN forecast_next)
qed

theorem forecast_of_chart_witness:
  "selectedStock (ui (the_page (the_app
      (session_run [(sample_browser 1, AppEvent (Search (ClickPopular 0))),
                    (sample_browser 2, AppEvent (PageEvent (Resolve 0)))]
         (mount_session (sample_browser 0) []))))) = Some ''AAPL''"
proof -
  let ?s = "session_run [(sample_browser 1, AppEvent (Search (ClickPopular 0))),
                         (sample_browser 2, AppEvent (PageEvent (Resolve 0)))]
              (mount_session (sample_browser 0) [])"
  have "length (fetch_series (sample_browser 2) ''AAPL'') = 365"
    by (simp add: fetch_series_def getStockTimeSeries_def sample_browser_def length_mock_series)
  then have len: "30 \<le> length (fetch_series (sample_browser 2) ''AAPL'')" by simp
  have pop: "0 < length popularStocks" "''AAPL'' = fst (popularStocks ! 0)"
    by (simp_all add: popularStocks_def)
  have t: "time_now (sample_browser 1) - time_now (sample_browser 0) \<le> CACHE_DURATION"
    by (simp add: sample_browser_def CACHE_DURATION_def)
  have "session_reachable [] (mount_session (sample_browser 0) [])"
    by (rule session_reachable.mounted) (simp add: storage_wf_def)
  then have reach: "session_reachable [] ?s"
    unfolding session_run_def foldl.simps prod.case
    by (intro session_reachable.step) simp_all
  from first_selection(1) [OF pop t refl len] mounted_tabs_panel [OF len]
  have "forecast_shown ?s = Some (forecast (fetch_series (sample_browser 2) ''AAPL''), ''AAPL'')"
    by (simp add: forecast_shown_def)
  from forecast_of_chart [OF reach this] show ?thesis by blast
qed

text \<open>C13: an analysis is shown under another stock. The stock \<open>y\<close> is clicked
  and its series arrives and is cached; \<open>x\<close> is clicked and its series
  arrives; the analysis tab is opened, which starts a call of the language
  model for \<open>x\<close>; \<open>y\<close> is clicked again and is shown from the cache, without a
  spinner, so the tabs stay mounted; then the call ends. The page now has \<open>y\<close>
  selected and shows the series of \<open>y\<close>, and the analysis tab shows, under \<open>y\<close>
  and compared with the last price of \<open>y\<close>, the analysis made of the series
  of \<open>x\<close>.\<close>

theorem analysis_under_other_stock:
  assumes "i < length popularStocks" "j < length popularStocks" "i \<noteq> j"
    and "y = fst (popularStocks ! i)" "x = fst (popularStocks ! j)"
    and "time_now w1 - time_now w0 \<le> CACHE_DURATION" "time_now w3 - time_now w0 \<le> CACHE_DURATION"
    and "time_now w6 - time_now w2 < CACHE_DURATION"
    and "30 \<le> length (fetch_series w2 y)" "30 \<le> length (fetch_series w4 x)"
    and "final = session_run
           [(w1, AppEvent (Search (ClickPopular i))), (w2, AppEvent (PageEvent (Resolve 0))),
            (w3, AppEvent (Search (ClickPopular j))), (w4, AppEvent (PageEvent (Resolve 0))),
            (w5, TabsEvent srv (TabChange ai)), (w6, AppEvent (Search (ClickPopular i))),
            (w7, TabsEvent srv' (LlmDone 0))]
           (mount_session w0 [])"
    and "generateLLMPrediction (has_key srv') (response srv') (json_parse srv')
           (service_random srv') x (fetch_series w4 x) = Inr p"
  shows "selectedStock (ui (the_page (the_app final))) = Some y
       \<and> stockData (ui (the_page (the_app final))) = fetch_series w2 y
       \<and> analysis_of final
           = Some (LLMStockAnalysis_view p y (currentPrice (fetch_series w2 y)))"
proof -
  define s4 where "s4 = session_run
      [(w1, AppEvent (Search (ClickPopular i))), (w2, AppEvent (PageEvent (Resolve 0))),
       (w3, AppEvent (Search (ClickPopular j))), (w4, AppEvent (PageEvent (Resolve 0)))]
      (mount_session w0 [])"
  define s6 where "s6 = session_step w6 (AppEvent (Search (ClickPopular i)))
      (session_step w5 (TabsEvent srv (TabChange ai)) s4)"
  let ?t = "tabs_step srv' (LlmDone 0) (set_props y (fetch_series w2 y)
      (tabs_step srv (TabChange ai) (mount_tabs x (fetch_series w4 x))))"
  have f: "final = session_step w7 (TabsEvent srv' (LlmDone 0)) s6"
    by (simp add: assms(11) session_run_def s4_def s6_def del: session_step.simps)
  note k = reselect_keeps_tabs [OF assms(1-10) s4_def s6_def]
  note la = late_analysis [OF assms(10,9,12), where t = ?t and srv = srv and y = y, OF refl]
  have "the_tabs final = Some ?t" "the_app final = the_app s6"
    by (simp_all add: f k(2) del: tabs_step.simps)
  with la(4) chart_of_data(1,2) [OF k(3)] show ?thesis
    by (simp add: analysis_of_def analysis_shown_def)
qed

theorem analysis_under_other_stock_witness:
  "analysis_of (session_run
       [(sample_browser 1, AppEvent (Search (ClickPopular 1))),
        (sample_browser 2, AppEvent (PageEvent (Resolve 0))),
        (sample_browser 3, AppEvent (Search (ClickPopular 0))),
        (sample_browser 4, AppEvent (PageEvent (Resolve 0))),
        (sample_browser 5, TabsEvent (sample_service True) (TabChange ai)),
        (sample_browser 6, AppEvent (Search (ClickPopular 1))),
        (sample_browser 7, TabsEvent (sample_service True) (LlmDone 0))]
       (mount_session (sample_browser 0) []))
   = Some (LLMStockAnalysis_view
       (fallback_prediction (\<lambda>k. 1 / 2) (close (last (fetch_series (sample_browser 4) ''AAPL'')))
          ''Unable to generate AI prediction. This is a fallback prediction.''
          [''API error'', ''fallback prediction''])
       ''MSFT'' (currentPrice (fetch_series (sample_browser 2) ''MSFT'')))"
proof -
  have l: "length (fetch_series (sample_browser k) symb) = 365" for k symb
    by (simp add: fetch_series_def getStockTimeSeries_def sample_browser_def length_mock_series)
  have len: "30 \<le> length (fetch_series (sample_browser 2) ''MSFT'')"
    "30 \<le> length (fetch_series (sample_browser 4) ''AAPL'')" by (simp_all add: l)
  have pop: "1 < length popularStocks" "0 < length popularStocks" "(1::nat) \<noteq> 0"
    "''MSFT'' = fst (popularStocks ! 1)" "''AAPL'' = fst (popularStocks ! 0)"
    by (simp_all add: popularStocks_def)
  have t: "time_now (sample_browser 1) - time_now (sample_browser 0) \<le> CACHE_DURATION"
    "time_now (sample_browser 3) - time_now (sample_browser 0) \<le> CACHE_DURATION"
    "time_now (sample_browser 6) - time_now (sample_browser 2) < CACHE_DURATION"
    by (simp_all add: sample_browser_def CACHE_DURATION_def)
  have g: "generateLLMPrediction (has_key (sample_service True)) (response (sample_service True))
      (json_parse (sample_service True)) (service_random (sample_service True)) ''AAPL''
      (fetch_series (sample_browser 4) ''AAPL'')
    = Inr (fallback_prediction (\<lambda>k. 1 / 2) (close (last (fetch_series (sample_browser 4) ''AAPL'')))
          ''Unable to generate AI prediction. This is a fallback prediction.''
          [''API error'', ''fallback prediction''])"
    using len(2) by (simp add: generateLLMPrediction_def sample_service_def Let_def)
  from analysis_under_other_stock [OF pop t len refl g] show ?thesis by blast
qed

end
