(* ===== verification/Interaction.thy ===== *)
theory Interaction
  imports Session_Runs
begin

text \<open>
  What can happen in a state of the session: the events the markup offers the
  user in that state, and the ends of the requests that are under way. The
  step functions of the other theories take every event in every state; the
  states the program really reaches are those of the events below.

  \<^item> \<open>search_can\<close>: the input and the popular stocks are always there; the
    button of the search is disabled while it loads; a result can be clicked
    when it is listed (\<^verbatim>\<open>StockSearch.tsx\<close>, lines 86 to 146).
  \<^item> \<open>watch_can\<close>: the button \<^verbatim>\<open>Refresh Now\<close> is disabled while a row loads, the
    interval is one of the options, and a stock can be removed from a row
    that shows a quote or an error, which are the rows with a button for it
    (\<^verbatim>\<open>WatchList.tsx\<close>, lines 86 to 147).
  \<^item> \<open>page_can\<close>: the refresh button is part of what is shown with a chart
    (\<^verbatim>\<open>page.tsx\<close>, lines 245 to 268); a selection or a removal reaches the
    page from its children only.
  \<^item> \<open>tabs_can\<close>: the three tabs can always be clicked, the two buttons when
    they are shown (\<^verbatim>\<open>src/unnamed/part_003\<close>, lines 106 to 199); the properties
    come from the page.
  \<^item> \<open>can_happen\<close> puts them together for the session, with the clicks on the
    ranges of the chart and on the indicators while those are mounted.
  \<^item> \<open>visited\<close> are the states reached from the first render by events that
    can happen.
  \<^item> \<open>single_call\<close> says of the tabs that at most one call of the language
    model is under way, and that the tabs show that they are loading exactly
    while one is.

  The lemmas: an event that can happen is enabled, so a visited state is a
  reachable state of theory \<open>Session\<close> and has its invariants; the end of a
  request can always happen, so \<open>session_drain\<close> stays within the visited
  states; in a visited state the tabs have at most one call under way; a
  stock that was just added cannot be removed; the refresh button is there
  only with a selected stock.
\<close>

section \<open>What the markup offers\<close>

inductive search_can :: "search_state \<Rightarrow> search_event \<Rightarrow> bool" where
  type_query: "search_can st (Type q)"
| press_key: "search_can st (KeyDown k)"
| click_search: "\<not> search_isLoading st \<Longrightarrow> search_can st ClickSearch"
| popular_button: "i < length popularStocks \<Longrightarrow> search_can st (ClickPopular i)"
| click_result: "i < length (results st) \<Longrightarrow> search_can st (ClickResult i)"
| hover: "search_can st (Hover over)"

inductive watch_can :: "watch \<Rightarrow> watch_event \<Rightarrow> bool" where
  timer_tick: "watch_can w IntervalTick"
| refresh_now: "\<not> refresh_disabled (watch_st w) \<Longrightarrow> watch_can w RefreshNow"
| choose_interval: "seconds \<in> set refresh_options \<Longrightarrow> watch_can w (SetInterval seconds)"
| remove_quoted:
    "symb \<in> set (initialSymbols w) \<Longrightarrow> render_row (watch_st w) symb = RowQuote q
       \<Longrightarrow> watch_can w (Remove symb)"
| remove_failed:
    "symb \<in> set (initialSymbols w) \<Longrightarrow> render_row (watch_st w) symb = RowError e
       \<Longrightarrow> watch_can w (Remove symb)"
| quote_arrives: "n < length (fetches w) \<Longrightarrow> watch_can w (QuoteDone n result)"

inductive page_can :: "app \<Rightarrow> event \<Rightarrow> bool" where
  click_refresh: "chart_of (ui a) = Some c \<Longrightarrow> page_can a ClickRefresh"
| timer_tick: "page_can a Tick"
| series_arrives: "n < length (pending a) \<Longrightarrow> page_can a (Resolve n)"

inductive tabs_can :: "tabs \<Rightarrow> tabs_event \<Rightarrow> bool" where
  click_tab: "tabs_can t (TabChange tab)"
| click_generate: "render_tabs t = GenerateButton symb \<Longrightarrow> tabs_can t ClickGenerate"
| click_calculate: "render_tabs t = CalculateButton symb \<Longrightarrow> tabs_can t ClickCalculate"
| analysis_arrives: "n < length (calls t) \<Longrightarrow> tabs_can t (LlmDone n)"

inductive can_happen :: "session \<Rightarrow> session_event \<Rightarrow> bool" where
  in_search: "search_can (the_search (the_app s)) ev \<Longrightarrow> can_happen s (AppEvent (Search ev))"
| in_watch: "watch_can (the_watch (the_app s)) ev \<Longrightarrow> can_happen s (AppEvent (Watch ev))"
| in_page: "page_can (the_page (the_app s)) ev \<Longrightarrow> can_happen s (AppEvent (PageEvent ev))"
| in_chart: "the_range s = Some r0 \<Longrightarrow> can_happen s (ChartEvent r)"
| in_tabs: "the_tabs s = Some t \<Longrightarrow> tabs_can t ev \<Longrightarrow> can_happen s (TabsEvent srv ev)"
| in_indicators:
    "the_indicator s = Some c \<Longrightarrow> i \<in> set (map fst indicator_buttons)
       \<Longrightarrow> can_happen s (IndicatorEvent i)"

inductive visited :: "local_storage \<Rightarrow> session \<Rightarrow> bool" for stored where
  opened: "storage_wf stored \<Longrightarrow> visited stored (mount_session w stored)"
| event: "visited stored s \<Longrightarrow> can_happen s ev \<Longrightarrow> visited stored (session_step w ev s)"

definition single_call :: "tabs \<Rightarrow> bool" where
  "single_call t \<longleftrightarrow> length (calls t) \<le> 1 \<and> (llm_loading (tab_state t) \<longleftrightarrow> calls t \<noteq> [])"

code_pred search_can .

code_pred watch_can .

code_pred page_can .

code_pred tabs_can .

code_pred can_happen .

section \<open>Rule inversion\<close>

inductive_cases click_searchE: "search_can st ClickSearch"
inductive_cases click_popularE: "search_can st (ClickPopular i)"
inductive_cases click_resultE: "search_can st (ClickResult i)"
inductive_cases refresh_nowE: "watch_can w RefreshNow"
inductive_cases set_symbolsE [elim!]: "watch_can w (SetSymbols symbols)"
inductive_cases removeE: "watch_can w (Remove symb)"
inductive_cases quote_arrivesE: "watch_can w (QuoteDone n result)"
inductive_cases select_stockE [elim!]: "page_can a (SelectStock symb)"
inductive_cases remove_symbolE [elim!]: "page_can a (RemoveSymbol symb)"
inductive_cases click_refreshE: "page_can a ClickRefresh"
inductive_cases series_arrivesE: "page_can a (Resolve n)"
inductive_cases propsE [elim!]: "tabs_can t (Props symb d)"
inductive_cases click_generateE: "tabs_can t ClickGenerate"
inductive_cases click_calculateE: "tabs_can t ClickCalculate"
inductive_cases analysis_arrivesE: "tabs_can t (LlmDone n)"
inductive_cases in_searchE: "can_happen s (AppEvent (Search ev))"
inductive_cases in_watchE: "can_happen s (AppEvent (Watch ev))"
inductive_cases in_pageE: "can_happen s (AppEvent (PageEvent ev))"
inductive_cases in_chartE: "can_happen s (ChartEvent r)"
inductive_cases in_tabsE: "can_happen s (TabsEvent srv ev)"
inductive_cases in_indicatorsE: "can_happen s (IndicatorEvent i)"

inductive_simps can_remove: "watch_can w (Remove symb)"
inductive_simps can_refresh: "page_can a ClickRefresh"
inductive_simps can_generate: "tabs_can t ClickGenerate"

section \<open>Visited states are reachable states\<close>

lemma can_happen_enabled: "can_happen s ev \<Longrightarrow> session_enabled ev"
proof (induction rule: can_happen.induct)
  case (in_watch s ev)
  then show ?case by (cases ev) auto
next
  case (in_page s ev)
  then show ?case by (cases ev) auto
next
  case (in_tabs s t ev srv)
  then show ?case by (cases ev) auto
qed simp_all

lemma visited_reachable: "visited stored s \<Longrightarrow> session_reachable stored s"
  by (induction rule: visited.induct)
    (simp_all add: session_reachable.mounted session_reachable.step can_happen_enabled)

lemma next_step_can: "next_step e s = Some ev \<Longrightarrow> can_happen s ev"
  by (auto dest!: next_step_cases next_event_cases
      intro: can_happen.intros watch_can.intros page_can.intros tabs_can.intros)

lemma visited_drain: "visited stored s \<Longrightarrow> visited stored (session_drain env k s)"
proof (induction env k s rule: session_drain.induct)
  case (1 env k s)
  show ?case
  proof (cases "next_step (env k) s")
    case None
    with 1 show ?thesis by (subst session_drain.simps) simp
  next
    case (Some ev)
    with 1 show ?thesis
      by (subst session_drain.simps) (simp add: visited.event next_step_can)
  qed
qed

section \<open>One call of the language model at a time\<close>

lemma single_call_mount: "single_call (mount_tabs symb data')"
  by (simp add: single_call_def mount_tabs_def set_props_def initial_tabs_def)

lemma single_call_props: "single_call t \<Longrightarrow> single_call (set_props symb data' t)"
  by (simp add: single_call_def set_props_def)

lemma single_call_load: "single_call t \<Longrightarrow> \<not> llm_loading (tab_state t) \<Longrightarrow> single_call (loadLLMPrediction t)"
  by (simp add: single_call_def loadLLMPrediction_def Let_def)

lemma generate_button_idle:
  "render_tabs t = GenerateButton symb \<Longrightarrow> \<not> llm_loading (tab_state t)"
  by (auto simp: render_tabs_def Let_def split: if_splits PredictionTab.splits option.splits)

lemma single_call_step:
  assumes "single_call t" "tabs_can t ev"
  shows "single_call (tabs_step srv ev t)"
  using assms(2,1)
proof (cases rule: tabs_can.cases)
  case (click_tab tab)
  with assms(1) show ?thesis
    using single_call_load [of "t\<lparr>tab_state := (tab_state t)\<lparr>activeTab := tab\<rparr>\<rparr>"]
    by (auto simp: handleTabChange_def Let_def loadTechnicalIndicators_def single_call_def)
next
  case (click_generate symb)
  with assms(1) show ?thesis by (simp add: single_call_load generate_button_idle)
next
  case (click_calculate symb)
  with assms(1) show ?thesis by (simp add: loadTechnicalIndicators_def Let_def single_call_def)
next
  case (analysis_arrives n)
  with assms(1) have "n = 0" "length (calls t) = 1" by (auto simp: single_call_def)
  with analysis_arrives show ?thesis
    by (cases "generateLLMPrediction (has_key srv) (response srv) (json_parse srv)
          (service_random srv) (fst (calls t ! 0)) (snd (calls t ! 0))")
      (simp_all add: single_call_def llm_done_def Let_def)
qed

lemma single_call_pass:
  "\<forall>t \<in> set_option m. single_call t \<Longrightarrow> single_call (pass_props fresh symb data' m)"
  by (auto simp: pass_props_def single_call_mount single_call_props split: option.splits)

lemma single_call_show:
  assumes "\<forall>t \<in> set_option (the_tabs s). single_call t"
  shows "\<forall>t \<in> set_option (the_tabs (show_children fresh s)). single_call t"
  using single_call_pass [OF assms]
  by (auto simp: show_children_def split: view.splits if_splits)

lemma visited_single_call:
  "visited stored s \<Longrightarrow> \<forall>t \<in> set_option (the_tabs s). single_call t"
proof (induction rule: visited.induct)
  case (opened w)
  show ?case unfolding mount_session_def by (rule single_call_show) simp
next
  case (event s ev w)
  show ?case
  proof (cases ev)
    case (AppEvent e)
    show ?thesis
      unfolding AppEvent session_step.simps by (rule single_call_show) (simp add: event.IH)
  next
    case (TabsEvent srv e)
    with event.hyps(2) event.IH show ?thesis
      by (auto elim!: in_tabsE simp: single_call_step simp del: tabs_step.simps)
  qed (use event.IH in simp_all)
qed

section \<open>The buttons and the state\<close>

text \<open>The refresh button is there only with a selected stock: the test of
  \<^verbatim>\<open>handleRefresh\<close> never fails, and every click starts a fetch.\<close>

lemma refresh_starts_fetch:
  assumes "page_can a ClickRefresh"
  shows "\<exists>symb. selectedStock (ui a) = Some symb
           \<and> pending (page_step w ClickRefresh a) = pending a @ [Fetch symb (Some symb) False]"
proof -
  from assms obtain d symb p where "chart_of (ui a) = Some (d, symb, p)"
    by (auto simp: can_refresh)
  from chart_of_data(2,7) [OF this] show ?thesis
    by (simp add: handleRefresh_def truthy_def)
qed

text \<open>A row of the watch list has a button to remove its stock only when a
  request for its quote has ended.\<close>

lemma remove_needs_answer:
  assumes "watch_can w (Remove symb)"
  shows "map_of (quotes (watch_st w)) symb \<noteq> None \<or> map_of (errors (watch_st w)) symb \<noteq> None"
  using assms by (auto simp: can_remove render_row_def split: if_splits option.splits)

text \<open>A stock that was just added has a row without a button: it cannot be
  removed before the watch list has asked for its quote, which it does when
  its timer ticks or \<^verbatim>\<open>Refresh Now\<close> is pressed.\<close>

lemma added_stock_stays:
  assumes "i < length popularStocks"
    and "s = session_step w (AppEvent (Search (ClickPopular i))) (mount_session w0 [])"
  shows "initialSymbols (the_watch (the_app s)) = [fst (popularStocks ! i)]"
    and "\<not> can_happen s (AppEvent (Watch (Remove symb)))"
proof -
  let ?symb = "fst (popularStocks ! i)"
  define a where "a = app_step w (Search (ClickPopular i)) (mount_application w0 [])"
  have a: "the_app s = a" by (simp add: assms(2) a_def mount_session_empty del: app_step.simps)
  have "the_page a = handleSelectStock w ?symb (mount w0 [])"
    by (simp add: a_def click_popular [OF assms(1)] mount_page del: app_step.simps)
  then have wl: "watchlist (ui (the_page a)) = [?symb]"
    by (simp add: watchlist_select watchlist_mount)
  moreover have "initialSymbols (the_watch a) = watchlist (ui (the_page a))"
    by (simp add: a_def)
  ultimately show l: "initialSymbols (the_watch (the_app s)) = [?symb]" by (simp add: a)
  from added_stock_row_empty(2) [OF assms(1) a_def] l
  have "render_row (watch_st (the_watch (the_app s))) ?symb = RowNothing"
    by (simp add: a render_watch_def)
  with l show "\<not> can_happen s (AppEvent (Watch (Remove symb)))"
    by (auto elim!: in_watchE simp: can_remove)
qed

text \<open>The buttons matter: were the button of the analysis shown while a call
  is under way, a second click would start a second call.\<close>

lemma second_click_second_call:
  assumes "30 \<le> length data'"
  shows "length (calls (tabs_step srv ClickGenerate (tabs_step srv ClickGenerate
           (mount_tabs symb data')))) = 2"
proof -
  from assms have "data' \<noteq> []" by auto
  with assms show ?thesis
    by (simp add: mount_tabs_def set_props_def data_effect_cases initial_tabs_def
        loadLLMPrediction_def Let_def)
qed

section \<open>Claims\<close>

text \<open>C12: one call of the language model at a time. In every state the user
  can bring the session to, whatever the order of the events, the tabs have
  at most one call of the language model under way, and they show that they
  are loading exactly while they have one: the tab of the analysis starts a
  call only when none is under way, and its button is not shown while one
  is. A new series or another stock from the page changes neither.\<close>

theorem one_call_at_a_time:
  assumes "visited stored s"
  shows "calls_open s \<le> 1
       \<and> (calls_open s = 1 \<longleftrightarrow> (\<exists>t. the_tabs s = Some t \<and> llm_loading (tab_state t)))"
proof (cases "the_tabs s")
  case None
  then show ?thesis by (simp add: calls_open_def)
next
  case (Some t)
  with visited_single_call [OF assms] have "single_call t" by simp
  then have "length (calls t) \<le> 1" "llm_loading (tab_state t) \<longleftrightarrow> length (calls t) = 1"
    by (cases "calls t"; simp add: single_call_def)+
  with Some show ?thesis by (simp add: calls_open_def)
qed

theorem one_call_at_a_time_witness:
  "calls_open (session_step (sample_browser 3) (TabsEvent (sample_service True) (TabChange ai))
     (session_run [(sample_browser 1, AppEvent (Search (ClickPopular 0))),
                   (sample_browser 2, AppEvent (PageEvent (Resolve 0)))]
        (mount_session (sample_browser 0) []))) \<le> 1"
proof -
  let ?s1 = "session_step (sample_browser 1) (AppEvent (Search (ClickPopular 0)))
      (mount_session (sample_browser 0) [])"
  let ?s2 = "session_run [(sample_browser 1, AppEvent (Search (ClickPopular 0))),
      (sample_browser 2, AppEvent (PageEvent (Resolve 0)))] (mount_session (sample_browser 0) [])"
  have e: "?s2 = session_step (sample_browser 2) (AppEvent (PageEvent (Resolve 0))) ?s1"
    by (simp add: session_run_def del: session_step.simps)
  have "length (fetch_series (sample_browser 2) ''AAPL'') = 365"
    by (simp add: fetch_series_def getStockTimeSeries_def sample_browser_def length_mock_series)
  then have len: "30 \<le> length (fetch_series (sample_browser 2) ''AAPL'')" by simp
  have pop: "0 < length popularStocks" "''AAPL'' = fst (popularStocks ! 0)"
    by (simp_all add: popularStocks_def)
  have t: "time_now (sample_browser 1) - time_now (sample_browser 0) \<le> CACHE_DURATION"
    by (simp add: sample_browser_def CACHE_DURATION_def)
  have v1: "visited [] ?s1"
    using pop(1)
    by (intro visited.event visited.opened can_happen.in_search search_can.popular_button)
      (simp_all add: storage_wf_def)
  have "the_page (the_app ?s1) = handleSelectStock (sample_browser 1) ''AAPL'' (mount (sample_browser 0) [])"
    using session_click_page [OF pop(1), of "sample_browser 1" "mount_session (sample_browser 0) []"]
    by (simp add: pop(2) [symmetric] mount_session_empty mount_page del: session_step.simps)
  with select_spinner(2) [OF _ t, of "''AAPL''"] have "0 < length (pending (the_page (the_app ?s1)))"
    by simp
  then have "can_happen ?s1 (AppEvent (PageEvent (Resolve 0)))"
    by (intro can_happen.in_page page_can.series_arrives)
  with v1 have v2: "visited [] ?s2"
    unfolding e by (rule visited.event)
  from first_selection(1) [OF pop t refl len]
  have "can_happen ?s2 (TabsEvent (sample_service True) (TabChange ai))"
    by (intro can_happen.in_tabs tabs_can.click_tab)
  with v2 have "visited [] (session_step (sample_browser 3)
      (TabsEvent (sample_service True) (TabChange ai)) ?s2)"
    by (rule visited.event)
  from one_call_at_a_time [OF this] show ?thesis by blast
qed

end
