(* ===== verification/LLM_Request.thy ===== *)
theory LLM_Request
  imports LLM_Prediction JS_Text
begin

text \<open>
  What \<^verbatim>\<open>generateLLMPrediction\<close> of \<^verbatim>\<open>src/src/lib/llm-prediction.ts\<close> sends: the
  key it reads from the environment, the context \<^verbatim>\<open>generateContext\<close> writes
  from the last thirty bars, the prompt around it, and the request to the
  service; and what the function of \<^verbatim>\<open>src/unnamed/part_000\<close> posts to the
  endpoint of the server.

  \<^item> A template literal that runs over several lines is the \<open>js_join\<close> of its
    lines with \<open>newline\<close>; the lines keep the blanks of the source, at their
    ends too. \<^verbatim>\<open>x.toFixed(2)\<close> is \<open>toFixed shortest 2 x\<close> and a number in a
    template is \<open>Number_toString shortest x\<close> of theory \<open>JS_Text\<close>.
  \<^item> \<open>generateContext\<close> is \<open>None\<close> where the source throws a \<^verbatim>\<open>TypeError\<close>: on an
    empty series, whose last bar it reads. The caller has tested for thirty
    bars before.
  \<^item> The two variables of the environment are arguments, \<open>None\<close> when they
    are not set. \<open>llm_request\<close> is the function up to its \<^verbatim>\<open>await\<close>: the error
    it throws, or the request it posts. \<open>generateLLMPrediction_post\<close> is the
    whole function in front of a service, a function from requests to
    answers; what it does with the answer is \<open>generateLLMPrediction\<close> of theory
    \<open>LLM_Prediction\<close>.
  \<^item> \<open>text_lines\<close> splits a text at its line feeds. It states what a reader
    of the prompt finds and is not part of the source.

  The lemmas: a request is posted exactly with a key and thirty bars, it
  carries the key and the prompt, and the function in front of a service is
  \<open>generateLLMPrediction\<close> on the answer to that request; the context of a
  series has forty lines, the last close on the fourth, rounded as \<open>toFixed2\<close>
  rounds it, and one line for each of the last thirty bars in their order,
  the first of them indented.
\<close>

section \<open>The context\<close>

definition data_point :: "(real \<Rightarrow> string) \<Rightarrow> StockTimeSeriesData \<Rightarrow> string" where
  "data_point shortest day =
     ''Date: '' @ date day @ '', Open: $'' @ toFixed shortest 2 (open day)
     @ '', High: $'' @ toFixed shortest 2 (high day) @ '', ''
     @ ''Low: $'' @ toFixed shortest 2 (low day) @ '', Close: $'' @ toFixed shortest 2 (close day)
     @ '', Volume: '' @ Number_toString shortest (volume day)"

text \<open>The context is one template literal: the lines of the statistics, the
  line the bars start on, and the last line.\<close>

definition context_heading ::
  "(real \<Rightarrow> string) \<Rightarrow> string \<Rightarrow> StockTimeSeriesData list \<Rightarrow> string list" where
  "context_heading shortest symb recentData =
     (let lastPrice = close (last recentData);
          firstPrice = close (hd recentData);
          percentChange = toFixed shortest 2 ((lastPrice - firstPrice) / firstPrice * 100);
          highestPrice = foldl Math_max NInf (map high recentData);
          lowestPrice = foldl Math_min PInf (map low recentData)
      in [[],
          ''  STOCK ANALYSIS CONTEXT:'',
          ''  Symbol: '' @ symb,
          ''  Current Price: $'' @ toFixed shortest 2 lastPrice,
          ''  30-Day Change: '' @ percentChange @ ''%'',
          ''  30-Day High: $'' @ toFixed shortest 2 highestPrice,
          ''  30-Day Low: $'' @ toFixed shortest 2 lowestPrice,
          ''  '',
          ''  HISTORICAL DATA (Last 30 Days):''])"

definition generateContext ::
  "(real \<Rightarrow> string) \<Rightarrow> string \<Rightarrow> StockTimeSeriesData list \<Rightarrow> string option" where
  "generateContext shortest symb stockData =
     (let recentData = js_slice_from stockData (- 30);
          dataPoints = js_join newline (map (data_point shortest) recentData)
      in if recentData = [] then None
         else Some (js_join newline
                (context_heading shortest symb recentData @ [''  '' @ dataPoints, ''  ''])))"

section \<open>The prompt and the request\<close>

definition HUGGINGFACE_API_KEY :: "string option \<Rightarrow> string option \<Rightarrow> string option" where
  "HUGGINGFACE_API_KEY public_key server_key =
     (case public_key of
        Some k \<Rightarrow> if k \<noteq> [] then public_key else server_key
      | None \<Rightarrow> server_key)"

definition HUGGINGFACE_MODEL :: string where
  "HUGGINGFACE_MODEL = ''mistralai/Mixtral-8x7B-Instruct-v0.1''"

text \<open>The prompt is one template literal: the lines before the context, the
  line the context starts on, and the lines after it.\<close>

definition prompt_head :: "string list" where
  "prompt_head =
       [''<s>[INST]You are a financial analysis AI assistant that specializes in stock market predictions. '',
        ''  Analyze the provided historical stock data and provide next-day and next-week price predictions, '',
        ''  along with market sentiment analysis and investment recommendations. '',
        ''  Return your response in JSON format ONLY with no additional text.'',
        []]"

definition prompt_tail :: "string list" where
  "prompt_tail =
       [''  '',
        ''  Based on this data, provide a comprehensive analysis with the following information in JSON format ONLY:'',
        ''  1. A predicted price for the next trading day'',
        ''  2. A predicted price for one week from now'',
        ''  3. An assessment of market sentiment (bullish, bearish, or neutral)'',
        ''  4. A brief rationale for your predictions'',
        ''  5. A risk assessment (low, medium, high)'',
        ''  6. A suggested action (buy, sell, hold, or watch)'',
        ''  7. Key factors influencing your prediction (as an array of strings)'',
        ''  '',
        ''  Return ONLY a JSON object with keys: nextDayPrediction (number), nextWeekPrediction (number), marketSentiment (string), '',
        ''  rationale (string), riskAssessment (string), suggestedAction (string), and keyFactors (array of strings).[/INST]</s>'']"

definition prompt_text :: "string \<Rightarrow> string" where
  "prompt_text context = js_join newline (prompt_head @ (''  '' @ context) # prompt_tail)"

record http_post =
  post_url :: string
  post_inputs :: string
  max_new_tokens :: nat
  temperature :: real
  return_full_text :: bool
  post_headers :: "(string \<times> string) list"

definition huggingface_post :: "string \<Rightarrow> string \<Rightarrow> http_post" where
  "huggingface_post key prompt =
     \<lparr>post_url = ''https://api-inference.huggingface.co/models/'' @ HUGGINGFACE_MODEL,
      post_inputs = prompt,
      max_new_tokens = 800,
      temperature = 3 / 10,
      return_full_text = False,
      post_headers = [(''Content-Type'', ''application/json''),
                      (''Authorization'', ''Bearer '' @ key)]\<rparr>"

definition llm_request ::
  "(real \<Rightarrow> string) \<Rightarrow> string option \<Rightarrow> string \<Rightarrow> StockTimeSeriesData list \<Rightarrow> string + http_post" where
  "llm_request shortest key symb stockData =
     (case key of
        None \<Rightarrow>
          Inl ''Hugging Face API key is not configured. Set NEXT_PUBLIC_HUGGINGFACE_API_KEY in your .env.local''
      | Some k \<Rightarrow>
          if k = []
          then Inl ''Hugging Face API key is not configured. Set NEXT_PUBLIC_HUGGINGFACE_API_KEY in your .env.local''
          else if length stockData < 30
          then Inl ''Insufficient data for LLM prediction. Need at least 30 data points.''
          else case generateContext shortest symb stockData of
                 None \<Rightarrow> Inl ''Cannot read properties of undefined''
               | Some context \<Rightarrow> Inr (huggingface_post k (prompt_text context)))"

definition generateLLMPrediction_post ::
  "(real \<Rightarrow> string) \<Rightarrow> string option \<Rightarrow> (http_post \<Rightarrow> http_response)
     \<Rightarrow> (string \<Rightarrow> LLMPredictionResult option) \<Rightarrow> (nat \<Rightarrow> real) \<Rightarrow> string
     \<Rightarrow> StockTimeSeriesData list \<Rightarrow> string + LLMPredictionResult" where
  "generateLLMPrediction_post shortest key service json_parse rnd symb stockData =
     (case llm_request shortest key symb stockData of
        Inl failure \<Rightarrow> Inl failure
      | Inr request \<Rightarrow> generateLLMPrediction True (service request) json_parse rnd symb stockData)"

text \<open>The function of \<^verbatim>\<open>src/unnamed/part_000\<close> posts the symbol and the whole
  series to the endpoint.\<close>

record endpoint_post =
  endpoint_url :: string
  body_symbol :: string
  body_stockData :: "StockTimeSeriesData list"

definition client_request :: "string \<Rightarrow> StockTimeSeriesData list \<Rightarrow> string + endpoint_post" where
  "client_request symb stockData =
     (if length stockData < 30
      then Inl ''Insufficient data for LLM prediction. Need at least 30 data points.''
      else Inr \<lparr>endpoint_url = ''/api/huggingface'', body_symbol = symb,
                body_stockData = stockData\<rparr>)"

section \<open>The lines of the context\<close>

lemma last_bars [simp]:
  "length xs \<le> length xs - 30 \<longleftrightarrow> xs = []"
  "xs \<noteq> [] \<Longrightarrow> last (drop (length xs - 30) xs) = last xs"
  by (cases xs; simp)+

lemma generateContext_Some:
  "(\<exists>c. generateContext shortest symb stockData = Some c) \<longleftrightarrow> stockData \<noteq> []"
  by (auto simp: generateContext_def Let_def js_slice_from_neg [of 30, simplified])

lemma data_point_one_line:
  assumes "line_printer shortest" "one_line (date day)"
  shows "one_line (data_point shortest day)"
  using assms by (simp add: data_point_def one_line_toFixed one_line_Number_toString)

lemma context_heading_lines:
  assumes "line_printer shortest" "one_line symb"
  shows "list_all one_line (context_heading shortest symb recent)"
  using assms by (simp add: context_heading_def Let_def one_line_toFixed)

lemma context_heading_nth:
  "length (context_heading shortest symb recent) = 9"
  "context_heading shortest symb recent ! 2 = ''  Symbol: '' @ symb"
  "context_heading shortest symb recent ! 3
     = ''  Current Price: $'' @ toFixed shortest 2 (close (last recent))"
  "context_heading shortest symb recent ! 4
     = ''  30-Day Change: ''
       @ toFixed shortest 2 ((close (last recent) - close (hd recent)) / close (hd recent) * 100)
       @ ''%''"
  by (simp_all add: context_heading_def Let_def)

text \<open>The lines of the context: the heading, then a line for each of the last
  bars, the first of them indented, then the last line of the template.\<close>

lemma context_lines:
  assumes sh: "line_printer shortest" and "one_line symb"
    and dates: "list_all (\<lambda>day. one_line (date day)) stockData" and ne: "stockData \<noteq> []"
    and recent: "recent = drop (length stockData - 30) stockData"
  shows "\<exists>c. generateContext shortest symb stockData = Some c
       \<and> text_lines c
         = context_heading shortest symb recent
           @ (''  '' @ data_point shortest (hd recent)) # map (data_point shortest) (tl recent)
           @ [''  '']"
proof -
  define D where "D = map (data_point shortest) recent"
  let ?H = "context_heading shortest symb recent"
  from ne have r: "recent \<noteq> []" "js_slice_from stockData (- 30) = recent"
    by (simp_all add: recent js_slice_from_neg [of 30, simplified])
  from dates have "list_all (\<lambda>day. one_line (date day)) recent"
    by (auto simp: recent list_all_iff dest: in_set_dropD)
  with sh have "list_all one_line D"
    by (simp add: D_def list_all_iff data_point_one_line)
  with r(1) have D: "D \<noteq> []" "one_line (hd D)" "list_all one_line (tl D)"
    by (cases recent; simp add: D_def)+
  from r have "generateContext shortest symb stockData
      = Some (js_join newline (?H @ (''  '' @ js_join newline D) # [''  '']))"
    by (simp add: generateContext_def Let_def D_def)
  moreover from D(1) have "js_join newline (?H @ (''  '' @ js_join newline D) # [''  ''])
      = js_join newline (?H @ (''  '' @ hd D) # tl D @ [''  ''])"
    by (rule js_join_nested)
  moreover from D(2,3) context_heading_lines [OF assms(1,2), of recent]
  have "text_lines (js_join newline (?H @ (''  '' @ hd D) # tl D @ [''  '']))
      = ?H @ (''  '' @ hd D) # tl D @ [''  '']"
    by (intro text_lines_join) simp_all
  moreover from r(1) have "hd D = data_point shortest (hd recent)"
    "tl D = map (data_point shortest) (tl recent)"
    by (simp_all add: D_def hd_map map_tl)
  ultimately show ?thesis by simp
qed

text \<open>With thirty bars or more the context has forty lines, and the lines
  from the tenth on are those of the last thirty bars, oldest first.\<close>

lemma context_data_lines:
  assumes "line_printer shortest" "one_line symb"
    and "list_all (\<lambda>day. one_line (date day)) stockData" "30 \<le> length stockData"
  shows "\<exists>c. generateContext shortest symb stockData = Some c
       \<and> length (text_lines c) = 40
       \<and> (\<forall>i<30. text_lines c ! (9 + i)
              = (if i = 0 then ''  '' else [])
                @ data_point shortest (stockData ! (length stockData - 30 + i)))"
proof -
  define recent where "recent = drop (length stockData - 30) stockData"
  from assms(4) have len: "length recent = 30" and ne: "stockData \<noteq> []"
    by (auto simp: recent_def)
  then have "hd recent # tl recent = recent" by (cases recent) simp_all
  with assms(4) have nth: "(hd recent # tl recent) ! i = stockData ! (length stockData - 30 + i)" for i
    by (simp add: recent_def)
  from context_lines [OF assms(1-3) ne recent_def] obtain c
    where c: "generateContext shortest symb stockData = Some c"
      and l: "text_lines c
         = context_heading shortest symb recent
           @ (''  '' @ data_point shortest (hd recent)) # map (data_point shortest) (tl recent)
           @ [''  '']"
    by blast
  have "text_lines c ! (9 + i) = (if i = 0 then ''  '' else [])
      @ data_point shortest (stockData ! (length stockData - 30 + i))" if "i < 30" for i
    using that len nth [of i] by (cases i) (simp_all add: l nth_append context_heading_nth(1))
  with c len show ?thesis by (simp add: l context_heading_nth(1))
qed

text \<open>The fourth line quotes the last close, and below \<open>10\<^sup>2\<^sup>1\<close> the number
  on it is the close rounded as \<open>toFixed2\<close> rounds it: the price the panels
  show.\<close>

lemma context_current_price:
  assumes "line_printer shortest" "one_line symb"
    and "list_all (\<lambda>day. one_line (date day)) stockData" "stockData \<noteq> []"
    and "close (last stockData) = Fin p" "\<bar>p\<bar> < 10 ^ 21"
  shows "\<exists>c t. generateContext shortest symb stockData = Some c
       \<and> text_lines c ! 3 = ''  Current Price: $'' @ t
       \<and> Fin (read_fixed t) = toFixed2 (close (last stockData))"
proof -
  from context_lines [OF assms(1-4) refl] assms(4) obtain c
    where "generateContext shortest symb stockData = Some c"
      and "text_lines c ! 3 = ''  Current Price: $'' @ toFixed shortest 2 (close (last stockData))"
    by (auto simp: nth_append context_heading_nth simp del: append.simps)
  with assms(5) read_toFixed2 [OF assms(6), of shortest] show ?thesis by simp
qed

text \<open>The change is a quotient by the first close of the thirty bars: when
  that is zero the fifth line reads \<^verbatim>\<open>Infinity%\<close>.\<close>

lemma context_change_from_zero:
  assumes "line_printer shortest" "one_line symb"
    and "list_all (\<lambda>day. one_line (date day)) stockData" "stockData \<noteq> []"
    and "close (hd (drop (length stockData - 30) stockData)) = Fin 0"
    and "close (last stockData) = Fin p" "0 < p"
  shows "\<exists>c. generateContext shortest symb stockData = Some c
       \<and> text_lines c ! 4 = ''  30-Day Change: Infinity%''"
proof -
  from context_lines [OF assms(1-4) refl] assms(4) obtain c
    where "generateContext shortest symb stockData = Some c"
      and "text_lines c ! 4 = ''  30-Day Change: ''
        @ toFixed shortest 2 ((close (last stockData) - Fin 0) / Fin 0 * 100) @ ''%''"
    by (auto simp: nth_append context_heading_nth assms(5) simp del: append.simps)
  with assms(6,7) show ?thesis by simp
qed

section \<open>The lines of the prompt\<close>

lemma prompt_one_line: "list_all one_line prompt_head" "list_all one_line prompt_tail"
  by (simp_all add: prompt_head_def prompt_tail_def)

text \<open>The lines of the prompt are its own and those of the context, whose
  first line continues the sixth line of the prompt.\<close>

lemma prompt_lines:
  "text_lines (prompt_text c)
     = prompt_head @ (''  '' @ hd (text_lines c)) # tl (text_lines c) @ prompt_tail"
proof -
  let ?L = "text_lines c"
  have "prompt_text c = js_join newline (prompt_head @ (''  '' @ js_join newline ?L) # prompt_tail)"
    by (simp add: prompt_text_def)
  also have "\<dots> = js_join newline (prompt_head @ (''  '' @ hd ?L) # tl ?L @ prompt_tail)"
    by (rule js_join_nested) simp
  finally have p: "prompt_text c
      = js_join newline (prompt_head @ (''  '' @ hd ?L) # tl ?L @ prompt_tail)" .
  have "list_all one_line (prompt_head @ (''  '' @ hd ?L) # tl ?L @ prompt_tail)"
    using list_all_one_line_text_lines [of c] prompt_one_line by (cases ?L) simp_all
  then show ?thesis
    unfolding p by (intro text_lines_join) simp_all
qed

section \<open>The key and the request\<close>

text \<open>A key is found when one of the two variables is set and not empty, the
  public one first.\<close>

lemma HUGGINGFACE_API_KEY_set:
  "(\<exists>k. HUGGINGFACE_API_KEY a b = Some k \<and> k \<noteq> [])
     \<longleftrightarrow> (\<exists>k. k \<noteq> [] \<and> (a = Some k \<or> b = Some k))"
  by (auto simp: HUGGINGFACE_API_KEY_def split: option.splits)

text \<open>A request is posted exactly with a key and thirty bars; it carries the
  key and the prompt of the series.\<close>

lemma llm_request_posts:
  "(\<exists>rq. llm_request shortest key symb stockData = Inr rq)
     \<longleftrightarrow> (\<exists>k. key = Some k \<and> k \<noteq> []) \<and> 30 \<le> length stockData"
proof (cases "stockData = []")
  case False
  with generateContext_Some [of shortest symb stockData] show ?thesis
    by (auto simp: llm_request_def split: option.splits)
qed (simp add: llm_request_def split: option.splits)

lemma llm_request_fields:
  assumes "llm_request shortest key symb stockData = Inr rq"
  shows "\<exists>k c. key = Some k \<and> generateContext shortest symb stockData = Some c
       \<and> post_inputs rq = prompt_text c
       \<and> map_of (post_headers rq) ''Authorization'' = Some (''Bearer '' @ k)
       \<and> post_url rq
         = ''https://api-inference.huggingface.co/models/mistralai/Mixtral-8x7B-Instruct-v0.1''"
  using assms
  by (auto simp: llm_request_def huggingface_post_def HUGGINGFACE_MODEL_def
      split: option.splits if_splits)

text \<open>The function in front of a service is \<open>generateLLMPrediction\<close> of theory
  \<open>LLM_Prediction\<close> on the answer of the service to the request: the answer as
  an input stands for every service.\<close>

lemma post_refines:
  assumes "llm_request shortest key symb stockData = Inr rq"
  shows "generateLLMPrediction_post shortest key service json_parse rnd symb stockData
       = generateLLMPrediction True (service rq) json_parse rnd symb stockData"
  using assms by (simp add: generateLLMPrediction_post_def)

lemma post_error:
  assumes "llm_request shortest key symb stockData = Inl msg"
  shows "generateLLMPrediction_post shortest key service json_parse rnd symb stockData = Inl msg"
    and "generateLLMPrediction (key \<noteq> None \<and> key \<noteq> Some []) response json_parse rnd symb stockData
       = Inl msg"
proof -
  from assms show "generateLLMPrediction_post shortest key service json_parse rnd symb stockData
      = Inl msg"
    by (simp add: generateLLMPrediction_post_def)
  from assms generateContext_Some [of shortest symb stockData]
  show "generateLLMPrediction (key \<noteq> None \<and> key \<noteq> Some []) response json_parse rnd symb stockData
      = Inl msg"
    by (auto simp: llm_request_def generateLLMPrediction_def split: option.splits if_splits)
qed

text \<open>The function of the browser posts under the same condition on the
  series, and posts the whole series, not its last thirty bars.\<close>

lemma client_request_posts:
  "(\<exists>rq. client_request symb stockData = Inr rq) \<longleftrightarrow> 30 \<le> length stockData"
  by (auto simp: client_request_def)

section \<open>Claims\<close>

text \<open>C23: the request quotes the last thirty bars. With a key and a series of
  thirty bars or more, whose dates and symbol have no line feed,
  \<^verbatim>\<open>generateLLMPrediction\<close> posts a request whose prompt has 57 lines; its lines
  15 to 44 are the lines \<open>data_point\<close> writes for the last thirty bars of the
  series, oldest first, the first of them behind two blanks.\<close>

theorem request_quotes_bars:
  assumes "line_printer shortest" "one_line symb"
    and "list_all (\<lambda>day. one_line (date day)) stockData" "30 \<le> length stockData" "key \<noteq> []"
  shows "\<exists>rq. llm_request shortest (Some key) symb stockData = Inr rq
       \<and> length (text_lines (post_inputs rq)) = 57
       \<and> (\<forall>i<30. text_lines (post_inputs rq) ! (14 + i)
              = (if i = 0 then ''  '' else [])
                @ data_point shortest (stockData ! (length stockData - 30 + i)))"
proof -
  from context_data_lines [OF assms(1-4)] obtain c
    where c: "generateContext shortest symb stockData = Some c"
      and n: "length (text_lines c) = 40"
      and d: "\<forall>i<30. text_lines c ! (9 + i)
              = (if i = 0 then ''  '' else [])
                @ data_point shortest (stockData ! (length stockData - 30 + i))"
    by blast
  let ?L = "text_lines c"
  from assms(4,5) c
  have rq: "llm_request shortest (Some key) symb stockData
      = Inr (huggingface_post key (prompt_text c))"
    by (simp add: llm_request_def)
  have h: "length prompt_head = 5" "length prompt_tail = 12"
    by (simp_all add: prompt_head_def prompt_tail_def)
  have "text_lines (prompt_text c) ! (14 + i) = ?L ! (9 + i)" if "i < 30" for i
    using that n h by (simp add: prompt_lines nth_append nth_tl)
  with d n h show ?thesis
    by (simp add: rq prompt_lines huggingface_post_def)
qed

theorem request_quotes_bars_witness:
  "\<exists>rq. llm_request (\<lambda>r. []) (Some ''k'') ''IBM''
          (replicate 30 \<lparr>date = ''2024-01-02'', open = 1, high = 2, low = 1, close = 2, volume = 5\<rparr>)
        = Inr rq
     \<and> length (text_lines (post_inputs rq)) = 57
     \<and> (\<forall>i<30. text_lines (post_inputs rq) ! (14 + i)
            = (if i = 0 then ''  '' else [])
              @ data_point (\<lambda>r. [])
                  (replicate 30 \<lparr>date = ''2024-01-02'', open = 1, high = 2, low = 1, close = 2,
                                  volume = 5\<rparr>
                   ! (length (replicate 30 \<lparr>date = ''2024-01-02'', open = 1, high = 2, low = 1,
                                               close = 2, volume = 5\<rparr>) - 30 + i)))"
  by (rule request_quotes_bars) (simp_all add: line_printer_def list_all_iff)

end
