(* ===== verification/Yahoo_Finance.thy ===== *)
theory Yahoo_Finance
  imports Panels
begin

text \<open>
  The module \<^verbatim>\<open>src/src/lib/yahoo-finance.ts\<close>: six functions that call the library
  \<^verbatim>\<open>yahoo-finance2\<close> and reshape its results into the formats of the
  application. No component imports the module; the page takes its data from
  the mock data and the watch list from \<^verbatim>\<open>api.ts\<close>.

  \<^item> The result of a call of the library is an input: \<open>Inr\<close> the result, \<open>Inl\<close>
    the error it throws. A field the library may leave out is an option;
    \<open>str_or\<close> and \<open>num_or_zero\<close> are the operator \<^verbatim>\<open>||\<close> with a default, on a text
    and on a number.
  \<^item> Each function has its own answer to a failure: \<open>searchStocks_yahoo\<close>,
    \<open>getRecommendations\<close> and \<open>getCompanyNews\<close> return an empty array,
    \<open>getCompanyProfile\<close> returns \<^verbatim>\<open>null\<close> (\<open>None\<close>), \<open>getStockTimeSeries_yahoo\<close> and
    \<open>getStockQuote_yahoo\<close> throw an error with a message of their own (\<open>Inl\<close>).
  \<^item> \<open>historical_options\<close> is the request for a series: the year the period
    starts in and the interval of the library. A date of the library is a
    time in milliseconds, or \<open>None\<close> for an invalid date, for which
    \<^verbatim>\<open>toISOString\<close> throws; \<open>iso_day\<close>, an input, prints the day of a time.
  \<^item> A quote has the fields of \<^verbatim>\<open>StockQuote\<close> of \<^verbatim>\<open>api.ts\<close>; \<open>print\<close>, an input,
    prints a number that has two decimals.
  \<^item> The functions that share a name with one of \<^verbatim>\<open>api.ts\<close> or of the mock
    data have the suffix \<open>_yahoo\<close>.

  The lemmas: the result of each function on a failure; a search result
  always has a symbol when the query is not empty; no number of a quote is
  \<open>NaN\<close>, and the card of theory \<open>Panels\<close> can always draw it; a series keeps
  the length and the order of the result of the library.
\<close>

section \<open>Defaults\<close>

definition upper_char :: "char \<Rightarrow> char" where
  "upper_char c =
     (if 97 \<le> (of_char c :: nat) \<and> (of_char c :: nat) \<le> 122 then char_of (of_char c - 32 :: nat) else c)"

definition toUpperCase :: "string \<Rightarrow> string" where
  "toUpperCase s = map upper_char s"

definition str_or :: "string option \<Rightarrow> string \<Rightarrow> string" where
  "str_or a b = (case a of Some s \<Rightarrow> if s \<noteq> [] then s else b | None \<Rightarrow> b)"

definition num_or_zero :: "jsnum option \<Rightarrow> jsnum" where
  "num_or_zero v = (case v of Some x \<Rightarrow> js_or x 0 | None \<Rightarrow> 0)"

section \<open>The search\<close>

record YahooQuote =
  yq_symbol :: "string option"
  yq_shortname :: "string option"
  yq_longname :: "string option"
  yq_quoteType :: "string option"
  yq_exchDisp :: "string option"
  yq_currency :: "string option"

definition yahoo_match :: "string \<Rightarrow> YahooQuote \<Rightarrow> (string \<times> string) list" where
  "yahoo_match q yq =
     [(''1. symbol'', str_or (yq_symbol yq) (toUpperCase q)),
      (''2. name'', str_or (yq_shortname yq) (str_or (yq_longname yq) ''Unknown'')),
      (''3. type'', str_or (yq_quoteType yq) ''Equity''),
      (''4. region'', str_or (yq_exchDisp yq) ''United States''),
      (''5. marketOpen'', ''09:30''),
      (''6. marketClose'', ''16:00''),
      (''7. timezone'', ''UTC-04''),
      (''8. currency'', str_or (yq_currency yq) ''USD''),
      (''9. matchScore'', ''1.0000'')]"

definition searchStocks_yahoo :: "string \<Rightarrow> string + YahooQuote list \<Rightarrow> (string \<times> string) list list" where
  "searchStocks_yahoo q response =
     (case response of Inr quotes' \<Rightarrow> map (yahoo_match q) quotes' | Inl failure \<Rightarrow> [])"

section \<open>The series\<close>

record historical_request =
  period1_year :: int
  yahoo_interval :: string

definition historical_options :: "int \<Rightarrow> interval \<Rightarrow> outputsize \<Rightarrow> historical_request" where
  "historical_options year intv size' =
     \<lparr>period1_year = year - (if size' = full then 2 else 1),
      yahoo_interval = (if intv = monthly then ''1mo'' else if intv = weekly then ''1wk'' else ''1d'')\<rparr>"

record historical_item =
  hi_date :: "int option"
  hi_open :: jsnum
  hi_high :: jsnum
  hi_low :: jsnum
  hi_close :: jsnum
  hi_volume :: jsnum

definition historical_bar :: "(int \<Rightarrow> string) \<Rightarrow> historical_item \<Rightarrow> StockTimeSeriesData" where
  "historical_bar iso_day item =
     \<lparr>date = iso_day (the (hi_date item)), open = hi_open item, high = hi_high item,
      low = hi_low item, close = hi_close item, volume = hi_volume item\<rparr>"

definition getStockTimeSeries_yahoo ::
  "(int \<Rightarrow> string) \<Rightarrow> string \<Rightarrow> string + historical_item list \<Rightarrow> string + StockTimeSeriesData list" where
  "getStockTimeSeries_yahoo iso_day symb response =
     (case response of
        Inr result \<Rightarrow>
          if list_all (\<lambda>item. hi_date item \<noteq> None) result
          then Inr (map (historical_bar iso_day) result)
          else Inl (''Failed to fetch data for '' @ symb)
      | Inl failure \<Rightarrow> Inl (''Failed to fetch data for '' @ symb))"

section \<open>The quote\<close>

record yahoo_quote =
  yr_symbol :: "string option"
  regularMarketOpen :: "jsnum option"
  regularMarketDayHigh :: "jsnum option"
  regularMarketDayLow :: "jsnum option"
  regularMarketPrice :: "jsnum option"
  regularMarketVolume :: "jsnum option"
  regularMarketPreviousClose :: "jsnum option"
  regularMarketChange :: "jsnum option"
  regularMarketChangePercent :: "jsnum option"

definition getStockQuote_yahoo ::
  "(jsnum \<Rightarrow> string) \<Rightarrow> string \<Rightarrow> string \<Rightarrow> string + yahoo_quote \<Rightarrow> string + StockQuote" where
  "getStockQuote_yahoo print today symb response =
     (case response of
        Inr result \<Rightarrow>
          Inr \<lparr>sq_symbol = map_option JString (yr_symbol result),
               sq_open = num_or_zero (regularMarketOpen result),
               sq_high = num_or_zero (regularMarketDayHigh result),
               sq_low = num_or_zero (regularMarketDayLow result),
               sq_price = num_or_zero (regularMarketPrice result),
               sq_volume = num_or_zero (regularMarketVolume result),
               sq_latestTradingDay = Some (JString today),
               sq_previousClose = num_or_zero (regularMarketPreviousClose result),
               sq_change = num_or_zero (regularMarketChange result),
               sq_changePercent =
                 Some (JString (print (toFixed2 (num_or_zero (regularMarketChangePercent result)))
                                @ ''%''))\<rparr>
      | Inl failure \<Rightarrow> Inl (''Failed to fetch quote for '' @ symb))"

section \<open>The profile, the recommendations and the news\<close>

record quote_summary =
  qs_shortName :: "string option"
  qs_longBusinessSummary :: "string option"
  qs_sector :: "string option"
  qs_industry :: "string option"
  qs_website :: "string option"
  qs_marketCap :: "jsnum option"
  qs_trailingPE :: "jsnum option"
  qs_targetMeanPrice :: "jsnum option"

record company_profile =
  companyName :: string
  description :: string
  sector :: string
  industry :: string
  website :: string
  marketCap :: jsnum
  peRatio :: jsnum
  targetPrice :: jsnum

definition getCompanyProfile :: "string + quote_summary \<Rightarrow> company_profile option" where
  "getCompanyProfile response =
     (case response of
        Inr result \<Rightarrow>
          Some \<lparr>companyName = str_or (qs_shortName result) [],
                description = str_or (qs_longBusinessSummary result) [],
                sector = str_or (qs_sector result) [],
                industry = str_or (qs_industry result) [],
                website = str_or (qs_website result) [],
                marketCap = num_or_zero (qs_marketCap result),
                peRatio = num_or_zero (qs_trailingPE result),
                targetPrice = num_or_zero (qs_targetMeanPrice result)\<rparr>
      | Inl failure \<Rightarrow> None)"

definition getRecommendations :: "string + 'a list option \<Rightarrow> 'a list" where
  "getRecommendations response =
     (case response of Inr (Some recommendedSymbols) \<Rightarrow> recommendedSymbols | _ \<Rightarrow> [])"

definition getCompanyNews :: "string \<Rightarrow> 'a list" where
  "getCompanyNews symb = []"

section \<open>Failures\<close>

text \<open>A failed call of the library: three functions return an empty array, one
  returns \<^verbatim>\<open>null\<close>, two throw an error that names the symbol and drops the
  cause.\<close>

lemma yahoo_failures:
  "searchStocks_yahoo q (Inl e) = []"
  "getStockTimeSeries_yahoo iso_day symb (Inl e) = Inl (''Failed to fetch data for '' @ symb)"
  "getStockQuote_yahoo print today symb (Inl e) = Inl (''Failed to fetch quote for '' @ symb)"
  "getCompanyProfile (Inl e) = None"
  "getRecommendations (Inl e) = []"
  by (simp_all add: searchStocks_yahoo_def getStockTimeSeries_yahoo_def getStockQuote_yahoo_def
      getCompanyProfile_def getRecommendations_def)

text \<open>A series with an invalid date fails as a whole.\<close>

lemma yahoo_series_outcome:
  "(\<exists>bars. getStockTimeSeries_yahoo iso_day symb response = Inr bars)
     \<longleftrightarrow> (\<exists>result. response = Inr result \<and> list_all (\<lambda>item. hi_date item \<noteq> None) result)"
  by (cases response) (auto simp: getStockTimeSeries_yahoo_def)

lemma yahoo_series_bars:
  assumes "getStockTimeSeries_yahoo iso_day symb (Inr result) = Inr bars"
  shows "length bars = length result" and "map close bars = map hi_close result"
    and "map date bars = map (\<lambda>item. iso_day (the (hi_date item))) result"
  using assms
  by (auto simp: getStockTimeSeries_yahoo_def historical_bar_def split: if_splits)

section \<open>The search results\<close>

lemma str_or_nonempty: "b \<noteq> [] \<Longrightarrow> str_or a b \<noteq> []"
  by (simp add: str_or_def split: option.splits)

lemma length_toUpperCase [simp]: "length (toUpperCase s) = length s"
  by (simp add: toUpperCase_def)

lemma yahoo_result_symbol:
  assumes "q \<noteq> []" "r \<in> set (searchStocks_yahoo q response)"
  shows "\<exists>s. map_of r ''1. symbol'' = Some s \<and> s \<noteq> []"
proof -
  from assms(1) have "toUpperCase q \<noteq> []" by (metis length_toUpperCase length_0_conv)
  with assms(2) show ?thesis
    by (cases response) (auto simp: searchStocks_yahoo_def yahoo_match_def str_or_nonempty)
qed

lemma yahoo_result_keys:
  "r \<in> set (searchStocks_yahoo q response) \<Longrightarrow>
     map fst r = [''1. symbol'', ''2. name'', ''3. type'', ''4. region'', ''5. marketOpen'',
                  ''6. marketClose'', ''7. timezone'', ''8. currency'', ''9. matchScore'']"
  by (cases response) (auto simp: searchStocks_yahoo_def yahoo_match_def)

section \<open>The quote\<close>

lemma num_or_zero_defined [simp]: "num_or_zero v \<noteq> NaN"
  by (cases v; cases "the v") (simp_all add: num_or_zero_def)

text \<open>No number of a quote is \<open>NaN\<close>, whatever the library leaves out; and the
  card of the watch list draws every quote, its arrow pointing up exactly
  when the change is not negative.\<close>

lemma yahoo_quote_defined:
  assumes "getStockQuote_yahoo print today symb (Inr result) = Inr q"
  shows "sq_open q \<noteq> NaN \<and> sq_high q \<noteq> NaN \<and> sq_low q \<noteq> NaN \<and> sq_price q \<noteq> NaN
       \<and> sq_volume q \<noteq> NaN \<and> sq_previousClose q \<noteq> NaN \<and> sq_change q \<noteq> NaN"
  using assms by (auto simp: getStockQuote_yahoo_def)

lemma yahoo_quote_card:
  assumes "getStockQuote_yahoo print today symb (Inr result) = Inr q"
  shows "\<exists>c. StockQuote_view pf distance q b = Inr c"
  using assms by (auto simp: getStockQuote_yahoo_def card_drawn)

end
