(* ===== verification/Cache_Spec.thy ===== *)
theory Cache_Spec
  imports Storage
begin

text \<open>
  What \<^verbatim>\<open>src/src/lib/storage.ts\<close> promises, without the strings of the storage
  of the browser: a cache of series by symbol, each with the time it was
  stored; a count of calls by day; and the time of the last refresh.

  \<^item> \<open>quota\<close> is that state: two finite maps and an optional time.
  \<^item> \<open>spec_get\<close>, \<open>spec_cache\<close>, \<open>spec_count\<close>, \<open>spec_track\<close>, \<open>spec_clear\<close> and
    \<open>spec_should_refresh\<close> say what the operations of the module do to it;
    \<open>spec_step\<close> is one operation of \<open>storage_op\<close>.
  \<^item> \<open>abs_storage\<close> reads the state off a storage: the entry parsed from the
    item of a cache key, the number \<^verbatim>\<open>parseInt\<close> reads from the item of a day,
    and from the item of the last refresh.

  The lemmas: every operation of the module, on a storage that satisfies
  \<open>storage_wf\<close>, is the operation of the specification on the state read off
  it (a functional refinement); what follows for the storages the module
  reaches; and on the specification, the limit of the calls of a day.
\<close>

section \<open>The state and the operations\<close>

record quota =
  q_series :: "string \<rightharpoonup> StockTimeSeriesData list \<times> int"
  q_calls :: "string \<rightharpoonup> int"
  q_refreshed :: "int option"

definition empty_quota :: quota where
  "empty_quota = \<lparr>q_series = Map.empty, q_calls = Map.empty, q_refreshed = None\<rparr>"

definition spec_get :: "int \<Rightarrow> string \<Rightarrow> quota \<Rightarrow> StockTimeSeriesData list option" where
  "spec_get now symb q =
     (case q_series q symb of
        None \<Rightarrow> None
      | Some (d, t) \<Rightarrow> if now - t < CACHE_DURATION then Some d else None)"

definition spec_cache :: "int \<Rightarrow> string \<Rightarrow> StockTimeSeriesData list \<Rightarrow> quota \<Rightarrow> quota" where
  "spec_cache now symb d q = q\<lparr>q_series := (q_series q)(symb \<mapsto> (d, now))\<rparr>"

definition spec_count :: "string \<Rightarrow> quota \<Rightarrow> int" where
  "spec_count today q = (case q_calls q today of None \<Rightarrow> 0 | Some k \<Rightarrow> k)"

definition spec_track :: "int \<Rightarrow> string \<Rightarrow> quota \<Rightarrow> quota" where
  "spec_track now today q =
     q\<lparr>q_calls := (q_calls q)(today \<mapsto> spec_count today q + 1), q_refreshed := Some now\<rparr>"

definition spec_clear :: "string \<Rightarrow> quota \<Rightarrow> quota" where
  "spec_clear today q = q\<lparr>q_calls := (q_calls q)(today := None), q_refreshed := None\<rparr>"

definition spec_should_refresh :: "int \<Rightarrow> string \<Rightarrow> quota \<Rightarrow> bool \<times> quota" where
  "spec_should_refresh now today q =
     (if MAX_DAILY_CALLS - 2 \<le> spec_count today q then (False, q)
      else case q_refreshed q of
             None \<Rightarrow> (True, q\<lparr>q_refreshed := Some now\<rparr>)
           | Some t \<Rightarrow> (CACHE_DURATION < now - t, q))"

fun spec_step :: "int \<Rightarrow> string \<Rightarrow> storage_op \<Rightarrow> quota \<Rightarrow> quota" where
  "spec_step now today ClearAllApiTracking q = spec_clear today q"
| "spec_step now today (CacheStockData symb d) q = spec_cache now symb d q"
| "spec_step now today TrackApiCall q = spec_track now today q"
| "spec_step now today ShouldRefreshCache q = snd (spec_should_refresh now today q)"

inductive spec_reachable :: "quota \<Rightarrow> bool" where
  init: "spec_reachable empty_quota"
| step: "spec_reachable q \<Longrightarrow> spec_reachable (spec_step now today op q)"

section \<open>The state of a storage\<close>

definition cached_entry :: "item option \<Rightarrow> (StockTimeSeriesData list \<times> int) option" where
  "cached_entry v = (case v of Some (Json c) \<Rightarrow> Some (data c, timestamp c) | _ \<Rightarrow> None)"

definition stored_number :: "item option \<Rightarrow> int option" where
  "stored_number v = (case v of Some i \<Rightarrow> item_parseInt i | None \<Rightarrow> None)"

definition abs_storage :: "local_storage \<Rightarrow> quota" where
  "abs_storage s =
     \<lparr>q_series = (\<lambda>symb. cached_entry (getItem s (stock_data_key symb))),
      q_calls = (\<lambda>today. stored_number (getItem s (api_calls_key today))),
      q_refreshed = stored_number (getItem s last_cache_refresh)\<rparr>"

section \<open>Reading a well-formed storage\<close>

lemma wf_count_item:
  assumes "storage_wf s" "getItem s (api_calls_key today) = Some v"
  obtains k where "v = Text (toString_int k)" "0 < k"
proof -
  from wf_getItem [OF assms] have "count_ok v" by (simp add: item_ok_def api_calls_key_def)
  then show ?thesis
    using that by (auto simp: count_ok_def split: item.splits option.splits)
qed

lemma wf_refresh_item:
  assumes "storage_wf s" "getItem s last_cache_refresh = Some v"
  obtains n where "v = Text (toString_int n)"
proof -
  from wf_getItem [OF assms] show ?thesis
    using that by (auto simp: item_ok_def last_cache_refresh_def split: item.splits option.splits)
qed

lemma stored_number_simps [simp]:
  "stored_number None = None"
  "stored_number (Some (Text (toString_int k))) = Some k"
  by (simp_all add: stored_number_def item_parseInt_def)

lemma item_truthy_number [simp]: "item_truthy (Text (toString_int k))"
  by (simp add: item_truthy_def)

section \<open>The refinement\<close>

lemma abs_empty: "abs_storage [] = empty_quota"
  by (simp add: abs_storage_def empty_quota_def cached_entry_def fun_eq_iff)

lemma get_refines: "getCachedStockData now symb s = spec_get now symb (abs_storage s)"
  by (simp add: getCachedStockData_def spec_get_def abs_storage_def cached_entry_def Let_def
      split: option.splits item.splits)

lemma cache_refines:
  "abs_storage (cacheStockData now symb d s) = spec_cache now symb d (abs_storage s)"
  by (simp add: abs_storage_def spec_cache_def cached_entry_def fun_eq_iff)

lemma count_refines:
  assumes "storage_wf s"
  shows "getApiCallCount today s = Some (spec_count today (abs_storage s))"
proof (cases "getItem s (api_calls_key today)")
  case None
  then show ?thesis by (simp add: getApiCallCount_def spec_count_def abs_storage_def Let_def)
next
  case (Some v)
  with assms obtain k where "v = Text (toString_int k)" by (rule wf_count_item)
  with Some show ?thesis
    by (simp add: getApiCallCount_def spec_count_def abs_storage_def Let_def item_parseInt_def)
qed

lemma track_refines:
  assumes "storage_wf s"
  shows "abs_storage (trackApiCall now today s) = spec_track now today (abs_storage s)"
proof (cases "getItem s (api_calls_key today)")
  case None
  then show ?thesis
    by (simp add: trackApiCall_def spec_track_def spec_count_def abs_storage_def Let_def
        toString_num_def fun_eq_iff)
next
  case (Some v)
  with assms obtain k where "v = Text (toString_int k)" by (rule wf_count_item)
  with Some show ?thesis
    by (simp add: trackApiCall_def spec_track_def spec_count_def abs_storage_def Let_def
        toString_num_def item_parseInt_def fun_eq_iff)
qed

lemma clear_refines:
  "abs_storage (clearAllApiTracking today s) = spec_clear today (abs_storage s)"
  by (simp add: clearAllApiTracking_def spec_clear_def abs_storage_def fun_eq_iff)

lemma should_refresh_refines:
  assumes "storage_wf s"
  shows "map_prod id abs_storage (shouldRefreshCache now today s)
           = spec_should_refresh now today (abs_storage s)"
proof (cases "getItem s last_cache_refresh")
  case None
  then show ?thesis
    using count_refines [OF assms, of today]
    by (simp add: shouldRefreshCache_def spec_should_refresh_def Let_def)
      (simp add: abs_storage_def fun_eq_iff)
next
  case (Some v)
  with assms obtain n where "v = Text (toString_int n)" by (rule wf_refresh_item)
  with Some show ?thesis
    using count_refines [OF assms, of today]
    by (simp add: shouldRefreshCache_def spec_should_refresh_def Let_def item_parseInt_def)
      (simp add: abs_storage_def)
qed

lemma step_refines:
  assumes "storage_wf s"
  shows "abs_storage (storage_step now today op s) = spec_step now today op (abs_storage s)"
proof (cases op)
  case ShouldRefreshCache
  have "abs_storage (snd (shouldRefreshCache now today s))
      = snd (map_prod id abs_storage (shouldRefreshCache now today s))" by simp
  with ShouldRefreshCache show ?thesis
    by (simp only: storage_step.simps spec_step.simps should_refresh_refines [OF assms])
qed (simp_all add: cache_refines track_refines clear_refines assms)

lemma reachable_refines: "reachable s \<Longrightarrow> spec_reachable (abs_storage s)"
proof (induction rule: reachable.induct)
  case init
  show ?case by (simp add: abs_empty spec_reachable.init)
next
  case (step s now today op)
  then show ?case by (simp add: step_refines reachable_wf spec_reachable.step)
qed

section \<open>On the specification\<close>

lemma spec_track_count:
  "spec_count day (spec_track now today q)
     = (if day = today then spec_count today q + 1 else spec_count day q)"
  by (simp add: spec_track_def spec_count_def)

lemma spec_cache_get:
  "spec_get now' symb' (spec_cache now symb d q)
     = (if symb' = symb then (if now' - now < CACHE_DURATION then Some d else None)
        else spec_get now' symb' q)"
  by (simp add: spec_get_def spec_cache_def)

lemma spec_limit:
  "23 \<le> spec_count today q \<Longrightarrow> spec_should_refresh now today q = (False, q)"
  by (simp add: spec_should_refresh_def MAX_DAILY_CALLS_def)

lemma spec_count_nonneg: "spec_reachable q \<Longrightarrow> 0 \<le> spec_count today q"
proof (induction rule: spec_reachable.induct)
  case init
  show ?case by (simp add: empty_quota_def spec_count_def)
next
  case (step q now day op)
  then show ?case
    by (cases op)
      (auto simp: spec_count_def spec_clear_def spec_cache_def spec_track_def
        spec_should_refresh_def split: option.splits)
qed

section \<open>Claims\<close>

text \<open>C24: the module implements the specification. On every storage that
  satisfies \<open>storage_wf\<close>, which the storages the module and the page reach
  do, each operation changes the state read off the storage as the
  specification says, and each query answers what the specification answers:
  the cached series of a symbol while it is younger than an hour, the count
  of the calls of the day as a number, and whether to refresh. The strings
  that \<^verbatim>\<open>parseInt\<close>, \<^verbatim>\<open>toString\<close>, \<^verbatim>\<open>JSON.stringify\<close> and \<^verbatim>\<open>JSON.parse\<close> pass through
  the storage do not show.\<close>

theorem storage_refines:
  assumes "storage_wf s"
  shows "abs_storage (storage_step now today op s) = spec_step now today op (abs_storage s)
       \<and> getCachedStockData now symb s = spec_get now symb (abs_storage s)
       \<and> getApiCallCount today s = Some (spec_count today (abs_storage s))
       \<and> map_prod id abs_storage (shouldRefreshCache now today s)
           = spec_should_refresh now today (abs_storage s)"
  using assms by (simp add: step_refines get_refines count_refines should_refresh_refines)

theorem storage_refines_witness:
  "abs_storage (storage_step 5 ''2024-01-02'' TrackApiCall [])
     = spec_step 5 ''2024-01-02'' TrackApiCall empty_quota
   \<and> getApiCallCount ''2024-01-02'' [] = Some (spec_count ''2024-01-02'' empty_quota)"
  using storage_refines [of "[]" 5 "''2024-01-02''" TrackApiCall]
  by (simp add: storage_wf_def abs_empty del: storage_step.simps spec_step.simps)

end
