(* ===== verification/Spec2Isabelle.thy ===== *)
theory Spec2Isabelle
  imports Indicator_Engine Forecast Page Prediction_Tabs Displays Indicator_Chart Analysis_Panel
    Watch_List Stock_Search Panels Application Session Session_Runs Interaction LLM_Request
    Yahoo_Finance Cache_Spec
begin

text \<open>
  A verification development for the stock tracker, a browser application that
  shows the chart of a stock, technical indicators and a price forecast.

  \<^bold>\<open>The program.\<close> The page (\<^verbatim>\<open>src/src/app/page.tsx\<close>) keeps a watch list and a
  selected stock. For the selected stock it takes a series of daily bars
  (\<^verbatim>\<open>StockTimeSeriesData\<close>, oldest first) from the cache in the storage of the
  browser (\<^verbatim>\<open>src/src/lib/storage.ts\<close>) or from the mock market data
  (\<^verbatim>\<open>mockData.ts\<close>, in the sources the second part of
  \<^verbatim>\<open>src/src/lib/llm-prediction.ts\<close>), and hands it to two engines:

  \<^item> the indicator engine, \<^verbatim>\<open>technical-indicators.ts\<close> (in the sources the second
    part of \<^verbatim>\<open>src/unnamed/part_001\<close>, after \<^verbatim>\<open>api.ts\<close>): moving averages,
    oscillators, bands, a trend-strength index and a stop-and-reverse tracker,
    each an array aligned with the input with \<^verbatim>\<open>NaN\<close> where it is not defined;
  \<^item> the forecast engine, \<^verbatim>\<open>src/src/lib/prediction.ts\<close>: a back-fit by linear
    regression over sliding windows, a one-day and a seven-day forecast by an
    autoregression on first differences, support and resistance levels, a trend
    label and a confidence.

  \<^bold>\<open>The theories\<close>, in the order of their imports.

  \<^item> \<open>JS_Number\<close>: the numbers of the source. A \<open>jsnum\<close> is a finite real, one of
    the two infinities, or \<open>NaN\<close>; the arithmetic, the comparisons and the
    \<^verbatim>\<open>Math\<close> functions follow IEEE 754 on the special values and are exact on
    the finite ones. Rounding, overflow to infinity and the sign of zero are not
    modelled: a theorem about finite values is a theorem about the exact
    results the source approximates.
  \<^item> \<open>JS_Array\<close>: arrays as lists. Reading outside an array gives \<open>NaN\<close> (the
    \<^verbatim>\<open>undefined\<close> of the source in arithmetic), \<^verbatim>\<open>slice\<close> takes negative indices,
    \<^verbatim>\<open>sort\<close> with a comparator is a stable insertion sort, and a \<^verbatim>\<open>for\<close> loop that
    pushes one value per iteration is \<open>for_push body s is\<close>, where \<open>body\<close> maps
    the variables the loop carries and the index to the pushed value and the
    variables after the iteration.
  \<^item> \<open>JS_Text\<close>: numbers as text: decimal numerals, \<^verbatim>\<open>parseInt\<close>, the text of a
    number in a template, \<^verbatim>\<open>toFixed\<close>, \<^verbatim>\<open>join\<close> and the lines of a text. The
    text of a number that is not an integer is an input (\<open>shortest\<close>).
  \<^item> \<open>Stock_Data\<close>: the record of a bar.
  \<^item> \<open>Moving_Averages\<close>: \<^verbatim>\<open>calculateSMA\<close>, \<^verbatim>\<open>calculateEMA\<close> and \<^verbatim>\<open>calculateMACD\<close>, with
    the mean of a window (\<open>sma_spec\<close>) and the recurrence of the exponential
    average (\<open>ema_spec\<close>) as specifications on the reals.
  \<^item> \<open>Oscillators\<close>: \<^verbatim>\<open>calculateRSI\<close> and \<^verbatim>\<open>calculateBollingerBands\<close>, with Wilder's
    averages (\<open>rsi_spec\<close>) and the standard deviation of a window (\<open>sd_spec\<close>) as
    specifications.
  \<^item> \<open>Directional\<close>: \<^verbatim>\<open>calculateADX\<close> and \<^verbatim>\<open>calculateSmoothedAverage\<close>.
  \<^item> \<open>Parabolic_SAR\<close>: \<^verbatim>\<open>calculateParabolicSAR\<close>; the variables of its loop are the
    record \<open>sar_state\<close> and one iteration is \<open>sar_step\<close>.
  \<^item> \<open>Indicator_Engine\<close>: \<^verbatim>\<open>calculateAllIndicators\<close>, which calls the others with
    the periods of the source.
  \<^item> \<open>Regression\<close>: \<^verbatim>\<open>linearRegression\<close> and \<^verbatim>\<open>arimaInspiredPrediction\<close> of the
    forecast engine. The second pushes its forecasts onto the array it is
    given; the model returns the forecasts and the array after the call.
  \<^item> \<open>Forecast\<close>: \<^verbatim>\<open>predictStockPrices\<close> and the functions it calls. The thrown
    error is the value \<open>Inl InsufficientData\<close>.
  \<^item> \<open>Storage\<close>: the cache and the call counter of \<^verbatim>\<open>storage.ts\<close> over the storage
    of the browser, an association list from keys to items; the operations
    as a datatype with a step function, and the storages sequences of
    operations reach.
  \<^item> \<open>Cache_Spec\<close>: what the module promises, as operations on two maps and a
    time (\<open>quota\<close>), and the state a storage stands for (\<open>abs_storage\<close>).
  \<^item> \<open>Mock_Data\<close>: the list of stocks and the search in it, the generator of a
    random series, its aggregation by week or month, and the random quote.
  \<^item> \<open>Page\<close>: the state of the page, its effects and handlers, the fetches under
    way as tasks that carry the variables they closed over, the panel that is
    shown, and the states sequences of events reach.
  \<^item> \<open>LLM_Prediction\<close>: \<^verbatim>\<open>generateLLMPrediction\<close> of the first part of
    \<^verbatim>\<open>llm-prediction.ts\<close>, with the answer of the service as an input.
  \<^item> \<open>LLM_Request\<close>: what that function sends: the key of the environment,
    the context \<^verbatim>\<open>generateContext\<close> writes from the last thirty bars, the
    prompt, the request, and the function in front of a service
    (\<open>generateLLMPrediction_post\<close>); the request of the function of
    \<^verbatim>\<open>src/unnamed/part_000\<close>.
  \<^item> \<open>Prediction_Tabs\<close>: the component \<^verbatim>\<open>PredictionTabs\<close> (\<^verbatim>\<open>src/unnamed/part_003\<close>),
    which calls the two engines and the language model for the series the page
    passes, with its state, its handlers, its calls under way and its panel.
  \<^item> \<open>Displays\<close>: what the chart components compute before they draw.
    \<^verbatim>\<open>StockChart\<close> (\<^verbatim>\<open>src/unnamed/part_002\<close>): the bars of the selected range
    (\<open>filteredData\<close>) and the price axis (\<open>yDomain\<close>).
    \<^verbatim>\<open>TechnicalIndicatorsChart\<close> and \<^verbatim>\<open>StockPrediction\<close>
    (\<^verbatim>\<open>src/src/components/TechnicalIndicatorsChart.tsx\<close>): the rows that join
    bars with indicators and with the forecast, the confidence in percent,
    the trend icon and the announced direction.
  \<^item> \<open>Indicator_Chart\<close>: the component \<^verbatim>\<open>TechnicalIndicatorsChart\<close>: the active
    indicator, the chart drawn for it as the description the markup gives the
    chart library (\<open>renderChart\<close>: kind, axis, drawn elements with their keys
    and names, reference lines), the lines of its tooltip, and the text below.
  \<^item> \<open>Analysis_Panel\<close>: the component \<^verbatim>\<open>LLMStockAnalysis\<close>
    (\<^verbatim>\<open>src/unnamed/part_004\<close>): its six helper functions, the change in percent
    and what the panel shows for a forecast of the language model.
  \<^item> \<open>Api\<close>: \<^verbatim>\<open>api.ts\<close>, the first part of \<^verbatim>\<open>src/unnamed/part_001\<close>. The answer
    of the service is a value of the datatype \<open>json\<close> or the text of a failed
    request; \<^verbatim>\<open>checkForRateLimitError\<close>, \<^verbatim>\<open>getStockQuote\<close>,
    \<^verbatim>\<open>getStockTimeSeries\<close> and \<^verbatim>\<open>searchStocks\<close> map it to a result or to a
    value of \<open>api_error\<close>, one constructor per \<^verbatim>\<open>throw\<close> of the source.
  \<^item> \<open>Watch_List\<close>: the component \<^verbatim>\<open>WatchList\<close>
    (\<^verbatim>\<open>src/src/components/WatchList.tsx\<close>). A run of \<^verbatim>\<open>fetchQuotes\<close> is the list
    of the symbols it has still to fetch; a step of the component starts the
    request of the first symbol of a run or takes its outcome. The timer
    holds the symbols of the render that started it.
  \<^item> \<open>Stock_Search\<close>: the component \<^verbatim>\<open>StockSearch\<close>
    (\<^verbatim>\<open>src/src/components/StockSearch.tsx\<close>) over \<^verbatim>\<open>searchStocks\<close> of the mock
    data: the query, the results, and what is passed to the page.
  \<^item> \<open>Panels\<close>: the card of a quote \<^verbatim>\<open>StockQuote\<close> (\<^verbatim>\<open>src/unnamed/part_006\<close>), the
    notice \<^verbatim>\<open>RateLimitAlert\<close> (\<^verbatim>\<open>src/unnamed/part_005\<close>) and \<^verbatim>\<open>ApiCallStatus\<close>
    (\<^verbatim>\<open>src/src/components/ui/ApiCallStatus.tsx\<close>), as the values they show.
  \<^item> \<open>Yahoo_Finance\<close>: the module \<^verbatim>\<open>src/src/lib/yahoo-finance.ts\<close>, with the
    results of the library \<^verbatim>\<open>yahoo-finance2\<close> as inputs: the defaults for the
    fields the library leaves out and the answer of each function to a
    failure.
  \<^item> \<open>Application\<close>: the page with the search box and the watch list as one
    system, wired as the markup of \<^verbatim>\<open>page.tsx\<close> wires them: a selection in the
    search box calls \<^verbatim>\<open>handleSelectStock\<close>, a removal in the watch list calls
    \<^verbatim>\<open>handleRemoveSymbol\<close>, and the watch list of the page is the property of
    \<^verbatim>\<open>WatchList\<close>. Its events are those of the user, the timers and the network.
  \<^item> \<open>Session\<close>: the application with the components the page mounts while it
    shows a series: \<^verbatim>\<open>StockChart\<close>, \<^verbatim>\<open>PredictionTabs\<close> and, inside the tabs,
    \<^verbatim>\<open>TechnicalIndicatorsChart\<close>. A component has a state only while it is
    shown; after every step of the application the page renders, which
    mounts a component, passes it new properties (the effect of the tabs runs
    when the page has set a new series or the symbol is another), or removes
    it with its state and the calls it has under way. \<open>Session_Runs\<close> follows
    the session through a first selection, a refresh and a stock shown from
    the cache.
  \<^item> \<open>Interaction\<close>: the events that can happen in a state of the session, as
    inductive predicates with one rule for each button, input and request
    the markup and the components offer in that state, and the states
    reached through such events only (\<open>visited\<close>).
  \<^item> This theory: the properties that span components: from the series the
    page fetches to the axis of its chart, from the forecast engine to what
    the tabs hold, the two implementations of the moving average, from a click
    in the search box to the forecast panel, and from a rate-limited answer of
    the service to the notice of the page.

  \<^bold>\<open>Inputs.\<close> What the source reads from outside is an argument of the
  model: the time and the date (\<open>now\<close>, \<open>today\<close>, the record \<open>browser\<close>), the
  values of \<^verbatim>\<open>Math.random\<close> as a sequence \<open>rnd\<close>, the calendar as the weekday and
  date of the day \<open>i\<close> days ago, the answers of the market data service and
  of the language model, \<^verbatim>\<open>parseFloat\<close> on a text (\<open>pf\<close>), the time of a date
  in the chart (\<open>time_of\<close>). The theorems hold for every value of them.

  \<^bold>\<open>What is shown.\<close>

  \<^item> For each indicator its length and its behaviour on every branch; for
    finite input its agreement with the specification on the reals; ranges
    (the relative strength and the trend-strength index between 0 and 100, the
    bands in order, the acceleration factor between its initial and maximal
    value); the behaviour at the edges (a flat series, a series shorter than
    the period, the reversal of the stop).
  \<^item> For the forecast pipeline, the consequences of the array shared between
    its steps: the second and later forecasts of a run of the autoregression
    are \<open>NaN\<close>, so the seven-day forecast is; the trend, the confidence and the
    field \<^verbatim>\<open>actual\<close> are computed from the closes followed by the forecasts, so
    the trend is always \<open>neutral\<close> and the confidence always \<open>NaN\<close>. On a
    series on a line the back-fit and the one-day forecast continue the line.
  \<^item> For the storage, the round trips (a number written and parsed, a series
    cached and read within the hour), the count of calls, and the invariant
    \<open>storage_wf\<close> of every reachable storage, under which no count is \<open>NaN\<close>;
    and that on such a storage every operation of the module is the
    operation of the specification on the state the storage stands for.
  \<^item> For the mock data, the order of the prices in every bar, the direction of
    the generated series in time, the volume kept by the aggregation, and the
    search as a substring test.
  \<^item> For the page, the invariants of its reachable states, the termination of
    the pending work, and the response of a fetch shown under another stock.
  \<^item> For the language model, when the call fails, what it returns when the
    request fails, and the match of the object in the answer; when a request
    is posted, and that its prompt quotes the last thirty bars line by line
    and the last close rounded as the panels round it.
  \<^item> For the tabs, the invariant of their reachable states (what they hold was
    computed from the series of the properties), the analysis that arrives
    under another stock, and the error that hides the forecast.
  \<^item> For the charts, the price axis as bounds of the plotted bars and its
    value on an empty range, the lengths of the rows, and the summary of the
    forecast panel, which for every forecast of the engine announces a
    downward movement with a confidence of \<open>NaN\<close> percent.
  \<^item> For the chart of the indicators, that every drawn key is a field of the
    rows, that a chart with a fixed axis draws within it, and where the
    tooltip and the text below disagree with the chart.
  \<^item> For the analysis panel, which comparisons ignore the case of the
    letters, that the colour of a forecast agrees with the sign of the change,
    and the panel a rejected request ends in.
  \<^item> For the fetchers, the outcome on every branch (the rate-limit note, the
    missing series, the failed request), and the order of the returned bars.
  \<^item> For the watch list, the invariant of its reachable states (a row is
    loading only while a run has its request under way), the termination of
    the runs, and the symbol that is added and has no quote.
  \<^item> For the search box, that every symbol it passes to the page is listed.
  \<^item> For the panels, that the arrow of a quote follows the sign of its
    change, and the quote the fetcher accepts and the card cannot draw.
  \<^item> For the module of Yahoo Finance, the result of each function on a
    failure, that a quote has no \<open>NaN\<close> and can always be drawn by the card,
    and that a series keeps the order of the library.
  \<^item> For the application, that its reachable states project to reachable
    states of the three components, that the watch list shows the watch list
    of the page, that only known stocks are ever watched or selected, the
    empty row of a stock that was just added, and that in every order of
    their ends the requests of the page and of the watch list all end.
  \<^item> For the session, that the components are mounted exactly while the page
    shows them and that the tabs hold the symbol and the series of the page
    (\<open>children_inv\<close>); that the forecast on the screen is always the forecast
    of the series of the chart above it; that an analysis is not: it is shown
    under another stock when that stock comes from the cache while the call
    is under way, and beside the prices of a refresh that arrived before it;
    that a refresh keeps the range of the chart and drops the analysis, the
    indicators and the chosen indicator; and that the fetches, the requests
    for quotes and the calls of the language model end in every order, after
    which no spinner is shown anywhere.
  \<^item> For the events that can happen, that the states they reach are reachable
    states of the session, that the end of a request can always happen, that
    the tabs never have more than one call of the language model under way
    (which fails without the conditions under which the buttons are shown),
    and that a stock that was just added has no button to remove it.
  \<^item> From the search box to the screen: a popular stock that is clicked is
    fetched, charted and forecast, and the forecast panel announces a
    downward movement with a confidence of \<open>NaN\<close> percent whatever the series.
  \<^item> Across components: the moving average of the forecast engine equals
    that of the indicator engine after the warm-up; a rate-limited answer
    ends in the notice of the page, which says there are no limits; the price
    chart of a fetched series draws within its axis.

  \<^bold>\<open>Bounds.\<close> No definition uses fuel. Every loop of the engines and of the mock
  data runs over the indices of an array and is a recursion on the list of
  those indices; \<open>string_of_nat\<close> recurses on the number divided by ten; \<open>drain\<close>
  of theory \<open>Page\<close>, which continues pending tasks until none is left, is
  a \<open>function\<close> whose termination is proved with the measure \<open>work\<close>, and so
  is \<open>drain_quotes\<close> of theory \<open>Watch_List\<close> with the measure \<open>watch_work\<close>, the
  number of requests the runs have still to make plus the number of runs.
  \<open>app_drain\<close> of theory \<open>Application\<close> interleaves the two in any order and
  terminates with the sum of the two measures; \<open>session_drain\<close> of theory
  \<open>Session\<close> adds the calls of the language model, and its measure their
  number.

  \<^bold>\<open>Not modelled.\<close> The transport of the network requests (of \<^verbatim>\<open>api.ts\<close>, of the
  language model and of \<^verbatim>\<open>yahoo-finance.ts\<close>), whose answers are inputs, and
  \<^verbatim>\<open>JSON.parse\<close> on the answer of the language model, an input too; the
  drawing of the charts, which is the chart library's; colours, layout and the
  fixed texts of the markup; the render between a handler of the page and the
  effects it triggers, which is one step with them (theory \<open>Session\<close> shows
  that the tabs keep no trace of it); the animation of the components that
  appear;
  the \<^verbatim>\<open>catch\<close> branches for a storage that throws; the delays of the mock
  data and of the refresh, which order the steps of the page but change no
  state.
\<close>

section \<open>From the page to the engines\<close>

text \<open>The series the page fetches is a series of finite bars, so its closes are
  a list of reals: the theorems of the engines about finite series apply to
  what the page shows.\<close>

lemma fetched_finite: "list_all finite_bar (fetch_series w symb)"
  by (simp add: fetch_series_def getStockTimeSeries_def Let_def mock_series_finite)

text \<open>C35: the price chart of a fetched series draws within its axis. For
  every series the page fetches, with random values in \<open>[0, 1)\<close>, and every
  range of time that has a bar of it, the axis \<^verbatim>\<open>StockChart\<close> computes is a pair
  of numbers, and the close, the low and the high of every bar of the range
  lie within it.\<close>

theorem fetched_chart_within_axis:
  assumes "\<And>k. 0 \<le> random w k \<and> random w k < 1"
    and "chartData = filteredData threshold time_of timeRange (fetch_series w symb)"
    and "chartData \<noteq> []"
  shows "\<exists>lo hi. StockChart threshold time_of timeRange (fetch_series w symb)
             = PriceChart chartData (Fin lo, Fin hi)
           \<and> cs_domain (price_chart_spec chartData) = FixedDomain (Fin lo) (Fin hi)
           \<and> list_all (\<lambda>b. fin_between lo hi (low b) \<and> fin_between lo hi (close b)
                            \<and> fin_between lo hi (high b)) chartData"
proof -
  have sub: "set chartData \<subseteq> set (fetch_series w symb)"
    unfolding assms(2) by (rule filteredData_sublist)
  with assms(3) have ne: "fetch_series w symb \<noteq> []" by auto
  have "list_all (\<lambda>b. bar_ordered b \<and> fin_nonneg (low b)) (fetch_series w symb)"
    using mock_series_sound [OF assms(1)] by (simp add: fetch_series_def getStockTimeSeries_def)
  with sub fetched_finite [of w symb]
  have "list_all finite_bar chartData" "list_all bar_ordered chartData"
    "list_all (\<lambda>b. fin_nonneg (low b)) chartData"
    by (auto simp: list_all_iff)
  from price_chart_axis [OF this assms(3)] ne show ?thesis
    by (auto simp: StockChart_def Let_def price_chart_spec_def assms(2) prod_eq_iff)
qed

theorem fetched_chart_within_axis_witness:
  "\<exists>lo hi. StockChart (\<lambda>r. 0) (\<lambda>d. 0) All (fetch_series (sample_browser 0) ''AAPL'')
       = PriceChart (fetch_series (sample_browser 0) ''AAPL'') (Fin lo, Fin hi)
     \<and> list_all (\<lambda>b. fin_between lo hi (low b) \<and> fin_between lo hi (close b)
                      \<and> fin_between lo hi (high b)) (fetch_series (sample_browser 0) ''AAPL'')"
proof -
  have "fetch_series (sample_browser 0) ''AAPL'' \<noteq> []"
    using mock_series_nonempty [of 0 365 "\<lambda>i. (1, [])"]
    by (simp add: fetch_series_def getStockTimeSeries_def sample_browser_def)
  then show ?thesis
    using fetched_chart_within_axis [of "sample_browser 0"
        "fetch_series (sample_browser 0) ''AAPL''" "\<lambda>r. 0" "\<lambda>d. 0" All "''AAPL''"]
    by (auto simp: sample_browser_def filteredData_sublist)
qed

text \<open>In every state the tabs reach, the forecast they hold is the forecast
  of the series the page passed, and it is degenerate: its trend is \<open>neutral\<close>,
  its confidence and its forecast for the next week are \<open>NaN\<close>.\<close>

lemma forecast_shown_degenerate:
  assumes "tabs_reachable t" "technicalPrediction (tab_state t) = Some p"
  shows "p = forecast (tab_data t) \<and> trend p = neutral \<and> confidence p = NaN
       \<and> nextWeekPrediction p = NaN"
proof -
  from assms have "p = forecast (tab_data t)" "30 \<le> length (tab_data t)"
    using tabs_reachable_inv [of t] by (simp_all add: tabs_inv_def)
  then show ?thesis
    by (simp add: forecast_trend_neutral forecast_confidence_NaN forecast_next)
qed

section \<open>The two engines\<close>

text \<open>C20: the two implementations of the simple moving average agree. The
  forecast engine computes it with \<^verbatim>\<open>slice\<close> and \<^verbatim>\<open>reduce\<close> and returns no value
  for the warm-up; the indicator engine adds each window from its last
  element down and pads the warm-up with \<open>NaN\<close>. For every window that is not
  0 and all data, also with \<open>NaN\<close> and infinities, the first is the second
  without its first \<open>window - 1\<close> values.\<close>

theorem sma_implementations_agree:
  assumes "0 < window"
  shows "calculateSMA_pred xs window = drop (window - 1) (calculateSMA xs window)"
proof -
  from assms have "[int window - 1..int (length xs) - 1] = map int [window - 1..<length xs]"
    using upto_int_nat [of "window - 1" "length xs"] by (simp add: of_nat_diff)
  moreover have "js_sum (js_slice xs (int i - int window + 1) (int i + 1)) / jsn window
      = (if i + 1 < window then NaN else window_sum xs i window / jsn window)"
    if "i \<in> set [window - 1..<length xs]" for i
  proof -
    from that have i: "window \<le> i + 1" "i < length xs" by auto
    then have "js_slice xs (int i - int window + 1) (int i + 1)
        = js_slice xs (int (i + 1 - window)) (int (i + 1))"
      by (simp add: of_nat_diff algebra_simps)
    also have "\<dots> = take (i + 1 - (i + 1 - window)) (drop (i + 1 - window) xs)"
      by (rule js_slice_nat)
    also from i have "i + 1 - (i + 1 - window) = window" by simp
    finally have "js_slice xs (int i - int window + 1) (int i + 1)
        = take window (drop (i + 1 - window) xs)" .
    with i show ?thesis by (simp add: window_sum_eq)
  qed
  ultimately show ?thesis
    by (simp add: calculateSMA_pred_def calculateSMA_def drop_map drop_upt o_def cong: map_cong)
qed

theorem sma_implementations_agree_witness:
  "calculateSMA_pred (map Fin [1, 2, 3, 4]) 2 = drop (2 - 1) (calculateSMA (map Fin [1, 2, 3, 4]) 2)"
  by (rule sma_implementations_agree) simp

section \<open>From the search box to the forecast\<close>

text \<open>C18: from a click in the search box to the forecast on the screen. A
  popular stock is clicked within the hour after the page was opened on an
  empty storage. The page shows the spinner, and no predictions. When the
  fetch ends with a series of at least thirty bars, the page mounts the
  predictions, whose first panel is the forecast for the stock; and whatever
  the series is, the panel shows a confidence of \<open>NaN\<close> percent, the icon of the
  neutral trend, both forecasts in the colour of a fall, and the text for a
  downward movement.\<close>

theorem search_to_forecast_panel:
  assumes "i < length popularStocks" "symb = fst (popularStocks ! i)"
    and "time_now w1 - time_now w0 \<le> CACHE_DURATION"
    and "s1 = app_step w1 (Search (ClickPopular i)) (mount_application w0 [])"
    and "s2 = app_step w2 (PageEvent (Resolve 0)) s1"
    and "30 \<le> length (fetch_series w2 symb)"
  shows "render (ui (the_page s1)) = Spinner symb \<and> tabs_mounted s1 = None
       \<and> (\<exists>v. forecast_panel nextDay nextWeek s2 = Some v \<and> pv_symbol v = symb
              \<and> pv_confidence v = NaN \<and> pv_icon v = FiMinus \<and> \<not> pv_upward v
              \<and> pv_day_class v = ''text-danger'' \<and> pv_week_class v = ''text-danger'')"
proof -
  let ?data = "fetch_series w2 symb"
  from assms(1,2) have ne: "symb \<noteq> []" by (simp add: popular_nonempty)
  from assms(1,2,4) have p1: "the_page s1 = handleSelectStock w1 symb (mount w0 [])"
    by (simp add: click_popular mount_page del: app_step.simps)
  then have spin: "render (ui (the_page s1)) = Spinner symb"
    using select_spinner(1) [OF ne assms(3)] by simp
  from assms(6) have "?data \<noteq> []" by auto
  then obtain lbl where "render (ui (the_page s2)) = Chart lbl ?data symb True"
    using select_resolved [OF ne assms(3), of w2] assms(6)
    by (auto simp: assms(5) resolve_page p1 simp del: app_step.simps page_step.simps)
  then have "forecast_panel nextDay nextWeek s2
      = Some (StockPrediction_view nextDay nextWeek (forecast ?data) symb)"
    by (simp add: forecast_panel_def tabs_mounted_def mounted_tabs_panel assms(6))
  moreover from spin have "tabs_mounted s1 = None" by (simp add: tabs_mounted_def)
  ultimately show ?thesis
    using spin panel_degenerate(1-3,5) [OF assms(6)]
    by (simp add: StockPrediction_view_def Let_def)
qed

theorem search_to_forecast_panel_witness:
  "\<exists>v. forecast_panel ''2024-01-03'' ''2024-01-09''
         (app_step (sample_browser 2) (PageEvent (Resolve 0))
            (app_step (sample_browser 1) (Search (ClickPopular 0))
               (mount_application (sample_browser 0) []))) = Some v
     \<and> pv_symbol v = ''AAPL'' \<and> pv_confidence v = NaN \<and> \<not> pv_upward v"
proof -
  have "length (fetch_series (sample_browser 2) ''AAPL'') = 365"
    by (simp add: fetch_series_def getStockTimeSeries_def sample_browser_def length_mock_series)
  then have len: "30 \<le> length (fetch_series (sample_browser 2) ''AAPL'')" by simp
  have pop: "0 < length popularStocks" "''AAPL'' = fst (popularStocks ! 0)"
    by (simp_all add: popularStocks_def)
  have t: "time_now (sample_browser 1) - time_now (sample_browser 0) \<le> CACHE_DURATION"
    by (simp add: sample_browser_def CACHE_DURATION_def)
  from search_to_forecast_panel [OF pop t refl refl len] show ?thesis by blast
qed

section \<open>From the service to the page\<close>

lemma rate_limit_texts:
  "js_includes (message RateLimit) ''rate limit''"
  "js_includes ''Alpha Vantage API daily limit reached. The free tier is limited to 25 requests per day. Try again tomorrow or upgrade to a premium plan.'' ''limit reached''"
  by code_simp+



end
